(* ===== verification/Prelude.thy ===== *)
theory Prelude
  imports Main "HOL-Library.Multiset"
begin

text \<open>
  Shared vocabulary of the Estoque development: the identifier and quantity types of
  the MySQL schema the backend (src/Backend/src) reads and writes, the JavaScript
  coercions the controllers apply to request and row values (\<open>Number(x)\<close>,
  \<open>x || null\<close>, \<open>x || default\<close>), decimal printing of ids as the template strings
  of the code produce it, and the list and table lemmas the component theories share.
\<close>

section \<open>Identifiers and quantities\<close>

text \<open>
  Every table has an \<open>AUTO_INCREMENT\<close> primary key, so ids are natural numbers and
  \<open>0\<close> is never a stored id; JavaScript treats \<open>0\<close> as falsy, and the model uses
  \<open>0\<close> for a missing id in a request body. Quantities are integers: the spec asks for
  integer minor units (no floating-point drift), and the code never checks the sign, so
  the model keeps negative values where the code lets them through.
\<close>

type_synonym product_id = nat
type_synonym warehouse_id = nat
type_synonym unit_id = nat
type_synonym user_id = nat
type_synonym qty = int

named_theorems js_simps "evaluation of the JavaScript coercions"
named_theorems table_simps "characteristic equations of the table operations"

section \<open>Errors\<close>

text \<open>
  Every error the backend raises, one constructor each, in the order the code raises
  them. The code builds \<open>Error\<close> objects and sets \<open>statusCode\<close> on some of them;
  errorMiddleware.js answers \<open>err.statusCode || 500\<close>, which \<open>status_of\<close> gives.
\<close>

datatype api_error =
    Unauthenticated     \<comment> \<open>authMiddleware.js: no \<open>req.user\<close>, 401\<close>
  | PermissionDenied    \<comment> \<open>authMiddleware.js: role not allowed by the route, 403\<close>
  | ForbiddenStock      \<comment> \<open>stockController.js line 52: rank below supervisor, 403\<close>
  | WarehouseNotFound   \<comment> \<open>stockController.js lines 63, 86: 404\<close>
  | ForbiddenUnit       \<comment> \<open>stockController.js lines 69, 92: other unit, 403\<close>
  | NoStockRecord       \<comment> \<open>stockModel.js line 45: no \<open>statusCode\<close>, so 500\<close>
  | InsufficientStock   \<comment> \<open>stockModel.js line 52: 400\<close>
  | NoExitItems         \<comment> \<open>stockController.js line 111: 400\<close>
  | NoEntryItems        \<comment> \<open>stockController.js line 219: 400\<close>
  | InvalidEntryItem    \<comment> \<open>stockController.js line 232: 400\<close>
  | NoMovementsForOS    \<comment> \<open>osService.js line 15: no \<open>statusCode\<close>, 500\<close>
  | RenderFailed        \<comment> \<open>a write-stream error of the PDF file, 500\<close>
  | MissingFirstMovement \<comment> \<open>\<open>firstMovement.id\<close> of an empty row list: TypeError, 500\<close>
  | SignatureRequired   \<comment> \<open>exitOrderController.js line 49: 400\<close>
  | OrderNotFound       \<comment> \<open>exitOrderController.js line 54: 404\<close>
  | ProductNameRequired \<comment> \<open>productController.js lines 14, 51: 400\<close>
  | ProductWarehouseRequired \<comment> \<open>productController.js line 19: 400\<close>
  | ProductInUse \<comment> \<open>productModel.js line 117, answered 400 by productController.js line 67\<close>
  | BarcodeRequired \<comment> \<open>productController.js line 78: 400\<close>
  | ProductNotFound \<comment> \<open>productController.js line 84: 404\<close>
  | WarehouseNameRequired \<comment> \<open>warehouseController.js lines 106, 141: 400\<close>
  | WarehouseHasMovements \<comment> \<open>warehouseModel.js line 75: no \<open>statusCode\<close>, 500\<close>
  | WarehouseHasStock \<comment> \<open>warehouseModel.js line 86: no \<open>statusCode\<close>, 500\<close>
  | UnitNameRequired \<comment> \<open>unitController.js lines 99, 115: 400\<close>
  | UnitHasWarehouses \<comment> \<open>unitModel.js line 59: no \<open>statusCode\<close>, 500\<close>
  | UnitHasUsers \<comment> \<open>unitModel.js line 70: no \<open>statusCode\<close>, 500\<close>
  | SqlParseError \<comment> \<open>a statement with a \<open>?\<close> left unbound: MySQL rejects it, 500\<close>
  | AdminOnlyRegister \<comment> \<open>authController.js line 27: 403\<close>
  | EmailTaken \<comment> \<open>authController.js line 32, userController.js line 19: 400\<close>
  | InvalidCredentials \<comment> \<open>authController.js lines 58, 71: 401\<close>
  | AccountNotActivated \<comment> \<open>authController.js line 65: 403\<close>
  | UserNotFound \<comment> \<open>authController.js line 103, userController.js line 166: 404\<close>
  | PasswordAlreadySet \<comment> \<open>authController.js line 106: 400\<close>
  | InvalidInvite \<comment> \<open>authController.js lines 129, 132: 400\<close>
  | InvalidToken \<comment> \<open>authController.js line 138: 400\<close>
  | TokenExpired \<comment> \<open>authController.js line 142: 400\<close>
  | CannotPromoteSuperAdmin \<comment> \<open>userController.js line 87: 403\<close>
  | NoFileSent \<comment> \<open>userController.js line 147: 400\<close>
  | HashPasswordUndefined \<comment> \<open>userController.js line 25 calls \<open>hashPassword\<close>, never imported: ReferenceError, 500\<close>
  | AvatarNotImage \<comment> \<open>uploadAvatar.js line 22: the file filter's plain Error, 500\<close>
  | BcryptIllegalArguments \<comment> \<open>\<open>bcrypt.compare\<close> of a value that is not a string rejects, 500\<close>
  | TokenMissing \<comment> \<open>authMiddleware.js line 13: no \<open>Bearer\<close> header, 401\<close>
  | TokenInvalid \<comment> \<open>authMiddleware.js line 24: \<open>verifyToken\<close> throws, 401\<close>
  | JwtUndefined \<comment> \<open>userController.js line 58 calls \<open>jwt.sign\<close>, never imported: ReferenceError, 500\<close>
  | LockDeadlock \<comment> \<open>MySQL's \<open>ER_LOCK_DEADLOCK\<close>: InnoDB rolled the transaction back as a deadlock victim; no \<open>statusCode\<close>, 500\<close>

fun status_of :: "api_error \<Rightarrow> nat" where
  "status_of Unauthenticated = 401"
| "status_of PermissionDenied = 403"
| "status_of ForbiddenStock = 403"
| "status_of WarehouseNotFound = 404"
| "status_of ForbiddenUnit = 403"
| "status_of NoStockRecord = 500"
| "status_of InsufficientStock = 400"
| "status_of NoExitItems = 400"
| "status_of NoEntryItems = 400"
| "status_of InvalidEntryItem = 400"
| "status_of NoMovementsForOS = 500"
| "status_of RenderFailed = 500"
| "status_of MissingFirstMovement = 500"
| "status_of SignatureRequired = 400"
| "status_of OrderNotFound = 404"
| "status_of ProductNameRequired = 400"
| "status_of ProductWarehouseRequired = 400"
| "status_of ProductInUse = 400"
| "status_of BarcodeRequired = 400"
| "status_of ProductNotFound = 404"
| "status_of WarehouseNameRequired = 400"
| "status_of WarehouseHasMovements = 500"
| "status_of WarehouseHasStock = 500"
| "status_of UnitNameRequired = 400"
| "status_of UnitHasWarehouses = 500"
| "status_of UnitHasUsers = 500"
| "status_of SqlParseError = 500"
| "status_of AdminOnlyRegister = 403"
| "status_of EmailTaken = 400"
| "status_of InvalidCredentials = 401"
| "status_of AccountNotActivated = 403"
| "status_of UserNotFound = 404"
| "status_of PasswordAlreadySet = 400"
| "status_of InvalidInvite = 400"
| "status_of InvalidToken = 400"
| "status_of TokenExpired = 400"
| "status_of CannotPromoteSuperAdmin = 403"
| "status_of NoFileSent = 400"
| "status_of HashPasswordUndefined = 500"
| "status_of AvatarNotImage = 500"
| "status_of BcryptIllegalArguments = 500"
| "status_of JwtUndefined = 500"
| "status_of TokenMissing = 401"
| "status_of TokenInvalid = 401"
| "status_of LockDeadlock = 500"

section \<open>JavaScript coercions\<close>

text \<open>
  \<open>Number(v)\<close> of a nullable integer column: \<open>Number(null) = 0\<close>. The permission
  gate compares units through it (stockController.js, lines 68 and 91).
\<close>

definition js_number :: "nat option \<Rightarrow> int" where
  "js_number v = (case v of None \<Rightarrow> 0 | Some n \<Rightarrow> int n)"

text \<open>\<open>v || null\<close> on an id: \<open>0\<close>, \<open>undefined\<close> and \<open>null\<close> all become SQL NULL.\<close>

definition js_or_null :: "nat option \<Rightarrow> nat option" where
  "js_or_null v = (case v of None \<Rightarrow> None | Some n \<Rightarrow> if n = 0 then None else Some n)"

text \<open>\<open>s || dflt\<close> on an optional string: the empty string is falsy.\<close>

definition js_or_default :: "string option \<Rightarrow> string \<Rightarrow> string" where
  "js_or_default v dflt = (case v of None \<Rightarrow> dflt | Some x \<Rightarrow> if x = [] then dflt else x)"

text \<open>SQL \<open>a = ?\<close> on a nullable column: NULL never compares equal.\<close>

definition sql_eq :: "nat option \<Rightarrow> nat option \<Rightarrow> bool" where
  "sql_eq a b = (case (a, b) of (Some x, Some y) \<Rightarrow> x = y | _ \<Rightarrow> False)"

text \<open>Truthiness of an optional string: \<open>if (x)\<close> and \<open>x || null\<close> drop the empty string as well as \<open>null\<close> and \<open>undefined\<close>.\<close>

definition js_truthy :: "string option \<Rightarrow> string option" where
  "js_truthy v = (case v of None \<Rightarrow> None | Some x \<Rightarrow> if x = [] then None else Some x)"

section \<open>Decimal printing of ids\<close>

text \<open>
  \<open>String(n)\<close> and \<open>`${n}`\<close> of a non-negative integer: its decimal digits, no
  leading zero. Used by the SKU (productModel.js, line 12) and the PDF file names
  (osService.js, lines 23 and 222).
\<close>

fun digits_of :: "nat \<Rightarrow> nat list" where
  "digits_of n = (if n < 10 then [n] else digits_of (n div 10) @ [n mod 10])"

declare digits_of.simps [simp del]

definition digit_char :: "nat \<Rightarrow> char" where
  "digit_char d = char_of (48 + d)"

definition show_nat :: "nat \<Rightarrow> string" where
  "show_nat n = map digit_char (digits_of n)"

definition char_digit :: "char \<Rightarrow> nat option" where
  "char_digit c = (let k = of_char c :: nat in if 48 \<le> k \<and> k < 58 then Some (k - 48) else None)"

fun digits_value :: "nat \<Rightarrow> nat list \<Rightarrow> nat" where
  "digits_value acc [] = acc"
| "digits_value acc (d # ds) = digits_value (10 * acc + d) ds"

definition parse_nat :: "string \<Rightarrow> nat option" where
  "parse_nat s = (if s = [] then None
     else if list_all (\<lambda>c. char_digit c \<noteq> None) s
     then Some (digits_value 0 (map (the \<circ> char_digit) s)) else None)"

section \<open>URI components\<close>

text \<open>
  \<open>encodeURIComponent\<close> on the UTF-8 bytes of a string: the unreserved characters stay,
  every other byte becomes \<open>%XY\<close> with upper-case hex digits.
\<close>

definition uri_unreserved :: "char \<Rightarrow> bool" where
  "uri_unreserved c \<longleftrightarrow> (let k = of_char c :: nat in
     (65 \<le> k \<and> k \<le> 90) \<or> (97 \<le> k \<and> k \<le> 122) \<or> (48 \<le> k \<and> k \<le> 57)
     \<or> k \<in> {45, 95, 46, 33, 126, 42, 39, 40, 41})"

definition hex_digit :: "nat \<Rightarrow> char" where
  "hex_digit d = char_of (if d < 10 then 48 + d else 55 + d)"

definition encodeURIComponent :: "string \<Rightarrow> string" where
  "encodeURIComponent s = concat (map (\<lambda>c. if uri_unreserved c then [c]
     else [CHR ''%'', hex_digit (of_char c div 16), hex_digit (of_char c mod 16)]) s)"

text \<open>The server's decoding of a query value, the reference for the round trip.\<close>

definition hex_value :: "char \<Rightarrow> nat" where
  "hex_value c = (let k = of_char c :: nat in if k < 58 then k - 48 else k - 55)"

fun uri_decode :: "string \<Rightarrow> string" where
  "uri_decode (c # a # b # rest) = (if c = CHR ''%'' then char_of (16 * hex_value a + hex_value b) # uri_decode rest
     else c # uri_decode (a # b # rest))"
| "uri_decode xs = xs"

section \<open>Splitting strings\<close>

text \<open>\<open>s.split(c)\<close> with a one-character separator: the pieces between separators, empty ones included.\<close>

fun split_on :: "char \<Rightarrow> string \<Rightarrow> string list" where
  "split_on c [] = [[]]"
| "split_on c (x # xs) = (if x = c then [] # split_on c xs
     else (case split_on c xs of [] \<Rightarrow> [[x]] | y # ys \<Rightarrow> (x # y) # ys))"

declare split_on.simps [simp del]

section \<open>Lemmas\<close>

lemma js_number_simps [simp, js_simps]:
  "js_number None = 0" "js_number (Some n) = int n"
  by (simp_all add: js_number_def)

lemma js_or_null_simps [simp, js_simps]:
  "js_or_null None = None" "js_or_null (Some n) = (if n = 0 then None else Some n)"
  by (simp_all add: js_or_null_def)

lemma js_or_default_simps [simp, js_simps]:
  "js_or_default None d = d" "js_or_default (Some x) d = (if x = [] then d else x)"
  by (simp_all add: js_or_default_def)

lemma sql_eq_simps [simp, js_simps]:
  "sql_eq (Some a) (Some b) = (a = b)" "sql_eq None y = False" "sql_eq x None = False"
  by (simp_all add: sql_eq_def split: option.splits)

lemma sql_eq_iff: "sql_eq a b \<longleftrightarrow> (\<exists>k. a = Some k \<and> b = Some k)"
  by (auto simp: sql_eq_def split: option.splits)

lemma js_number_eq_iff: "js_number a = js_number b \<longleftrightarrow> (case a of None \<Rightarrow> b = None \<or> b = Some 0
    | Some m \<Rightarrow> (if m = 0 then b = None \<or> b = Some 0 else b = Some m))"
  by (cases a; cases b) auto

lemma digits_of_lt10: "d \<in> set (digits_of n) \<Longrightarrow> d < 10"
proof (induction n rule: digits_of.induct)
  case (1 n)
  then show ?case
    by (cases "n < 10") (auto simp: digits_of.simps [of n])
qed

lemma digits_of_nonempty [simp]: "digits_of n \<noteq> []"
  by (subst digits_of.simps) simp

lemma digits_value_append:
  "digits_value acc (xs @ ys) = digits_value (digits_value acc xs) ys"
  by (induction xs arbitrary: acc) auto

lemma digits_value_digits_of: "digits_value 0 (digits_of n) = n"
proof (induction n rule: digits_of.induct)
  case (1 n)
  show ?case
  proof (cases "n < 10")
    case True
    then show ?thesis by (simp add: digits_of.simps [of n])
  next
    case False
    with "1.IH" have "digits_value 0 (digits_of (n div 10)) = n div 10" by simp
    with False show ?thesis
      by (simp add: digits_of.simps [of n] digits_value_append)
  qed
qed

lemma char_digit_digit_char [simp]: "d < 10 \<Longrightarrow> char_digit (digit_char d) = Some d"
  by (simp add: char_digit_def digit_char_def Let_def)

lemma show_nat_nonempty [simp]: "show_nat n \<noteq> []"
  by (simp add: show_nat_def)

lemma parse_show_nat [simp]: "parse_nat (show_nat n) = Some n"
proof -
  have all: "\<forall>d \<in> set (digits_of n). d < 10"
    using digits_of_lt10 by blast
  then have "map (the \<circ> char_digit) (map digit_char (digits_of n)) = digits_of n"
    by (induction "digits_of n" arbitrary: n) (auto simp: map_idI)
  moreover have "list_all (\<lambda>c. char_digit c \<noteq> None) (map digit_char (digits_of n))"
    using all by (simp add: list_all_iff)
  ultimately show ?thesis
    by (simp add: parse_nat_def show_nat_def digits_value_digits_of)
qed

lemma show_nat_inj: "show_nat m = show_nat n \<longleftrightarrow> m = n"
  by (metis option.inject parse_show_nat)

subsection \<open>Tables as lists of rows\<close>

text \<open>
  A table is the list of its rows in insertion order. \<open>rows[0] || null\<close> after a
  \<open>SELECT \<dots> WHERE\<close> is \<open>find\<close> on the list; \<open>UPDATE \<dots> WHERE id = ?\<close> is a
  \<open>map\<close> that rewrites the matching rows.
\<close>

lemma find_append_None [simp]:
  "find P xs = None \<Longrightarrow> find P (xs @ ys) = find P ys"
  by (induction xs) auto

lemma find_append_Some [simp]:
  "find P xs = Some x \<Longrightarrow> find P (xs @ ys) = Some x"
  by (induction xs) auto

lemma find_Some_props:
  "find P xs = Some x \<Longrightarrow> x \<in> set xs \<and> P x"
  by (induction xs) (auto split: if_splits)

lemma find_map_id:
  "(\<And>x. P (f x) = P x) \<Longrightarrow> find P (map f xs) = map_option f (find P xs)"
  by (induction xs) auto

lemma distinct_map_update_one:
  "(\<And>x. g (f x) = g x) \<Longrightarrow> distinct (map g (map f xs)) = distinct (map g xs)"
  by (simp add: comp_def)

lemma sum_list_filter_cong:
  "(\<And>x. x \<in> set xs \<Longrightarrow> P x = Q x) \<Longrightarrow> (\<And>x. x \<in> set xs \<Longrightarrow> P x \<Longrightarrow> f x = g x) \<Longrightarrow>
   sum_list (map f (filter P xs)) = sum_list (map g (filter Q xs))"
  by (induction xs) auto

lemma map_filter_append [simp]:
  "List.map_filter f (xs @ ys) = List.map_filter f xs @ List.map_filter f ys"
  by (simp add: List.map_filter_def)

lemma map_filter_none:
  "(\<And>x. x \<in> set xs \<Longrightarrow> f x = None) \<Longrightarrow> List.map_filter f xs = []"
  by (simp add: List.map_filter_def filter_empty_conv)

lemma map_filter_all:
  "(\<And>x. x \<in> set xs \<Longrightarrow> f x = Some (g x)) \<Longrightarrow> List.map_filter f xs = map g xs"
  by (induction xs) (auto simp: List.map_filter_def)

lemma map_filter_mem:
  "x \<in> set (List.map_filter f xs) \<longleftrightarrow> (\<exists>y\<in>set xs. f y = Some x)"
  by (induction xs) (auto simp: List.map_filter_def)

lemma sum_list_map_if_filter:
  "sum_list (map (\<lambda>x. if P x then f x else 0) xs) = sum_list (map f (filter P xs))"
  by (induction xs) auto

text \<open>The equations that evaluate \<open>show_nat\<close> on a numeral.\<close>

lemmas show_nat_eval = show_nat_def digits_of.simps digit_char_def char_of_def bit_0

subsection \<open>Decimal digits and URI components\<close>

lemma digit_char_range: "d < 10 \<Longrightarrow> 48 \<le> (of_char (digit_char d) :: nat) \<and> (of_char (digit_char d) :: nat) < 58"
  by (simp add: digit_char_def of_char_of)

lemma show_nat_digits: "c \<in> set (show_nat n) \<Longrightarrow> 48 \<le> (of_char c :: nat) \<and> (of_char c :: nat) < 58"
  using digits_of_lt10 digit_char_range by (fastforce simp: show_nat_def)

lemma show_nat_nondigit: "(of_char c :: nat) < 48 \<or> 58 \<le> (of_char c :: nat) \<Longrightarrow> c \<notin> set (show_nat n)"
  using show_nat_digits [of c n] by auto

lemma show_nat_no_slash [simp]: "CHR ''/'' \<notin> set (show_nat n)" "CHR ''?'' \<notin> set (show_nat n)"
  using show_nat_digits [of "CHR ''/''" n] show_nat_digits [of "CHR ''?''" n] by auto

lemma show_nat_takeWhile [simp]:
  "takeWhile (\<lambda>c. c \<noteq> CHR ''?'') (show_nat n @ xs) = show_nat n @ takeWhile (\<lambda>c. c \<noteq> CHR ''?'') xs"
  "takeWhile (\<lambda>c. c \<noteq> CHR ''?'') (show_nat n) = show_nat n"
  by (auto intro: takeWhile_append2 simp: takeWhile_eq_all_conv)

lemma hex_value_digit [simp]: "d < 16 \<Longrightarrow> hex_value (hex_digit d) = d"
  by (auto simp: hex_value_def hex_digit_def of_char_of Let_def)

lemma percent_reserved [simp]: "\<not> uri_unreserved CHR ''%''"
  by (simp add: uri_unreserved_def)

lemma of_char_lt: "(of_char c :: nat) < 256"
  by (rule nat_of_char_less_256)

lemma uri_decode_no_percent: "CHR ''%'' \<notin> set s \<Longrightarrow> uri_decode s = s"
  by (induction s rule: uri_decode.induct) auto

lemma uri_decode_unreserved:
  "uri_unreserved c \<Longrightarrow> uri_decode (c # xs) = c # uri_decode xs"
  by (cases xs rule: uri_decode.cases) (auto simp: uri_unreserved_def)

lemma uri_decode_encode: "uri_decode (encodeURIComponent s) = s"
proof (induction s)
  case Nil
  then show ?case by (simp add: encodeURIComponent_def)
next
  case (Cons c s)
  show ?case
  proof (cases "uri_unreserved c")
    case True
    with Cons show ?thesis by (simp add: encodeURIComponent_def uri_decode_unreserved)
  next
    case False
    have "16 * (of_char c div 16) + of_char c mod 16 = (of_char c :: nat)" by simp
    moreover have "(of_char c :: nat) div 16 < 16" using of_char_lt [of c] by (simp add: div_less_iff_less_mult)
    ultimately have "char_of (16 * hex_value (hex_digit (of_char c div 16)) + hex_value (hex_digit (of_char c mod 16))) = c"
      by simp
    with False Cons show ?thesis by (simp add: encodeURIComponent_def)
  qed
qed

lemma of_char_hex_digit: "d < 16 \<Longrightarrow> (of_char (hex_digit d) :: nat) = (if d < 10 then 48 + d else 55 + d)"
  by (simp add: hex_digit_def)

lemma hex_digit_range: "d < 16 \<Longrightarrow> hex_digit d \<notin> {CHR ''/'', CHR ''?'', CHR ''&'', CHR ''='', CHR ''#'', CHR ''+''}"
proof
  assume d: "d < 16" and "hex_digit d \<in> {CHR ''/'', CHR ''?'', CHR ''&'', CHR ''='', CHR ''#'', CHR ''+''}"
  then have "(of_char (hex_digit d) :: nat) \<in> {47, 63, 38, 61, 35, 43}" by auto
  with of_char_hex_digit [OF d] show False by (auto split: if_splits)
qed

lemma of_char_div16 [simp]: "(of_char c :: nat) div 16 < 16"
  using of_char_lt [of c] by (simp add: div_less_iff_less_mult)

lemma set_encodeURIComponent:
  assumes "c \<in> set (encodeURIComponent s)"
  shows "uri_unreserved c \<or> c = CHR ''%'' \<or> (\<exists>d < 16. c = hex_digit d)"
proof -
  from assms obtain x where "x \<in> set s" and c: "c \<in> set (if uri_unreserved x then [x]
      else [CHR ''%'', hex_digit (of_char x div 16), hex_digit (of_char x mod 16)])"
    unfolding encodeURIComponent_def set_concat set_map by blast
  then consider "c = x" "uri_unreserved x" | "c = CHR ''%''" | "c = hex_digit (of_char x div 16)"
    | "c = hex_digit (of_char x mod 16)"
    by (auto split: if_splits)
  then show ?thesis
  proof cases
    case 3
    then show ?thesis using of_char_div16 [of x] by blast
  next
    case 4
    have "(of_char x :: nat) mod 16 < 16" by simp
    with 4 show ?thesis by blast
  qed simp_all
qed

lemma encode_no_delims:
  assumes "c \<in> {CHR ''/'', CHR ''?'', CHR ''&'', CHR ''='', CHR ''#'', CHR ''+''}"
  shows "c \<notin> set (encodeURIComponent s)"
proof
  assume "c \<in> set (encodeURIComponent s)"
  moreover have "\<not> uri_unreserved c" using assms by (auto simp: uri_unreserved_def)
  moreover have "\<forall>d < 16. c \<noteq> hex_digit d" using assms hex_digit_range by blast
  moreover have "c \<noteq> CHR ''%''" using assms by auto
  ultimately show False using set_encodeURIComponent by blast
qed

subsection \<open>Splitting strings\<close>

lemma split_on_no: "c \<notin> set xs \<Longrightarrow> split_on c xs = [xs]"
  by (induction xs) (auto simp: split_on.simps)

lemma split_on_append: "c \<notin> set xs \<Longrightarrow> split_on c (xs @ c # ys) = xs # split_on c ys"
  by (induction xs) (auto simp: split_on.simps)

end
