(* ===== verification/Roles.thy ===== *)
theory Roles
  imports Prelude
begin

text \<open>
  Roles and the route guards of src/Backend/src/middlewares/authMiddleware.js. A role is
  the string the JWT carries (\<open>req.user.role\<close>); the four ranked ones are constructors
  and any other string (e.g. \<open>"comum"\<close>, the default role authController.js gives a
  registered user) is \<open>RoleOther\<close>. \<open>ROLE_RANK\<close> is a JavaScript object, so an
  unknown role has rank \<open>undefined\<close>, and every comparison with \<open>undefined\<close> is false:
  \<open>js_rank_less\<close> writes that out. The principal is the decoded token.
\<close>

datatype role = RoleUser | RoleSupervisor | RoleAdmin | RoleSuperAdmin | RoleOther string

definition role_name :: "role \<Rightarrow> string" where
  "role_name r = (case r of RoleUser \<Rightarrow> ''user'' | RoleSupervisor \<Rightarrow> ''supervisor''
     | RoleAdmin \<Rightarrow> ''admin'' | RoleSuperAdmin \<Rightarrow> ''super_admin'' | RoleOther s \<Rightarrow> s)"

definition role_of_string :: "string \<Rightarrow> role" where
  "role_of_string s = (if s = ''user'' then RoleUser else if s = ''supervisor'' then RoleSupervisor
     else if s = ''admin'' then RoleAdmin else if s = ''super_admin'' then RoleSuperAdmin
     else RoleOther s)"

text \<open>A role value is well formed when an \<open>RoleOther\<close> does not hide a ranked name.\<close>

definition role_wf :: "role \<Rightarrow> bool" where
  "role_wf r = (case r of RoleOther s \<Rightarrow> s \<notin> {''user'', ''supervisor'', ''admin'', ''super_admin''}
     | _ \<Rightarrow> True)"

text \<open>\<open>ROLE_RANK\<close> (authMiddleware.js, lines 3--8).\<close>

definition ROLE_RANK :: "role \<Rightarrow> nat option" where
  "ROLE_RANK r = (case r of RoleUser \<Rightarrow> Some 1 | RoleSupervisor \<Rightarrow> Some 2 | RoleAdmin \<Rightarrow> Some 3
     | RoleSuperAdmin \<Rightarrow> Some 4 | RoleOther _ \<Rightarrow> None)"

text \<open>\<open>a < b\<close> on two ranks: \<open>undefined < n\<close> is \<open>NaN < n\<close>, false.\<close>

definition js_rank_less :: "nat option \<Rightarrow> nat option \<Rightarrow> bool" where
  "js_rank_less a b = (case (a, b) of (Some x, Some y) \<Rightarrow> x < y | _ \<Rightarrow> False)"

text \<open>
  The decoded token (authController.js, login, lines 74--80): id, name, role, unit and
  warehouse, the last two nullable columns of \<open>users\<close>.
\<close>

record principal =
  p_id :: user_id
  p_name :: "string option"
  p_role :: role
  p_unit :: "unit_id option"
  p_warehouse :: "warehouse_id option"

text \<open>
  \<open>authRequired\<close> (lines 10--26): the \<open>Authorization\<close> header must start with
  \<open>"Bearer "\<close>; the token is the second piece of the header split at spaces, and
  \<open>verifyToken\<close> (utils/jwt.js, not in the repository) is a parameter: the claims of a
  token it accepts, \<open>None\<close> where it throws.
\<close>

definition authRequired :: "(string \<Rightarrow> principal option) \<Rightarrow> string option \<Rightarrow> api_error + principal" where
  "authRequired verifyToken h = (case h of
      None \<Rightarrow> Inl TokenMissing
    | Some a \<Rightarrow> if take 7 a \<noteq> ''Bearer '' then Inl TokenMissing
        else (case verifyToken (split_on CHR '' '' a ! 1) of
                None \<Rightarrow> Inl TokenInvalid
              | Some p \<Rightarrow> Inr p))"

text \<open>\<open>requireRole(...roles)\<close> (lines 29--39): no user is 401, a role not listed is 403.\<close>

definition requireRole :: "role list \<Rightarrow> principal option \<Rightarrow> api_error + unit" where
  "requireRole roles u = (case u of None \<Rightarrow> Inl Unauthenticated
     | Some p \<Rightarrow> if p_role p \<notin> set roles then Inl PermissionDenied else Inr ())"

text \<open>\<open>requireMinRole(minRole)\<close> (lines 42--52): 403 when the rank is below the minimum.\<close>

definition requireMinRole :: "role \<Rightarrow> principal option \<Rightarrow> api_error + unit" where
  "requireMinRole m u = (case u of None \<Rightarrow> Inl Unauthenticated
     | Some p \<Rightarrow> if js_rank_less (ROLE_RANK (p_role p)) (ROLE_RANK m) then Inl PermissionDenied
                 else Inr ())"

text \<open>The roles the stock routes admit (stockRoutes.js, lines 11--13).\<close>

definition stock_writers :: "role list" where
  "stock_writers = [RoleAdmin, RoleSuperAdmin, RoleSupervisor]"

subsection \<open>Lemmas\<close>

lemma role_name_simps [simp]:
  "role_name RoleUser = ''user''" "role_name RoleSupervisor = ''supervisor''"
  "role_name RoleAdmin = ''admin''" "role_name RoleSuperAdmin = ''super_admin''"
  "role_name (RoleOther s) = s"
  by (simp_all add: role_name_def)

lemma ROLE_RANK_simps [simp]:
  "ROLE_RANK RoleUser = Some 1" "ROLE_RANK RoleSupervisor = Some 2"
  "ROLE_RANK RoleAdmin = Some 3" "ROLE_RANK RoleSuperAdmin = Some 4"
  "ROLE_RANK (RoleOther s) = None"
  by (simp_all add: ROLE_RANK_def)

lemma js_rank_less_simps [simp]:
  "js_rank_less (Some x) (Some y) = (x < y)"
  "js_rank_less None b = False" "js_rank_less a None = False"
  by (simp_all add: js_rank_less_def split: option.splits)

text \<open>The role strings round-trip through the parser, in both directions.\<close>

lemma role_of_string_name: "role_wf r \<Longrightarrow> role_of_string (role_name r) = r"
  by (cases r) (auto simp: role_of_string_def role_wf_def)

lemma role_name_of_string: "role_name (role_of_string s) = s"
  by (simp add: role_of_string_def)

lemma role_of_string_wf: "role_wf (role_of_string s)"
  by (simp add: role_of_string_def role_wf_def)

text \<open>On the four ranked roles \<open>ROLE_RANK\<close> is injective and orders them strictly.\<close>

lemma ROLE_RANK_inj:
  "ROLE_RANK a = Some n \<Longrightarrow> ROLE_RANK b = Some n \<Longrightarrow> a = b"
  by (cases a; cases b) auto

lemma requireRole_ok_iff:
  "requireRole roles u = Inr () \<longleftrightarrow> (\<exists>p. u = Some p \<and> p_role p \<in> set roles)"
  by (auto simp: requireRole_def split: option.splits)

lemma requireMinRole_ok_iff:
  "requireMinRole m u = Inr () \<longleftrightarrow>
     (\<exists>p. u = Some p \<and> \<not> js_rank_less (ROLE_RANK (p_role p)) (ROLE_RANK m))"
  by (auto simp: requireMinRole_def split: option.splits)

text \<open>
  A header \<open>"Bearer " + t\<close> hands \<open>verifyToken\<close> exactly \<open>t\<close> when \<open>t\<close> has no
  space, and a header without the prefix never reaches it.
\<close>

lemma authRequired_bearer:
  "CHR '' '' \<notin> set t \<Longrightarrow> authRequired verify (Some (''Bearer '' @ t)) =
     (case verify t of None \<Rightarrow> Inl TokenInvalid | Some p \<Rightarrow> Inr p)"
  using split_on_append [of "CHR '' ''" "''Bearer''" t] split_on_no [of "CHR '' ''" t]
  by (simp add: authRequired_def)

lemma authRequired_no_prefix:
  "take 7 a \<noteq> ''Bearer '' \<Longrightarrow> authRequired verify (Some a) = Inl TokenMissing"
  by (simp add: authRequired_def)

lemma authRequired_ok:
  "authRequired verify h = Inr p \<Longrightarrow> \<exists>a. h = Some a \<and> take 7 a = ''Bearer '' \<and> verify (split_on CHR '' '' a ! 1) = Some p"
  by (auto simp: authRequired_def split: option.splits if_splits)

end
