(* ===== verification/Store.thy ===== *)
theory Store
  imports Prelude
begin

text \<open>
  The Balance Store and the Movement Log: the MySQL tables the backend reads and writes,
  as the queries of src/Backend/src/models use them, and the two modules that write the
  ledger, stockModel.js (\<open>getCurrentStock\<close>, \<open>upsertStock\<close>, \<open>decreaseStock\<close>) and
  movementModel.js (\<open>registerMovement\<close>). A table is the list of its rows in insertion
  order; each \<open>AUTO_INCREMENT\<close> key is a counter of the database record. The clock
  gives \<open>created_at\<close> (the column default \<open>CURRENT_TIMESTAMP\<close>); no operation moves it.
\<close>

section \<open>Rows\<close>

text \<open>A row of \<open>units\<close> (unitModel.js, \<open>createUnit\<close>, lines 3--16).\<close>

record unit_row =
  un_id :: unit_id
  un_name :: string
  un_acronym :: "string option"
  un_description :: "string option"

record warehouse =
  wh_id :: warehouse_id
  wh_name :: string
  wh_description :: "string option"
  wh_unit :: "unit_id option"

record product =
  pr_id :: product_id
  pr_name :: string
  pr_sku :: "string option"
  pr_unit :: "string option"
  pr_barcode :: "string option"
  pr_description :: "string option"

text \<open>
  Stored secrets. A bcrypt hash (utils/password.js) is kept as the password it was made
  from, compared by equality, which is what \<open>comparePassword\<close> decides; an invite token
  is stored as its SHA-256 digest (authController.js, line 15), compared by equality.
\<close>

datatype pw_hash = Bcrypt string
datatype token_digest = Sha256 string

text \<open>A row of \<open>users\<close> (userModel.js, \<open>createUser\<close>, lines 29--43, and the invite columns).\<close>

record user_row =
  u_id :: user_id
  u_name :: "string option"
  u_email :: "string option"
  u_password_hash :: "pw_hash option"
  u_role :: string
  u_matricula :: "string option"
  u_unit :: "unit_id option"
  u_warehouse :: "warehouse_id option"
  u_avatar :: "string option"
  u_invite_hash :: "token_digest option"
  u_invite_expires :: "nat option"
  u_created_at :: nat

record stock_row =
  stock_id :: nat
  st_product :: product_id
  st_warehouse :: warehouse_id
  st_quantity :: qty

datatype movement_type = ENTRADA | SAIDA

record movement =
  mov_id :: nat
  mov_product :: product_id
  mov_warehouse :: warehouse_id
  mov_user :: "user_id option"
  mov_type :: movement_type
  mov_quantity :: qty
  mov_previous :: qty
  mov_new :: qty
  mov_description :: "string option"
  mov_created_at :: nat

text \<open>One entry of \<open>items_json\<close> (stockController.js, lines 182--186).\<close>

record order_item =
  oi_product :: string
  oi_quantity :: qty
  oi_warehouse :: string

record exit_order =
  eo_id :: nat
  eo_movement_id :: nat
  eo_client_name :: string
  eo_client_document :: "string option"
  eo_declaration :: string
  eo_pdf_path :: string
  eo_items :: "order_item list"
  eo_signature :: "string option"
  eo_created_at :: nat

record db =
  units :: "unit_row list"
  warehouses :: "warehouse list"
  products :: "product list"
  users :: "user_row list"
  stock :: "stock_row list"
  movements :: "movement list"
  exit_orders :: "exit_order list"
  next_stock_id :: nat
  next_movement_id :: nat
  next_order_id :: nat
  next_product_id :: nat
  next_warehouse_id :: nat
  next_unit_id :: nat
  next_user_id :: nat
  clock :: nat

section \<open>Lookups\<close>

text \<open>\<open>SELECT \<dots> WHERE id = ?\<close> and \<open>rows[0] || null\<close>.\<close>

definition find_warehouse :: "warehouse_id \<Rightarrow> db \<Rightarrow> warehouse option" where
  "find_warehouse i s = find (\<lambda>w. wh_id w = i) (warehouses s)"

definition find_product :: "product_id \<Rightarrow> db \<Rightarrow> product option" where
  "find_product i s = find (\<lambda>p. pr_id p = i) (products s)"

section \<open>stockModel.js\<close>

text \<open>\<open>getCurrentStock\<close> (lines 3--9).\<close>

definition getCurrentStock :: "product_id \<Rightarrow> warehouse_id \<Rightarrow> db \<Rightarrow> stock_row option" where
  "getCurrentStock p w s = find (\<lambda>r. st_product r = p \<and> st_warehouse r = w) (stock s)"

text \<open>\<open>UPDATE stock SET quantity = ? WHERE id = ?\<close> (lines 28--31 and 59--62).\<close>

definition set_stock_quantity :: "nat \<Rightarrow> qty \<Rightarrow> db \<Rightarrow> db" where
  "set_stock_quantity i v s =
     s\<lparr>stock := map (\<lambda>r. if stock_id r = i then r\<lparr>st_quantity := v\<rparr> else r) (stock s)\<rparr>"

text \<open>\<open>INSERT INTO stock (product_id, warehouse_id, quantity)\<close>; returns \<open>insertId\<close>.\<close>

definition insert_stock :: "product_id \<Rightarrow> warehouse_id \<Rightarrow> qty \<Rightarrow> db \<Rightarrow> nat \<times> db" where
  "insert_stock p w q s = (let i = next_stock_id s in
     (i, s\<lparr>stock := stock s @ [\<lparr>stock_id = i, st_product = p, st_warehouse = w, st_quantity = q\<rparr>],
           next_stock_id := Suc i\<rparr>))"

text \<open>The object \<open>{ id, previous_qty, new_qty }\<close> both stock functions return.\<close>

record stock_result =
  sr_id :: nat
  previous_qty :: qty
  new_qty :: qty

text \<open>\<open>upsertStock\<close> (lines 11--34): insert the first row, or add to the one found.\<close>

definition upsertStock :: "product_id \<Rightarrow> warehouse_id \<Rightarrow> qty \<Rightarrow> db \<Rightarrow> stock_result \<times> db" where
  "upsertStock p w q s = (case getCurrentStock p w s of
      None \<Rightarrow> (let (i, s') = insert_stock p w q s in
                (\<lparr>sr_id = i, previous_qty = 0, new_qty = q\<rparr>, s'))
    | Some cur \<Rightarrow> (let prev = st_quantity cur; new = prev + q in
                (\<lparr>sr_id = stock_id cur, previous_qty = prev, new_qty = new\<rparr>,
                 set_stock_quantity (stock_id cur) new s)))"

text \<open>
  \<open>decreaseStock\<close> (lines 36--65): no row throws a plain \<open>Error\<close>; a quantity above
  the balance throws the 400; otherwise the balance is lowered. The quantity's sign is
  not checked.
\<close>

definition decreaseStock :: "product_id \<Rightarrow> warehouse_id \<Rightarrow> qty \<Rightarrow> db \<Rightarrow>
    api_error + (stock_result \<times> db)" where
  "decreaseStock p w q s = (case getCurrentStock p w s of
      None \<Rightarrow> Inl NoStockRecord
    | Some cur \<Rightarrow> (let prev = st_quantity cur in
        if q > prev then Inl InsufficientStock
        else (let new = prev - q in
          Inr (\<lparr>sr_id = stock_id cur, previous_qty = prev, new_qty = new\<rparr>,
               set_stock_quantity (stock_id cur) new s))))"

section \<open>movementModel.js\<close>

text \<open>
  \<open>registerMovement\<close> (lines 3--31): one \<open>INSERT INTO stock_movements\<close>, the user id
  through \<open>user_id || null\<close>; returns \<open>{ id: insertId }\<close>.
\<close>

definition registerMovement :: "product_id \<Rightarrow> warehouse_id \<Rightarrow> user_id option \<Rightarrow> movement_type \<Rightarrow>
    qty \<Rightarrow> qty \<Rightarrow> qty \<Rightarrow> string option \<Rightarrow> db \<Rightarrow> nat \<times> db" where
  "registerMovement p w u ty q prev new d s = (let i = next_movement_id s in
     (i, s\<lparr>movements := movements s @ [\<lparr>mov_id = i, mov_product = p, mov_warehouse = w,
              mov_user = js_or_null u, mov_type = ty, mov_quantity = q, mov_previous = prev,
              mov_new = new, mov_description = d, mov_created_at = clock s\<rparr>],
           next_movement_id := Suc i\<rparr>))"

section \<open>Abstraction and invariants\<close>

text \<open>
  What the Balance Store promises (spec 3, Balance): a partial map from
  (product, warehouse) pairs to quantities. \<open>balances\<close> reads it off the rows the way
  the code reads a balance, through \<open>getCurrentStock\<close>.
\<close>

definition balances :: "db \<Rightarrow> product_id \<times> warehouse_id \<rightharpoonup> qty" where
  "balances s = (\<lambda>(p, w). map_option st_quantity (getCurrentStock p w s))"

text \<open>
  The shape invariant of the stock table: row ids are distinct and below the counter,
  and at most one row exists per (product, warehouse) pair (spec 3: "exactly zero or one
  Balance row per pair"; the schema is not in the repository, so the model does not
  assume a unique key and proves that the code keeps the property).
\<close>

definition stock_wf :: "db \<Rightarrow> bool" where
  "stock_wf s \<longleftrightarrow> distinct (map stock_id (stock s)) \<and> (\<forall>r \<in> set (stock s). stock_id r < next_stock_id s)
     \<and> distinct (map (\<lambda>r. (st_product r, st_warehouse r)) (stock s))"

text \<open>Movement ids grow with each insert: the log is ordered by id.\<close>

definition movements_wf :: "db \<Rightarrow> bool" where
  "movements_wf s \<longleftrightarrow> sorted_wrt (<) (map mov_id (movements s))
     \<and> (\<forall>m \<in> set (movements s). mov_id m < next_movement_id s)"

definition balances_nonneg :: "db \<Rightarrow> bool" where
  "balances_nonneg s \<longleftrightarrow> (\<forall>r \<in> set (stock s). 0 \<le> st_quantity r)"

section \<open>Lemmas\<close>

subsection \<open>Frame lemmas\<close>

lemma set_stock_quantity_frame [simp]:
  "movements (set_stock_quantity i v s) = movements s"
  "exit_orders (set_stock_quantity i v s) = exit_orders s"
  "warehouses (set_stock_quantity i v s) = warehouses s"
  "products (set_stock_quantity i v s) = products s"
  "next_stock_id (set_stock_quantity i v s) = next_stock_id s"
  "next_movement_id (set_stock_quantity i v s) = next_movement_id s"
  "clock (set_stock_quantity i v s) = clock s"
  "next_order_id (set_stock_quantity i v s) = next_order_id s"
  by (simp_all add: set_stock_quantity_def)

lemma insert_stock_frame [simp]:
  "movements (snd (insert_stock p w q s)) = movements s"
  "exit_orders (snd (insert_stock p w q s)) = exit_orders s"
  "warehouses (snd (insert_stock p w q s)) = warehouses s"
  "products (snd (insert_stock p w q s)) = products s"
  "next_movement_id (snd (insert_stock p w q s)) = next_movement_id s"
  "clock (snd (insert_stock p w q s)) = clock s"
  by (simp_all add: insert_stock_def Let_def)

lemma registerMovement_frame [simp]:
  "stock (snd (registerMovement p w u ty q a b d s)) = stock s"
  "exit_orders (snd (registerMovement p w u ty q a b d s)) = exit_orders s"
  "warehouses (snd (registerMovement p w u ty q a b d s)) = warehouses s"
  "products (snd (registerMovement p w u ty q a b d s)) = products s"
  "next_stock_id (snd (registerMovement p w u ty q a b d s)) = next_stock_id s"
  "clock (snd (registerMovement p w u ty q a b d s)) = clock s"
  "next_order_id (snd (registerMovement p w u ty q a b d s)) = next_order_id s"
  by (simp_all add: registerMovement_def Let_def)

lemma registerMovement_eq [table_simps]:
  "registerMovement p w u ty q a b d s =
     (next_movement_id s, s\<lparr>movements := movements s @ [\<lparr>mov_id = next_movement_id s,
        mov_product = p, mov_warehouse = w, mov_user = js_or_null u, mov_type = ty,
        mov_quantity = q, mov_previous = a, mov_new = b, mov_description = d,
        mov_created_at = clock s\<rparr>], next_movement_id := Suc (next_movement_id s)\<rparr>)"
  by (simp add: registerMovement_def Let_def)

lemma registerMovement_effect [simp]:
  "movements (snd (registerMovement p w u ty q a b d s)) = movements s @ [\<lparr>mov_id = next_movement_id s,
        mov_product = p, mov_warehouse = w, mov_user = js_or_null u, mov_type = ty,
        mov_quantity = q, mov_previous = a, mov_new = b, mov_description = d,
        mov_created_at = clock s\<rparr>]"
  "next_movement_id (snd (registerMovement p w u ty q a b d s)) = Suc (next_movement_id s)"
  "fst (registerMovement p w u ty q a b d s) = next_movement_id s"
  by (simp_all add: registerMovement_def Let_def)

lemma stock_set_stock_quantity [table_simps]:
  "stock (set_stock_quantity i v s) =
     map (\<lambda>r. if stock_id r = i then r\<lparr>st_quantity := v\<rparr> else r) (stock s)"
  by (simp add: set_stock_quantity_def)

lemma stock_insert_stock [table_simps]:
  "stock (snd (insert_stock p w q s)) = stock s @ [\<lparr>stock_id = next_stock_id s, st_product = p,
     st_warehouse = w, st_quantity = q\<rparr>]"
  "next_stock_id (snd (insert_stock p w q s)) = Suc (next_stock_id s)"
  "fst (insert_stock p w q s) = next_stock_id s"
  by (simp_all add: insert_stock_def Let_def)

subsection \<open>Lookups after a write\<close>

lemma getCurrentStock_Some:
  "getCurrentStock p w s = Some r \<Longrightarrow> r \<in> set (stock s) \<and> st_product r = p \<and> st_warehouse r = w"
  unfolding getCurrentStock_def by (drule find_Some_props) simp

lemma getCurrentStock_None:
  "getCurrentStock p w s = None \<longleftrightarrow> (\<forall>r \<in> set (stock s). \<not> (st_product r = p \<and> st_warehouse r = w))"
  by (auto simp: getCurrentStock_def find_None_iff)

lemma getCurrentStock_set_stock_quantity:
  "getCurrentStock p w (set_stock_quantity i v s) =
     map_option (\<lambda>r. if stock_id r = i then r\<lparr>st_quantity := v\<rparr> else r) (getCurrentStock p w s)"
  unfolding getCurrentStock_def stock_set_stock_quantity by (rule find_map_id) simp

lemma getCurrentStock_insert_stock:
  "getCurrentStock p' w' (snd (insert_stock p w q s)) = (case getCurrentStock p' w' s of
      None \<Rightarrow> (if p' = p \<and> w' = w then Some \<lparr>stock_id = next_stock_id s, st_product = p,
                   st_warehouse = w, st_quantity = q\<rparr> else None)
    | Some r \<Rightarrow> Some r)"
  by (cases "getCurrentStock p' w' s")
     (auto simp: getCurrentStock_def stock_insert_stock)

lemma stock_ids_inj:
  assumes "stock_wf s" "r1 \<in> set (stock s)" "r2 \<in> set (stock s)" "stock_id r1 = stock_id r2"
  shows "r1 = r2"
proof -
  from assms(1) have "inj_on stock_id (set (stock s))"
    by (simp add: stock_wf_def distinct_map)
  with assms(2-4) show ?thesis by (simp add: inj_on_eq_iff)
qed

lemma getCurrentStock_other_id:
  assumes "stock_wf s" "getCurrentStock p w s = Some cur" "getCurrentStock p' w' s = Some r"
    and "(p', w') \<noteq> (p, w)"
  shows "stock_id r \<noteq> stock_id cur"
proof
  assume eq: "stock_id r = stock_id cur"
  from assms(2) have cur: "cur \<in> set (stock s)" "st_product cur = p" "st_warehouse cur = w"
    by (simp_all add: getCurrentStock_Some)
  from assms(3) have r: "r \<in> set (stock s)" "st_product r = p'" "st_warehouse r = w'"
    by (simp_all add: getCurrentStock_Some)
  from stock_ids_inj [OF assms(1) r(1) cur(1) eq] have "r = cur" .
  with cur r assms(4) show False by simp
qed

subsection \<open>Refinement of the abstract balance map\<close>

text \<open>
  \<open>upsertStock\<close> and \<open>decreaseStock\<close> implement the operations the spec gives the
  Balance Store on the abstract map: add to the pair's balance (starting from 0), or
  subtract from an existing one; every other pair keeps its balance.
\<close>

lemma balances_set_stock_quantity:
  assumes "stock_wf s" "getCurrentStock p w s = Some cur"
  shows "balances (set_stock_quantity (stock_id cur) v s) = (balances s)((p, w) \<mapsto> v)"
proof
  fix pw :: "product_id \<times> warehouse_id"
  obtain p' w' where pw: "pw = (p', w')" by fastforce
  show "balances (set_stock_quantity (stock_id cur) v s) pw = ((balances s)((p, w) \<mapsto> v)) pw"
  proof (cases "(p', w') = (p, w)")
    case True
    with assms(2) pw show ?thesis
      by (simp add: balances_def getCurrentStock_set_stock_quantity)
  next
    case False
    then show ?thesis
      using getCurrentStock_other_id [OF assms] pw
      by (cases "getCurrentStock p' w' s") (auto simp: balances_def getCurrentStock_set_stock_quantity)
  qed
qed

lemma balances_insert_stock:
  assumes "getCurrentStock p w s = None"
  shows "balances (snd (insert_stock p w q s)) = (balances s)((p, w) \<mapsto> q)"
  using assms
  by (auto simp: balances_def getCurrentStock_insert_stock fun_eq_iff split: option.splits)

lemma upsertStock_refines:
  assumes "stock_wf s"
  shows "balances (snd (upsertStock p w q s)) =
           (balances s)((p, w) \<mapsto> (case balances s (p, w) of None \<Rightarrow> q | Some b \<Rightarrow> b + q))"
proof (cases "getCurrentStock p w s")
  case None
  then have "balances s (p, w) = None" by (simp add: balances_def)
  with None show ?thesis
    by (simp add: upsertStock_def balances_insert_stock split_def Let_def)
next
  case (Some cur)
  then have "balances s (p, w) = Some (st_quantity cur)" by (simp add: balances_def)
  with Some assms show ?thesis
    by (simp add: upsertStock_def balances_set_stock_quantity Let_def)
qed

lemma decreaseStock_refines:
  assumes "stock_wf s" "decreaseStock p w q s = Inr (r, s')"
  shows "\<exists>b. balances s (p, w) = Some b \<and> q \<le> b \<and> balances s' = (balances s)((p, w) \<mapsto> b - q)"
proof -
  from assms(2) obtain cur where cur: "getCurrentStock p w s = Some cur" and le: "q \<le> st_quantity cur"
    and s': "s' = set_stock_quantity (stock_id cur) (st_quantity cur - q) s"
    by (auto simp: decreaseStock_def Let_def split: option.splits if_splits)
  from cur have "balances s (p, w) = Some (st_quantity cur)" by (simp add: balances_def)
  with le s' balances_set_stock_quantity [OF assms(1) cur] show ?thesis by blast
qed

subsection \<open>The shape invariant\<close>

lemma getCurrentStock_cong:
  "stock s' = stock s \<Longrightarrow> getCurrentStock p w s' = getCurrentStock p w s"
  by (simp add: getCurrentStock_def)

lemma balances_cong:
  "stock s' = stock s \<Longrightarrow> balances s' = balances s"
  by (simp add: balances_def getCurrentStock_def)

lemma map_set_quantity_keys:
  "map stock_id (map (\<lambda>r. if stock_id r = i then r\<lparr>st_quantity := v\<rparr> else r) xs) = map stock_id xs"
  "map (\<lambda>r. (st_product r, st_warehouse r)) (map (\<lambda>r. if stock_id r = i then r\<lparr>st_quantity := v\<rparr> else r) xs)
     = map (\<lambda>r. (st_product r, st_warehouse r)) xs"
  by (induction xs) auto

lemma stock_wf_set_stock_quantity [intro]:
  "stock_wf s \<Longrightarrow> stock_wf (set_stock_quantity i v s)"
  unfolding stock_wf_def stock_set_stock_quantity map_set_quantity_keys by auto

lemma stock_wf_insert_stock [intro]:
  assumes "stock_wf s" "getCurrentStock p w s = None"
  shows "stock_wf (snd (insert_stock p w q s))"
proof -
  from assms(1) have "next_stock_id s \<notin> set (map stock_id (stock s))" by (auto simp: stock_wf_def)
  moreover from assms(2) have "(p, w) \<notin> set (map (\<lambda>r. (st_product r, st_warehouse r)) (stock s))"
    by (auto simp: getCurrentStock_None)
  ultimately show ?thesis
    using assms(1) by (auto simp: stock_wf_def stock_insert_stock)
qed

lemma stock_wf_registerMovement [intro]:
  "stock_wf s \<Longrightarrow> stock_wf (snd (registerMovement p w u ty q a b d s))"
  by (simp add: stock_wf_def)

lemma balances_registerMovement [simp]:
  "balances (snd (registerMovement p w u ty q a b d s)) = balances s"
  by (rule balances_cong) simp

text \<open>What a call of \<open>upsertStock\<close> returns and leaves behind.\<close>

lemma upsertStock_facts:
  assumes "stock_wf s" "upsertStock p w q s = (r, s1)"
  shows "stock_wf s1" "movements s1 = movements s" "exit_orders s1 = exit_orders s"
    "warehouses s1 = warehouses s" "products s1 = products s"
    "next_movement_id s1 = next_movement_id s" "clock s1 = clock s"
    "next_stock_id s \<le> next_stock_id s1"
    "previous_qty r = (case balances s (p, w) of None \<Rightarrow> 0 | Some b \<Rightarrow> b)"
    "new_qty r = previous_qty r + q"
    "balances s1 = (balances s)((p, w) \<mapsto> new_qty r)"
proof -
  have bal: "balances s1 = (balances s)((p, w) \<mapsto> (case balances s (p, w) of None \<Rightarrow> q | Some b \<Rightarrow> b + q))"
    using upsertStock_refines [OF assms(1), of p w q] assms(2) by simp
  show "stock_wf s1" "movements s1 = movements s" "exit_orders s1 = exit_orders s"
    "warehouses s1 = warehouses s" "products s1 = products s"
    "next_movement_id s1 = next_movement_id s" "clock s1 = clock s"
    "next_stock_id s \<le> next_stock_id s1"
    "previous_qty r = (case balances s (p, w) of None \<Rightarrow> 0 | Some b \<Rightarrow> b)"
    "new_qty r = previous_qty r + q"
    using assms
    by (auto simp: upsertStock_def Let_def split_def balances_def stock_insert_stock
             split: option.splits)
  with bal show "balances s1 = (balances s)((p, w) \<mapsto> new_qty r)"
    by (simp split: option.splits)
qed

text \<open>A successful \<open>decreaseStock\<close> is one \<open>UPDATE\<close> of the pair's row.\<close>

lemma decreaseStock_Inr:
  assumes "decreaseStock p w q s = Inr (r, s1)"
  shows "\<exists>cur. getCurrentStock p w s = Some cur
     \<and> r = \<lparr>sr_id = stock_id cur, previous_qty = st_quantity cur, new_qty = st_quantity cur - q\<rparr>
     \<and> s1 = set_stock_quantity (stock_id cur) (st_quantity cur - q) s"
  using assms by (auto simp: decreaseStock_def Let_def split: option.splits if_splits)

text \<open>The guard of line 52: a decrease that succeeds never asks for more than the balance.\<close>

lemma decreaseStock_guard:
  assumes "decreaseStock p w q s = Inr (r, s1)"
  shows "q \<le> previous_qty r"
  using assms by (auto simp: decreaseStock_def Let_def split: option.splits if_splits)

lemma decreaseStock_facts:
  assumes "stock_wf s" "decreaseStock p w q s = Inr (r, s1)"
  shows "stock_wf s1" "movements s1 = movements s" "exit_orders s1 = exit_orders s"
    "warehouses s1 = warehouses s" "products s1 = products s"
    "next_movement_id s1 = next_movement_id s" "next_stock_id s1 = next_stock_id s"
    "clock s1 = clock s" "next_order_id s1 = next_order_id s"
    "balances s (p, w) = Some (previous_qty r)"
    "new_qty r = previous_qty r - q"
    "balances s1 = (balances s)((p, w) \<mapsto> new_qty r)"
proof -
  obtain cur where cur: "getCurrentStock p w s = Some cur"
    and r: "r = \<lparr>sr_id = stock_id cur, previous_qty = st_quantity cur, new_qty = st_quantity cur - q\<rparr>"
    and s1: "s1 = set_stock_quantity (stock_id cur) (st_quantity cur - q) s"
    using decreaseStock_Inr [OF assms(2)] by blast
  show "stock_wf s1" using assms(1) s1 by blast
  show "movements s1 = movements s" "exit_orders s1 = exit_orders s"
    "warehouses s1 = warehouses s" "products s1 = products s"
    "next_movement_id s1 = next_movement_id s" "next_stock_id s1 = next_stock_id s"
    "clock s1 = clock s" "next_order_id s1 = next_order_id s"
    by (simp_all add: s1)
  show "balances s (p, w) = Some (previous_qty r)" "new_qty r = previous_qty r - q"
    using cur r by (simp_all add: balances_def)
  show "balances s1 = (balances s)((p, w) \<mapsto> new_qty r)"
    using balances_set_stock_quantity [OF assms(1) cur(1)] s1 r by simp
qed

lemma decreaseStock_Inl_no_row:
  "decreaseStock p w q s = Inl e \<Longrightarrow> getCurrentStock p w s = None \<and> e = NoStockRecord
     \<or> (\<exists>cur. getCurrentStock p w s = Some cur \<and> st_quantity cur < q \<and> e = InsufficientStock)"
  by (auto simp: decreaseStock_def Let_def split: option.splits if_splits)

lemma movements_wf_registerMovement [intro]:
  "movements_wf s \<Longrightarrow> movements_wf (snd (registerMovement p w u ty q a b d s))"
  by (auto simp: movements_wf_def registerMovement_eq sorted_wrt_append)

lemma movements_wf_cong:
  "movements s' = movements s \<Longrightarrow> next_movement_id s' = next_movement_id s \<Longrightarrow>
   movements_wf s' = movements_wf s"
  by (simp add: movements_wf_def)

lemma balances_nonneg_abs:
  assumes "stock_wf s"
  shows "balances_nonneg s \<longleftrightarrow> (\<forall>pw b. balances s pw = Some b \<longrightarrow> 0 \<le> b)"
proof
  assume "balances_nonneg s"
  then show "\<forall>pw b. balances s pw = Some b \<longrightarrow> 0 \<le> b"
    by (auto simp: balances_nonneg_def balances_def dest: getCurrentStock_Some)
next
  assume all: "\<forall>pw b. balances s pw = Some b \<longrightarrow> 0 \<le> b"
  show "balances_nonneg s"
    unfolding balances_nonneg_def
  proof
    fix r assume r: "r \<in> set (stock s)"
    obtain r' where r': "getCurrentStock (st_product r) (st_warehouse r) s = Some r'"
      using r by (cases "getCurrentStock (st_product r) (st_warehouse r) s")
                 (auto simp: getCurrentStock_None)
    then have "r' \<in> set (stock s)" "st_product r' = st_product r" "st_warehouse r' = st_warehouse r"
      by (simp_all add: getCurrentStock_Some)
    moreover from assms have "inj_on (\<lambda>r. (st_product r, st_warehouse r)) (set (stock s))"
      by (simp add: stock_wf_def distinct_map)
    ultimately have "r' = r" using r by (auto simp: inj_on_def)
    with r' all show "0 \<le> st_quantity r" by (auto simp: balances_def)
  qed
qed

end
