(* ===== verification/Permission.thy ===== *)
theory Permission
  imports Roles Store
begin

text \<open>
  The Permission Gate: \<open>ensureWarehouseWritePermission\<close> and
  \<open>ensureWarehouseReadPermission\<close> (src/Backend/src/controllers/stockController.js,
  lines 46--96). Both read \<open>req.user\<close> and one \<open>warehouses\<close> row; the write check
  adds the rank test. Units are compared through \<open>Number(...)\<close>, so SQL NULL and a
  missing unit both read as 0. \<open>gate_write_spec\<close> is the contract of spec 4.1 on the
  abstract data (role order, unit equality); the lemmas relate the two.
\<close>

definition ensureWarehouseWritePermission :: "principal \<Rightarrow> warehouse_id \<Rightarrow> db \<Rightarrow> api_error + unit" where
  "ensureWarehouseWritePermission u w s =
     (if p_role u = RoleSuperAdmin then Inr ()
      else if js_rank_less (ROLE_RANK (p_role u)) (ROLE_RANK RoleSupervisor) then Inl ForbiddenStock
      else (case find_warehouse w s of
              None \<Rightarrow> Inl WarehouseNotFound
            | Some wh \<Rightarrow> if js_number (wh_unit wh) \<noteq> js_number (p_unit u) then Inl ForbiddenUnit
                         else Inr ()))"

definition ensureWarehouseReadPermission :: "principal \<Rightarrow> warehouse_id \<Rightarrow> db \<Rightarrow> api_error + unit" where
  "ensureWarehouseReadPermission u w s =
     (if p_role u = RoleSuperAdmin then Inr ()
      else (case find_warehouse w s of
              None \<Rightarrow> Inl WarehouseNotFound
            | Some wh \<Rightarrow> if js_number (wh_unit wh) \<noteq> js_number (p_unit u) then Inl ForbiddenUnit
                         else Inr ()))"

text \<open>
  Spec 4.1 as a function of the abstract data: the top role bypasses; a write needs rank
  at least supervisor in the order user < supervisor < admin < super_admin (a role
  outside the order has no rank and is refused); then the warehouse must exist and its
  unit must be the requester's.
\<close>

definition rank_at_least :: "role \<Rightarrow> role \<Rightarrow> bool" where
  "rank_at_least r m = (case (ROLE_RANK r, ROLE_RANK m) of (Some a, Some b) \<Rightarrow> b \<le> a | _ \<Rightarrow> False)"

definition gate_write_spec :: "principal \<Rightarrow> warehouse_id \<Rightarrow> db \<Rightarrow> api_error + unit" where
  "gate_write_spec u w s =
     (if p_role u = RoleSuperAdmin then Inr ()
      else if \<not> rank_at_least (p_role u) RoleSupervisor then Inl ForbiddenStock
      else (case find_warehouse w s of
              None \<Rightarrow> Inl WarehouseNotFound
            | Some wh \<Rightarrow> if wh_unit wh = p_unit u then Inr () else Inl ForbiddenUnit))"

text \<open>No stored unit id is 0 (\<open>AUTO_INCREMENT\<close> starts at 1).\<close>

definition units_positive :: "principal \<Rightarrow> db \<Rightarrow> bool" where
  "units_positive u s \<longleftrightarrow> p_unit u \<noteq> Some 0 \<and> (\<forall>wh \<in> set (warehouses s). wh_unit wh \<noteq> Some 0)"

section \<open>Lemmas\<close>

lemma find_warehouse_in: "find_warehouse w s = Some wh \<Longrightarrow> wh \<in> set (warehouses s)"
  unfolding find_warehouse_def by (drule find_Some_props) simp

lemma js_number_eq_positive:
  "a \<noteq> Some 0 \<Longrightarrow> b \<noteq> Some 0 \<Longrightarrow> js_number a = js_number b \<longleftrightarrow> a = b"
  by (cases a; cases b) auto

lemma rank_at_least_supervisor:
  "rank_at_least r RoleSupervisor \<longleftrightarrow> r \<in> {RoleSupervisor, RoleAdmin, RoleSuperAdmin}"
  by (cases r) (auto simp: rank_at_least_def)

lemma gate_write_allowed_roles:
  "ensureWarehouseWritePermission u w s = Inr () \<Longrightarrow> p_role u \<noteq> RoleUser"
  by (auto simp: ensureWarehouseWritePermission_def)

text \<open>The write check is the read check plus the rank test.\<close>

lemma write_permission_implies_read:
  "ensureWarehouseWritePermission u w s = Inr () \<Longrightarrow> ensureWarehouseReadPermission u w s = Inr ()"
  by (auto simp: ensureWarehouseWritePermission_def ensureWarehouseReadPermission_def
           split: if_splits option.splits)

lemma write_permission_ranked_eq:
  "\<not> js_rank_less (ROLE_RANK (p_role u)) (ROLE_RANK RoleSupervisor) \<Longrightarrow>
   ensureWarehouseWritePermission u w s = ensureWarehouseReadPermission u w s"
  by (simp add: ensureWarehouseWritePermission_def ensureWarehouseReadPermission_def)

end
