(* ===== verification/Engine.thy ===== *)
theory Engine
  imports Permission
begin

text \<open>
  The Movement Engine: the three handlers of src/Backend/src/controllers/stockController.js
  that write the ledger, \<open>stockEntryController\<close> (lines 8--44),
  \<open>stockEntryBatchController\<close> (lines 212--270) and the transactional first half of
  \<open>stockExitController\<close> (lines 98--149; the exit order it then builds is in
  ExitOrders.thy), with the route guards of stockRoutes.js in front of them.
  Each handler returns its outcome and the database after it. A transaction is the
  state threaded through the loop; \<open>conn.rollback()\<close> is \<open>rollback\<close>, which restores
  every table the transaction wrote but not the \<open>AUTO_INCREMENT\<close> counters (InnoDB does
  not give consumed ids back). The ledger invariant \<open>ledger_inv\<close> says that every
  balance is the running total of its movements and that the movements of a pair form
  a chain of before/after snapshots.
\<close>

section \<open>Requests\<close>

record entry_body =
  eb_product :: product_id
  eb_warehouse :: warehouse_id
  eb_quantity :: qty
  eb_description :: "string option"

record batch_body =
  bb_warehouse :: warehouse_id
  bb_items :: "(product_id \<times> qty) list"
  bb_description :: "string option"

record exit_body =
  xb_warehouse :: warehouse_id
  xb_items :: "(product_id \<times> qty) list"
  xb_description :: "string option"
  xb_client_name :: string
  xb_client_document :: "string option"

section \<open>Transactions\<close>

definition rollback :: "db \<Rightarrow> db \<Rightarrow> db" where
  "rollback s0 s = s0\<lparr>next_stock_id := next_stock_id s, next_movement_id := next_movement_id s\<rparr>"

text \<open>
  One item of an entry: \<open>upsertStock\<close> then \<open>registerMovement\<close> with the snapshot it
  returned (lines 17--34 and 237--254). One item of an exit: \<open>decreaseStock\<close> then
  \<open>registerMovement\<close> (lines 127--146).
\<close>

definition entry_item :: "product_id \<Rightarrow> warehouse_id \<Rightarrow> user_id option \<Rightarrow> qty \<Rightarrow> string option \<Rightarrow>
    db \<Rightarrow> nat \<times> db" where
  "entry_item p w u q d s = (let (r, s1) = upsertStock p w q s in
     registerMovement p w u ENTRADA q (previous_qty r) (new_qty r) d s1)"

definition exit_item :: "product_id \<Rightarrow> warehouse_id \<Rightarrow> user_id option \<Rightarrow> qty \<Rightarrow> string option \<Rightarrow>
    db \<Rightarrow> api_error + nat \<times> db" where
  "exit_item p w u q d s = (case decreaseStock p w q s of
      Inl e \<Rightarrow> Inl e
    | Inr (r, s1) \<Rightarrow> Inr (registerMovement p w u SAIDA q (previous_qty r) (new_qty r) d s1))"

section \<open>stockEntryController\<close>

definition stockEntryController :: "principal \<Rightarrow> entry_body \<Rightarrow> db \<Rightarrow> (api_error + unit) \<times> db" where
  "stockEntryController u b s =
     (case ensureWarehouseWritePermission u (eb_warehouse b) s of
        Inl e \<Rightarrow> (Inl e, s)
      | Inr _ \<Rightarrow> (Inr (), snd (entry_item (eb_product b) (eb_warehouse b) (Some (p_id u))
                              (eb_quantity b) (eb_description b) s)))"

section \<open>stockEntryBatchController\<close>

text \<open>The default description, \<open>"Entrada via Caixa R\<acute>apido"\<close> in UTF-8 (line 252).\<close>

definition default_entry_description :: string where
  "default_entry_description = ''Entrada via Caixa R'' @ [CHR 0xC3, CHR 0xA1] @ ''pido''"

text \<open>The loop of lines 228--255: an item without product or quantity aborts.\<close>

fun entry_items :: "warehouse_id \<Rightarrow> user_id option \<Rightarrow> string \<Rightarrow> (product_id \<times> qty) list \<Rightarrow> db \<Rightarrow>
    (api_error + unit) \<times> db" where
  "entry_items w u d [] s = (Inr (), s)"
| "entry_items w u d ((p, q) # items) s =
     (if p = 0 \<or> q = 0 then (Inl InvalidEntryItem, s)
      else entry_items w u d items (snd (entry_item p w u q (Some d) s)))"

definition stockEntryBatchController :: "principal \<Rightarrow> batch_body \<Rightarrow> db \<Rightarrow> (api_error + unit) \<times> db" where
  "stockEntryBatchController u b s =
     (if bb_items b = [] then (Inl NoEntryItems, s)
      else (case ensureWarehouseWritePermission u (bb_warehouse b) s of
        Inl e \<Rightarrow> (Inl e, s)
      | Inr _ \<Rightarrow> (case entry_items (bb_warehouse b) (Some (p_id u))
                          (js_or_default (bb_description b) default_entry_description) (bb_items b) s of
          (Inl e, s') \<Rightarrow> (Inl e, rollback s s')
        | (Inr _, s') \<Rightarrow> (Inr (), s'))))"

section \<open>stockExitController, the transaction\<close>

text \<open>The loop of lines 124--147: the movement ids in the order of the items.\<close>

fun exit_items :: "warehouse_id \<Rightarrow> user_id option \<Rightarrow> string option \<Rightarrow> (product_id \<times> qty) list \<Rightarrow> db \<Rightarrow>
    (api_error + nat list) \<times> db" where
  "exit_items w u d [] s = (Inr [], s)"
| "exit_items w u d ((p, q) # items) s =
     (case exit_item p w u q d s of
        Inl e \<Rightarrow> (Inl e, s)
      | Inr (mid, s1) \<Rightarrow> (case exit_items w u d items s1 of
          (Inl e, s2) \<Rightarrow> (Inl e, s2)
        | (Inr ids, s2) \<Rightarrow> (Inr (mid # ids), s2)))"

text \<open>Lines 98--149: validation, the gate, then the loop inside one transaction.\<close>

definition stockExit_movements :: "principal \<Rightarrow> exit_body \<Rightarrow> db \<Rightarrow> (api_error + nat list) \<times> db" where
  "stockExit_movements u b s =
     (if xb_items b = [] then (Inl NoExitItems, s)
      else (case ensureWarehouseWritePermission u (xb_warehouse b) s of
        Inl e \<Rightarrow> (Inl e, s)
      | Inr _ \<Rightarrow> (case exit_items (xb_warehouse b) (Some (p_id u)) (xb_description b) (xb_items b) s of
          (Inl e, s') \<Rightarrow> (Inl e, rollback s s')
        | (Inr ids, s') \<Rightarrow> (Inr ids, s'))))"

section \<open>Routes\<close>

text \<open>\<open>POST /entrada\<close> and \<open>POST /entrada/lote\<close> (stockRoutes.js, lines 11--12).\<close>

definition route_stock_entry :: "principal option \<Rightarrow> entry_body \<Rightarrow> db \<Rightarrow> (api_error + unit) \<times> db" where
  "route_stock_entry u b s = (case requireRole stock_writers u of
      Inl e \<Rightarrow> (Inl e, s)
    | Inr _ \<Rightarrow> (case u of None \<Rightarrow> (Inl Unauthenticated, s) | Some p \<Rightarrow> stockEntryController p b s))"

definition route_stock_entry_batch :: "principal option \<Rightarrow> batch_body \<Rightarrow> db \<Rightarrow> (api_error + unit) \<times> db" where
  "route_stock_entry_batch u b s = (case requireRole stock_writers u of
      Inl e \<Rightarrow> (Inl e, s)
    | Inr _ \<Rightarrow> (case u of None \<Rightarrow> (Inl Unauthenticated, s) | Some p \<Rightarrow> stockEntryBatchController p b s))"

section \<open>Sequences of requests\<close>

text \<open>
  The requests that write the ledger, and a run of them one after another. Requests are
  served by one worker each (spec 5); this run is the serial order of their
  transactions. Interleaved transactions are the subject of Concurrency.thy.
\<close>

datatype engine_req =
    ReqEntry principal entry_body
  | ReqEntryBatch principal batch_body
  | ReqExit principal exit_body

fun engine_step :: "db \<Rightarrow> engine_req \<Rightarrow> db" where
  "engine_step s (ReqEntry u b) = snd (stockEntryController u b s)"
| "engine_step s (ReqEntryBatch u b) = snd (stockEntryBatchController u b s)"
| "engine_step s (ReqExit u b) = snd (stockExit_movements u b s)"

fun engine_run :: "db \<Rightarrow> engine_req list \<Rightarrow> db" where
  "engine_run s [] = s"
| "engine_run s (r # rs) = engine_run (engine_step s r) rs"

section \<open>The ledger\<close>

definition signed_qty :: "movement \<Rightarrow> qty" where
  "signed_qty m = (case mov_type m of ENTRADA \<Rightarrow> mov_quantity m | SAIDA \<Rightarrow> - mov_quantity m)"

definition pair_movs :: "product_id \<Rightarrow> warehouse_id \<Rightarrow> movement list \<Rightarrow> movement list" where
  "pair_movs p w ms = filter (\<lambda>m. mov_product m = p \<and> mov_warehouse m = w) ms"

text \<open>Each snapshot starts where the previous one ended (spec 3, Movement).\<close>

fun chain :: "qty \<Rightarrow> movement list \<Rightarrow> bool" where
  "chain b [] = True"
| "chain b (m # ms) = (mov_previous m = b \<and> mov_new m = b + signed_qty m \<and> chain (mov_new m) ms)"

text \<open>The invariant over the rows, executable, and its reading on the abstract balances.\<close>

definition ledger_inv :: "db \<Rightarrow> bool" where
  "ledger_inv s \<longleftrightarrow>
     (\<forall>r \<in> set (stock s). chain 0 (pair_movs (st_product r) (st_warehouse r) (movements s))
        \<and> st_quantity r = sum_list (map signed_qty (pair_movs (st_product r) (st_warehouse r) (movements s))))
   \<and> (\<forall>m \<in> set (movements s). getCurrentStock (mov_product m) (mov_warehouse m) s \<noteq> None)"

text \<open>The invariant the engine keeps between requests.\<close>

definition engine_inv :: "db \<Rightarrow> bool" where
  "engine_inv s \<longleftrightarrow> stock_wf s \<and> movements_wf s \<and> ledger_inv s"

definition ledger_abs :: "(product_id \<times> warehouse_id \<rightharpoonup> qty) \<Rightarrow> movement list \<Rightarrow> bool" where
  "ledger_abs bal ms \<longleftrightarrow> (\<forall>p w. case bal (p, w) of
       None \<Rightarrow> pair_movs p w ms = []
     | Some b \<Rightarrow> chain 0 (pair_movs p w ms) \<and> b = sum_list (map signed_qty (pair_movs p w ms)))"

section \<open>Lemmas\<close>

subsection \<open>The chain of snapshots\<close>

lemma chain_snoc:
  "chain b (xs @ [m]) \<longleftrightarrow> chain b xs \<and> mov_previous m = b + sum_list (map signed_qty xs)
     \<and> mov_new m = mov_previous m + signed_qty m"
proof (induction xs arbitrary: b)
  case Nil
  then show ?case by auto
next
  case (Cons x xs)
  show ?case
  proof (cases "mov_previous x = b \<and> mov_new x = b + signed_qty x")
    case True
    then show ?thesis using Cons.IH [of "mov_new x"] by (simp add: add.assoc)
  next
    case False
    then show ?thesis by auto
  qed
qed

lemma chain_last:
  "chain b xs \<Longrightarrow> xs \<noteq> [] \<Longrightarrow> mov_new (last xs) = b + sum_list (map signed_qty xs)"
proof (induction xs arbitrary: b)
  case Nil
  then show ?case by simp
next
  case (Cons x xs)
  show ?case
  proof (cases "xs = []")
    case True
    with Cons.prems show ?thesis by simp
  next
    case False
    from Cons.prems have "chain (mov_new x) xs" and "mov_new x = b + signed_qty x" by auto
    with False Cons.IH have "mov_new (last xs) = b + signed_qty x + sum_list (map signed_qty xs)"
      by simp
    with False show ?thesis by (simp add: add.assoc)
  qed
qed

lemma pair_movs_snoc [simp]:
  "pair_movs p w (ms @ [m]) =
     (if mov_product m = p \<and> mov_warehouse m = w then pair_movs p w ms @ [m] else pair_movs p w ms)"
  by (simp add: pair_movs_def)

lemma sum_signed_split:
  "sum_list (map signed_qty ms) =
     sum_list (map mov_quantity (filter (\<lambda>m. mov_type m = ENTRADA) ms))
     - sum_list (map mov_quantity (filter (\<lambda>m. mov_type m = SAIDA) ms))"
  by (induction ms) (auto simp: signed_qty_def split: movement_type.splits)

text \<open>
  Appending a movement whose snapshot starts at the pair's balance and ends at the new
  balance keeps the abstract ledger.
\<close>

lemma ledger_abs_snoc:
  assumes "ledger_abs bal ms"
    and "mov_previous m = (case bal (mov_product m, mov_warehouse m) of None \<Rightarrow> 0 | Some b \<Rightarrow> b)"
    and "mov_new m = mov_previous m + signed_qty m"
  shows "ledger_abs (bal((mov_product m, mov_warehouse m) \<mapsto> mov_new m)) (ms @ [m])"
  unfolding ledger_abs_def
proof (intro allI)
  fix p w
  have old: "case bal (p, w) of None \<Rightarrow> pair_movs p w ms = []
      | Some b \<Rightarrow> chain 0 (pair_movs p w ms) \<and> b = sum_list (map signed_qty (pair_movs p w ms))"
    using assms(1) by (simp add: ledger_abs_def)
  show "case (bal((mov_product m, mov_warehouse m) \<mapsto> mov_new m)) (p, w) of
          None \<Rightarrow> pair_movs p w (ms @ [m]) = []
        | Some b \<Rightarrow> chain 0 (pair_movs p w (ms @ [m]))
            \<and> b = sum_list (map signed_qty (pair_movs p w (ms @ [m])))"
  proof (cases "mov_product m = p \<and> mov_warehouse m = w")
    case True
    then obtain pw: "p = mov_product m" "w = mov_warehouse m" by simp
    have pm: "pair_movs p w (ms @ [m]) = pair_movs p w ms @ [m]" using True by simp
    show ?thesis
    proof (cases "bal (p, w)")
      case None
      with old assms(2,3) pm pw show ?thesis by simp
    next
      case (Some b)
      with old assms(2,3) pm pw show ?thesis by (simp add: chain_snoc)
    qed
  next
    case False
    then have pm: "pair_movs p w (ms @ [m]) = pair_movs p w ms" by auto
    from False have upd: "(bal((mov_product m, mov_warehouse m) \<mapsto> mov_new m)) (p, w) = bal (p, w)"
      by auto
    show ?thesis unfolding pm upd by (rule old)
  qed
qed

lemma ledger_abs_at:
  assumes "ledger_abs bal ms" "bal (p, w) = Some b"
  shows "chain 0 (pair_movs p w ms) \<and> b = sum_list (map signed_qty (pair_movs p w ms))"
proof -
  from assms(1) have "case bal (p, w) of None \<Rightarrow> pair_movs p w ms = []
      | Some b \<Rightarrow> chain 0 (pair_movs p w ms) \<and> b = sum_list (map signed_qty (pair_movs p w ms))"
    by (simp add: ledger_abs_def)
  with assms(2) show ?thesis by simp
qed

lemma ledger_abs_none:
  assumes "ledger_abs bal ms" "bal (p, w) = None"
  shows "pair_movs p w ms = []"
proof -
  from assms(1) have "case bal (p, w) of None \<Rightarrow> pair_movs p w ms = []
      | Some b \<Rightarrow> chain 0 (pair_movs p w ms) \<and> b = sum_list (map signed_qty (pair_movs p w ms))"
    by (simp add: ledger_abs_def)
  with assms(2) show ?thesis by simp
qed

subsection \<open>Rows and the abstract balances\<close>

lemma getCurrentStock_row:
  assumes "stock_wf s" "r \<in> set (stock s)"
  shows "getCurrentStock (st_product r) (st_warehouse r) s = Some r"
proof -
  obtain r' where r': "getCurrentStock (st_product r) (st_warehouse r) s = Some r'"
    using assms(2) by (cases "getCurrentStock (st_product r) (st_warehouse r) s")
                      (auto simp: getCurrentStock_None)
  then have in': "r' \<in> set (stock s)" and pair: "(st_product r', st_warehouse r') = (st_product r, st_warehouse r)"
    by (simp_all add: getCurrentStock_Some)
  from assms(1) have "inj_on (\<lambda>r. (st_product r, st_warehouse r)) (set (stock s))"
    by (simp add: stock_wf_def distinct_map)
  with in' assms(2) pair have "r' = r" by (auto simp: inj_on_def)
  with r' show ?thesis by simp
qed

lemma ledger_inv_abs:
  assumes "stock_wf s"
  shows "ledger_inv s \<longleftrightarrow> ledger_abs (balances s) (movements s)"
proof
  assume inv: "ledger_inv s"
  show "ledger_abs (balances s) (movements s)"
    unfolding ledger_abs_def
  proof (intro allI)
    fix p w
    show "case balances s (p, w) of None \<Rightarrow> pair_movs p w (movements s) = []
      | Some b \<Rightarrow> chain 0 (pair_movs p w (movements s))
          \<and> b = sum_list (map signed_qty (pair_movs p w (movements s)))"
    proof (cases "getCurrentStock p w s")
      case None
      have "pair_movs p w (movements s) = []"
      proof (rule ccontr)
        assume "pair_movs p w (movements s) \<noteq> []"
        then obtain m where "m \<in> set (movements s)" "mov_product m = p" "mov_warehouse m = w"
          by (auto simp: pair_movs_def filter_empty_conv)
        with inv None show False by (auto simp: ledger_inv_def)
      qed
      with None show ?thesis by (simp add: balances_def)
    next
      case (Some r)
      with inv show ?thesis
        by (auto simp: balances_def ledger_inv_def dest!: getCurrentStock_Some)
    qed
  qed
next
  assume abs: "ledger_abs (balances s) (movements s)"
  have rows: "chain 0 (pair_movs (st_product r) (st_warehouse r) (movements s))
      \<and> st_quantity r = sum_list (map signed_qty (pair_movs (st_product r) (st_warehouse r) (movements s)))"
    if "r \<in> set (stock s)" for r
  proof -
    from abs have "case balances s (st_product r, st_warehouse r) of
        None \<Rightarrow> pair_movs (st_product r) (st_warehouse r) (movements s) = []
      | Some b \<Rightarrow> chain 0 (pair_movs (st_product r) (st_warehouse r) (movements s))
          \<and> b = sum_list (map signed_qty (pair_movs (st_product r) (st_warehouse r) (movements s)))"
      by (simp add: ledger_abs_def)
    moreover have "balances s (st_product r, st_warehouse r) = Some (st_quantity r)"
      using getCurrentStock_row [OF assms that] by (simp add: balances_def)
    ultimately show ?thesis by simp
  qed
  have movs: "getCurrentStock (mov_product m) (mov_warehouse m) s \<noteq> None"
    if "m \<in> set (movements s)" for m
  proof
    assume "getCurrentStock (mov_product m) (mov_warehouse m) s = None"
    then have "balances s (mov_product m, mov_warehouse m) = None" by (simp add: balances_def)
    moreover from abs have "case balances s (mov_product m, mov_warehouse m) of
        None \<Rightarrow> pair_movs (mov_product m) (mov_warehouse m) (movements s) = []
      | Some b \<Rightarrow> chain 0 (pair_movs (mov_product m) (mov_warehouse m) (movements s))
          \<and> b = sum_list (map signed_qty (pair_movs (mov_product m) (mov_warehouse m) (movements s)))"
      by (simp add: ledger_abs_def)
    ultimately have "pair_movs (mov_product m) (mov_warehouse m) (movements s) = []" by simp
    with that show False by (auto simp: pair_movs_def filter_empty_conv)
  qed
  from rows movs show "ledger_inv s" by (simp add: ledger_inv_def)
qed

subsection \<open>One item\<close>

lemma entry_item_effect:
  assumes "stock_wf s"
  shows "\<exists>prev. prev = (case balances s (p, w) of None \<Rightarrow> 0 | Some b \<Rightarrow> b)
    \<and> movements (snd (entry_item p w u q d s)) = movements s @ [\<lparr>mov_id = next_movement_id s,
        mov_product = p, mov_warehouse = w, mov_user = js_or_null u, mov_type = ENTRADA,
        mov_quantity = q, mov_previous = prev, mov_new = prev + q, mov_description = d,
        mov_created_at = clock s\<rparr>]
    \<and> balances (snd (entry_item p w u q d s)) = (balances s)((p, w) \<mapsto> prev + q)
    \<and> stock_wf (snd (entry_item p w u q d s))
    \<and> next_movement_id (snd (entry_item p w u q d s)) = Suc (next_movement_id s)
    \<and> next_stock_id s \<le> next_stock_id (snd (entry_item p w u q d s))
    \<and> fst (entry_item p w u q d s) = next_movement_id s
    \<and> exit_orders (snd (entry_item p w u q d s)) = exit_orders s
    \<and> warehouses (snd (entry_item p w u q d s)) = warehouses s
    \<and> products (snd (entry_item p w u q d s)) = products s"
proof -
  obtain r s1 where up: "upsertStock p w q s = (r, s1)" by fastforce
  note f = upsertStock_facts [OF assms up]
  have e: "entry_item p w u q d s = registerMovement p w u ENTRADA q (previous_qty r) (new_qty r) d s1"
    by (simp add: entry_item_def up)
  show ?thesis
    unfolding e using f by auto
qed

text \<open>
  What an exit item does, split by concern: the shape of the write (one movement of the
  item's product, warehouse and quantity, the balance lowered by the quantity), the
  snapshot the movement records, and the guard that let it through.
\<close>

lemma exit_item_shape:
  assumes "stock_wf s" "exit_item p w u q d s = Inr (mid, s2)"
  shows "\<exists>prev m. balances s (p, w) = Some prev \<and> balances s2 = (balances s)((p, w) \<mapsto> prev - q)
    \<and> movements s2 = movements s @ [m] \<and> mov_id m = next_movement_id s
    \<and> mov_product m = p \<and> mov_warehouse m = w \<and> mov_quantity m = q
    \<and> stock_wf s2 \<and> next_movement_id s2 = Suc (next_movement_id s)
    \<and> next_stock_id s2 = next_stock_id s \<and> mid = next_movement_id s
    \<and> exit_orders s2 = exit_orders s \<and> warehouses s2 = warehouses s \<and> products s2 = products s
    \<and> next_order_id s2 = next_order_id s \<and> clock s2 = clock s"
proof -
  obtain r s1 where dec: "decreaseStock p w q s = Inr (r, s1)"
    using assms(2) by (auto simp: exit_item_def split: sum.splits)
  then have "\<exists>ty a b. registerMovement p w u ty q a b d s1 = (mid, s2)"
    using assms(2) by (simp add: exit_item_def) blast
  then obtain ty a b where s2: "registerMovement p w u ty q a b d s1 = (mid, s2)" by blast
  note f = decreaseStock_facts [OF assms(1) dec]
  from s2 have mid: "mid = fst (registerMovement p w u ty q a b d s1)"
    and s2': "s2 = snd (registerMovement p w u ty q a b d s1)"
    by (metis prod.sel)+
  from f show ?thesis unfolding mid s2' by auto
qed

lemma exit_item_effect:
  assumes "stock_wf s" "exit_item p w u q d s = Inr (mid, s2)"
  shows "\<exists>prev. balances s (p, w) = Some prev
    \<and> movements s2 = movements s @ [\<lparr>mov_id = next_movement_id s,
        mov_product = p, mov_warehouse = w, mov_user = js_or_null u, mov_type = SAIDA,
        mov_quantity = q, mov_previous = prev, mov_new = prev - q, mov_description = d,
        mov_created_at = clock s\<rparr>]"
proof -
  obtain r s1 where dec: "decreaseStock p w q s = Inr (r, s1)"
    and s2: "(mid, s2) = registerMovement p w u SAIDA q (previous_qty r) (new_qty r) d s1"
    using assms(2) by (auto simp: exit_item_def split: sum.splits prod.splits)
  note f = decreaseStock_facts [OF assms(1) dec]
  from s2 have s2': "s2 = snd (registerMovement p w u SAIDA q (previous_qty r) (new_qty r) d s1)"
    by (metis prod.sel)
  from f show ?thesis unfolding s2' by auto
qed



lemma exit_item_Inl:
  "exit_item p w u q d s = Inl e \<Longrightarrow> decreaseStock p w q s = Inl e"
  by (auto simp: exit_item_def split: sum.splits prod.splits)

lemma signed_entry [simp]: "signed_qty \<lparr>mov_id = i, mov_product = p, mov_warehouse = w, mov_user = u,
    mov_type = ENTRADA, mov_quantity = q, mov_previous = a, mov_new = b, mov_description = d,
    mov_created_at = t\<rparr> = q"
  and signed_exit [simp]: "signed_qty \<lparr>mov_id = i, mov_product = p, mov_warehouse = w, mov_user = u,
    mov_type = SAIDA, mov_quantity = q, mov_previous = a, mov_new = b, mov_description = d,
    mov_created_at = t\<rparr> = - q"
  by (simp_all add: signed_qty_def)

lemma movements_wf_snoc:
  "movements_wf s \<Longrightarrow> movements s' = movements s @ [m] \<Longrightarrow> mov_id m = next_movement_id s \<Longrightarrow>
   next_movement_id s' = Suc (next_movement_id s) \<Longrightarrow> movements_wf s'"
  by (auto simp: movements_wf_def sorted_wrt_append)

text \<open>One appended movement whose snapshot continues its pair's balance keeps the invariant.\<close>

lemma engine_inv_snoc:
  assumes inv: "engine_inv s" and wf2: "stock_wf s2"
    and mv: "movements s2 = movements s @ [m]" "mov_id m = next_movement_id s"
      "next_movement_id s2 = Suc (next_movement_id s)"
    and snap: "mov_previous m = (case balances s (mov_product m, mov_warehouse m) of None \<Rightarrow> 0 | Some b \<Rightarrow> b)"
      "mov_new m = mov_previous m + signed_qty m"
    and bal: "balances s2 = (balances s)((mov_product m, mov_warehouse m) \<mapsto> mov_new m)"
  shows "engine_inv s2"
proof -
  from inv have wf: "stock_wf s" and mw: "movements_wf s" by (simp_all add: engine_inv_def)
  from inv have abs: "ledger_abs (balances s) (movements s)"
    using ledger_inv_abs [OF wf] by (simp add: engine_inv_def)
  have "ledger_abs (balances s2) (movements s2)"
    unfolding bal mv(1) by (rule ledger_abs_snoc [OF abs snap])
  with wf2 mw mv show ?thesis
    by (simp add: engine_inv_def ledger_inv_abs movements_wf_snoc)
qed

lemma entry_item_inv:
  assumes "engine_inv s"
  shows "engine_inv (snd (entry_item p w u q d s))"
proof -
  from assms have wf: "stock_wf s" by (simp add: engine_inv_def)
  obtain prev where prev: "prev = (case balances s (p, w) of None \<Rightarrow> 0 | Some b \<Rightarrow> b)"
    and eff: "movements (snd (entry_item p w u q d s)) = movements s @ [\<lparr>mov_id = next_movement_id s,
        mov_product = p, mov_warehouse = w, mov_user = js_or_null u, mov_type = ENTRADA,
        mov_quantity = q, mov_previous = prev, mov_new = prev + q, mov_description = d,
        mov_created_at = clock s\<rparr>]"
      "balances (snd (entry_item p w u q d s)) = (balances s)((p, w) \<mapsto> prev + q)"
      "stock_wf (snd (entry_item p w u q d s))"
      "next_movement_id (snd (entry_item p w u q d s)) = Suc (next_movement_id s)"
    using entry_item_effect [OF wf, of p w u q d] by blast
  show ?thesis
    by (rule engine_inv_snoc [OF assms eff(3,1)]) (simp_all add: eff(2,4) prev)
qed

lemma exit_item_inv:
  assumes "engine_inv s" "exit_item p w u q d s = Inr (mid, s2)"
  shows "engine_inv s2"
proof -
  from assms(1) have wf: "stock_wf s" by (simp add: engine_inv_def)
  obtain prev where prev: "balances s (p, w) = Some prev"
    and eff: "movements s2 = movements s @ [\<lparr>mov_id = next_movement_id s,
        mov_product = p, mov_warehouse = w, mov_user = js_or_null u, mov_type = SAIDA,
        mov_quantity = q, mov_previous = prev, mov_new = prev - q, mov_description = d,
        mov_created_at = clock s\<rparr>]"
    using exit_item_effect [OF wf assms(2)] by blast
  obtain m where sh: "balances s2 = (balances s)((p, w) \<mapsto> prev - q)" "stock_wf s2"
      "next_movement_id s2 = Suc (next_movement_id s)"
    using exit_item_shape [OF wf assms(2)] prev by auto
  show ?thesis
    by (rule engine_inv_snoc [OF assms(1) sh(2) eff]) (simp_all add: sh(1,3) prev)
qed

subsection \<open>The loops\<close>

lemma entry_items_inv:
  "engine_inv s \<Longrightarrow> entry_items w u d items s = (r, s') \<Longrightarrow>
   engine_inv s' \<and> next_stock_id s \<le> next_stock_id s' \<and> next_movement_id s \<le> next_movement_id s'
   \<and> exit_orders s' = exit_orders s \<and> warehouses s' = warehouses s \<and> products s' = products s"
proof (induction w u d items s rule: entry_items.induct)
  case (1 w u d s)
  then show ?case by simp
next
  case (2 w u d p q items s)
  show ?case
  proof (cases "p = 0 \<or> q = 0")
    case True
    with "2.prems" show ?thesis by simp
  next
    case False
    from "2.prems"(1) have wf: "stock_wf s" by (simp add: engine_inv_def)
    have inv1: "engine_inv (snd (entry_item p w u q (Some d) s))"
      using "2.prems"(1) by (rule entry_item_inv)
    have eff: "next_stock_id s \<le> next_stock_id (snd (entry_item p w u q (Some d) s))"
      "next_movement_id (snd (entry_item p w u q (Some d) s)) = Suc (next_movement_id s)"
      "exit_orders (snd (entry_item p w u q (Some d) s)) = exit_orders s"
      "warehouses (snd (entry_item p w u q (Some d) s)) = warehouses s"
      "products (snd (entry_item p w u q (Some d) s)) = products s"
      using entry_item_effect [OF wf, of p w u q "Some d"] by auto
    from False "2.prems"(2) have "entry_items w u d items (snd (entry_item p w u q (Some d) s)) = (r, s')"
      by simp
    with "2.IH" [OF False inv1] eff show ?thesis by auto
  qed
qed

lemma exit_items_inv:
  "engine_inv s \<Longrightarrow> exit_items w u d items s = (r, s') \<Longrightarrow>
   next_stock_id s \<le> next_stock_id s' \<and> next_movement_id s \<le> next_movement_id s'
   \<and> exit_orders s' = exit_orders s \<and> warehouses s' = warehouses s \<and> products s' = products s
   \<and> engine_inv s'"
proof (induction items arbitrary: s r)
  case Nil
  then show ?case by auto
next
  case (Cons it items)
  obtain p q where it: "it = (p, q)" by fastforce
  show ?case
  proof (cases "exit_item p w u q d s")
    case (Inl e)
    with Cons.prems it show ?thesis by simp
  next
    case (Inr ms)
    then obtain mid s1 where ex: "exit_item p w u q d s = Inr (mid, s1)" by (cases ms) auto
    from Cons.prems(1) have wf: "stock_wf s" by (simp add: engine_inv_def)
    have inv1: "engine_inv s1" using Cons.prems(1) ex by (rule exit_item_inv)
    have eff: "next_stock_id s1 = next_stock_id s" "next_movement_id s1 = Suc (next_movement_id s)"
      "exit_orders s1 = exit_orders s" "warehouses s1 = warehouses s" "products s1 = products s"
      using exit_item_shape [OF wf ex] by auto
    obtain r1 where rec: "exit_items w u d items s1 = (r1, s')"
      and r: "r = (case r1 of Inl e \<Rightarrow> Inl e | Inr ids \<Rightarrow> Inr (mid # ids))"
      using Cons.prems(2) it ex by (auto split: prod.splits sum.splits)
    from Cons.IH [OF inv1 rec] eff r show ?thesis by (auto split: sum.splits)
  qed
qed

subsection \<open>Rollback\<close>

lemma rollback_tables [simp]:
  "stock (rollback s0 s) = stock s0" "movements (rollback s0 s) = movements s0"
  "exit_orders (rollback s0 s) = exit_orders s0" "warehouses (rollback s0 s) = warehouses s0"
  "products (rollback s0 s) = products s0" "users (rollback s0 s) = users s0"
  "units (rollback s0 s) = units s0" "clock (rollback s0 s) = clock s0"
  "next_order_id (rollback s0 s) = next_order_id s0"
  "next_stock_id (rollback s0 s) = next_stock_id s"
  "next_movement_id (rollback s0 s) = next_movement_id s"
  by (simp_all add: rollback_def)

lemma ledger_inv_cong:
  "stock s' = stock s \<Longrightarrow> movements s' = movements s \<Longrightarrow> ledger_inv s' = ledger_inv s"
  by (simp add: ledger_inv_def getCurrentStock_def)

lemma engine_inv_rollback:
  assumes "engine_inv s0" "next_stock_id s0 \<le> next_stock_id s" "next_movement_id s0 \<le> next_movement_id s"
  shows "engine_inv (rollback s0 s)"
proof -
  from assms(1) have "stock_wf s0" "movements_wf s0" "ledger_inv s0" by (simp_all add: engine_inv_def)
  with assms(2,3) show ?thesis
    by (auto simp: engine_inv_def stock_wf_def movements_wf_def ledger_inv_cong [of "rollback s0 s" s0])
qed

subsection \<open>The handlers keep the invariant\<close>

lemma stockEntryController_inv:
  assumes "engine_inv s"
  shows "engine_inv (snd (stockEntryController u b s))"
proof (cases "ensureWarehouseWritePermission u (eb_warehouse b) s")
  case (Inl e)
  with assms show ?thesis by (simp add: stockEntryController_def)
next
  case (Inr v)
  with entry_item_inv [OF assms] show ?thesis by (simp add: stockEntryController_def)
qed

lemma stockEntryBatchController_inv:
  assumes "engine_inv s"
  shows "engine_inv (snd (stockEntryBatchController u b s))"
proof -
  have "engine_inv (snd (case entry_items w v d items s of (Inl e, s') \<Rightarrow> (Inl e, rollback s s')
          | (Inr _, s') \<Rightarrow> (Inr (), s')))" for w v d items
  proof (cases "entry_items w v d items s")
    case (Pair r s')
    with entry_items_inv [OF assms Pair] engine_inv_rollback [OF assms] show ?thesis
      by (auto split: sum.splits)
  qed
  with assms show ?thesis
    unfolding stockEntryBatchController_def by (simp split: sum.split)
qed

lemma stockExit_movements_inv:
  assumes "engine_inv s"
  shows "engine_inv (snd (stockExit_movements u b s))"
  using assms exit_items_inv [OF assms] engine_inv_rollback [OF assms]
  unfolding stockExit_movements_def by (auto split: sum.splits prod.splits)

subsection \<open>Runs\<close>

lemma engine_inv_empty_ledger:
  "stock s = [] \<Longrightarrow> movements s = [] \<Longrightarrow> engine_inv s"
  by (simp add: engine_inv_def stock_wf_def movements_wf_def ledger_inv_def)

lemma engine_step_inv:
  "engine_inv s \<Longrightarrow> engine_inv (engine_step s r)"
  by (cases r) (simp_all add: stockEntryController_inv stockEntryBatchController_inv stockExit_movements_inv)

lemma engine_run_inv:
  "engine_inv s \<Longrightarrow> engine_inv (engine_run s rs)"
  by (induction rs arbitrary: s) (simp_all add: engine_step_inv)

end
