(* ===== verification/ExitOrders.thy ===== *)
theory ExitOrders
  imports Engine
begin

text \<open>
  The Exit Order Builder: the second half of \<open>stockExitController\<close>
  (src/Backend/src/controllers/stockController.js, lines 151--201), exitOrderModel.js
  (\<open>createExitOrder\<close>, \<open>listExitOrdersWithDetails\<close>, \<open>findExitOrderById\<close>,
  \<open>saveExitOrderSignature\<close>), exitOrderController.js (\<open>listExitOrdersController\<close>,
  \<open>signExitOrderController\<close>) and the two renderers of services/osService.js. A rendered
  PDF is modelled by the data it shows (number, date, operator, client, items,
  declaration, signature) and the path it is written to; its layout is not modelled. The
  flag \<open>io\<close> says whether the file's write stream finishes; when it does not, the
  renderer rejects. \<open>items_json\<close> is kept as the list it serialises
  (\<open>JSON.stringify\<close> and \<open>JSON.parse\<close> are taken to round-trip). The signing
  handler's outcome is \<open>served\<close>: the Node process answers, or it ends on the
  unhandled rejection of the permission check the handler does not await.
\<close>

section \<open>Rows and documents\<close>

text \<open>A row of the reload query of lines 152--164.\<close>

record exit_row =
  er_id :: nat
  er_quantity :: qty
  er_created_at :: nat
  er_product :: string
  er_warehouse :: string

record os_document =
  doc_number :: nat
  doc_date :: nat
  doc_operator :: "string option"
  doc_client :: string
  doc_client_document :: "string option"
  doc_items :: "order_item list"
  doc_declaration :: string
  doc_signature :: "string option"

text \<open>One row of \<open>findExitOrderById\<close> and \<open>listExitOrdersWithDetails\<close>: \<open>eo.*\<close> joined with the anchor movement, its product and its warehouse.\<close>

record order_details =
  od_order :: exit_order
  od_movement_quantity :: qty
  od_movement_description :: "string option"
  od_movement_created_at :: nat
  od_product :: string
  od_warehouse :: string
  od_warehouse_id :: warehouse_id
  od_warehouse_unit :: "unit_id option"
  od_operator_name :: "string option"
  od_user_name :: "string option"

section \<open>Helpers\<close>

text \<open>The fixed declaration (line 169--170), in UTF-8.\<close>

definition exit_declaration :: string where
  "exit_declaration = ''Declaro que recebi os materiais acima descritos, assumindo total responsabilidade pelo uso e conserva''
     @ [CHR 0xC3, CHR 0xA7, CHR 0xC3, CHR 0xA3] @ ''o, comprometendo-me a devolv'' @ [CHR 0xC3, CHR 0xAA]
     @ ''-los em perfeitas condi'' @ [CHR 0xC3, CHR 0xA7, CHR 0xC3, CHR 0xB5]
     @ ''es ou ressarcir eventuais danos/avarias.''"

text \<open>\<open>OUTPUT_DIR\<close> (osService.js, line 5), relative to the server's working directory.\<close>

definition output_dir :: string where
  "output_dir = ''storage/os-saida''"

definition os_file_name :: "nat \<Rightarrow> string" where
  "os_file_name n = ''OS-SAIDA-'' @ show_nat n @ ''.pdf''"

definition signed_file_name :: "nat \<Rightarrow> string" where
  "signed_file_name n = ''OS-SAIDA-'' @ show_nat n @ ''-assinado.pdf''"

definition row_item :: "exit_row \<Rightarrow> order_item" where
  "row_item r = \<lparr>oi_product = er_product r, oi_quantity = er_quantity r, oi_warehouse = er_warehouse r\<rparr>"

section \<open>Building an order\<close>

text \<open>
  The reload of lines 152--164: the movements of the batch joined with their product and
  warehouse (an inner join drops a movement whose product or warehouse is missing),
  ordered by id.
\<close>

definition load_exit_rows :: "nat list \<Rightarrow> db \<Rightarrow> exit_row list" where
  "load_exit_rows ids s = sort_key er_id (List.map_filter (\<lambda>m.
     if mov_id m \<in> set ids then
       (case (find_product (mov_product m) s, find_warehouse (mov_warehouse m) s) of
          (Some p, Some w) \<Rightarrow> Some \<lparr>er_id = mov_id m, er_quantity = mov_quantity m,
              er_created_at = mov_created_at m, er_product = pr_name p, er_warehouse = wh_name w\<rparr>
        | _ \<Rightarrow> None)
     else None) (movements s))"

text \<open>\<open>generateExitOS\<close> (osService.js, lines 7--213).\<close>

definition generateExitOS :: "bool \<Rightarrow> exit_row list \<Rightarrow> string \<Rightarrow> string option \<Rightarrow> string \<Rightarrow> string \<Rightarrow>
    api_error + string \<times> os_document" where
  "generateExitOS io rows client cdoc decl operator = (case rows of
      [] \<Rightarrow> Inl NoMovementsForOS
    | first # _ \<Rightarrow> if \<not> io then Inl RenderFailed
        else Inr (output_dir @ ''/'' @ os_file_name (er_id first),
          \<lparr>doc_number = er_id first, doc_date = er_created_at first,
           doc_operator = js_truthy (Some operator), doc_client = client,
           doc_client_document = js_truthy cdoc, doc_items = map row_item rows,
           doc_declaration = decl, doc_signature = None\<rparr>))"

text \<open>\<open>createExitOrder\<close> (exitOrderModel.js, lines 3--21); \<open>operator_name\<close> is passed but not inserted.\<close>

definition createExitOrder :: "nat \<Rightarrow> string \<Rightarrow> string option \<Rightarrow> string \<Rightarrow> string \<Rightarrow> order_item list \<Rightarrow>
    db \<Rightarrow> nat \<times> db" where
  "createExitOrder mid client cdoc decl path items s = (let i = next_order_id s in
     (i, s\<lparr>exit_orders := exit_orders s @ [\<lparr>eo_id = i, eo_movement_id = mid, eo_client_name = client,
            eo_client_document = cdoc, eo_declaration = decl, eo_pdf_path = path, eo_items = items,
            eo_signature = None, eo_created_at = clock s\<rparr>],
           next_order_id := Suc i\<rparr>))"

text \<open>
  \<open>stockExitController\<close> (lines 98--210). After the commit of line 149 nothing is in the
  transaction any more: an error of the renderer reaches the \<open>catch\<close>, whose
  \<open>rollback\<close> after a commit changes nothing, so the movements stay and no order is
  written. Answers \<open>firstMovement.id\<close>.
\<close>

definition stockExitController :: "bool \<Rightarrow> principal \<Rightarrow> exit_body \<Rightarrow> db \<Rightarrow> (api_error + nat) \<times> db" where
  "stockExitController io u b s = (case stockExit_movements u b s of
      (Inl e, s1) \<Rightarrow> (Inl e, s1)
    | (Inr ids, s1) \<Rightarrow>
        (let rows = load_exit_rows ids s1; operator = js_or_default (p_name u) ''''
         in case generateExitOS io rows (xb_client_name b) (xb_client_document b) exit_declaration operator of
              Inl e \<Rightarrow> (Inl e, s1)
            | Inr (path, _) \<Rightarrow> (case rows of
                [] \<Rightarrow> (Inl MissingFirstMovement, s1)
              | first # _ \<Rightarrow> (Inr (er_id first),
                  snd (createExitOrder (er_id first) (xb_client_name b) (xb_client_document b)
                         exit_declaration path (map row_item rows) s1)))))"

text \<open>\<open>POST /saida\<close> (stockRoutes.js, line 13).\<close>

definition route_stock_exit :: "bool \<Rightarrow> principal option \<Rightarrow> exit_body \<Rightarrow> db \<Rightarrow> (api_error + nat) \<times> db" where
  "route_stock_exit io u b s = (case requireRole stock_writers u of
      Inl e \<Rightarrow> (Inl e, s)
    | Inr _ \<Rightarrow> (case u of None \<Rightarrow> (Inl Unauthenticated, s) | Some p \<Rightarrow> stockExitController io p b s))"

section \<open>Reading orders\<close>

text \<open>
  The join of lines 41--44 and 70--73 for one order. Neither \<open>eo.*\<close> (the columns of
  \<open>exit_orders\<close>, which \<open>createExitOrder\<close>, lines 3--21, fills) nor the joined tables
  give an \<open>operator_name\<close> or a \<open>user_name\<close>: both fields are absent.
\<close>

definition order_details_of :: "db \<Rightarrow> exit_order \<Rightarrow> order_details option" where
  "order_details_of s ord = (case find (\<lambda>m. mov_id m = eo_movement_id ord) (movements s) of
      None \<Rightarrow> None
    | Some m \<Rightarrow> (case (find_product (mov_product m) s, find_warehouse (mov_warehouse m) s) of
        (Some p, Some w) \<Rightarrow> Some \<lparr>od_order = ord, od_movement_quantity = mov_quantity m,
            od_movement_description = mov_description m, od_movement_created_at = mov_created_at m,
            od_product = pr_name p, od_warehouse = wh_name w, od_warehouse_id = wh_id w,
            od_warehouse_unit = wh_unit w, od_operator_name = None, od_user_name = None\<rparr>
      | _ \<Rightarrow> None))"

text \<open>\<open>findExitOrderById\<close> (lines 59--79).\<close>

definition findExitOrderById :: "nat \<Rightarrow> db \<Rightarrow> order_details option" where
  "findExitOrderById i s = (case find (\<lambda>ord. eo_id ord = i) (exit_orders s) of
      None \<Rightarrow> None
    | Some ord \<Rightarrow> order_details_of s ord)"

text \<open>
  \<open>listExitOrdersWithDetails\<close> (lines 23--57): all rows for the top role, otherwise the
  rows whose warehouse is in the requester's unit; newest first.
\<close>

definition listExitOrdersWithDetails :: "principal option \<Rightarrow> db \<Rightarrow> order_details list" where
  "listExitOrdersWithDetails u s = (let rows = List.map_filter (order_details_of s) (exit_orders s);
     visible = (case u of
         Some p \<Rightarrow> if p_role p = RoleSuperAdmin then rows
                   else filter (\<lambda>r. sql_eq (od_warehouse_unit r) (p_unit p)) rows
       | None \<Rightarrow> filter (\<lambda>r. sql_eq (od_warehouse_unit r) None) rows)
     in rev (sort_key (\<lambda>r. eo_created_at (od_order r)) visible))"

text \<open>\<open>is_signed: !!o.signature_image\<close>: an empty string is not a signature.\<close>

definition is_signed :: "exit_order \<Rightarrow> bool" where
  "is_signed ord = (case eo_signature ord of None \<Rightarrow> False | Some x \<Rightarrow> x \<noteq> [])"

text \<open>
  Paths are relative to the server's working directory and normalised, with \<open>/\<close> as
  separator. \<open>path.relative(from, to)\<close> (POSIX): up from \<open>from\<close> to the common
  prefix, then down to \<open>to\<close>.
\<close>

fun common_len :: "string list \<Rightarrow> string list \<Rightarrow> nat" where
  "common_len (a # as) (b # bs) = (if a = b then Suc (common_len as bs) else 0)"
| "common_len _ _ = 0"

fun join_path :: "string list \<Rightarrow> string" where
  "join_path [] = []"
| "join_path [x] = x"
| "join_path (x # xs) = x @ ''/'' @ join_path xs"

definition path_relative :: "string \<Rightarrow> string \<Rightarrow> string" where
  "path_relative from to = (let f = split_on CHR ''/'' from; t = split_on CHR ''/'' to; k = common_len f t in
     join_path (replicate (length f - k) ''..'' @ drop k t))"

text \<open>\<open>path.join(process.cwd(), "storage")\<close> (exitOrderController.js, line 17).\<close>

definition storage_root :: string where
  "storage_root = ''storage''"

text \<open>
  Lines 20--28: a truthy \<open>pdf_path\<close> becomes \<open>"/files/"\<close> followed by the path relative
  to the storage folder, backslashes turned into slashes.
\<close>

definition pdf_url :: "string \<Rightarrow> string option" where
  "pdf_url path = (if path = [] then None
     else Some (''/files/'' @ map (\<lambda>c. if c = CHR 0x5C then CHR ''/'' else c) (path_relative storage_root path)))"

text \<open>
  \<open>listExitOrdersController\<close> (exitOrderController.js, lines 10--41): each row with its
  \<open>is_signed\<close> flag and its \<open>pdf_url\<close>. The \<open>warehouseFilter\<close> it computes (line 13)
  is never used.
\<close>

definition listExitOrdersController :: "principal option \<Rightarrow> db \<Rightarrow> (order_details \<times> bool \<times> string option) list" where
  "listExitOrdersController u s = map (\<lambda>r. (r, is_signed (od_order r), pdf_url (eo_pdf_path (od_order r))))
     (listExitOrdersWithDetails u s)"

section \<open>Signing\<close>

text \<open>\<open>saveExitOrderSignature\<close> (lines 82--104): \<open>undefined\<close> fields are left out of the \<open>UPDATE\<close>.\<close>

definition saveExitOrderSignature :: "nat \<Rightarrow> string option \<Rightarrow> string option \<Rightarrow> db \<Rightarrow> db" where
  "saveExitOrderSignature i sig path s = (if sig = None \<and> path = None then s
     else s\<lparr>exit_orders := map (\<lambda>ord. if eo_id ord = i then
              ord\<lparr>eo_signature := (case sig of None \<Rightarrow> eo_signature ord | Some x \<Rightarrow> Some x),
                eo_pdf_path := (case path of None \<Rightarrow> eo_pdf_path ord | Some p \<Rightarrow> p)\<rparr>
            else ord) (exit_orders s)\<rparr>)"

text \<open>
  \<open>addSignatureToPdf\<close> (osService.js, lines 217--453): the items are \<open>items_json\<close> when
  it is not empty, else the joined anchor movement; the operator is
  \<open>order.operator_name || order.user_name || ""\<close> (lines 237--240), printed when not
  empty (line 279).
\<close>

definition addSignatureToPdf :: "bool \<Rightarrow> order_details \<Rightarrow> string \<Rightarrow> api_error + string \<times> os_document" where
  "addSignatureToPdf io od sig = (let ord = od_order od in
     if \<not> io then Inl RenderFailed
     else Inr (output_dir @ ''/'' @ signed_file_name (eo_movement_id ord),
       \<lparr>doc_number = eo_movement_id ord,
        doc_date = (if od_movement_created_at od \<noteq> 0 then od_movement_created_at od else eo_created_at ord),
        doc_operator = js_truthy (Some (js_or_default (od_operator_name od)
          (js_or_default (od_user_name od) ''''))),
        doc_client = eo_client_name ord,
        doc_client_document = js_truthy (eo_client_document ord),
        doc_items = (if eo_items ord \<noteq> [] then eo_items ord
                     else [\<lparr>oi_product = od_product od, oi_quantity = od_movement_quantity od,
                            oi_warehouse = od_warehouse od\<rparr>]),
        doc_declaration = js_or_default (Some (eo_declaration ord)) exit_declaration,
        doc_signature = Some sig\<rparr>))"

text \<open>
  What the Node process does with one request: it answers, or it ends (\<open>Crashed\<close>), after
  having sent an answer or not. Under Node 15 and later, a rejected promise that no handler
  awaits raises an uncaught exception once the microtask queue drains, and the process exits.
\<close>

datatype 'a served = Replied 'a | Crashed "'a option"

text \<open>
  When the event loop handles the reply to the permission check's \<open>SELECT unit_id FROM
  warehouses\<close>, relative to the save's \<open>UPDATE\<close>: before the \<open>UPDATE\<close> is sent, after
  it is sent and before its reply, or after its reply (the answer is sent in the same
  continuation as that reply). The two queries race on the pool, so the model takes the
  order as a parameter.
\<close>

datatype gate_timing = GateBeforeSave | GateBeforeReply | GateAfterReply

text \<open>
  The refusals that \<open>ensureWarehouseWritePermission\<close> (stockController.js, lines 45--56)
  throws before its first \<open>await\<close>: the returned promise is already rejected when the
  handler goes on.
\<close>

definition gate_refuses_at_call :: "principal \<Rightarrow> bool" where
  "gate_refuses_at_call u \<longleftrightarrow> p_role u \<noteq> RoleSuperAdmin
     \<and> js_rank_less (ROLE_RANK (p_role u)) (ROLE_RANK RoleSupervisor)"

text \<open>
  \<open>signExitOrderController\<close> (exitOrderController.js, lines 43--73). Line 57 calls the
  asynchronous \<open>ensureWarehouseWritePermission\<close> without \<open>await\<close>, so its refusal is a
  promise nobody handles. A refusal at the call is reported while the handler awaits
  \<open>addSignatureToPdf\<close> (the write stream finishes on a later turn of the event loop):
  the process ends before the save, with no answer. A refusal after the warehouse query
  comes when that query's reply is handled (\<open>gate_timing\<close>). The refusal's 403 is never
  sent; an allowed requester is served as if the check were awaited.
\<close>

definition signExitOrderController :: "bool \<Rightarrow> gate_timing \<Rightarrow> principal \<Rightarrow> nat \<Rightarrow> string option \<Rightarrow> db \<Rightarrow>
    (api_error + unit) served \<times> db" where
  "signExitOrderController io t u i sig s = (case sig of
      None \<Rightarrow> (Replied (Inl SignatureRequired), s)
    | Some dataUrl \<Rightarrow> if dataUrl = [] then (Replied (Inl SignatureRequired), s)
        else (case findExitOrderById i s of
          None \<Rightarrow> (Replied (Inl OrderNotFound), s)
        | Some od \<Rightarrow> (let gate = ensureWarehouseWritePermission u (od_warehouse_id od) s;
            (r, s') = (case addSignatureToPdf io od dataUrl of
              Inl e \<Rightarrow> (Inl e, s)
            | Inr (path, _) \<Rightarrow> (Inr (), saveExitOrderSignature (eo_id (od_order od)) (Some dataUrl) (Some path) s))
          in case gate of
            Inr _ \<Rightarrow> (Replied r, s')
          | Inl _ \<Rightarrow> if gate_refuses_at_call u then (Crashed None, s)
              else (case t of
                GateBeforeSave \<Rightarrow> (Crashed None, s)
              | GateBeforeReply \<Rightarrow> (Crashed None, s')
              | GateAfterReply \<Rightarrow> (Crashed (Some r), s')))))"

section \<open>Lemmas\<close>

subsection \<open>The order built after a committed exit\<close>

lemma exit_items_Inr:
  assumes "stock_wf s" "exit_items w u d items s = (Inr ids, s')"
  shows "\<exists>ms. movements s' = movements s @ ms \<and> ids = map mov_id ms
    \<and> map mov_id ms = [next_movement_id s..<next_movement_id s + length items]
    \<and> next_movement_id s' = next_movement_id s + length items
    \<and> map (\<lambda>m. (mov_product m, mov_quantity m)) ms = items \<and> (\<forall>m\<in>set ms. mov_warehouse m = w)
    \<and> exit_orders s' = exit_orders s \<and> warehouses s' = warehouses s \<and> products s' = products s
    \<and> next_order_id s' = next_order_id s \<and> clock s' = clock s"
  using assms
proof (induction items arbitrary: s ids)
  case Nil
  then show ?case by simp
next
  case (Cons it items)
  obtain p q where it: "it = (p, q)" by fastforce
  obtain mid s1 where ex: "exit_item p w u q d s = Inr (mid, s1)"
    using Cons.prems(2) by (auto simp: it split: sum.splits prod.splits)
  obtain ids' where rest: "exit_items w u d items s1 = (Inr ids', s')" and ids: "ids = mid # ids'"
    using Cons.prems(2) by (auto simp: it ex split: sum.splits prod.splits)
  obtain m where e: "movements s1 = movements s @ [m]" "mov_id m = next_movement_id s"
    "mov_product m = p" "mov_warehouse m = w" "mov_quantity m = q"
    "stock_wf s1" "next_movement_id s1 = Suc (next_movement_id s)" "mid = next_movement_id s"
    "exit_orders s1 = exit_orders s" "warehouses s1 = warehouses s" "products s1 = products s"
    "next_order_id s1 = next_order_id s" "clock s1 = clock s"
    using exit_item_shape [OF Cons.prems(1) ex] by blast
  obtain ms where ih: "movements s' = movements s1 @ ms" "ids' = map mov_id ms"
    "map mov_id ms = [next_movement_id s1..<next_movement_id s1 + length items]"
    "next_movement_id s' = next_movement_id s1 + length items"
    "map (\<lambda>m. (mov_product m, mov_quantity m)) ms = items" "\<forall>m\<in>set ms. mov_warehouse m = w"
    "exit_orders s' = exit_orders s1" "warehouses s' = warehouses s1" "products s' = products s1"
    "next_order_id s' = next_order_id s1" "clock s' = clock s1"
    using Cons.IH [OF e(6) rest] by blast
  show ?case
    by (rule exI [where x = "m # ms"]) (simp add: ih e ids it upt_conv_Cons del: upt_Suc)
qed

lemma load_exit_rows_new:
  assumes mv: "movements s = old @ ms" and ids: "ids = map mov_id ms"
    and old: "\<forall>m\<in>set old. mov_id m \<notin> set ids" and srt: "sorted (map mov_id ms)"
    and ref: "\<forall>m\<in>set ms. find_product (mov_product m) s \<noteq> None \<and> find_warehouse (mov_warehouse m) s \<noteq> None"
  shows "load_exit_rows ids s = map (\<lambda>m. \<lparr>er_id = mov_id m, er_quantity = mov_quantity m,
      er_created_at = mov_created_at m, er_product = pr_name (the (find_product (mov_product m) s)),
      er_warehouse = wh_name (the (find_warehouse (mov_warehouse m) s))\<rparr>) ms"
    (is "_ = map ?row ms")
proof -
  let ?f = "\<lambda>m. if mov_id m \<in> set ids then
       (case (find_product (mov_product m) s, find_warehouse (mov_warehouse m) s) of
          (Some p, Some w) \<Rightarrow> Some \<lparr>er_id = mov_id m, er_quantity = mov_quantity m,
              er_created_at = mov_created_at m, er_product = pr_name p, er_warehouse = wh_name w\<rparr>
        | _ \<Rightarrow> None)
     else None"
  have "List.map_filter ?f old = []"
    by (rule map_filter_none) (use old in auto)
  moreover have "List.map_filter ?f ms = map ?row ms"
    by (rule map_filter_all) (use ids ref in auto)
  moreover have "sort_key er_id (map ?row ms) = map ?row ms"
    by (rule sort_key_id_if_sorted) (simp add: o_def srt)
  ultimately show ?thesis
    by (simp add: load_exit_rows_def mv)
qed

lemma stockExit_movements_Inr:
  "stockExit_movements u b s = (Inr ids, s1) \<Longrightarrow> xb_items b \<noteq> []
     \<and> ensureWarehouseWritePermission u (xb_warehouse b) s = Inr ()
     \<and> exit_items (xb_warehouse b) (Some (p_id u)) (xb_description b) (xb_items b) s = (Inr ids, s1)"
  by (auto simp: stockExit_movements_def split: if_splits sum.splits prod.splits)

text \<open>The rows reloaded after a committed batch are its movements, in input order.\<close>

lemma exit_rows_of_batch:
  assumes inv: "engine_inv s" and wh: "find_warehouse (xb_warehouse b) s = Some wh"
    and prods: "\<forall>(p, q)\<in>set (xb_items b). find_product p s \<noteq> None"
    and mv: "stockExit_movements u b s = (Inr ids, s1)"
  shows "load_exit_rows ids s1 \<noteq> [] \<and> er_id (hd (load_exit_rows ids s1)) = next_movement_id s
    \<and> map row_item (load_exit_rows ids s1) = map (\<lambda>(p, q). \<lparr>oi_product = pr_name (the (find_product p s)),
        oi_quantity = q, oi_warehouse = wh_name wh\<rparr>) (xb_items b)
    \<and> length (movements s1) = length (movements s) + length (xb_items b)
    \<and> exit_orders s1 = exit_orders s \<and> next_order_id s1 = next_order_id s \<and> clock s1 = clock s"
proof -
  note m = stockExit_movements_Inr [OF mv]
  from inv have wf: "stock_wf s" "movements_wf s" by (simp_all add: engine_inv_def)
  obtain ms where e: "movements s1 = movements s @ ms" "ids = map mov_id ms"
    "map mov_id ms = [next_movement_id s..<next_movement_id s + length (xb_items b)]"
    "map (\<lambda>m. (mov_product m, mov_quantity m)) ms = xb_items b"
    "\<forall>m\<in>set ms. mov_warehouse m = xb_warehouse b"
    "exit_orders s1 = exit_orders s" "warehouses s1 = warehouses s" "products s1 = products s"
    "next_order_id s1 = next_order_id s" "clock s1 = clock s"
    using exit_items_Inr [OF wf(1) conjunct2 [OF conjunct2 [OF m]]] by blast
  have fp: "find_product p s1 = find_product p s" "find_warehouse w s1 = find_warehouse w s" for p w
    by (simp_all add: find_product_def find_warehouse_def e)
  have old: "\<forall>m\<in>set (movements s). mov_id m \<notin> set ids"
    using wf(2) by (auto simp: movements_wf_def e(2,3))
  have pm: "mov_product m \<in> fst ` set (xb_items b)" if "m \<in> set ms" for m
    using that e(4) by (metis (no_types, lifting) image_eqI list.set_map fst_conv)
  have ref: "\<forall>m\<in>set ms. find_product (mov_product m) s1 \<noteq> None \<and> find_warehouse (mov_warehouse m) s1 \<noteq> None"
    using prods wh e(5) pm by (fastforce simp: fp)
  have rows: "load_exit_rows ids s1 = map (\<lambda>m. \<lparr>er_id = mov_id m, er_quantity = mov_quantity m,
      er_created_at = mov_created_at m, er_product = pr_name (the (find_product (mov_product m) s)),
      er_warehouse = wh_name wh\<rparr>) ms"
    using load_exit_rows_new [OF e(1,2) old _ ref] e(3,5) by (simp add: fp wh)
  have ne: "ms \<noteq> []" using e(4) m by auto
  have hd: "mov_id (hd ms) = next_movement_id s"
    using e(3) ne by (metis hd_map list.map_disc_iff upt_eq_Cons_conv list.exhaust_sel)
  have items: "map row_item (load_exit_rows ids s1) = map (\<lambda>(p, q). \<lparr>oi_product = pr_name (the (find_product p s)),
        oi_quantity = q, oi_warehouse = wh_name wh\<rparr>) (xb_items b)"
    unfolding rows e(4) [symmetric] by (simp add: row_item_def)
  have len: "length ms = length (xb_items b)" using e(4) by (metis length_map)
  show ?thesis using rows ne hd items len e by (simp add: hd_map)
qed

lemma stockExitController_Inr:
  "stockExitController io u b s = (Inr n, s') \<Longrightarrow> \<exists>ids s1. stockExit_movements u b s = (Inr ids, s1)"
  by (auto simp: stockExitController_def split: sum.splits prod.splits)

text \<open>
  Once the movements are committed, the handler's outcome depends only on the renderer:
  with the file written, one order anchored at the batch's first movement; without it,
  the error, the movements kept and no order.
\<close>

lemma stockExitController_after_commit:
  assumes inv: "engine_inv s" and wh: "find_warehouse (xb_warehouse b) s = Some wh"
    and prods: "\<forall>(p, q)\<in>set (xb_items b). find_product p s \<noteq> None"
    and mv: "stockExit_movements u b s = (Inr ids, s1)"
  shows "stockExitController io u b s = (if io
      then (Inr (next_movement_id s), snd (createExitOrder (next_movement_id s) (xb_client_name b)
        (xb_client_document b) exit_declaration (output_dir @ ''/'' @ os_file_name (next_movement_id s))
        (map (\<lambda>(p, q). \<lparr>oi_product = pr_name (the (find_product p s)), oi_quantity = q,
           oi_warehouse = wh_name wh\<rparr>) (xb_items b)) s1))
      else (Inl RenderFailed, s1))"
proof -
  note r = exit_rows_of_batch [OF inv wh prods mv]
  obtain first rest where rows: "load_exit_rows ids s1 = first # rest"
    using r by (cases "load_exit_rows ids s1") auto
  have first: "er_id first = next_movement_id s" using r by (simp add: rows)
  show ?thesis
    using r by (simp add: stockExitController_def mv rows first generateExitOS_def Let_def
                     del: list.map)
qed

subsection \<open>Signing\<close>

lemma findExitOrderById_Some:
  "findExitOrderById i s = Some od \<Longrightarrow>
     \<exists>ord. find (\<lambda>ord. eo_id ord = i) (exit_orders s) = Some ord \<and> order_details_of s ord = Some od"
  by (auto simp: findExitOrderById_def split: option.splits)

lemma order_details_of_order:
  "order_details_of s ord = Some od \<Longrightarrow> od_order od = ord"
  by (auto simp: order_details_of_def split: option.splits)

lemma order_details_of_update:
  "eo_movement_id ord' = eo_movement_id ord \<Longrightarrow> movements s' = movements s \<Longrightarrow>
   products s' = products s \<Longrightarrow> warehouses s' = warehouses s \<Longrightarrow>
   order_details_of s' ord' = map_option (\<lambda>od. od\<lparr>od_order := ord'\<rparr>) (order_details_of s ord)"
  by (simp add: order_details_of_def find_product_def find_warehouse_def split: option.split)

lemma saveExitOrderSignature_frame [simp]:
  "movements (saveExitOrderSignature i sig path s) = movements s"
  "products (saveExitOrderSignature i sig path s) = products s"
  "warehouses (saveExitOrderSignature i sig path s) = warehouses s"
  by (simp_all add: saveExitOrderSignature_def)

lemma saveExitOrderSignature_twice:
  "saveExitOrderSignature i (Some b) (Some p2) (saveExitOrderSignature i (Some a) (Some p1) s) =
   saveExitOrderSignature i (Some b) (Some p2) s"
  by (simp add: saveExitOrderSignature_def comp_def)

lemma saveExitOrderSignature_Some:
  "saveExitOrderSignature i (Some a) (Some p) s = s\<lparr>exit_orders := map (\<lambda>ord. if eo_id ord = i
     then ord\<lparr>eo_signature := Some a, eo_pdf_path := p\<rparr> else ord) (exit_orders s)\<rparr>"
  by (simp add: saveExitOrderSignature_def)

lemma findExitOrderById_save:
  assumes "findExitOrderById i s = Some od"
  shows "findExitOrderById i (saveExitOrderSignature i (Some a) (Some p) s) =
    Some (od\<lparr>od_order := (od_order od)\<lparr>eo_signature := Some a, eo_pdf_path := p\<rparr>\<rparr>)"
proof -
  obtain ord where f: "find (\<lambda>ord. eo_id ord = i) (exit_orders s) = Some ord"
    and d: "order_details_of s ord = Some od"
    using findExitOrderById_Some [OF assms] by blast
  let ?upd = "\<lambda>ord. if eo_id ord = i then ord\<lparr>eo_signature := Some a, eo_pdf_path := p\<rparr> else ord"
  have "find (\<lambda>ord. eo_id ord = i) (map ?upd (exit_orders s)) =
      map_option ?upd (find (\<lambda>ord. eo_id ord = i) (exit_orders s))"
    by (rule find_map_id) simp
  also have "\<dots> = Some (?upd ord)" by (simp only: f option.map)
  finally have "find (\<lambda>ord. eo_id ord = i) (map ?upd (exit_orders s)) = Some (?upd ord)" .
  moreover have "eo_id ord = i" using find_Some_props [OF f] by simp
  moreover have "order_details_of (saveExitOrderSignature i (Some a) (Some p) s) (?upd ord) =
      Some (od\<lparr>od_order := (od_order od)\<lparr>eo_signature := Some a, eo_pdf_path := p\<rparr>\<rparr>)"
    using order_details_of_update [of "?upd ord" ord "saveExitOrderSignature i (Some a) (Some p) s" s] d
      order_details_of_order [OF d] \<open>eo_id ord = i\<close> by simp
  ultimately show ?thesis
    by (simp add: findExitOrderById_def saveExitOrderSignature_Some)
qed

lemma findExitOrderById_id:
  "findExitOrderById i s = Some od \<Longrightarrow> eo_id (od_order od) = i"
  using findExitOrderById_Some order_details_of_order find_Some_props by fastforce

text \<open>A non-empty signature of a known order, by a requester the check allows, is rendered, stored and answered.\<close>

lemma signExitOrderController_eq:
  "sig \<noteq> [] \<Longrightarrow> findExitOrderById i s = Some od \<Longrightarrow>
   ensureWarehouseWritePermission u (od_warehouse_id od) s = Inr () \<Longrightarrow>
   signExitOrderController True t u i (Some sig) s = (Replied (Inr ()), saveExitOrderSignature i (Some sig)
     (Some (output_dir @ ''/'' @ signed_file_name (eo_movement_id (od_order od)))) s)"
  by (simp add: signExitOrderController_def addSignatureToPdf_def Let_def findExitOrderById_id)

text \<open>Saving a signature leaves the warehouses, so the permission check answers as before.\<close>

lemma ensureWarehouseWritePermission_save [simp]:
  "ensureWarehouseWritePermission u w (saveExitOrderSignature i a p s) = ensureWarehouseWritePermission u w s"
  by (simp add: ensureWarehouseWritePermission_def find_warehouse_def saveExitOrderSignature_def)

text \<open>A refused requester: the process ends, and what is stored and answered depends on the timing.\<close>

lemma signExitOrderController_refused:
  assumes "sig \<noteq> []" "findExitOrderById i s = Some od"
    "ensureWarehouseWritePermission u (od_warehouse_id od) s = Inl e"
  shows "signExitOrderController io t u i (Some sig) s =
    (let (r, s') = (case addSignatureToPdf io od sig of
              Inl e \<Rightarrow> (Inl e, s)
            | Inr (path, _) \<Rightarrow> (Inr (), saveExitOrderSignature i (Some sig) (Some path) s))
     in if gate_refuses_at_call u then (Crashed None, s)
        else (case t of GateBeforeSave \<Rightarrow> (Crashed None, s) | GateBeforeReply \<Rightarrow> (Crashed None, s')
              | GateAfterReply \<Rightarrow> (Crashed (Some r), s')))"
  using assms findExitOrderById_id [OF assms(2)]
  by (simp add: signExitOrderController_def Let_def split: sum.splits prod.splits)

lemma saveExitOrderSignature_stored:
  "ord \<in> set (exit_orders (saveExitOrderSignature i (Some sig) path s)) \<Longrightarrow> eo_id ord = i \<Longrightarrow>
   eo_signature ord = Some sig"
proof -
  assume o: "ord \<in> set (exit_orders (saveExitOrderSignature i (Some sig) path s))" and i: "eo_id ord = i"
  obtain x where "x \<in> set (exit_orders s)" and x: "ord = (if eo_id x = i then
      x\<lparr>eo_signature := Some sig, eo_pdf_path := (case path of None \<Rightarrow> eo_pdf_path x | Some p \<Rightarrow> p)\<rparr>
      else x)"
    using o by (auto simp: saveExitOrderSignature_def)
  show ?thesis
  proof (cases "eo_id x = i")
    case True then show ?thesis by (simp add: x)
  next
    case False then show ?thesis using i x by simp
  qed
qed

subsection \<open>Listing\<close>

lemma listExitOrdersWithDetails_set:
  "r \<in> set (listExitOrdersWithDetails u s) \<longleftrightarrow>
     r \<in> set (List.map_filter (order_details_of s) (exit_orders s))
     \<and> (case u of None \<Rightarrow> False
        | Some p \<Rightarrow> p_role p = RoleSuperAdmin \<or> (\<exists>k. p_unit p = Some k \<and> od_warehouse_unit r = Some k))"
  by (auto simp: listExitOrdersWithDetails_def Let_def sql_eq_iff split: option.splits)

lemma listExitOrdersWithDetails_sorted:
  "sorted (rev (map (\<lambda>r. eo_created_at (od_order r)) (listExitOrdersWithDetails u s)))"
  by (simp add: listExitOrdersWithDetails_def Let_def rev_map [symmetric] sorted_sort_key)

end
