(* ===== verification/Reports.thy ===== *)
theory Reports
  imports Engine "HOL-Library.List_Lexorder" "HOL-Library.Char_ord" "HOL-Library.Product_Lexorder"
begin

text \<open>
  The Reporting Views: \<open>listStockReport\<close> and \<open>listMovementReport\<close>
  (src/Backend/src/models/movementModel.js, lines 33--140) and the two controllers of
  reportController.js that call them with the token's user and no warehouse. A query is
  a function of the database: its inner joins drop a row whose product or warehouse is
  missing, its left joins give \<open>None\<close>, its \<open>WHERE\<close> clauses are filters built the way
  the code builds them, and \<open>ORDER BY\<close> is a stable sort on the same keys (strings in
  code-point order; rows with equal keys, whose order SQL leaves open, keep table
  order). The stock report is built as the query runs: the joined and filtered stock rows,
  each with the sum of its pair's entry quantities (\<open>stock_report_rows\<close>), then the
  \<open>GROUP BY\<close> (\<open>group_stock_rows\<close>), which merges rows that agree on warehouse,
  product and quantity and adds their sums. Only when the stock table has at most one
  row per pair (\<open>stock_wf\<close>) is there one group per stock row.
\<close>

section \<open>The stock report\<close>

record stock_report_row =
  rp_warehouse_id :: warehouse_id
  rp_warehouse :: string
  rp_product_id :: product_id
  rp_product :: string
  rp_product_unit :: "string option"
  rp_current_quantity :: qty
  rp_total_entries :: qty

text \<open>\<open>COALESCE(SUM(CASE WHEN m.type = 'ENTRADA' THEN m.quantity ELSE 0 END), 0)\<close> over the pair's movements (lines 47--55).\<close>

definition total_entries :: "product_id \<Rightarrow> warehouse_id \<Rightarrow> db \<Rightarrow> qty" where
  "total_entries p w s = sum_list (map (\<lambda>m. if mov_type m = ENTRADA then mov_quantity m else 0)
     (filter (\<lambda>m. mov_product m = p \<and> mov_warehouse m = w) (movements s)))"

text \<open>
  The rows of \<open>listStockReport\<close> (lines 33--85) before grouping: \<open>stock s\<close> joined
  with its product and warehouse; \<open>if (warehouseId)\<close> adds the warehouse filter, and a
  requester other than the top role adds \<open>w.unit_id = ?\<close> with its (nullable) unit. The
  left join with the pair's movements contributes the \<open>SUM\<close> of one stock row.
\<close>

definition stock_report_rows :: "principal option \<Rightarrow> warehouse_id option \<Rightarrow> db \<Rightarrow> stock_report_row list" where
  "stock_report_rows u wid s = List.map_filter (\<lambda>st.
     case (find_product (st_product st) s, find_warehouse (st_warehouse st) s) of
       (Some p, Some w) \<Rightarrow>
         if (case js_or_null wid of None \<Rightarrow> True | Some x \<Rightarrow> st_warehouse st = x)
            \<and> (case u of None \<Rightarrow> True
               | Some q \<Rightarrow> p_role q = RoleSuperAdmin \<or> sql_eq (wh_unit w) (p_unit q))
         then Some \<lparr>rp_warehouse_id = wh_id w, rp_warehouse = wh_name w, rp_product_id = pr_id p,
           rp_product = pr_name p, rp_product_unit = pr_unit p, rp_current_quantity = st_quantity st,
           rp_total_entries = total_entries (st_product st) (st_warehouse st) s\<rparr>
         else None
     | _ \<Rightarrow> None) (stock s)"

text \<open>The columns of \<open>GROUP BY w.id, w.name, p.id, p.name, p.unit, s.quantity\<close> (lines 76--80).\<close>

definition stock_group_key :: "stock_report_row \<Rightarrow> warehouse_id \<times> string \<times> product_id \<times> string \<times> string option \<times> qty" where
  "stock_group_key r = (rp_warehouse_id r, rp_warehouse r, rp_product_id r, rp_product r,
     rp_product_unit r, rp_current_quantity r)"

text \<open>
  The grouping: the first row of each group stands for it, with the sums of all its rows
  added up (\<open>SUM\<close> runs over every joined row of the group).
\<close>

function group_stock_rows :: "stock_report_row list \<Rightarrow> stock_report_row list" where
  "group_stock_rows [] = []"
| "group_stock_rows (r # rs) =
     r\<lparr>rp_total_entries := rp_total_entries r
        + sum_list (map rp_total_entries (filter (\<lambda>r'. stock_group_key r' = stock_group_key r) rs))\<rparr>
     # group_stock_rows (filter (\<lambda>r'. stock_group_key r' \<noteq> stock_group_key r) rs)"
  by pat_completeness auto
termination
  by (relation "measure length") (auto simp: le_imp_less_Suc length_filter_le)

text \<open>\<open>ORDER BY w.name, p.name\<close>.\<close>

definition listStockReport :: "principal option \<Rightarrow> warehouse_id option \<Rightarrow> db \<Rightarrow> stock_report_row list" where
  "listStockReport u wid s = sort_key (\<lambda>r. (rp_warehouse r, rp_product r))
     (group_stock_rows (stock_report_rows u wid s))"

text \<open>\<open>stockReportController\<close> (reportController.js, lines 6--16).\<close>

definition stockReportController :: "principal \<Rightarrow> db \<Rightarrow> stock_report_row list" where
  "stockReportController u s = listStockReport (Some u) None s"

section \<open>The movement report\<close>

record movement_report_row =
  rm_id :: nat
  rm_created_at :: nat
  rm_type :: movement_type
  rm_quantity :: qty
  rm_previous :: qty
  rm_new :: qty
  rm_description :: "string option"
  rm_product :: string
  rm_product_unit :: "string option"
  rm_warehouse :: string
  rm_user_id :: "user_id option"
  rm_user_name :: "string option"

definition find_user :: "user_id \<Rightarrow> db \<Rightarrow> user_row option" where
  "find_user i s = find (\<lambda>r. u_id r = i) (users s)"

text \<open>
  The \<open>WHERE\<close> of \<open>listMovementReport\<close> (lines 114--130): a warehouse id wins; else the top
  role sees everything, admin and supervisor their unit, and any other role the
  movements it made itself.
\<close>

definition movement_visible :: "principal option \<Rightarrow> warehouse_id option \<Rightarrow> warehouse \<Rightarrow> movement \<Rightarrow> bool" where
  "movement_visible u wid w m = (case js_or_null wid of
      Some x \<Rightarrow> mov_warehouse m = x
    | None \<Rightarrow> (case u of
        None \<Rightarrow> True
      | Some q \<Rightarrow> if p_role q = RoleSuperAdmin then True
          else if p_role q = RoleAdmin \<or> p_role q = RoleSupervisor then sql_eq (wh_unit w) (p_unit q)
          else sql_eq (mov_user m) (Some (p_id q))))"

text \<open>\<open>listMovementReport\<close> (lines 87--140), newest first.\<close>

definition listMovementReport :: "principal option \<Rightarrow> warehouse_id option \<Rightarrow> db \<Rightarrow> movement_report_row list" where
  "listMovementReport u wid s = rev (sort_key rm_created_at (List.map_filter (\<lambda>m.
     case (find_product (mov_product m) s, find_warehouse (mov_warehouse m) s) of
       (Some p, Some w) \<Rightarrow>
         if movement_visible u wid w m
         then Some \<lparr>rm_id = mov_id m, rm_created_at = mov_created_at m, rm_type = mov_type m,
           rm_quantity = mov_quantity m, rm_previous = mov_previous m, rm_new = mov_new m,
           rm_description = mov_description m, rm_product = pr_name p, rm_product_unit = pr_unit p,
           rm_warehouse = wh_name w, rm_user_id = mov_user m,
           rm_user_name = Option.bind (Option.bind (mov_user m) (\<lambda>i. find_user i s)) u_name\<rparr>
         else None
     | _ \<Rightarrow> None) (movements s)))"

text \<open>\<open>movementReportController\<close> (reportController.js, lines 18--28).\<close>

definition movementReportController :: "principal \<Rightarrow> db \<Rightarrow> movement_report_row list" where
  "movementReportController u s = listMovementReport (Some u) None s"

section \<open>Lemmas\<close>

lemma total_entries_pair:
  "total_entries p w s = sum_list (map mov_quantity (filter (\<lambda>m. mov_type m = ENTRADA) (pair_movs p w (movements s))))"
  by (simp add: total_entries_def pair_movs_def sum_list_map_if_filter)

text \<open>Keys that a partial map preserves stay distinct.\<close>

lemma distinct_map_filter_keys:
  assumes "\<And>x y. f x = Some y \<Longrightarrow> g y = h x" "distinct (map h xs)"
  shows "distinct (map g (List.map_filter f xs))"
  using assms(2)
proof (induction xs)
  case (Cons x xs)
  have "g ` set (List.map_filter f xs) \<subseteq> h ` set xs"
    by (auto simp: map_filter_mem dest!: assms(1))
  with Cons show ?case by (auto simp: map_filter_simps assms(1) split: option.splits)
qed (simp add: map_filter_simps)

text \<open>With distinct keys every group has one row, and grouping changes nothing.\<close>

lemma group_stock_rows_distinct:
  "distinct (map stock_group_key rs) \<Longrightarrow> group_stock_rows rs = rs"
proof (induction rs rule: group_stock_rows.induct)
  case (2 r rs)
  then have "filter (\<lambda>r'. stock_group_key r' = stock_group_key r) rs = []"
    "filter (\<lambda>r'. stock_group_key r' \<noteq> stock_group_key r) rs = rs"
    by (auto simp: filter_empty_conv filter_id_conv image_iff)
  with 2 show ?case by simp
qed simp

text \<open>Under \<open>stock_wf\<close> the rows before grouping have distinct keys.\<close>

lemma stock_report_rows_keys:
  assumes "stock_wf s"
  shows "distinct (map stock_group_key (stock_report_rows u wid s))"
proof -
  let ?f = "\<lambda>st. case (find_product (st_product st) s, find_warehouse (st_warehouse st) s) of
       (Some p, Some w) \<Rightarrow>
         if (case js_or_null wid of None \<Rightarrow> True | Some x \<Rightarrow> st_warehouse st = x)
            \<and> (case u of None \<Rightarrow> True
               | Some q \<Rightarrow> p_role q = RoleSuperAdmin \<or> sql_eq (wh_unit w) (p_unit q))
         then Some \<lparr>rp_warehouse_id = wh_id w, rp_warehouse = wh_name w, rp_product_id = pr_id p,
           rp_product = pr_name p, rp_product_unit = pr_unit p, rp_current_quantity = st_quantity st,
           rp_total_entries = total_entries (st_product st) (st_warehouse st) s\<rparr>
         else None
     | _ \<Rightarrow> None"
  have ids: "(rp_product_id y, rp_warehouse_id y) = (st_product st, st_warehouse st)" if "?f st = Some y" for st y
  proof -
    from that obtain p w where p: "find_product (st_product st) s = Some p"
      and w: "find_warehouse (st_warehouse st) s = Some w"
      by (auto split: option.splits)
    have "pr_id p = st_product st" "wh_id w = st_warehouse st"
      using find_Some_props [OF p [unfolded find_product_def]]
        find_Some_props [OF w [unfolded find_warehouse_def]] by simp_all
    with that show ?thesis by (auto simp: p w split: if_splits)
  qed
  have d: "distinct (map (\<lambda>r. (st_product r, st_warehouse r)) (stock s))"
    using assms unfolding stock_wf_def by (elim conjE)
  have eq: "map (\<lambda>y. (rp_product_id y, rp_warehouse_id y)) ys
      = map (\<lambda>(w, _, p, _). (p, w)) (map stock_group_key ys)" for ys
    by (simp add: stock_group_key_def)
  have "distinct (map (\<lambda>y. (rp_product_id y, rp_warehouse_id y)) (List.map_filter ?f (stock s)))"
    by (rule distinct_map_filter_keys [of ?f "\<lambda>y. (rp_product_id y, rp_warehouse_id y)"
        "\<lambda>r. (st_product r, st_warehouse r)", OF _ d]) (erule ids)
  then have "distinct (map (\<lambda>(w, _, p, _). (p, w)) (map stock_group_key (List.map_filter ?f (stock s))))"
    by (simp only: eq)
  then show ?thesis
    unfolding stock_report_rows_def by (rule distinct_map [THEN iffD1, THEN conjunct1])
qed

text \<open>Every row before grouping comes from one stock row, in the requester's scope.\<close>

lemma stock_report_rows_row:
  assumes "r \<in> set (stock_report_rows u wid s)"
  shows "\<exists>st\<in>set (stock s). \<exists>w. find_warehouse (st_warehouse st) s = Some w
    \<and> rp_product_id r = st_product st \<and> rp_warehouse_id r = st_warehouse st
    \<and> rp_current_quantity r = st_quantity st
    \<and> rp_total_entries r = total_entries (st_product st) (st_warehouse st) s
    \<and> (case u of None \<Rightarrow> True | Some q \<Rightarrow> p_role q = RoleSuperAdmin \<or> sql_eq (wh_unit w) (p_unit q))"
proof -
  from assms obtain st where st: "st \<in> set (stock s)" and f: "(case (find_product (st_product st) s,
      find_warehouse (st_warehouse st) s) of
       (Some p, Some w) \<Rightarrow>
         if (case js_or_null wid of None \<Rightarrow> True | Some x \<Rightarrow> st_warehouse st = x)
            \<and> (case u of None \<Rightarrow> True
               | Some q \<Rightarrow> p_role q = RoleSuperAdmin \<or> sql_eq (wh_unit w) (p_unit q))
         then Some \<lparr>rp_warehouse_id = wh_id w, rp_warehouse = wh_name w, rp_product_id = pr_id p,
           rp_product = pr_name p, rp_product_unit = pr_unit p, rp_current_quantity = st_quantity st,
           rp_total_entries = total_entries (st_product st) (st_warehouse st) s\<rparr>
         else None
     | _ \<Rightarrow> None) = Some r"
    by (auto simp: stock_report_rows_def map_filter_mem)
  then obtain p w where p: "find_product (st_product st) s = Some p"
    and w: "find_warehouse (st_warehouse st) s = Some w"
    by (auto split: option.splits)
  have ids: "pr_id p = st_product st" "wh_id w = st_warehouse st"
    using find_Some_props [OF p [unfolded find_product_def]]
      find_Some_props [OF w [unfolded find_warehouse_def]] by simp_all
  show ?thesis
    by (intro bexI [OF _ st] exI [of _ w]) (use f ids in \<open>auto simp: p w split: if_splits\<close>)
qed

text \<open>
  Every row of the stock report comes from one stock row, in the requester's scope, when the
  stock table has one row per pair.
\<close>

lemma listStockReport_row:
  assumes "stock_wf s" "r \<in> set (listStockReport u wid s)"
  shows "\<exists>st\<in>set (stock s). \<exists>w. find_warehouse (st_warehouse st) s = Some w
    \<and> rp_product_id r = st_product st \<and> rp_warehouse_id r = st_warehouse st
    \<and> rp_current_quantity r = st_quantity st
    \<and> rp_total_entries r = total_entries (st_product st) (st_warehouse st) s
    \<and> (case u of None \<Rightarrow> True | Some q \<Rightarrow> p_role q = RoleSuperAdmin \<or> sql_eq (wh_unit w) (p_unit q))"
  using assms(2) group_stock_rows_distinct [OF stock_report_rows_keys [OF assms(1)]]
  by (intro stock_report_rows_row) (simp add: listStockReport_def)

text \<open>Every row of the movement report comes from one movement the requester may see.\<close>

lemma listMovementReport_row:
  assumes "r \<in> set (listMovementReport u wid s)"
  shows "\<exists>m\<in>set (movements s). \<exists>w. find_warehouse (mov_warehouse m) s = Some w
    \<and> movement_visible u wid w m \<and> rm_id r = mov_id m \<and> rm_user_id r = mov_user m
    \<and> rm_created_at r = mov_created_at m"
proof -
  from assms obtain m where m: "m \<in> set (movements s)" and f: "(case (find_product (mov_product m) s,
      find_warehouse (mov_warehouse m) s) of
       (Some p, Some w) \<Rightarrow>
         if movement_visible u wid w m
         then Some \<lparr>rm_id = mov_id m, rm_created_at = mov_created_at m, rm_type = mov_type m,
           rm_quantity = mov_quantity m, rm_previous = mov_previous m, rm_new = mov_new m,
           rm_description = mov_description m, rm_product = pr_name p, rm_product_unit = pr_unit p,
           rm_warehouse = wh_name w, rm_user_id = mov_user m,
           rm_user_name = Option.bind (Option.bind (mov_user m) (\<lambda>i. find_user i s)) u_name\<rparr>
         else None
     | _ \<Rightarrow> None) = Some r"
    by (auto simp: listMovementReport_def map_filter_mem)
  then obtain w where w: "find_warehouse (mov_warehouse m) s = Some w"
    by (auto split: option.splits)
  show ?thesis
    by (intro bexI [OF _ m] exI [of _ w]) (use f in \<open>auto simp: w split: option.splits if_splits\<close>)
qed

lemma listMovementReport_sorted:
  "sorted (rev (map rm_created_at (listMovementReport u wid s)))"
  by (simp add: listMovementReport_def rev_map [symmetric] sorted_sort_key)

end
