(* ===== verification/Concurrency.thy ===== *)
theory Concurrency
  imports Engine
begin

text \<open>
  Concurrent exits against one balance row. Each request is its own transaction on its
  own pooled connection (stockController.js, lines 99, 118 and 149), and inside it
  \<open>decreaseStock\<close> (stockModel.js, lines 36--65) reads the row with a plain \<open>SELECT\<close>
  (line 42), checks the quantity, and writes the absolute value \<open>previous_qty - qty\<close>
  (lines 57--62); \<open>registerMovement\<close> then appends the movement and line 149 commits.
  A one-item exit is modelled as two atomic steps: \<open>tx_read\<close>, the read and its check,
  and \<open>tx_commit\<close>, the write, the movement and the commit. Under InnoDB a plain
  \<open>SELECT\<close> reads committed data and the \<open>UPDATE\<close> holds the row lock until commit, so
  the write, the insert and the commit of one transaction may be taken as one step, and
  only the read can fall between another transaction's read and commit.

  \<open>conc_step lock\<close> is the interleaving of any number of such transactions. With
  \<open>lock = False\<close> it is the code; with \<open>lock = True\<close> a read waits while another
  transaction has read the same pair and not yet committed, which is the
  \<open>SELECT ... FOR UPDATE\<close> discipline spec section 5 asks for.
\<close>

datatype tx_phase = Pending | HasRead nat qty | Committed nat | Aborted api_error

record exit_tx =
  tx_product :: product_id
  tx_warehouse :: warehouse_id
  tx_user :: "user_id option"
  tx_qty :: qty
  tx_desc :: "string option"
  tx_phase :: tx_phase

text \<open>Lines 42--55: the read of the row and the two checks that can abort the transaction.\<close>

definition tx_read :: "exit_tx \<Rightarrow> db \<Rightarrow> exit_tx" where
  "tx_read t s = (case getCurrentStock (tx_product t) (tx_warehouse t) s of
      None \<Rightarrow> t\<lparr>tx_phase := Aborted NoStockRecord\<rparr>
    | Some cur \<Rightarrow> if tx_qty t > st_quantity cur then t\<lparr>tx_phase := Aborted InsufficientStock\<rparr>
        else t\<lparr>tx_phase := HasRead (stock_id cur) (st_quantity cur)\<rparr>)"

text \<open>Lines 57--62 with the value read, then \<open>registerMovement\<close> and the commit.\<close>

definition tx_commit :: "exit_tx \<Rightarrow> nat \<Rightarrow> qty \<Rightarrow> db \<Rightarrow> exit_tx \<times> db" where
  "tx_commit t rid prev s = (let q = tx_qty t;
     (mid, s2) = registerMovement (tx_product t) (tx_warehouse t) (tx_user t) SAIDA q prev (prev - q)
                   (tx_desc t) (set_stock_quantity rid (prev - q) s)
   in (t\<lparr>tx_phase := Committed mid\<rparr>, s2))"

definition is_reading :: "exit_tx \<Rightarrow> bool" where
  "is_reading t = (case tx_phase t of HasRead _ _ \<Rightarrow> True | _ \<Rightarrow> False)"

text \<open>Another transaction holds the pair: it has read it and not committed.\<close>

definition pair_held :: "exit_tx list \<Rightarrow> nat \<Rightarrow> bool" where
  "pair_held ts i = list_ex (\<lambda>j. j \<noteq> i \<and> is_reading (ts ! j)
     \<and> tx_product (ts ! j) = tx_product (ts ! i) \<and> tx_warehouse (ts ! j) = tx_warehouse (ts ! i))
     [0..<length ts]"

definition read_allowed :: "bool \<Rightarrow> exit_tx list \<Rightarrow> nat \<Rightarrow> bool" where
  "read_allowed lock ts i = (if lock then \<not> pair_held ts i else True)"

inductive conc_step :: "bool \<Rightarrow> db \<times> exit_tx list \<Rightarrow> db \<times> exit_tx list \<Rightarrow> bool" for lock where
  read: "i < length ts \<Longrightarrow> tx_phase (ts ! i) = Pending \<Longrightarrow> read_allowed lock ts i \<Longrightarrow>
         conc_step lock (s, ts) (s, ts[i := tx_read (ts ! i) s])"
| commit: "i < length ts \<Longrightarrow> tx_phase (ts ! i) = HasRead rid prev \<Longrightarrow>
         tx_commit (ts ! i) rid prev s = (t', s') \<Longrightarrow> conc_step lock (s, ts) (s', ts[i := t'])"

section \<open>Lemmas\<close>

text \<open>
  The invariant of the locked interleavings: the engine invariant, non-negative balances,
  every transaction that has read holds a value that is still its row's current quantity
  and passed the check, and no two such transactions share a pair.
\<close>

definition read_fresh :: "db \<Rightarrow> exit_tx \<Rightarrow> bool" where
  "read_fresh s t \<longleftrightarrow> (\<forall>rid prev. tx_phase t = HasRead rid prev \<longrightarrow>
     (\<exists>cur. getCurrentStock (tx_product t) (tx_warehouse t) s = Some cur
        \<and> stock_id cur = rid \<and> st_quantity cur = prev \<and> tx_qty t \<le> prev))"

definition conc_inv :: "db \<times> exit_tx list \<Rightarrow> bool" where
  "conc_inv c \<longleftrightarrow> engine_inv (fst c) \<and> balances_nonneg (fst c)
     \<and> (\<forall>t\<in>set (snd c). read_fresh (fst c) t)
     \<and> (\<forall>i<length (snd c). \<forall>j<length (snd c). i \<noteq> j \<longrightarrow> is_reading (snd c ! i) \<longrightarrow> is_reading (snd c ! j)
          \<longrightarrow> (tx_product (snd c ! i), tx_warehouse (snd c ! i)) \<noteq> (tx_product (snd c ! j), tx_warehouse (snd c ! j)))"

lemma tx_read_phase:
  "tx_phase (tx_read t s) = HasRead rid prev \<Longrightarrow>
   \<exists>cur. getCurrentStock (tx_product t) (tx_warehouse t) s = Some cur
     \<and> stock_id cur = rid \<and> st_quantity cur = prev \<and> tx_qty t \<le> prev"
  by (auto simp: tx_read_def split: option.splits if_splits)

lemma tx_read_fields [simp]:
  "tx_product (tx_read t s) = tx_product t" "tx_warehouse (tx_read t s) = tx_warehouse t"
  "tx_qty (tx_read t s) = tx_qty t"
  by (auto simp: tx_read_def split: option.splits)

lemma tx_commit_eq:
  "tx_commit t rid prev s = (t\<lparr>tx_phase := Committed (next_movement_id s)\<rparr>,
     snd (registerMovement (tx_product t) (tx_warehouse t) (tx_user t) SAIDA (tx_qty t) prev (prev - tx_qty t)
       (tx_desc t) (set_stock_quantity rid (prev - tx_qty t) s)))"
  by (simp add: tx_commit_def Let_def split_def)

text \<open>A commit whose read is still fresh is one exit item: the engine invariant and non-negative balances are kept, and only its own pair changes.\<close>

lemma tx_commit_fresh:
  assumes inv: "engine_inv s" and nn: "balances_nonneg s"
    and cur: "getCurrentStock (tx_product t) (tx_warehouse t) s = Some cur" "tx_qty t \<le> st_quantity cur"
    and c: "tx_commit t (stock_id cur) (st_quantity cur) s = (t', s')"
  shows "engine_inv s' \<and> balances_nonneg s'
    \<and> balances s' = (balances s)((tx_product t, tx_warehouse t) \<mapsto> st_quantity cur - tx_qty t)"
proof -
  let ?p = "tx_product t" and ?w = "tx_warehouse t" and ?q = "tx_qty t" and ?prev = "st_quantity cur"
  let ?s1 = "set_stock_quantity (stock_id cur) (?prev - ?q) s"
  from inv have wf: "stock_wf s" by (simp add: engine_inv_def)
  have s': "s' = snd (registerMovement ?p ?w (tx_user t) SAIDA ?q ?prev (?prev - ?q) (tx_desc t) ?s1)"
    using c by (simp add: tx_commit_eq)
  have bal1: "balances ?s1 = (balances s)((?p, ?w) \<mapsto> ?prev - ?q)"
    by (rule balances_set_stock_quantity [OF wf cur(1)])
  have b0: "balances s (?p, ?w) = Some ?prev" using cur(1) by (simp add: balances_def)
  have wf1: "stock_wf ?s1" using wf by blast
  have "engine_inv s'"
    by (rule engine_inv_snoc [OF inv, of _ "\<lparr>mov_id = next_movement_id s, mov_product = ?p,
        mov_warehouse = ?w, mov_user = js_or_null (tx_user t), mov_type = SAIDA, mov_quantity = ?q,
        mov_previous = ?prev, mov_new = ?prev - ?q, mov_description = tx_desc t,
        mov_created_at = clock s\<rparr>"])
       (simp_all add: s' wf1 bal1 b0 signed_qty_def stock_wf_registerMovement)
  moreover have "balances s' = (balances s)((?p, ?w) \<mapsto> ?prev - ?q)" by (simp add: s' bal1)
  moreover have "balances_nonneg s'"
  proof -
    from nn b0 have "0 \<le> ?prev" using balances_nonneg_abs [OF wf] by blast
    with cur(2) nn have "\<forall>pw b. ((balances s)((?p, ?w) \<mapsto> ?prev - ?q)) pw = Some b \<longrightarrow> 0 \<le> b"
      using balances_nonneg_abs [OF wf] by auto
    moreover have "stock_wf s'" using \<open>engine_inv s'\<close> by (simp add: engine_inv_def)
    ultimately show ?thesis using balances_nonneg_abs [of s'] \<open>balances s' = _\<close> by simp
  qed
  ultimately show ?thesis by blast
qed

lemma tx_commit_phase [simp]:
  "tx_phase (fst (tx_commit t rid prev s)) = Committed (next_movement_id s)"
  "tx_product (fst (tx_commit t rid prev s)) = tx_product t"
  "tx_warehouse (fst (tx_commit t rid prev s)) = tx_warehouse t"
  by (simp_all add: tx_commit_eq)

text \<open>A commit leaves the rows of every other pair as they were.\<close>

lemma tx_commit_other_pair:
  assumes "stock_wf s" "getCurrentStock p w s = Some cur" "getCurrentStock p' w' s = Some r"
    and "(p', w') \<noteq> (p, w)"
  shows "getCurrentStock p' w' (snd (tx_commit t (stock_id cur) v s)) = Some r"
proof -
  have "stock_id r \<noteq> stock_id cur" by (rule getCurrentStock_other_id [OF assms])
  then have "getCurrentStock p' w' (set_stock_quantity (stock_id cur) (v - tx_qty t) s) = Some r"
    using assms(3) by (simp add: getCurrentStock_set_stock_quantity)
  then show ?thesis
    by (simp add: tx_commit_eq getCurrentStock_def)
qed

lemma pair_held_iff:
  "pair_held ts i \<longleftrightarrow> (\<exists>j<length ts. j \<noteq> i \<and> is_reading (ts ! j)
     \<and> tx_product (ts ! j) = tx_product (ts ! i) \<and> tx_warehouse (ts ! j) = tx_warehouse (ts ! i))"
  by (auto simp: pair_held_def list_ex_iff)

lemma read_fresh_nonreading:
  "\<not> is_reading t \<Longrightarrow> read_fresh s t"
  by (auto simp: read_fresh_def is_reading_def)

lemma read_fresh_tx_read: "read_fresh s (tx_read t s)"
  unfolding read_fresh_def using tx_read_phase by simp

lemma in_set_update_cases:
  assumes "t \<in> set (ts[i := x])"
  shows "t = x \<or> (\<exists>j<length ts. j \<noteq> i \<and> ts ! j = t)"
proof -
  from assms obtain k where k: "k < length ts" "ts[i := x] ! k = t" by (auto simp: in_set_conv_nth)
  show ?thesis
  proof (cases "k = i")
    case True with k show ?thesis by simp
  next
    case False with k show ?thesis by auto
  qed
qed

lemma conc_inv_read:
  assumes inv: "conc_inv (s, ts)" and i: "i < length ts" and free: "\<not> pair_held ts i"
  shows "conc_inv (s, ts[i := tx_read (ts ! i) s])"
proof -
  let ?ts = "ts[i := tx_read (ts ! i) s]"
  have fresh: "\<forall>t\<in>set ?ts. read_fresh s t"
  proof
    fix t assume "t \<in> set ?ts"
    from in_set_update_cases [OF this] show "read_fresh s t"
      using inv read_fresh_tx_read [of s "ts ! i"] by (auto simp: conc_inv_def)
  qed
  have pairs: "(tx_product (?ts ! a), tx_warehouse (?ts ! a)) \<noteq> (tx_product (?ts ! b), tx_warehouse (?ts ! b))"
    if ab: "a < length ?ts" "b < length ?ts" "a \<noteq> b" "is_reading (?ts ! a)" "is_reading (?ts ! b)" for a b
  proof -
    have clash: "(tx_product (ts ! i), tx_warehouse (ts ! i)) \<noteq> (tx_product (ts ! j), tx_warehouse (ts ! j))"
      if "j < length ts" "j \<noteq> i" "is_reading (ts ! j)" for j
      using free that by (auto simp: pair_held_iff)
    consider "a = i" | "b = i" | "a \<noteq> i" "b \<noteq> i" by blast
    then show ?thesis
    proof cases
      case 1 with ab clash [of b] show ?thesis by (auto simp: nth_list_update)
    next
      case 2 with ab clash [of a] show ?thesis by (auto simp: nth_list_update)
    next
      case 3 with ab inv show ?thesis by (simp add: conc_inv_def nth_list_update)
    qed
  qed
  from inv fresh pairs show ?thesis by (simp add: conc_inv_def)
qed

lemma conc_inv_commit:
  assumes inv: "conc_inv (s, ts)" and i: "i < length ts" and ph: "tx_phase (ts ! i) = HasRead rid prev"
    and c: "tx_commit (ts ! i) rid prev s = (t', s')"
  shows "conc_inv (s', ts[i := t'])"
proof -
  let ?t = "ts ! i" and ?ts = "ts[i := t']"
  from inv have wf: "stock_wf s" by (simp add: conc_inv_def engine_inv_def)
  from inv i have "read_fresh s ?t" by (simp add: conc_inv_def)
  with ph obtain cur where cur: "getCurrentStock (tx_product ?t) (tx_warehouse ?t) s = Some cur"
    "stock_id cur = rid" "st_quantity cur = prev" "tx_qty ?t \<le> prev"
    by (auto simp: read_fresh_def)
  have c': "tx_commit ?t (stock_id cur) (st_quantity cur) s = (t', s')" using c cur by simp
  note post = tx_commit_fresh [OF _ _ cur(1) _ c'] inv cur(3,4)
  have t': "t' = fst (tx_commit ?t (stock_id cur) (st_quantity cur) s)"
    and s': "s' = snd (tx_commit ?t (stock_id cur) (st_quantity cur) s)" using c' by (metis prod.sel)+
  have t'_idle: "\<not> is_reading t'" by (simp add: t' is_reading_def)
  have others: "read_fresh s' (ts ! j)" if j: "j < length ts" "j \<noteq> i" for j
  proof (cases "is_reading (ts ! j)")
    case False then show ?thesis by (rule read_fresh_nonreading)
  next
    case True
    then obtain rj pj where phj: "tx_phase (ts ! j) = HasRead rj pj"
      by (auto simp: is_reading_def split: tx_phase.splits)
    from inv j have "read_fresh s (ts ! j)" by (simp add: conc_inv_def)
    with phj obtain cj where cj: "getCurrentStock (tx_product (ts ! j)) (tx_warehouse (ts ! j)) s = Some cj"
      "stock_id cj = rj" "st_quantity cj = pj" "tx_qty (ts ! j) \<le> pj"
      by (auto simp: read_fresh_def)
    from inv i j True ph have ne: "(tx_product (ts ! j), tx_warehouse (ts ! j)) \<noteq> (tx_product ?t, tx_warehouse ?t)"
      by (auto simp: conc_inv_def is_reading_def)
    from tx_commit_other_pair [OF wf cur(1) cj(1) ne] cj phj show ?thesis
      by (simp add: read_fresh_def s')
  qed
  have fresh: "\<forall>u\<in>set ?ts. read_fresh s' u"
  proof
    fix u assume "u \<in> set ?ts"
    from in_set_update_cases [OF this] show "read_fresh s' u"
      using others t'_idle read_fresh_nonreading by blast
  qed
  have pairs: "\<forall>a<length ?ts. \<forall>b<length ?ts. a \<noteq> b \<longrightarrow> is_reading (?ts ! a) \<longrightarrow> is_reading (?ts ! b)
      \<longrightarrow> (tx_product (?ts ! a), tx_warehouse (?ts ! a)) \<noteq> (tx_product (?ts ! b), tx_warehouse (?ts ! b))"
    using inv t'_idle i by (auto simp: conc_inv_def nth_list_update split: if_splits)
  from post fresh pairs show ?thesis by (simp add: conc_inv_def)
qed

text \<open>Every step of the locked interleaving keeps the invariant.\<close>

lemma conc_step_locked_inv:
  assumes "conc_step True c c'" "conc_inv c"
  shows "conc_inv c'"
  using assms(1)
proof cases
  case (read i ts s)
  with assms(2) show ?thesis by (auto intro: conc_inv_read simp: read_allowed_def)
next
  case (commit i ts rid prev s t' s')
  with assms(2) show ?thesis by (auto intro: conc_inv_commit)
qed

lemma conc_steps_locked_inv:
  "(conc_step True)\<^sup>*\<^sup>* c c' \<Longrightarrow> conc_inv c \<Longrightarrow> conc_inv c'"
  by (induction rule: rtranclp_induct) (auto intro: conc_step_locked_inv)

lemma conc_inv_start:
  "engine_inv s \<Longrightarrow> balances_nonneg s \<Longrightarrow> \<forall>t\<in>set ts. tx_phase t = Pending \<Longrightarrow> conc_inv (s, ts)"
  by (auto simp: conc_inv_def read_fresh_def is_reading_def)

end
