(* ===== verification/Catalog.thy ===== *)
theory Catalog
  imports Engine "HOL-Library.Sublist" "HOL-Library.List_Lexorder" "HOL-Library.Char_ord"
begin

text \<open>
  The catalog: products (src/Backend/src/models/productModel.js and
  controllers/productController.js), warehouses (warehouseModel.js,
  warehouseController.js) and units (unitModel.js, unitController.js), with the guards
  their routes put in front of them (routes/productRoutes.js, warehouseRoutes.js,
  unitRoutes.js). A request body field that may be missing is an option; where the code
  tells \<open>undefined\<close> from \<open>null\<close> (the dynamic \<open>UPDATE\<close>s) it is an option of an option,
  \<open>None\<close> for \<open>undefined\<close>. \<open>LIKE '%t%'\<close> is a substring test (the collation's case
  folding and the wildcards a search term may contain are not modelled). Statements that
  the code runs one after another without a transaction are taken as one step.
\<close>

section \<open>Products\<close>

text \<open>\<open>String.prototype.padStart(n, c)\<close>: pads on the left, never truncates.\<close>

definition pad_start :: "nat \<Rightarrow> char \<Rightarrow> string \<Rightarrow> string" where
  "pad_start n c s = replicate (n - length s) c @ s"

text \<open>The SKU of a product id (productModel.js, lines 12--13).\<close>

definition sku_of :: "product_id \<Rightarrow> string" where
  "sku_of i = ''P-'' @ pad_start 5 (CHR ''0'') (show_nat i)"

text \<open>Reading a SKU back: the digits after \<open>"P-"\<close>, leading zeros included.\<close>

definition parse_sku :: "string \<Rightarrow> product_id option" where
  "parse_sku s = (if take 2 s = ''P-'' then parse_nat (drop 2 s) else None)"

text \<open>The body of \<open>POST /produtos\<close> and \<open>PUT /produtos/:id\<close> (productController.js, lines 11 and 48).\<close>

record product_body =
  pb_name :: "string option"
  pb_unit :: "string option"
  pb_warehouse :: "warehouse_id option"
  pb_barcode :: "string option"
  pb_description :: "string option"

text \<open>
  \<open>createProduct\<close> (lines 3--29): the row, then its SKU from the new id, then, when the
  warehouse id is truthy, a stock row with balance 0 and no movement. The name is the one
  the controller has checked; \<open>unit\<close> is stored as given, barcode and description
  through \<open>|| null\<close>. The answer echoes the body with the id and SKU: the model returns the id.
\<close>

definition createProduct :: "string \<Rightarrow> product_body \<Rightarrow> db \<Rightarrow> product_id \<times> db" where
  "createProduct name b s = (let i = next_product_id s;
     p = \<lparr>pr_id = i, pr_name = name, pr_sku = Some (sku_of i), pr_unit = pb_unit b,
          pr_barcode = js_truthy (pb_barcode b), pr_description = js_truthy (pb_description b)\<rparr>;
     s1 = s\<lparr>products := products s @ [p], next_product_id := Suc i\<rparr>
   in (i, case js_or_null (pb_warehouse b) of None \<Rightarrow> s1 | Some w \<Rightarrow> snd (insert_stock i w 0 s1)))"

text \<open>\<open>createProductController\<close> (productController.js, lines 9--33).\<close>

definition createProductController :: "product_body \<Rightarrow> db \<Rightarrow> (api_error + product_id) \<times> db" where
  "createProductController b s =
     (case js_truthy (pb_name b) of
        None \<Rightarrow> (Inl ProductNameRequired, s)
      | Some name \<Rightarrow> if js_or_null (pb_warehouse b) = None then (Inl ProductWarehouseRequired, s)
          else (let (i, s') = createProduct name b s in (Inr i, s')))"

text \<open>
  \<open>q.trim()\<close> (and \<open>password.trim()\<close> in userController.js): JavaScript's
  \<open>String.prototype.trim\<close> removes WhiteSpace and LineTerminator code points at both ends.
  Strings of the model are UTF-8 bytes, so these are the encodings of the 25 code points:
  TAB, LF, VT, FF, CR, SPACE, NBSP, U+1680, U+2000--U+200A, U+2028, U+2029, U+202F,
  U+205F, U+3000 and U+FEFF. \<open>strip_seqs\<close> drops whole encodings from the front.
\<close>

definition js_ws_seqs :: "string list" where
  "js_ws_seqs = [[CHR 0x09], [CHR 0x0A], [CHR 0x0B], [CHR 0x0C], [CHR 0x0D], [CHR 0x20],
     [CHR 0xC2, CHR 0xA0], [CHR 0xE1, CHR 0x9A, CHR 0x80],
     [CHR 0xE2, CHR 0x80, CHR 0x80], [CHR 0xE2, CHR 0x80, CHR 0x81], [CHR 0xE2, CHR 0x80, CHR 0x82],
     [CHR 0xE2, CHR 0x80, CHR 0x83], [CHR 0xE2, CHR 0x80, CHR 0x84], [CHR 0xE2, CHR 0x80, CHR 0x85],
     [CHR 0xE2, CHR 0x80, CHR 0x86], [CHR 0xE2, CHR 0x80, CHR 0x87], [CHR 0xE2, CHR 0x80, CHR 0x88],
     [CHR 0xE2, CHR 0x80, CHR 0x89], [CHR 0xE2, CHR 0x80, CHR 0x8A],
     [CHR 0xE2, CHR 0x80, CHR 0xA8], [CHR 0xE2, CHR 0x80, CHR 0xA9], [CHR 0xE2, CHR 0x80, CHR 0xAF],
     [CHR 0xE2, CHR 0x81, CHR 0x9F], [CHR 0xE3, CHR 0x80, CHR 0x80], [CHR 0xEF, CHR 0xBB, CHR 0xBF]]"

function strip_seqs :: "string list \<Rightarrow> string \<Rightarrow> string" where
  "strip_seqs ws s = (case find (\<lambda>w. w \<noteq> [] \<and> take (length w) s = w) ws of
      None \<Rightarrow> s
    | Some w \<Rightarrow> strip_seqs ws (drop (length w) s))"
  by pat_completeness auto
termination
proof (relation "measure (\<lambda>(ws, s). length s)")
  fix ws :: "string list" and s w :: string
  assume "find (\<lambda>w. w \<noteq> [] \<and> take (length w) s = w) ws = Some w"
  then have "w \<noteq> []" "take (length w) s = w" by (auto dest: find_Some_iff [THEN iffD1])
  then show "((ws, drop (length w) s), ws, s) \<in> measure (\<lambda>(ws, s). length s)"
    by (cases s) (auto dest: arg_cong [of _ _ length])
qed simp

declare strip_seqs.simps [simp del]

definition js_trim :: "string \<Rightarrow> string" where
  "js_trim s = rev (strip_seqs (map rev js_ws_seqs) (rev (strip_seqs js_ws_seqs s)))"

text \<open>\<open>name LIKE ? OR sku LIKE ? OR barcode LIKE ?\<close> with \<open>%term%\<close>.\<close>

definition product_matches :: "string \<Rightarrow> product \<Rightarrow> bool" where
  "product_matches t p = (sublist t (pr_name p)
     \<or> (case pr_sku p of None \<Rightarrow> False | Some k \<Rightarrow> sublist t k)
     \<or> (case pr_barcode p of None \<Rightarrow> False | Some c \<Rightarrow> sublist t c))"

text \<open>A product has a stock row in a warehouse of the unit (the joins of lines 61--65).\<close>

definition stocked_in_unit :: "db \<Rightarrow> unit_id option \<Rightarrow> product \<Rightarrow> bool" where
  "stocked_in_unit s k p = list_ex (\<lambda>r. st_product r = pr_id p \<and>
     (case find_warehouse (st_warehouse r) s of None \<Rightarrow> False | Some w \<Rightarrow> sql_eq (wh_unit w) k)) (stock s)"

text \<open>
  \<open>listProducts\<close> (lines 31--88): the top role searches the whole catalog, any other
  role the products stocked in its unit; without a term newest id first, with one by
  name and at most 20.
\<close>

definition listProducts :: "principal \<Rightarrow> string option \<Rightarrow> db \<Rightarrow> product list" where
  "listProducts u q s = (let term = js_trim (case q of None \<Rightarrow> [] | Some x \<Rightarrow> x);
     scope = (if p_role u = RoleSuperAdmin then products s
              else filter (stocked_in_unit s (p_unit u)) (products s))
   in if term = [] then rev (sort_key pr_id scope)
      else take 20 (sort_key pr_name (filter (product_matches term) scope)))"

text \<open>\<open>updateProduct\<close> (lines 91--96).\<close>

definition updateProduct :: "product_id \<Rightarrow> string \<Rightarrow> product_body \<Rightarrow> db \<Rightarrow> db" where
  "updateProduct i name b s = s\<lparr>products := map (\<lambda>p. if pr_id p = i then
     p\<lparr>pr_name := name, pr_unit := pb_unit b, pr_barcode := js_truthy (pb_barcode b),
       pr_description := js_truthy (pb_description b)\<rparr> else p) (products s)\<rparr>"

text \<open>\<open>updateProductController\<close> (lines 45--59): 204 whether or not the id exists.\<close>

definition updateProductController :: "product_id \<Rightarrow> product_body \<Rightarrow> db \<Rightarrow> (api_error + unit) \<times> db" where
  "updateProductController i b s =
     (case js_truthy (pb_name b) of None \<Rightarrow> (Inl ProductNameRequired, s)
      | Some name \<Rightarrow> (Inr (), updateProduct i name b s))"

text \<open>\<open>deleteProduct\<close> (lines 98--123) and its controller (lines 60--71).\<close>

definition deleteProduct :: "product_id \<Rightarrow> db \<Rightarrow> api_error + db" where
  "deleteProduct i s =
     (if list_ex (\<lambda>r. st_product r = i) (stock s) \<or> list_ex (\<lambda>m. mov_product m = i) (movements s)
      then Inl ProductInUse
      else Inr (s\<lparr>products := filter (\<lambda>p. pr_id p \<noteq> i) (products s)\<rparr>))"

definition deleteProductController :: "product_id \<Rightarrow> db \<Rightarrow> (api_error + unit) \<times> db" where
  "deleteProductController i s = (case deleteProduct i s of Inl e \<Rightarrow> (Inl e, s) | Inr s' \<Rightarrow> (Inr (), s'))"

text \<open>
  \<open>findProductByBarcode\<close> (lines 125--158): \<open>LIMIT 1\<close> without \<open>ORDER BY\<close>; the model
  takes the first in table order. Its controller (lines 73--91).
\<close>

definition findProductByBarcode :: "string \<Rightarrow> principal \<Rightarrow> db \<Rightarrow> product option" where
  "findProductByBarcode c u s = find (\<lambda>p. pr_barcode p = Some c
     \<and> (p_role u = RoleSuperAdmin \<or> stocked_in_unit s (p_unit u) p)) (products s)"

definition getProductByBarcodeController :: "string option \<Rightarrow> principal \<Rightarrow> db \<Rightarrow> api_error + product" where
  "getProductByBarcodeController c u s = (case js_truthy c of
      None \<Rightarrow> Inl BarcodeRequired
    | Some c' \<Rightarrow> (case findProductByBarcode c' u s of None \<Rightarrow> Inl ProductNotFound | Some p \<Rightarrow> Inr p))"

text \<open>The roles of the product routes (productRoutes.js, lines 15--18; line 13 only authenticates).\<close>

definition product_writers :: "role list" where
  "product_writers = [RoleAdmin, RoleSuperAdmin, RoleSupervisor]"

text \<open>\<open>POST /produtos\<close> and the other product routes: \<open>authRequired\<close> then \<open>requireRole\<close>.\<close>

definition route_create_product :: "principal option \<Rightarrow> product_body \<Rightarrow> db \<Rightarrow> (api_error + product_id) \<times> db" where
  "route_create_product u b s = (case requireRole product_writers u of
      Inl e \<Rightarrow> (Inl e, s) | Inr _ \<Rightarrow> createProductController b s)"

definition route_update_product :: "principal option \<Rightarrow> product_id \<Rightarrow> product_body \<Rightarrow> db \<Rightarrow> (api_error + unit) \<times> db" where
  "route_update_product u i b s = (case requireRole product_writers u of
      Inl e \<Rightarrow> (Inl e, s) | Inr _ \<Rightarrow> updateProductController i b s)"

definition route_delete_product :: "principal option \<Rightarrow> product_id \<Rightarrow> db \<Rightarrow> (api_error + unit) \<times> db" where
  "route_delete_product u i s = (case requireRole product_writers u of
      Inl e \<Rightarrow> (Inl e, s) | Inr _ \<Rightarrow> deleteProductController i s)"

section \<open>Warehouses\<close>

text \<open>
  The body of \<open>POST /estoques\<close> and \<open>PUT /estoques/:id\<close> (warehouseController.js, lines 10
  and 45): \<open>None\<close> is a missing field, \<open>Some None\<close> a JSON \<open>null\<close>.
\<close>

record warehouse_body =
  wb_name :: "string option"
  wb_description :: "string option option"
  wb_unit :: "unit_id option option"

text \<open>\<open>createWarehouse\<close> (warehouseModel.js, lines 3--9); \<open>undefined\<close> is stored as NULL.\<close>

definition createWarehouse :: "string \<Rightarrow> string option \<Rightarrow> unit_id option \<Rightarrow> db \<Rightarrow> warehouse_id \<times> db" where
  "createWarehouse name d k s = (let i = next_warehouse_id s in
     (i, s\<lparr>warehouses := warehouses s @ [\<lparr>wh_id = i, wh_name = name, wh_description = d,
            wh_unit = js_or_null k\<rparr>], next_warehouse_id := Suc i\<rparr>))"

text \<open>
  \<open>createWarehouseController\<close> (lines 8--31): a requester other than the top role gets
  its own unit, whatever the body says.
\<close>

definition createWarehouseController :: "principal \<Rightarrow> warehouse_body \<Rightarrow> db \<Rightarrow> (api_error + warehouse_id) \<times> db" where
  "createWarehouseController u b s = (case js_truthy (wb_name b) of
      None \<Rightarrow> (Inl WarehouseNameRequired, s)
    | Some name \<Rightarrow> (let k = (if p_role u \<noteq> RoleSuperAdmin then p_unit u else Option.bind (wb_unit b) id);
        (i, s') = createWarehouse name (Option.bind (wb_description b) id) k s in (Inr i, s')))"

text \<open>A row of \<open>listWarehouses\<close>: the warehouse and its unit through a left join.\<close>

record warehouse_list_row =
  wl_id :: warehouse_id
  wl_name :: string
  wl_description :: "string option"
  wl_unit_id :: "unit_id option"
  wl_unit_name :: "string option"
  wl_unit_acronym :: "string option"

definition find_unit :: "unit_id \<Rightarrow> db \<Rightarrow> unit_row option" where
  "find_unit i s = find (\<lambda>r. un_id r = i) (units s)"

text \<open>
  \<open>listWarehouses\<close> (lines 11--38): \<open>role && role !== "super_admin"\<close> filters by the
  requester's unit (an empty role string is falsy and sees everything); by name.
\<close>

definition listWarehouses :: "principal \<Rightarrow> db \<Rightarrow> warehouse_list_row list" where
  "listWarehouses u s = sort_key wl_name (map (\<lambda>w.
       \<lparr>wl_id = wh_id w, wl_name = wh_name w, wl_description = wh_description w, wl_unit_id = wh_unit w,
        wl_unit_name = map_option un_name (Option.bind (wh_unit w) (\<lambda>k. find_unit k s)),
        wl_unit_acronym = Option.bind (Option.bind (wh_unit w) (\<lambda>k. find_unit k s)) un_acronym\<rparr>)
     (filter (\<lambda>w. \<not> (role_name (p_role u) \<noteq> [] \<and> p_role u \<noteq> RoleSuperAdmin) \<or> sql_eq (wh_unit w) (p_unit u))
        (warehouses s)))"

text \<open>
  \<open>updateWarehouse\<close> (lines 41--66): each field that is not \<open>undefined\<close> is set, the unit
  through \<open>|| null\<close>; with no field the function returns, which leaves the table as it is.
\<close>

definition updateWarehouse :: "warehouse_id \<Rightarrow> string option \<Rightarrow> string option option \<Rightarrow> unit_id option option \<Rightarrow> db \<Rightarrow> db" where
  "updateWarehouse i n d k s = s\<lparr>warehouses := map (\<lambda>w. if wh_id w = i then
     w\<lparr>wh_name := (case n of None \<Rightarrow> wh_name w | Some x \<Rightarrow> x),
       wh_description := (case d of None \<Rightarrow> wh_description w | Some x \<Rightarrow> x),
       wh_unit := (case k of None \<Rightarrow> wh_unit w | Some x \<Rightarrow> js_or_null x)\<rparr> else w) (warehouses s)\<rparr>"

text \<open>
  \<open>updateWarehouseController\<close> (lines 42--69): the top role sets the unit to
  \<open>unit_id ?? null\<close>, any other role leaves it \<open>undefined\<close>. Nothing checks whose
  warehouse it is.
\<close>

definition updateWarehouseController :: "principal \<Rightarrow> warehouse_id \<Rightarrow> warehouse_body \<Rightarrow> db \<Rightarrow> (api_error + unit) \<times> db" where
  "updateWarehouseController u i b s = (case js_truthy (wb_name b) of
      None \<Rightarrow> (Inl WarehouseNameRequired, s)
    | Some name \<Rightarrow> (Inr (), updateWarehouse i (Some name) (wb_description b)
        (if p_role u = RoleSuperAdmin then Some (Option.bind (wb_unit b) id) else None) s))"

text \<open>\<open>deleteWarehouse\<close> (lines 68--92): plain \<open>Error\<close>s, so the error handler answers 500.\<close>

definition deleteWarehouse :: "warehouse_id \<Rightarrow> db \<Rightarrow> api_error + db" where
  "deleteWarehouse i s =
     (if list_ex (\<lambda>m. mov_warehouse m = i) (movements s) then Inl WarehouseHasMovements
      else if list_ex (\<lambda>r. st_warehouse r = i) (stock s) then Inl WarehouseHasStock
      else Inr (s\<lparr>warehouses := filter (\<lambda>w. wh_id w \<noteq> i) (warehouses s)\<rparr>))"

definition deleteWarehouseController :: "warehouse_id \<Rightarrow> db \<Rightarrow> (api_error + unit) \<times> db" where
  "deleteWarehouseController i s = (case deleteWarehouse i s of Inl e \<Rightarrow> (Inl e, s) | Inr s' \<Rightarrow> (Inr (), s'))"

text \<open>The warehouse routes (warehouseRoutes.js, lines 12--15): \<open>authRequired\<close> only.\<close>

definition route_update_warehouse :: "principal option \<Rightarrow> warehouse_id \<Rightarrow> warehouse_body \<Rightarrow> db \<Rightarrow> (api_error + unit) \<times> db" where
  "route_update_warehouse u i b s = (case u of None \<Rightarrow> (Inl Unauthenticated, s)
     | Some p \<Rightarrow> updateWarehouseController p i b s)"

definition route_delete_warehouse :: "principal option \<Rightarrow> warehouse_id \<Rightarrow> db \<Rightarrow> (api_error + unit) \<times> db" where
  "route_delete_warehouse u i s = (case u of None \<Rightarrow> (Inl Unauthenticated, s)
     | Some p \<Rightarrow> deleteWarehouseController i s)"

definition route_create_warehouse :: "principal option \<Rightarrow> warehouse_body \<Rightarrow> db \<Rightarrow> (api_error + warehouse_id) \<times> db" where
  "route_create_warehouse u b s = (case u of None \<Rightarrow> (Inl Unauthenticated, s)
     | Some p \<Rightarrow> createWarehouseController p b s)"

section \<open>Units\<close>

text \<open>\<open>createUnit\<close> (unitModel.js, lines 3--16).\<close>

definition createUnit :: "string \<Rightarrow> string option \<Rightarrow> string option \<Rightarrow> db \<Rightarrow> unit_id \<times> db" where
  "createUnit name a d s = (let i = next_unit_id s in
     (i, s\<lparr>units := units s @ [\<lparr>un_id = i, un_name = name, un_acronym = a, un_description = js_truthy d\<rparr>],
           next_unit_id := Suc i\<rparr>))"

text \<open>\<open>createUnitController\<close> (unitController.js, lines 17--30): it passes no acronym.\<close>

definition createUnitController :: "string option \<Rightarrow> string option \<Rightarrow> db \<Rightarrow> (api_error + unit_id) \<times> db" where
  "createUnitController n d s = (case js_truthy n of
      None \<Rightarrow> (Inl UnitNameRequired, s)
    | Some name \<Rightarrow> (let (i, s') = createUnit name None d s in (Inr i, s')))"

text \<open>
  \<open>listUnits\<close> (lines 19--43): the top role all units by name, any other requester its
  own unit when its unit id is truthy.
\<close>

definition listUnits :: "principal option \<Rightarrow> db \<Rightarrow> unit_row list" where
  "listUnits u s = (case u of None \<Rightarrow> []
     | Some p \<Rightarrow> if p_role p = RoleSuperAdmin then sort_key un_name (units s)
         else (case js_or_null (p_unit p) of None \<Rightarrow> [] | Some k \<Rightarrow> filter (\<lambda>r. un_id r = k) (units s)))"

text \<open>
  \<open>pool.query(sql, values)\<close> formats on the client (the \<open>sqlstring\<close> rules of mysql2):
  the i-th \<open>?\<close> of the text takes the i-th value, a surplus value is ignored and a \<open>?\<close>
  with no value stays in the text, which MySQL rejects as a syntax error (a 500).
\<close>

definition sql_unbound :: "string \<Rightarrow> 'a list \<Rightarrow> bool" where
  "sql_unbound sql vals = (length vals < count_list sql (CHR ''?''))"

definition updateUnit_sql :: string where
  "updateUnit_sql = ''UPDATE units SET name = ?, acronym = ?, description = ? WHERE id = ?''"

text \<open>
  \<open>updateUnit\<close> (lines 45--50): four placeholders and the three values
  \<open>[name, description || null, id]\<close>. Were the statement to run, the values would land
  positionally: the description in \<open>acronym\<close> and the id (a string of \<open>req.params\<close>) in
  \<open>description\<close>, for the row the missing fourth value names; the model takes that row to
  be \<open>id\<close>.
\<close>

definition updateUnit :: "unit_id \<Rightarrow> string \<Rightarrow> string option \<Rightarrow> db \<Rightarrow> api_error + db" where
  "updateUnit i name d s = (let vals = [Some name, js_truthy d, Some (show_nat i)] in
     if sql_unbound updateUnit_sql vals then Inl SqlParseError
     else Inr (s\<lparr>units := map (\<lambda>r. if un_id r = i then
        r\<lparr>un_name := name, un_acronym := vals ! 1, un_description := vals ! 2\<rparr> else r) (units s)\<rparr>))"

text \<open>\<open>updateUnitController\<close> (lines 32--46).\<close>

definition updateUnitController :: "unit_id \<Rightarrow> string option \<Rightarrow> string option \<Rightarrow> db \<Rightarrow> (api_error + unit) \<times> db" where
  "updateUnitController i n d s = (case js_truthy n of
      None \<Rightarrow> (Inl UnitNameRequired, s)
    | Some name \<Rightarrow> (case updateUnit i name d s of Inl e \<Rightarrow> (Inl e, s) | Inr s' \<Rightarrow> (Inr (), s')))"

text \<open>\<open>deleteUnit\<close> (lines 52--76) and \<open>deleteUnitController\<close> (lines 48--57): plain errors, 500.\<close>

definition deleteUnit :: "unit_id \<Rightarrow> db \<Rightarrow> api_error + db" where
  "deleteUnit i s =
     (if list_ex (\<lambda>w. sql_eq (wh_unit w) (Some i)) (warehouses s) then Inl UnitHasWarehouses
      else if list_ex (\<lambda>r. sql_eq (u_unit r) (Some i)) (users s) then Inl UnitHasUsers
      else Inr (s\<lparr>units := filter (\<lambda>r. un_id r \<noteq> i) (units s)\<rparr>))"

definition deleteUnitController :: "unit_id \<Rightarrow> db \<Rightarrow> (api_error + unit) \<times> db" where
  "deleteUnitController i s = (case deleteUnit i s of Inl e \<Rightarrow> (Inl e, s) | Inr s' \<Rightarrow> (Inr (), s'))"

text \<open>
  The unit routes (unitRoutes.js, lines 15--17) call \<open>requireMinRole("admin", "super_admin")\<close>;
  the function reads only its first argument.
\<close>

definition route_create_unit :: "principal option \<Rightarrow> string option \<Rightarrow> string option \<Rightarrow> db \<Rightarrow> (api_error + unit_id) \<times> db" where
  "route_create_unit u n d s = (case requireMinRole RoleAdmin u of
      Inl e \<Rightarrow> (Inl e, s) | Inr _ \<Rightarrow> createUnitController n d s)"

definition route_update_unit :: "principal option \<Rightarrow> unit_id \<Rightarrow> string option \<Rightarrow> string option \<Rightarrow> db \<Rightarrow> (api_error + unit) \<times> db" where
  "route_update_unit u i n d s = (case requireMinRole RoleAdmin u of
      Inl e \<Rightarrow> (Inl e, s) | Inr _ \<Rightarrow> updateUnitController i n d s)"

definition route_delete_unit :: "principal option \<Rightarrow> unit_id \<Rightarrow> db \<Rightarrow> (api_error + unit) \<times> db" where
  "route_delete_unit u i s = (case requireMinRole RoleAdmin u of
      Inl e \<Rightarrow> (Inl e, s) | Inr _ \<Rightarrow> deleteUnitController i s)"

section \<open>The catalog requests\<close>

text \<open>The writes of the three routers, as one request type and one step on the database.\<close>

datatype catalog_req =
    CreateProduct product_body
  | UpdateProduct product_id product_body
  | DeleteProduct product_id
  | CreateWarehouse warehouse_body
  | UpdateWarehouse warehouse_id warehouse_body
  | DeleteWarehouse warehouse_id
  | CreateUnit "string option" "string option"
  | UpdateUnit unit_id "string option" "string option"
  | DeleteUnit unit_id

fun catalog_step :: "principal option \<Rightarrow> db \<Rightarrow> catalog_req \<Rightarrow> db" where
  "catalog_step u s (CreateProduct b) = snd (route_create_product u b s)"
| "catalog_step u s (UpdateProduct i b) = snd (route_update_product u i b s)"
| "catalog_step u s (DeleteProduct i) = snd (route_delete_product u i s)"
| "catalog_step u s (CreateWarehouse b) = snd (route_create_warehouse u b s)"
| "catalog_step u s (UpdateWarehouse i b) = snd (route_update_warehouse u i b s)"
| "catalog_step u s (DeleteWarehouse i) = snd (route_delete_warehouse u i s)"
| "catalog_step u s (CreateUnit n d) = snd (route_create_unit u n d s)"
| "catalog_step u s (UpdateUnit i n d) = snd (route_update_unit u i n d s)"
| "catalog_step u s (DeleteUnit i) = snd (route_delete_unit u i s)"

section \<open>Invariant and demo data\<close>

text \<open>
  What the catalog keeps besides the ledger (\<open>engine_inv\<close>): product ids are distinct
  and below the counter, each product carries the SKU of its id, and every stock row and
  movement names a product that exists (the checks of \<open>deleteProduct\<close>).
\<close>

definition catalog_wf :: "db \<Rightarrow> bool" where
  "catalog_wf s \<longleftrightarrow> distinct (map pr_id (products s))
     \<and> (\<forall>p \<in> set (products s). pr_id p < next_product_id s \<and> pr_sku p = Some (sku_of (pr_id p)))
     \<and> (\<forall>r \<in> set (stock s). st_product r \<in> set (map pr_id (products s)))
     \<and> (\<forall>m \<in> set (movements s). mov_product m \<in> set (map pr_id (products s)))"

definition catalog_inv :: "db \<Rightarrow> bool" where
  "catalog_inv s \<longleftrightarrow> engine_inv s \<and> catalog_wf s"

fun is_product_req :: "catalog_req \<Rightarrow> bool" where
  "is_product_req (CreateProduct _) = True"
| "is_product_req (UpdateProduct _ _) = True"
| "is_product_req (DeleteProduct _) = True"
| "is_product_req _ = False"

text \<open>
  A small database used by the examples of this theory and of the root: two units, one
  warehouse in each, two products, a balance of 10 for product 1 in warehouse 1 and the
  entry that made it.
\<close>

definition demo_db :: db where
  "demo_db = \<lparr>units = [\<lparr>un_id = 1, un_name = ''Sede'', un_acronym = None, un_description = None\<rparr>,
       \<lparr>un_id = 2, un_name = ''Filial'', un_acronym = None, un_description = None\<rparr>],
     warehouses = [\<lparr>wh_id = 1, wh_name = ''Central'', wh_description = None, wh_unit = Some 1\<rparr>,
                   \<lparr>wh_id = 2, wh_name = ''Anexo'', wh_description = None, wh_unit = Some 2\<rparr>],
     products = [\<lparr>pr_id = 1, pr_name = ''Parafuso'', pr_sku = Some ''P-00001'', pr_unit = Some ''UN'', pr_barcode = None, pr_description = None\<rparr>,
                 \<lparr>pr_id = 2, pr_name = ''Porca'', pr_sku = Some ''P-00002'', pr_unit = Some ''UN'', pr_barcode = None, pr_description = None\<rparr>],
     users = [],
     stock = [\<lparr>stock_id = 1, st_product = 1, st_warehouse = 1, st_quantity = 10\<rparr>],
     movements = [\<lparr>mov_id = 1, mov_product = 1, mov_warehouse = 1, mov_user = Some 7, mov_type = ENTRADA,
                    mov_quantity = 10, mov_previous = 0, mov_new = 10, mov_description = None, mov_created_at = 0\<rparr>],
     exit_orders = [], next_stock_id = 2, next_movement_id = 2, next_order_id = 1,
     next_product_id = 3, next_warehouse_id = 3, next_unit_id = 3, next_user_id = 9, clock = 5\<rparr>"

definition clerk_unit2 :: principal where
  "clerk_unit2 = \<lparr>p_id = 5, p_name = None, p_role = RoleUser, p_unit = Some 2, p_warehouse = None\<rparr>"

definition arruela :: product_body where
  "arruela = \<lparr>pb_name = Some ''Arruela'', pb_unit = Some ''UN'', pb_warehouse = Some 1, pb_barcode = None,
     pb_description = None\<rparr>"

section \<open>Lemmas\<close>

subsection \<open>SKUs\<close>

text \<open>Trimming removes only whitespace encodings, so it keeps every printable ASCII character.\<close>

lemma strip_seqs_keeps:
  "c \<in> set s \<Longrightarrow> \<forall>w\<in>set ws. c \<notin> set w \<Longrightarrow> c \<in> set (strip_seqs ws s)"
proof (induction ws s rule: strip_seqs.induct)
  case (1 ws s)
  show ?case
  proof (cases "find (\<lambda>w. w \<noteq> [] \<and> take (length w) s = w) ws")
    case None
    with "1.prems" show ?thesis by (simp add: strip_seqs.simps)
  next
    case (Some w)
    then have w: "w \<in> set ws" "take (length w) s = w" by (auto simp: find_Some_iff)
    have "s = w @ drop (length w) s" using w(2) by (metis append_take_drop_id)
    then have "c \<in> set (drop (length w) s)" using "1.prems" w(1) by (metis Un_iff set_append)
    with "1.IH" [OF Some] "1.prems"(2) Some show ?thesis by (simp add: strip_seqs.simps)
  qed
qed

lemma js_ws_seqs_bytes: "w \<in> set js_ws_seqs \<Longrightarrow> c \<in> set w \<Longrightarrow> of_char c < (33::nat) \<or> 127 < (of_char c::nat)"
  by (auto simp: js_ws_seqs_def)

lemma js_trim_keeps_graphic:
  assumes "c \<in> set s" "33 \<le> (of_char c::nat)" "(of_char c::nat) \<le> 126"
  shows "c \<in> set (js_trim s)"
proof -
  have no: "\<forall>w\<in>set js_ws_seqs. c \<notin> set w" using assms(2,3) js_ws_seqs_bytes by fastforce
  then have "\<forall>w\<in>set (map rev js_ws_seqs). c \<notin> set w" by simp
  with strip_seqs_keeps [OF assms(1) no] show ?thesis
    by (simp add: js_trim_def strip_seqs_keeps)
qed

lemma length_pad_start [simp]: "length (pad_start n c s) = max n (length s)"
  by (simp add: pad_start_def)


lemma digits_value_zeros [simp]: "digits_value 0 (replicate k 0 @ ds) = digits_value 0 ds"
  by (induction k) simp_all


lemma parse_nat_zero_pad: "parse_nat (replicate k (CHR ''0'') @ show_nat n) = Some n"
proof -
  have z: "char_digit (CHR ''0'') = Some 0" by (simp add: char_digit_def)
  have "parse_nat (show_nat n) = Some n" by simp
  then have "list_all (\<lambda>c. char_digit c \<noteq> None) (show_nat n)"
    and v: "digits_value 0 (map (the \<circ> char_digit) (show_nat n)) = n"
    by (simp_all add: parse_nat_def split: if_splits)
  then show ?thesis
    by (auto simp: parse_nat_def z map_replicate_const list_all_iff set_replicate_conv_if)
qed


lemma parse_sku_sku_of: "parse_sku (sku_of n) = Some n"
  by (simp add: parse_sku_def sku_of_def pad_start_def parse_nat_zero_pad)


lemma sku_of_inj: "sku_of m = sku_of n \<longleftrightarrow> m = n"
  by (metis option.inject parse_sku_sku_of)


lemma digits_of_length_le:
  "0 < k \<Longrightarrow> length (digits_of n) \<le> k \<longleftrightarrow> n < 10 ^ k"
proof (induction n arbitrary: k rule: digits_of.induct)
  case (1 n)
  show ?case
  proof (cases "n < 10")
    case True
    moreover have "(10::nat) \<le> 10 ^ k" using "1.prems" by (cases k) simp_all
    ultimately show ?thesis using "1.prems" by (simp add: digits_of.simps [of n])
  next
    case False
    show ?thesis
    proof (cases k)
      case (Suc j)
      show ?thesis
      proof (cases j)
        case 0
        with Suc False show ?thesis by (simp add: digits_of.simps [of n])
      next
        case (Suc j')
        then have "length (digits_of (n div 10)) \<le> j \<longleftrightarrow> n div 10 < 10 ^ j"
          using "1.IH" False by simp
        moreover have "n div 10 < 10 ^ j \<longleftrightarrow> n < 10 ^ k"
          using \<open>k = Suc j\<close> by (simp add: div_less_iff_less_mult mult.commute)
        ultimately show ?thesis using \<open>k = Suc j\<close> False by (simp add: digits_of.simps [of n])
      qed
    qed (use "1.prems" in simp)
  qed
qed


lemma replicate_4: "replicate 4 c = [c, c, c, c]"
  by (simp add: numeral_eq_Suc)

lemma sku_of_digit: "n < 10 \<Longrightarrow> sku_of n = ''P-'' @ [CHR ''0'', CHR ''0'', CHR ''0'', CHR ''0'', digit_char n]"
  by (simp add: sku_of_def pad_start_def show_nat_def digits_of.simps replicate_4)

subsection \<open>The invariant\<close>

lemma catalog_inv_cong:
  assumes "products s' = products s" "stock s' = stock s" "movements s' = movements s"
    "next_product_id s' = next_product_id s" "next_stock_id s' = next_stock_id s"
    "next_movement_id s' = next_movement_id s"
  shows "catalog_inv s' = catalog_inv s"
  using assms ledger_inv_cong [of s' s]
  by (simp add: catalog_inv_def catalog_wf_def engine_inv_def stock_wf_def movements_wf_def)


lemma catalog_step_frame:
  assumes "\<not> is_product_req r"
  shows "products (catalog_step u s r) = products s \<and> stock (catalog_step u s r) = stock s
    \<and> movements (catalog_step u s r) = movements s \<and> next_product_id (catalog_step u s r) = next_product_id s
    \<and> next_stock_id (catalog_step u s r) = next_stock_id s
    \<and> next_movement_id (catalog_step u s r) = next_movement_id s"
  using assms
  by (cases r) (auto simp: route_create_warehouse_def createWarehouseController_def createWarehouse_def
     route_update_warehouse_def updateWarehouseController_def updateWarehouse_def
     route_delete_warehouse_def deleteWarehouseController_def deleteWarehouse_def
     route_create_unit_def createUnitController_def createUnit_def
     route_update_unit_def updateUnitController_def updateUnit_def
     route_delete_unit_def deleteUnitController_def deleteUnit_def Let_def
     split: option.splits sum.splits prod.splits)



lemma engine_inv_insert_zero:
  assumes "engine_inv s" "getCurrentStock p w s = None"
  shows "engine_inv (snd (insert_stock p w 0 s))"
proof -
  let ?s' = "snd (insert_stock p w 0 s)"
  from assms(1) have wf: "stock_wf s" "movements_wf s" "ledger_inv s" by (simp_all add: engine_inv_def)
  have abs: "ledger_abs (balances s) (movements s)" using wf ledger_inv_abs by blast
  have bal: "balances ?s' = (balances s)((p, w) \<mapsto> 0)"
    using balances_insert_stock assms(2) by blast
  have none: "balances s (p, w) = None" using assms(2) by (simp add: balances_def)
  have "pair_movs p w (movements s) = []" using ledger_abs_none [OF abs none] .
  then have "ledger_abs (balances ?s') (movements ?s')"
    using abs by (auto simp: bal ledger_abs_def)
  moreover have "stock_wf ?s'" using wf(1) assms(2) by blast
  moreover have "movements_wf ?s'" using wf(2) by (simp add: movements_wf_def stock_insert_stock)
  ultimately show ?thesis using ledger_inv_abs by (simp add: engine_inv_def)
qed



lemma insert_stock_catalog_frame [simp]:
  "next_product_id (snd (insert_stock p w q s)) = next_product_id s"
  "users (snd (insert_stock p w q s)) = users s"
  "units (snd (insert_stock p w q s)) = units s"
  by (simp_all add: insert_stock_def Let_def)


lemma catalog_wf_fresh_id:
  assumes "catalog_wf s"
  shows "\<forall>r \<in> set (stock s). st_product r \<noteq> next_product_id s"
    "next_product_id s \<notin> set (map pr_id (products s))"
  using assms by (fastforce simp: catalog_wf_def)+


lemma createProduct_inv:
  assumes "catalog_inv s"
  shows "catalog_inv (snd (createProduct name b s))"
proof -
  let ?i = "next_product_id s"
  let ?p = "\<lparr>pr_id = ?i, pr_name = name, pr_sku = Some (sku_of ?i), pr_unit = pb_unit b,
          pr_barcode = js_truthy (pb_barcode b), pr_description = js_truthy (pb_description b)\<rparr>"
  let ?s1 = "s\<lparr>products := products s @ [?p], next_product_id := Suc ?i\<rparr>"
  from assms have inv: "engine_inv s" and cw: "catalog_wf s" by (simp_all add: catalog_inv_def)
  note fresh = catalog_wf_fresh_id [OF cw]
  have e1: "engine_inv ?s1"
    using inv ledger_inv_cong [of ?s1 s] by (simp add: engine_inv_def stock_wf_def movements_wf_def)
  have c1: "catalog_wf ?s1" using cw fresh(2) by (auto simp: catalog_wf_def)
  show ?thesis
  proof (cases "js_or_null (pb_warehouse b)")
    case None
    with e1 c1 show ?thesis by (simp add: createProduct_def catalog_inv_def Let_def)
  next
    case (Some w)
    have none: "getCurrentStock ?i w ?s1 = None" using fresh(1) by (auto simp: getCurrentStock_None)
    have "engine_inv (snd (insert_stock ?i w 0 ?s1))" using engine_inv_insert_zero [OF e1 none] .
    moreover have "catalog_wf (snd (insert_stock ?i w 0 ?s1))"
      using c1 by (simp add: catalog_wf_def stock_insert_stock)
    ultimately show ?thesis using Some by (simp add: createProduct_def catalog_inv_def Let_def)
  qed
qed


lemma updateProduct_inv:
  assumes "catalog_inv s"
  shows "catalog_inv (updateProduct i name b s)"
proof -
  have ids: "map pr_id (products (updateProduct i name b s)) = map pr_id (products s)"
    by (simp add: updateProduct_def comp_def if_distrib cong: if_cong)
  have "\<forall>p \<in> set (products (updateProduct i name b s)). pr_id p < next_product_id s
      \<and> pr_sku p = Some (sku_of (pr_id p))"
    using assms by (auto simp: catalog_inv_def catalog_wf_def updateProduct_def)
  then have "catalog_wf (updateProduct i name b s)"
    using assms unfolding catalog_wf_def catalog_inv_def ids
    by (simp add: updateProduct_def)
  moreover have "engine_inv (updateProduct i name b s)"
    using assms ledger_inv_cong [of "updateProduct i name b s" s]
    by (simp add: catalog_inv_def engine_inv_def stock_wf_def movements_wf_def updateProduct_def)
  ultimately show ?thesis by (simp add: catalog_inv_def)
qed


lemma deleteProduct_inv:
  assumes "catalog_inv s" "deleteProduct i s = Inr s'"
  shows "catalog_inv s'"
proof -
  from assms(2) have s': "s' = s\<lparr>products := filter (\<lambda>p. pr_id p \<noteq> i) (products s)\<rparr>"
    and st: "\<forall>r \<in> set (stock s). st_product r \<noteq> i" and mv: "\<forall>m \<in> set (movements s). mov_product m \<noteq> i"
    by (auto simp: deleteProduct_def list_ex_iff split: if_splits)
  have "catalog_wf s'"
    using assms(1) st mv by (fastforce simp: catalog_inv_def catalog_wf_def s' distinct_map_filter)
  moreover have "engine_inv s'"
    using assms(1) ledger_inv_cong [of s' s]
    by (simp add: catalog_inv_def engine_inv_def stock_wf_def movements_wf_def s')
  ultimately show ?thesis by (simp add: catalog_inv_def)
qed


lemma catalog_step_inv:
  assumes "catalog_inv s"
  shows "catalog_inv (catalog_step u s r)"
proof (cases "is_product_req r")
  case False
  then show ?thesis using assms catalog_inv_cong catalog_step_frame by metis
next
  case True
  then show ?thesis using assms
    by (cases r) (auto simp: route_create_product_def createProductController_def
        route_update_product_def updateProductController_def route_delete_product_def
        deleteProductController_def createProduct_inv updateProduct_inv deleteProduct_inv
        case_prod_unfold Let_def split: option.splits sum.splits)
qed



lemma catalog_run_inv:
  "catalog_inv s \<Longrightarrow> catalog_inv (foldl (catalog_step u) s rs)"
  by (induction rs arbitrary: s) (simp_all add: catalog_step_inv)


lemma catalog_inv_skus:
  assumes "catalog_inv s"
  shows "distinct (map pr_sku (products s))"
proof -
  from assms have d: "distinct (map pr_id (products s))"
    and k: "\<forall>p \<in> set (products s). pr_sku p = Some (sku_of (pr_id p))"
    by (simp_all add: catalog_inv_def catalog_wf_def)
  have a: "distinct (map (\<lambda>i. Some (sku_of i)) (map pr_id (products s)))"
    by (rule distinct_map [THEN iffD2]) (simp add: d inj_on_def sku_of_inj)
  have e: "map pr_sku (products s) = map (\<lambda>i. Some (sku_of i)) (map pr_id (products s))"
    using k by (simp add: map_eq_conv)
  show ?thesis unfolding e by (rule a)
qed


lemma find_snoc_fresh:
  "\<forall>x \<in> set xs. \<not> P x \<Longrightarrow> P p \<Longrightarrow> find P (xs @ [p]) = Some p"
  by (induction xs) auto


lemma find_product_snoc_fresh:
  assumes "pr_id p \<notin> set (map pr_id (products s))"
  shows "find (\<lambda>x. pr_id x = pr_id p) (products s @ [p]) = Some p"
  using assms by (intro find_snoc_fresh) (auto simp: image_iff)


lemma updateUnit_Inl: "updateUnit i name d s = Inl SqlParseError"
  by (simp add: updateUnit_def sql_unbound_def updateUnit_sql_def)


lemma listProducts_subset:
  "set (listProducts u q s) \<subseteq> set (if p_role u = RoleSuperAdmin then products s
     else filter (stocked_in_unit s (p_unit u)) (products s))"
  by (auto simp: listProducts_def Let_def dest!: in_set_takeD)


lemma stocked_in_unit_iff:
  "stocked_in_unit s k p \<longleftrightarrow> (\<exists>r \<in> set (stock s). st_product r = pr_id p
    \<and> (\<exists>w. find_warehouse (st_warehouse r) s = Some w \<and> sql_eq (wh_unit w) k))"
  by (auto simp: stocked_in_unit_def list_ex_iff split: option.splits)


subsection \<open>The demo database\<close>

lemma demo_skus: "sku_of 1 = ''P-00001''" "sku_of 2 = ''P-00002''"
  by (simp_all add: sku_of_digit show_nat_eval)

lemma demo_db_catalog_inv: "catalog_inv demo_db"
proof -
  have "catalog_wf demo_db"
    by (simp add: catalog_wf_def demo_db_def demo_skus demo_skus(1) [unfolded One_nat_def])
  moreover have "engine_inv demo_db"
    by (simp add: demo_db_def engine_inv_def stock_wf_def movements_wf_def ledger_inv_def pair_movs_def
                  getCurrentStock_def signed_qty_def)
  ultimately show ?thesis by (simp add: catalog_inv_def)
qed

section \<open>Properties\<close>

text \<open>
  C20. The SKU of a product id reads back as that id: \<open>"P-"\<close> followed by the id padded
  with zeros to five digits loses nothing, so two products never share a SKU.
\<close>

lemma sku_roundtrip: "parse_sku (sku_of n) = Some n"
  by (simp add: parse_sku_def sku_of_def pad_start_def parse_nat_zero_pad)

text \<open>
  C21. A SKU is seven characters up to id 99999 and grows by one character per digit
  beyond; \<open>padStart\<close> never truncates.
\<close>

lemma sku_length: "length (sku_of n) = (if n < 100000 then 7 else 2 + length (show_nat n))"
  using digits_of_length_le [of 5 n] by (auto simp: sku_of_def show_nat_def)

text \<open>
  C22. Every sequence of catalog writes (products, warehouses, units, through their
  routes, by any requester) keeps the ledger invariant and the catalog invariant.
\<close>

lemma catalog_requests_keep_invariant:
  assumes "catalog_inv s"
  shows "catalog_inv (foldl (catalog_step u) s rs)"
  using assms catalog_run_inv by blast

lemma catalog_requests_keep_invariant_witness:
  "catalog_inv (foldl (catalog_step (Some clerk_unit2)) demo_db [DeleteWarehouse 2, CreateProduct arruela])"
  using catalog_requests_keep_invariant [of demo_db "Some clerk_unit2" "[DeleteWarehouse 2, CreateProduct arruela]"]
    demo_db_catalog_inv by simp

text \<open>C23. After any sequence of catalog writes the SKUs of the products are pairwise distinct.\<close>

lemma catalog_skus_unique:
  assumes "catalog_inv s"
  shows "distinct (map pr_sku (products (foldl (catalog_step u) s rs)))"
  using catalog_inv_skus catalog_run_inv assms by blast

lemma catalog_skus_unique_witness:
  "distinct (map pr_sku (products (foldl (catalog_step (Some clerk_unit2)) demo_db [DeleteProduct 2])))"
  using catalog_skus_unique [of demo_db "Some clerk_unit2" "[DeleteProduct 2]"] demo_db_catalog_inv by simp

text \<open>
  C24. A product created through its controller gets the next id and the SKU of that id,
  and a stock row with balance 0 in the warehouse the body names, with no movement; the
  invariants hold after it.
\<close>

lemma createProduct_opens_zero_balance:
  assumes "catalog_inv s" "createProductController b s = (Inr i, s')"
  shows "i = next_product_id s \<and> catalog_inv s' \<and> movements s' = movements s
    \<and> map_option pr_sku (find_product i s') = Some (Some (sku_of i))
    \<and> (\<exists>w. js_or_null (pb_warehouse b) = Some w \<and> balances s' (i, w) = Some 0)"
proof -
  obtain name w where n: "js_truthy (pb_name b) = Some name" and w: "js_or_null (pb_warehouse b) = Some w"
    and c: "createProduct name b s = (i, s')"
    using assms(2) by (auto simp: createProductController_def split: option.splits if_splits prod.splits)
  let ?p = "\<lparr>pr_id = next_product_id s, pr_name = name, pr_sku = Some (sku_of (next_product_id s)),
     pr_unit = pb_unit b, pr_barcode = js_truthy (pb_barcode b), pr_description = js_truthy (pb_description b)\<rparr>"
  let ?s1 = "s\<lparr>products := products s @ [?p], next_product_id := Suc (next_product_id s)\<rparr>"
  have cw: "catalog_wf s" using assms(1) by (simp add: catalog_inv_def)
  note fresh = catalog_wf_fresh_id [OF cw]
  have s': "s' = snd (insert_stock (next_product_id s) w 0 ?s1)" and i: "i = next_product_id s"
    using c w by (auto simp: createProduct_def Let_def)
  have "catalog_inv s'" using createProduct_inv [OF assms(1), of name b] c by simp
  moreover have "balances s' (i, w) = Some 0"
    using fresh(1) by (simp add: s' i balances_insert_stock getCurrentStock_None)
  moreover have "find_product i s' = Some ?p"
    using find_product_snoc_fresh [of ?p s] fresh(2) by (simp add: s' i find_product_def)
  ultimately show ?thesis using w i by (simp add: s')
qed


lemma createProduct_opens_zero_balance_witness:
  "balances (snd (createProductController arruela demo_db)) (3, 1) = Some 0"
proof -
  have "createProductController arruela demo_db = (Inr 3, snd (createProductController arruela demo_db))"
    by (simp add: createProductController_def arruela_def createProduct_def demo_db_def Let_def js_truthy_def js_or_null_def)
  from createProduct_opens_zero_balance [OF demo_db_catalog_inv this] show ?thesis
    by (simp add: arruela_def demo_db_def js_or_null_def)
qed



text \<open>
  C25. A product with a stock row or a movement is not deleted: the answer is
  \<open>PRODUCT_IN_USE\<close> with status 400 and the database is unchanged.
\<close>

lemma delete_product_in_use_refused:
  assumes "list_ex (\<lambda>r. st_product r = i) (stock s) \<or> list_ex (\<lambda>m. mov_product m = i) (movements s)"
  shows "deleteProductController i s = (Inl ProductInUse, s) \<and> status_of ProductInUse = 400"
  using assms by (simp add: deleteProductController_def deleteProduct_def)


lemma delete_product_in_use_refused_witness:
  "deleteProductController 1 demo_db = (Inl ProductInUse, demo_db)"
  using delete_product_in_use_refused [of 1 demo_db] by (simp add: demo_db_def)


text \<open>
  C26. The warehouse routes check only authentication: any requester, whatever its role
  and unit, deletes a warehouse of any unit that has no stock and no movement.
\<close>

lemma any_user_deletes_unused_warehouse:
  assumes "\<not> list_ex (\<lambda>m. mov_warehouse m = i) (movements s)" "\<not> list_ex (\<lambda>r. st_warehouse r = i) (stock s)"
  shows "route_delete_warehouse (Some p) i s = (Inr (), s\<lparr>warehouses := filter (\<lambda>w. wh_id w \<noteq> i) (warehouses s)\<rparr>)"
  using assms by (simp add: route_delete_warehouse_def deleteWarehouseController_def deleteWarehouse_def)


lemma any_user_deletes_unused_warehouse_witness:
  "route_delete_warehouse (Some clerk_unit2) 3 (snd (createWarehouse ''Deposito'' None (Some 1) demo_db))
     = (Inr (), demo_db\<lparr>next_warehouse_id := 4\<rparr>)"
  using any_user_deletes_unused_warehouse [of 3 "snd (createWarehouse ''Deposito'' None (Some 1) demo_db)" clerk_unit2]
  by (simp add: createWarehouse_def demo_db_def)


text \<open>
  C27. \<open>PUT /unidades/:id\<close> never succeeds and never changes the database: the statement
  of \<open>updateUnit\<close> has four placeholders and three values.
\<close>

lemma unit_update_always_fails:
  "snd (route_update_unit u i n d s) = s \<and> fst (route_update_unit u i n d s) \<noteq> Inr ()"
  by (simp add: route_update_unit_def updateUnitController_def updateUnit_Inl split: sum.splits option.splits)


text \<open>
  C28. \<open>requireMinRole("admin")\<close> lets a role with no rank (such as \<open>"comum"\<close>, the
  default of registration) create and delete units, while a \<open>"user"\<close> (rank 1) is refused.
\<close>

lemma unranked_role_manages_units:
  assumes "p_role p = RoleOther x" "p_role q = RoleUser"
  shows "route_create_unit (Some p) n d s = createUnitController n d s
    \<and> route_delete_unit (Some p) i s = deleteUnitController i s
    \<and> route_create_unit (Some q) n d s = (Inl PermissionDenied, s)"
  using assms by (simp add: route_create_unit_def route_delete_unit_def requireMinRole_def)


lemma unranked_role_manages_units_witness:
  "route_create_unit (Some (clerk_unit2\<lparr>p_role := RoleOther ''comum''\<rparr>)) (Some ''Norte'') None demo_db
     = (Inr 3, demo_db\<lparr>units := units demo_db @ [\<lparr>un_id = 3, un_name = ''Norte'', un_acronym = None,
          un_description = None\<rparr>], next_unit_id := 4\<rparr>)"
proof -
  have "route_create_unit (Some (clerk_unit2\<lparr>p_role := RoleOther ''comum''\<rparr>)) (Some ''Norte'') None demo_db
      = createUnitController (Some ''Norte'') None demo_db"
    using unranked_role_manages_units [of "clerk_unit2\<lparr>p_role := RoleOther ''comum''\<rparr>" "''comum''" clerk_unit2
      "Some ''Norte''" None demo_db 1] by (simp add: clerk_unit2_def)
  then show ?thesis
    by (simp add: createUnitController_def createUnit_def js_truthy_def demo_db_def)
qed


text \<open>
  A requester other than the top role is listed only products that have a stock row
  in a warehouse of its own unit.
\<close>

lemma product_list_scope:
  assumes "p_role u \<noteq> RoleSuperAdmin" "p \<in> set (listProducts u q s)"
  shows "p \<in> set (products s) \<and> (\<exists>r \<in> set (stock s). st_product r = pr_id p
    \<and> (\<exists>w. find_warehouse (st_warehouse r) s = Some w \<and> sql_eq (wh_unit w) (p_unit u)))"
  using assms listProducts_subset [of u q s] by (auto simp: stocked_in_unit_iff)


lemma product_list_scope_witness:
  "listProducts clerk_unit2 None demo_db = []"
proof -
  have "\<forall>p. p \<notin> set (listProducts clerk_unit2 None demo_db)"
  proof
    fix p
    show "p \<notin> set (listProducts clerk_unit2 None demo_db)"
    proof
      assume "p \<in> set (listProducts clerk_unit2 None demo_db)"
      from product_list_scope [OF _ this] show False
        by (auto simp: clerk_unit2_def demo_db_def find_warehouse_def)
    qed
  qed
  then show ?thesis by (meson last_in_set)
qed


end
