(* ===== verification/ConcurrentEntries.thy ===== *)
theory ConcurrentEntries
  imports Concurrency Catalog
begin

text \<open>
  Concurrent entries against one (product, warehouse) pair. \<open>stockEntryController\<close>
  (stockController.js, lines 8--44) runs \<open>upsertStock\<close> (stockModel.js, lines 11--34)
  and \<open>registerMovement\<close> in a transaction of its own connection. \<open>upsertStock\<close> reads
  the row with a plain \<open>SELECT\<close> (line 17, through \<open>getCurrentStock\<close>), then inserts a
  first row (lines 20--23) or writes the absolute value \<open>previous_qty + quantity\<close>
  (lines 27--31). As for exits (Concurrency.thy), one entry is two atomic steps: the
  read, and the write with the movement and the commit. The repository has no schema, so
  nothing makes \<open>(product_id, warehouse_id)\<close> unique: two inserts of the same pair both
  succeed. With \<open>lock = True\<close> a read waits while another entry has read the same pair
  and not committed (\<open>SELECT ... FOR UPDATE\<close>, whose gap lock also holds back an insert).
\<close>

datatype etx_phase = EPending | ERead "(nat \<times> qty) option" | ECommitted nat

record entry_tx =
  etx_product :: product_id
  etx_warehouse :: warehouse_id
  etx_user :: "user_id option"
  etx_qty :: qty
  etx_desc :: "string option"
  etx_phase :: etx_phase

text \<open>What \<open>getCurrentStock\<close> returns to the entry: the row's id and quantity, or \<open>null\<close>.\<close>

definition etx_seen :: "entry_tx \<Rightarrow> db \<Rightarrow> (nat \<times> qty) option" where
  "etx_seen t s = map_option (\<lambda>cur. (stock_id cur, st_quantity cur))
     (getCurrentStock (etx_product t) (etx_warehouse t) s)"

definition etx_read :: "entry_tx \<Rightarrow> db \<Rightarrow> entry_tx" where
  "etx_read t s = t\<lparr>etx_phase := ERead (etx_seen t s)\<rparr>"

text \<open>Lines 19--33 of stockModel.js with the value read, then \<open>registerMovement\<close> and the commit.\<close>

definition etx_commit :: "entry_tx \<Rightarrow> (nat \<times> qty) option \<Rightarrow> db \<Rightarrow> entry_tx \<times> db" where
  "etx_commit t r s = (let p = etx_product t; w = etx_warehouse t; q = etx_qty t;
     (prev, s1) = (case r of None \<Rightarrow> (0, snd (insert_stock p w q s))
                   | Some (rid, v) \<Rightarrow> (v, set_stock_quantity rid (v + q) s));
     (mid, s2) = registerMovement p w (etx_user t) ENTRADA q prev (prev + q) (etx_desc t) s1
   in (t\<lparr>etx_phase := ECommitted mid\<rparr>, s2))"

definition etx_reading :: "entry_tx \<Rightarrow> bool" where
  "etx_reading t = (case etx_phase t of ERead _ \<Rightarrow> True | _ \<Rightarrow> False)"

definition entry_pair_held :: "entry_tx list \<Rightarrow> nat \<Rightarrow> bool" where
  "entry_pair_held ts i = list_ex (\<lambda>j. j \<noteq> i \<and> etx_reading (ts ! j)
     \<and> etx_product (ts ! j) = etx_product (ts ! i) \<and> etx_warehouse (ts ! j) = etx_warehouse (ts ! i))
     [0..<length ts]"

definition entry_read_allowed :: "bool \<Rightarrow> entry_tx list \<Rightarrow> nat \<Rightarrow> bool" where
  "entry_read_allowed lock ts i = (if lock then \<not> entry_pair_held ts i else True)"

inductive entry_conc_step :: "bool \<Rightarrow> db \<times> entry_tx list \<Rightarrow> db \<times> entry_tx list \<Rightarrow> bool" for lock where
  read: "i < length ts \<Longrightarrow> etx_phase (ts ! i) = EPending \<Longrightarrow> entry_read_allowed lock ts i \<Longrightarrow>
         entry_conc_step lock (s, ts) (s, ts[i := etx_read (ts ! i) s])"
| commit: "i < length ts \<Longrightarrow> etx_phase (ts ! i) = ERead r \<Longrightarrow>
         etx_commit (ts ! i) r s = (t', s') \<Longrightarrow> entry_conc_step lock (s, ts) (s', ts[i := t'])"

text \<open>
  The invariant of the locked interleavings: the engine invariant, every entry that has
  read still sees what it read, and no two such entries share a pair.
\<close>

definition etx_fresh :: "db \<Rightarrow> entry_tx \<Rightarrow> bool" where
  "etx_fresh s t \<longleftrightarrow> (\<forall>r. etx_phase t = ERead r \<longrightarrow> etx_seen t s = r)"

definition entry_conc_inv :: "db \<times> entry_tx list \<Rightarrow> bool" where
  "entry_conc_inv c \<longleftrightarrow> engine_inv (fst c) \<and> (\<forall>t\<in>set (snd c). etx_fresh (fst c) t)
     \<and> (\<forall>i<length (snd c). \<forall>j<length (snd c). i \<noteq> j \<longrightarrow> etx_reading (snd c ! i) \<longrightarrow> etx_reading (snd c ! j)
          \<longrightarrow> (etx_product (snd c ! i), etx_warehouse (snd c ! i)) \<noteq> (etx_product (snd c ! j), etx_warehouse (snd c ! j)))"

text \<open>An entry of 5 units of product 2, which has no row in warehouse 1 of the demo database.\<close>

definition porca_entry5 :: entry_tx where
  "porca_entry5 = \<lparr>etx_product = 2, etx_warehouse = 1, etx_user = Some 7, etx_qty = 5, etx_desc = None,
     etx_phase = EPending\<rparr>"

section \<open>Lemmas\<close>

text \<open>A commit whose read is still current is the sequential \<open>entry_item\<close> of Engine.thy.\<close>

lemma etx_commit_fresh:
  assumes "etx_seen t s = r"
  shows "snd (etx_commit t r s) = snd (entry_item (etx_product t) (etx_warehouse t) (etx_user t) (etx_qty t) (etx_desc t) s)"
  using assms
  by (auto simp: etx_commit_def etx_seen_def entry_item_def upsertStock_def Let_def split_def
      split: option.splits)

lemma etx_commit_phase [simp]:
  "etx_phase (fst (etx_commit t r s)) = ECommitted (next_movement_id s)"
  by (simp add: etx_commit_def Let_def split_def registerMovement_def split: option.splits)

lemma getCurrentStock_registerMovement [simp]:
  "getCurrentStock p' w' (snd (registerMovement p w u ty q a b d s)) = getCurrentStock p' w' s"
  by (simp add: getCurrentStock_def)

text \<open>An entry leaves the row of every other pair as it was.\<close>

lemma entry_item_other_pair:
  assumes "stock_wf s" "(p', w') \<noteq> (p, w)"
  shows "getCurrentStock p' w' (snd (entry_item p w u q d s)) = getCurrentStock p' w' s"
proof (cases "getCurrentStock p w s")
  case None
  then show ?thesis using assms(2)
    by (auto simp: entry_item_def upsertStock_def Let_def split_def getCurrentStock_insert_stock
        split: option.splits)
next
  case (Some cur)
  have other: "getCurrentStock p' w' (set_stock_quantity (stock_id cur) v s) = getCurrentStock p' w' s" for v
  proof (cases "getCurrentStock p' w' s")
    case (Some r)
    then have "stock_id r \<noteq> stock_id cur"
      using getCurrentStock_other_id [OF assms(1) \<open>getCurrentStock p w s = Some cur\<close> _ assms(2)] by blast
    with Some show ?thesis by (simp add: getCurrentStock_set_stock_quantity)
  qed (simp add: getCurrentStock_set_stock_quantity)
  show ?thesis using Some other
    by (simp add: entry_item_def upsertStock_def Let_def split_def)
qed

lemma etx_reading_read [simp]: "etx_reading (etx_read t s)"
  by (simp add: etx_reading_def etx_read_def)

lemma etx_read_fields [simp]:
  "etx_product (etx_read t s) = etx_product t" "etx_warehouse (etx_read t s) = etx_warehouse t"
  by (simp_all add: etx_read_def)

lemma etx_fresh_idle: "\<not> etx_reading t \<Longrightarrow> etx_fresh s t"
  by (auto simp: etx_fresh_def etx_reading_def)

lemma etx_fresh_read: "etx_fresh s (etx_read t s)"
  by (simp add: etx_fresh_def etx_read_def etx_seen_def)

lemma entry_pair_held_iff:
  "entry_pair_held ts i \<longleftrightarrow> (\<exists>j<length ts. j \<noteq> i \<and> etx_reading (ts ! j)
     \<and> etx_product (ts ! j) = etx_product (ts ! i) \<and> etx_warehouse (ts ! j) = etx_warehouse (ts ! i))"
  by (auto simp: entry_pair_held_def list_ex_iff)

lemma entry_conc_inv_read:
  assumes inv: "entry_conc_inv (s, ts)" and i: "i < length ts" and free: "\<not> entry_pair_held ts i"
  shows "entry_conc_inv (s, ts[i := etx_read (ts ! i) s])"
proof -
  let ?ts = "ts[i := etx_read (ts ! i) s]"
  have fresh: "\<forall>t\<in>set ?ts. etx_fresh s t"
  proof
    fix t assume "t \<in> set ?ts"
    from in_set_update_cases [OF this] show "etx_fresh s t"
      using inv etx_fresh_read [of s "ts ! i"] by (auto simp: entry_conc_inv_def)
  qed
  have pairs: "(etx_product (?ts ! a), etx_warehouse (?ts ! a)) \<noteq> (etx_product (?ts ! b), etx_warehouse (?ts ! b))"
    if ab: "a < length ?ts" "b < length ?ts" "a \<noteq> b" "etx_reading (?ts ! a)" "etx_reading (?ts ! b)" for a b
  proof -
    have clash: "(etx_product (ts ! i), etx_warehouse (ts ! i)) \<noteq> (etx_product (ts ! j), etx_warehouse (ts ! j))"
      if "j < length ts" "j \<noteq> i" "etx_reading (ts ! j)" for j
      using free that by (auto simp: entry_pair_held_iff)
    consider "a = i" | "b = i" | "a \<noteq> i" "b \<noteq> i" by blast
    then show ?thesis
    proof cases
      case 1 with ab clash [of b] show ?thesis by (auto simp: nth_list_update)
    next
      case 2 with ab clash [of a] show ?thesis by (auto simp: nth_list_update)
    next
      case 3 with ab inv show ?thesis by (simp add: entry_conc_inv_def nth_list_update)
    qed
  qed
  from inv fresh pairs show ?thesis by (simp add: entry_conc_inv_def)
qed

lemma entry_conc_inv_commit:
  assumes inv: "entry_conc_inv (s, ts)" and i: "i < length ts" and ph: "etx_phase (ts ! i) = ERead r"
    and c: "etx_commit (ts ! i) r s = (t', s')"
  shows "entry_conc_inv (s', ts[i := t'])"
proof -
  let ?t = "ts ! i" and ?ts = "ts[i := t']"
  from inv have wf: "stock_wf s" by (simp add: entry_conc_inv_def engine_inv_def)
  from inv i ph have seen: "etx_seen ?t s = r" by (auto simp: entry_conc_inv_def etx_fresh_def)
  have s': "s' = snd (entry_item (etx_product ?t) (etx_warehouse ?t) (etx_user ?t) (etx_qty ?t) (etx_desc ?t) s)"
    using etx_commit_fresh [OF seen] c by simp
  have eng: "engine_inv s'" using inv by (simp add: s' entry_conc_inv_def entry_item_inv)
  have t'_idle: "\<not> etx_reading t'"
    using c etx_commit_phase [of ?t r s] by (simp add: etx_reading_def)
  have others: "etx_fresh s' (ts ! j)" if j: "j < length ts" "j \<noteq> i" for j
  proof (cases "etx_reading (ts ! j)")
    case False then show ?thesis by (rule etx_fresh_idle)
  next
    case True
    from inv i j True ph have ne: "(etx_product (ts ! j), etx_warehouse (ts ! j)) \<noteq> (etx_product ?t, etx_warehouse ?t)"
      by (auto simp: entry_conc_inv_def etx_reading_def)
    have "etx_seen (ts ! j) s' = etx_seen (ts ! j) s"
      using entry_item_other_pair [OF wf ne] by (simp add: etx_seen_def s')
    with inv j show ?thesis by (simp add: entry_conc_inv_def etx_fresh_def)
  qed
  have fresh: "\<forall>u\<in>set ?ts. etx_fresh s' u"
  proof
    fix u assume "u \<in> set ?ts"
    from in_set_update_cases [OF this] show "etx_fresh s' u"
      using others t'_idle etx_fresh_idle by blast
  qed
  have pairs: "\<forall>a<length ?ts. \<forall>b<length ?ts. a \<noteq> b \<longrightarrow> etx_reading (?ts ! a) \<longrightarrow> etx_reading (?ts ! b)
      \<longrightarrow> (etx_product (?ts ! a), etx_warehouse (?ts ! a)) \<noteq> (etx_product (?ts ! b), etx_warehouse (?ts ! b))"
    using inv t'_idle i by (auto simp: entry_conc_inv_def nth_list_update split: if_splits)
  from eng fresh pairs show ?thesis by (simp add: entry_conc_inv_def)
qed

text \<open>With the row lock every interleaving of entries keeps the engine invariant.\<close>

lemma entry_conc_step_locked_inv:
  assumes "entry_conc_step True c c'" "entry_conc_inv c"
  shows "entry_conc_inv c'"
  using assms(1)
proof cases
  case (read i ts s)
  with assms(2) show ?thesis by (auto intro: entry_conc_inv_read simp: entry_read_allowed_def)
next
  case (commit i ts r s t' s')
  with assms(2) show ?thesis by (auto intro: entry_conc_inv_commit)
qed

lemma entry_conc_steps_locked_inv:
  "(entry_conc_step True)\<^sup>*\<^sup>* c c' \<Longrightarrow> entry_conc_inv c \<Longrightarrow> entry_conc_inv c'"
  by (induction rule: rtranclp_induct) (auto intro: entry_conc_step_locked_inv)

lemma entry_conc_inv_start:
  "engine_inv s \<Longrightarrow> \<forall>t\<in>set ts. etx_phase t = EPending \<Longrightarrow> entry_conc_inv (s, ts)"
  by (auto simp: entry_conc_inv_def etx_fresh_def etx_reading_def)

text \<open>
  Without the lock, two entries of a pair that has no row both read \<open>null\<close> and both
  insert: the pair gets two rows, the balance \<open>getCurrentStock\<close> reads is the first
  one's 5 although 10 units came in, and both movements record 0 to 5.
\<close>

lemma concurrent_entries_duplicate_row:
  "\<exists>s' ts'. (entry_conc_step False)\<^sup>*\<^sup>* (demo_db, [porca_entry5, porca_entry5]) (s', ts')
     \<and> map etx_phase ts' = [ECommitted 2, ECommitted 3]
     \<and> map st_quantity (filter (\<lambda>r. st_product r = 2 \<and> st_warehouse r = 1) (stock s')) = [5, 5]
     \<and> balances s' (2, 1) = Some 5
     \<and> map (\<lambda>m. (mov_type m, mov_quantity m, mov_previous m, mov_new m)) (tl (movements s'))
         = [(ENTRADA, 5, 0, 5), (ENTRADA, 5, 0, 5)]
     \<and> \<not> stock_wf s' \<and> \<not> engine_inv s'"
proof -
  let ?t = porca_entry5
  let ?h = "porca_entry5\<lparr>etx_phase := ERead None\<rparr>"
  have r: "etx_read ?t demo_db = ?h"
    by (simp add: etx_read_def etx_seen_def porca_entry5_def demo_db_def getCurrentStock_def)
  have st1: "entry_conc_step False (demo_db, [?t, ?t]) (demo_db, [?h, ?t])"
    using entry_conc_step.read [where i=0 and ts="[?t, ?t]" and lock=False and s=demo_db] r
    by (simp add: entry_read_allowed_def porca_entry5_def)
  have st2: "entry_conc_step False (demo_db, [?h, ?t]) (demo_db, [?h, ?h])"
    using entry_conc_step.read [where i=1 and ts="[?h, ?t]" and lock=False and s=demo_db] r
    by (simp add: entry_read_allowed_def porca_entry5_def)
  define s1 where "s1 = snd (etx_commit ?h None demo_db)"
  define s2 where "s2 = snd (etx_commit ?h None s1)"
  have st3: "entry_conc_step False (demo_db, [?h, ?h]) (s1, [fst (etx_commit ?h None demo_db), ?h])"
    using entry_conc_step.commit [where i=0 and ts="[?h, ?h]" and r=None and lock=False and s=demo_db]
    by (simp add: s1_def)
  have st4: "entry_conc_step False (s1, [fst (etx_commit ?h None demo_db), ?h])
      (s2, [fst (etx_commit ?h None demo_db), fst (etx_commit ?h None s1)])"
    using entry_conc_step.commit [where i=1 and ts="[fst (etx_commit ?h None demo_db), ?h]" and r=None and lock=False and s=s1]
    by (simp add: s2_def)
  have run: "(entry_conc_step False)\<^sup>*\<^sup>* (demo_db, [?t, ?t])
      (s2, [fst (etx_commit ?h None demo_db), fst (etx_commit ?h None s1)])"
    using st1 st2 st3 st4 by (meson rtranclp.rtrancl_into_rtrancl rtranclp.rtrancl_refl)
  have s1: "s1 = snd (registerMovement 2 1 (Some 7) ENTRADA 5 0 5 None (snd (insert_stock 2 1 5 demo_db)))"
    by (simp add: s1_def etx_commit_def porca_entry5_def split_def)
  have s2: "s2 = snd (registerMovement 2 1 (Some 7) ENTRADA 5 0 5 None (snd (insert_stock 2 1 5 s1)))"
    by (simp add: s2_def etx_commit_def porca_entry5_def split_def)
  have stk: "stock s2 = stock demo_db @ [\<lparr>stock_id = 2, st_product = 2, st_warehouse = 1, st_quantity = 5\<rparr>,
      \<lparr>stock_id = 3, st_product = 2, st_warehouse = 1, st_quantity = 5\<rparr>]"
    by (simp add: s2 s1 stock_insert_stock registerMovement_def demo_db_def Let_def)
  have mv: "map (\<lambda>m. (mov_type m, mov_quantity m, mov_previous m, mov_new m)) (tl (movements s2))
      = [(ENTRADA, 5, 0, 5), (ENTRADA, 5, 0, 5)]"
    by (simp add: s2 s1 registerMovement_def insert_stock_def demo_db_def Let_def)
  have ph: "map etx_phase [fst (etx_commit ?h None demo_db), fst (etx_commit ?h None s1)] = [ECommitted 2, ECommitted 3]"
    by (simp add: s1 registerMovement_def insert_stock_def demo_db_def Let_def)
  have bal: "balances s2 (2, 1) = Some 5"
    by (simp add: balances_def getCurrentStock_def stk demo_db_def)
  have nwf: "\<not> stock_wf s2"
    by (simp add: stock_wf_def stk demo_db_def)
  then have "\<not> engine_inv s2" by (simp add: engine_inv_def)
  with run ph bal mv nwf show ?thesis
    by (intro exI [of _ s2] exI [of _ "[fst (etx_commit ?h None demo_db), fst (etx_commit ?h None s1)]"])
       (simp add: stk demo_db_def)
qed

text \<open>With the lock, every interleaving of entries from a consistent database keeps the engine invariant.\<close>

lemma locked_entries_keep_ledger:
  assumes "(entry_conc_step True)\<^sup>*\<^sup>* (s, ts) (s', ts')" "engine_inv s" "\<forall>t\<in>set ts. etx_phase t = EPending"
  shows "engine_inv s'"
  using entry_conc_steps_locked_inv [OF assms(1) entry_conc_inv_start [OF assms(2,3)]]
  by (simp add: entry_conc_inv_def)

end
