(* ===== verification/ConcurrentBatches.thy ===== *)
theory ConcurrentBatches
  imports Engine
begin

text \<open>
  Concurrent exit batches, item by item. Concurrency.thy interleaves one-item exits; here
  each request runs the whole loop of \<open>stockExitController\<close> (stockController.js, lines
  118--149) in its own transaction: for each item, in the caller's order, \<open>decreaseStock\<close>
  reads the row and writes \<open>previous - qty\<close> (stockModel.js, lines 42--62) and
  \<open>registerMovement\<close> inserts the movement; then the commit, or the rollback of the catch.
  The model keeps InnoDB's rules that matter here: a transaction reads committed rows plus
  its own changes, an \<open>UPDATE\<close> locks its row until the end, an insert draws its id at
  once, and a cycle of lock waits rolls back a victim with \<open>ER_LOCK_DEADLOCK\<close> (500).
  With \<open>lock\<close> the read also locks the row (spec 5's \<open>SELECT ... FOR UPDATE\<close>).

  \<open>exit_tx_alone\<close> and \<open>batch_tx_refines_stockExit\<close>: a transaction run alone ends
  exactly as Engine's \<open>stockExit_movements\<close>. C19: with the lock every interleaving keeps
  the ledger. C37: two batches over the same rows in opposite orders can deadlock, with or
  without the lock.
\<close>

section \<open>The transaction of an exit batch\<close>

text \<open>
  The state of one exit transaction: taking its next item, holding the row it has just
  read with the quantity read, committed, or rolled back with the error the catch passes on.
\<close>

datatype bstate = BActive | BReadRow nat qty | BCommitted | BRolledBack api_error

text \<open>
  A transaction of \<open>stockExitController\<close> (lines 118--149): its warehouse, user and
  description, the items still to process, the \<open>UPDATE\<close>s it has run (row id and value
  written) and the movements it has inserted, neither visible to other transactions before
  its commit.
\<close>

record batch_tx =
  bt_warehouse :: warehouse_id
  bt_user :: "user_id option"
  bt_desc :: "string option"
  bt_todo :: "(product_id \<times> qty) list"
  bt_writes :: "(nat \<times> qty) list"
  bt_movs :: "movement list"
  bt_state :: bstate

text \<open>The \<open>UPDATE stock SET quantity = ? WHERE id = ?\<close> statements it has run (stockModel.js, lines 59--62), in order.\<close>

definition apply_writes :: "(nat \<times> qty) list \<Rightarrow> db \<Rightarrow> db" where
  "apply_writes ws s = foldl (\<lambda>s (i, v). set_stock_quantity i v s) s ws"

text \<open>
  What the transaction reads: the committed rows with its own updates and the committed
  log with its own inserts. InnoDB shows a transaction its own uncommitted changes and,
  at read committed, the changes other transactions have committed.
\<close>

definition bt_view :: "batch_tx \<Rightarrow> db \<Rightarrow> db" where
  "bt_view t s = (apply_writes (bt_writes t) s)\<lparr>movements := movements s @ bt_movs t\<rparr>"

text \<open>
  The row locks it holds until it ends: each row it has updated (an \<open>UPDATE\<close> locks its
  row), and with \<open>lock\<close> the row it has read, as \<open>SELECT ... FOR UPDATE\<close> (spec 5) would.
\<close>

definition bt_locks :: "bool \<Rightarrow> batch_tx \<Rightarrow> nat list" where
  "bt_locks lock t = (case bt_state t of
      BActive \<Rightarrow> map fst (bt_writes t)
    | BReadRow rid _ \<Rightarrow> (if lock then [rid] else []) @ map fst (bt_writes t)
    | _ \<Rightarrow> [])"

text \<open>\<open>decreaseStock\<close> of the next item (stockModel.js, lines 42--55): the row it reads, then the read and its two checks.\<close>

definition bt_read_row :: "batch_tx \<Rightarrow> db \<Rightarrow> stock_row option" where
  "bt_read_row t s = (case bt_todo t of [] \<Rightarrow> None
     | (p, q) # _ \<Rightarrow> getCurrentStock p (bt_warehouse t) (bt_view t s))"

definition bt_read :: "batch_tx \<Rightarrow> db \<Rightarrow> batch_tx" where
  "bt_read t s = (case bt_todo t of [] \<Rightarrow> t
     | (p, q) # _ \<Rightarrow> (case getCurrentStock p (bt_warehouse t) (bt_view t s) of
         None \<Rightarrow> t\<lparr>bt_state := BRolledBack NoStockRecord\<rparr>
       | Some cur \<Rightarrow> if q > st_quantity cur then t\<lparr>bt_state := BRolledBack InsufficientStock\<rparr>
           else t\<lparr>bt_state := BReadRow (stock_id cur) (st_quantity cur)\<rparr>))"

text \<open>
  Lines 57--64 with the value read, then \<open>registerMovement\<close> (stockController.js, lines
  134--146). The movement id is drawn from the global \<open>AUTO_INCREMENT\<close> counter at the
  insert, and a rollback does not give it back.
\<close>

definition bt_write :: "batch_tx \<Rightarrow> nat \<Rightarrow> qty \<Rightarrow> db \<Rightarrow> batch_tx \<times> db" where
  "bt_write t rid prev s = (case bt_todo t of [] \<Rightarrow> (t, s)
     | (p, q) # rest \<Rightarrow> (let i = next_movement_id s;
         m = \<lparr>mov_id = i, mov_product = p, mov_warehouse = bt_warehouse t, mov_user = js_or_null (bt_user t),
              mov_type = SAIDA, mov_quantity = q, mov_previous = prev, mov_new = prev - q,
              mov_description = bt_desc t, mov_created_at = clock s\<rparr> in
         (t\<lparr>bt_todo := rest, bt_writes := bt_writes t @ [(rid, prev - q)], bt_movs := bt_movs t @ [m],
            bt_state := BActive\<rparr>, s\<lparr>next_movement_id := Suc i\<rparr>)))"

text \<open>Transaction \<open>i\<close> waits for \<open>j\<close>: its next statement needs a row lock \<open>j\<close> holds.\<close>

definition waits :: "bool \<Rightarrow> db \<Rightarrow> batch_tx list \<Rightarrow> nat \<Rightarrow> nat \<Rightarrow> bool" where
  "waits lock s ts i j \<longleftrightarrow> i < length ts \<and> j < length ts \<and> i \<noteq> j \<and> (case bt_state (ts ! i) of
      BReadRow rid _ \<Rightarrow> rid \<in> set (bt_locks lock (ts ! j))
    | BActive \<Rightarrow> lock \<and> (case bt_read_row (ts ! i) s of
         Some cur \<Rightarrow> stock_id cur \<in> set (bt_locks lock (ts ! j)) | None \<Rightarrow> False)
    | _ \<Rightarrow> False)"

definition blocked :: "bool \<Rightarrow> db \<Rightarrow> batch_tx list \<Rightarrow> nat \<Rightarrow> bool" where
  "blocked lock s ts i = list_ex (waits lock s ts i) [0..<length ts]"

text \<open>
  Concurrent requests, each a transaction on its own pooled connection: a live transaction
  that waits for none reads or writes its next item, or commits (line 149) when none is
  left; when transactions wait for each other in a cycle, InnoDB rolls one back with
  \<open>ER_LOCK_DEADLOCK\<close>, and the catch (lines 202--206) passes the error on.
\<close>

inductive bstep :: "bool \<Rightarrow> db \<times> batch_tx list \<Rightarrow> db \<times> batch_tx list \<Rightarrow> bool" for lock where
  bread: "i < length ts \<Longrightarrow> bt_state (ts ! i) = BActive \<Longrightarrow> bt_todo (ts ! i) \<noteq> [] \<Longrightarrow>
         \<not> blocked lock s ts i \<Longrightarrow> bstep lock (s, ts) (s, ts[i := bt_read (ts ! i) s])"
| bwrite: "i < length ts \<Longrightarrow> bt_state (ts ! i) = BReadRow rid prev \<Longrightarrow> \<not> blocked lock s ts i \<Longrightarrow>
         bt_write (ts ! i) rid prev s = (t', s') \<Longrightarrow> bstep lock (s, ts) (s', ts[i := t'])"
| bcommit: "i < length ts \<Longrightarrow> bt_state (ts ! i) = BActive \<Longrightarrow> bt_todo (ts ! i) = [] \<Longrightarrow>
         bstep lock (s, ts) (bt_view (ts ! i) s, ts[i := (ts ! i)\<lparr>bt_state := BCommitted\<rparr>])"
| bvictim: "waits lock s ts i j \<Longrightarrow> (waits lock s ts)\<^sup>+\<^sup>+ j i \<Longrightarrow>
         bstep lock (s, ts) (s, ts[i := (ts ! i)\<lparr>bt_state := BRolledBack LockDeadlock\<rparr>])"

text \<open>\<open>beginTransaction\<close> (line 118) with the body's items.\<close>

definition exit_tx_start :: "warehouse_id \<Rightarrow> user_id option \<Rightarrow> string option \<Rightarrow> (product_id \<times> qty) list \<Rightarrow> batch_tx" where
  "exit_tx_start w u d items = \<lparr>bt_warehouse = w, bt_user = u, bt_desc = d, bt_todo = items,
     bt_writes = [], bt_movs = [], bt_state = BActive\<rparr>"

text \<open>What \<open>stockExitController\<close> gets from the transaction: the movement ids on commit, the error on rollback.\<close>

definition bt_outcome :: "batch_tx \<Rightarrow> (api_error + nat list) option" where
  "bt_outcome t = (case bt_state t of
      BCommitted \<Rightarrow> Some (Inr (map mov_id (bt_movs t)))
    | BRolledBack e \<Rightarrow> Some (Inl e)
    | _ \<Rightarrow> None)"

section \<open>The invariant of the locked runs\<close>

text \<open>
  A live transaction keeps a consistent view: its view satisfies the ledger invariant,
  its movements are on pairs whose rows it has locked, and a read row still holds the value
  read. Live transactions hold disjoint sets of locks.
\<close>

definition write_row :: "(nat \<times> qty) list \<Rightarrow> stock_row \<Rightarrow> stock_row" where
  "write_row ws r = (case map_of (rev ws) (stock_id r) of None \<Rightarrow> r | Some v \<Rightarrow> r\<lparr>st_quantity := v\<rparr>)"

definition bt_live :: "batch_tx \<Rightarrow> bool" where
  "bt_live t = (case bt_state t of BActive \<Rightarrow> True | BReadRow _ _ \<Rightarrow> True | _ \<Rightarrow> False)"

definition owns :: "db \<Rightarrow> batch_tx \<Rightarrow> product_id \<Rightarrow> warehouse_id \<Rightarrow> bool" where
  "owns s t p w = (case getCurrentStock p w s of Some r \<Rightarrow> stock_id r \<in> set (bt_locks True t) | None \<Rightarrow> False)"

text \<open>A transaction that has read a row under its lock holds the row's current value, and passed the check.\<close>

definition read_ok :: "db \<Rightarrow> batch_tx \<Rightarrow> bool" where
  "read_ok s t = (case bt_state t of
      BReadRow rid prev \<Rightarrow> (case bt_todo t of [] \<Rightarrow> False
        | (p, q) # _ \<Rightarrow> (case getCurrentStock p (bt_warehouse t) (bt_view t s) of None \<Rightarrow> False
            | Some cur \<Rightarrow> stock_id cur = rid \<and> st_quantity cur = prev \<and> q \<le> prev))
    | _ \<Rightarrow> True)"

definition tx_ok :: "db \<Rightarrow> batch_tx \<Rightarrow> bool" where
  "tx_ok s t \<longleftrightarrow> (bt_live t \<longrightarrow> ledger_inv (bt_view t s) \<and> balances_nonneg (bt_view t s)
     \<and> (\<forall>m\<in>set (bt_movs t). owns s t (mov_product m) (mov_warehouse m)) \<and> read_ok s t)"

definition batch_inv :: "db \<times> batch_tx list \<Rightarrow> bool" where
  "batch_inv c \<longleftrightarrow> stock_wf (fst c) \<and> ledger_inv (fst c) \<and> balances_nonneg (fst c)
     \<and> (\<forall>i<length (snd c). tx_ok (fst c) (snd c ! i))
     \<and> (\<forall>i<length (snd c). \<forall>j<length (snd c). i \<noteq> j \<longrightarrow>
          set (bt_locks True (snd c ! i)) \<inter> set (bt_locks True (snd c ! j)) = {})"

text \<open>A state where both transactions wait for each other and no other step is possible.\<close>

definition deadlocked :: "bool \<Rightarrow> db \<Rightarrow> batch_tx list \<Rightarrow> bool" where
  "deadlocked lock s ts \<longleftrightarrow> length ts = 2 \<and> waits lock s ts 0 1 \<and> waits lock s ts 1 0
     \<and> bt_todo (ts ! 0) \<noteq> [] \<and> bt_todo (ts ! 1) \<noteq> []"

section \<open>Two batches in opposite orders\<close>

text \<open>Two balances of 10 in warehouse 1, with the entries that made them.\<close>

definition two_rows_db :: db where
  "two_rows_db = \<lparr>units = [], warehouses = [], products = [], users = [],
     stock = [\<lparr>stock_id = 1, st_product = 1, st_warehouse = 1, st_quantity = 10\<rparr>,
              \<lparr>stock_id = 2, st_product = 2, st_warehouse = 1, st_quantity = 10\<rparr>],
     movements = [\<lparr>mov_id = 1, mov_product = 1, mov_warehouse = 1, mov_user = Some 7, mov_type = ENTRADA,
                    mov_quantity = 10, mov_previous = 0, mov_new = 10, mov_description = None, mov_created_at = 0\<rparr>,
                  \<lparr>mov_id = 2, mov_product = 2, mov_warehouse = 1, mov_user = Some 7, mov_type = ENTRADA,
                    mov_quantity = 10, mov_previous = 0, mov_new = 10, mov_description = None, mov_created_at = 0\<rparr>],
     exit_orders = [], next_stock_id = 3, next_movement_id = 3, next_order_id = 1,
     next_product_id = 3, next_warehouse_id = 2, next_unit_id = 1, next_user_id = 8, clock = 5\<rparr>"

definition batch_ab :: batch_tx where "batch_ab = exit_tx_start 1 (Some 7) None [(1, 1), (2, 1)]"
definition batch_ba :: batch_tx where "batch_ba = exit_tx_start 1 (Some 8) None [(2, 1), (1, 1)]"

text \<open>The two batches after each has updated its first row.\<close>

definition ab_after1 :: batch_tx where
  "ab_after1 = batch_ab\<lparr>bt_todo := [(2, 1)], bt_writes := [(1, 9)],
      bt_movs := [\<lparr>mov_id = 3, mov_product = 1, mov_warehouse = 1, mov_user = Some 7, mov_type = SAIDA,
        mov_quantity = 1, mov_previous = 10, mov_new = 9, mov_description = None, mov_created_at = 5\<rparr>]\<rparr>"

definition ba_after1 :: batch_tx where
  "ba_after1 = batch_ba\<lparr>bt_todo := [(1, 1)], bt_writes := [(2, 9)],
      bt_movs := [\<lparr>mov_id = 4, mov_product = 2, mov_warehouse = 1, mov_user = Some 8, mov_type = SAIDA,
        mov_quantity = 1, mov_previous = 10, mov_new = 9, mov_description = None, mov_created_at = 5\<rparr>]\<rparr>"

section \<open>Lemmas\<close>

lemma apply_writes_snoc [simp]:
  "apply_writes (ws @ [(i, v)]) s = set_stock_quantity i v (apply_writes ws s)"
  by (simp add: apply_writes_def)

lemma apply_writes_Nil [simp]: "apply_writes [] s = s"
  by (simp add: apply_writes_def)

lemma apply_writes_fields [simp]:
  "movements (apply_writes ws s) = movements s" "next_movement_id (apply_writes ws s) = next_movement_id s"
  "next_stock_id (apply_writes ws s) = next_stock_id s" "clock (apply_writes ws s) = clock s"
  by (induction ws arbitrary: s rule: rev_induct) (auto simp: set_stock_quantity_def)

lemma apply_writes_counter:
  "apply_writes ws (s\<lparr>next_movement_id := k\<rparr>) = (apply_writes ws s)\<lparr>next_movement_id := k\<rparr>"
  by (induction ws rule: rev_induct) (auto simp: set_stock_quantity_def)

lemma exit_tx_start_fields [simp]:
  "bt_state (exit_tx_start w u d items) = BActive" "bt_todo (exit_tx_start w u d items) = items"
  "bt_movs (exit_tx_start w u d items) = []" "bt_writes (exit_tx_start w u d items) = []"
  "bt_warehouse (exit_tx_start w u d items) = w"
  "bt_user (exit_tx_start w u d items) = u" "bt_desc (exit_tx_start w u d items) = d"
  by (simp_all add: exit_tx_start_def)

lemma bt_view_start [simp]: "bt_view (exit_tx_start w u d items) s = s"
  by (simp add: bt_view_def exit_tx_start_def)

text \<open>A read then a write is \<open>exit_item\<close> on the transaction's view.\<close>

lemma bt_write_view:
  assumes "bt_todo t = (p, q) # rest"
  shows "bt_view (fst (bt_write t rid prev s)) (snd (bt_write t rid prev s))
    = snd (registerMovement p (bt_warehouse t) (bt_user t) SAIDA q prev (prev - q) (bt_desc t)
           (set_stock_quantity rid (prev - q) (bt_view t s)))"
  using assms
  by (simp add: bt_write_def bt_view_def registerMovement_def Let_def apply_writes_counter)
     (simp add: set_stock_quantity_def)

lemma bt_write_ids:
  assumes "bt_todo t = (p, q) # rest"
  shows "map mov_id (bt_movs (fst (bt_write t rid prev s))) = map mov_id (bt_movs t) @ [next_movement_id s]"
    "bt_todo (fst (bt_write t rid prev s)) = rest" "bt_state (fst (bt_write t rid prev s)) = BActive"
    "bt_warehouse (fst (bt_write t rid prev s)) = bt_warehouse t" "bt_user (fst (bt_write t rid prev s)) = bt_user t"
    "bt_desc (fst (bt_write t rid prev s)) = bt_desc t"
  using assms by (simp_all add: bt_write_def Let_def)

lemma waits_solo: "\<not> waits lock s [t] i j"
  by (auto simp: waits_def)

lemma blocked_solo: "\<not> blocked lock s [t] i"
  by (auto simp: blocked_def list_ex_iff waits_solo)

lemma bt_view_state [simp]: "bt_view (t\<lparr>bt_state := x\<rparr>) s = bt_view t s"
  by (simp add: bt_view_def)

lemma bt_view_counter [simp]: "next_movement_id (bt_view t s) = next_movement_id s"
  "next_stock_id (bt_view t s) = next_stock_id s"
  by (simp_all add: bt_view_def)

lemma solo_item_fail:
  assumes "bt_state t = BActive" "bt_todo t = (p, q) # rest"
    "exit_item p (bt_warehouse t) (bt_user t) q (bt_desc t) (bt_view t s) = Inl e"
  shows "bstep lock (s, [t]) (s, [t\<lparr>bt_state := BRolledBack e\<rparr>])"
proof -
  have "bt_read t s = t\<lparr>bt_state := BRolledBack e\<rparr>"
    using assms(2,3) by (auto simp: bt_read_def exit_item_def decreaseStock_def Let_def
        split: option.splits if_splits)
  with bstep.bread [of 0 "[t]" lock s] assms(1,2) show ?thesis by (simp add: blocked_solo)
qed

lemma solo_item_ok:
  assumes "bt_state t = BActive" "bt_todo t = (p, q) # rest"
    "exit_item p (bt_warehouse t) (bt_user t) q (bt_desc t) (bt_view t s) = Inr (mid, v)"
  shows "\<exists>t'. (bstep lock)\<^sup>*\<^sup>* (s, [t]) (s\<lparr>next_movement_id := Suc (next_movement_id s)\<rparr>, [t'])
    \<and> bt_state t' = BActive \<and> bt_todo t' = rest \<and> bt_view t' (s\<lparr>next_movement_id := Suc (next_movement_id s)\<rparr>) = v
    \<and> map mov_id (bt_movs t') = map mov_id (bt_movs t) @ [mid]
    \<and> bt_warehouse t' = bt_warehouse t \<and> bt_user t' = bt_user t \<and> bt_desc t' = bt_desc t"
proof -
  let ?w = "bt_warehouse t"
  from assms(3) obtain cur where cur: "getCurrentStock p ?w (bt_view t s) = Some cur" "q \<le> st_quantity cur"
    and ex: "registerMovement p ?w (bt_user t) SAIDA q (st_quantity cur) (st_quantity cur - q) (bt_desc t)
        (set_stock_quantity (stock_id cur) (st_quantity cur - q) (bt_view t s)) = (mid, v)"
    by (auto simp: exit_item_def decreaseStock_def Let_def split: option.splits if_splits)
  let ?t1 = "t\<lparr>bt_state := BReadRow (stock_id cur) (st_quantity cur)\<rparr>"
  have r: "bt_read t s = ?t1" using assms(2) cur by (simp add: bt_read_def)
  have s1: "bstep lock (s, [t]) (s, [?t1])"
    using bstep.bread [of 0 "[t]" lock s] assms(1,2) r by (simp add: blocked_solo)
  obtain t2 s2 where w: "bt_write ?t1 (stock_id cur) (st_quantity cur) s = (t2, s2)" by fastforce
  have s2: "bstep lock (s, [?t1]) (s2, [t2])"
    using bstep.bwrite [of 0 "[?t1]" "stock_id cur" "st_quantity cur" lock s t2 s2] w by (simp add: blocked_solo)
  have s2_eq: "s2 = s\<lparr>next_movement_id := Suc (next_movement_id s)\<rparr>"
    using w assms(2) by (auto simp: bt_write_def Let_def)
  have "bt_view t2 s2 = v"
    using bt_write_view [of ?t1 p q rest "stock_id cur" "st_quantity cur" s] w ex assms(2) by simp
  moreover have "mid = next_movement_id s"
    using ex by (simp add: registerMovement_def Let_def set_stock_quantity_def)
  moreover note bt_write_ids [of ?t1 p q rest "stock_id cur" "st_quantity cur" s]
  ultimately show ?thesis using s1 s2 s2_eq w assms(2)
    by (intro exI [of _ t2]) auto
qed

lemma solo_run:
  assumes "bt_state t = BActive" "bt_todo t = items"
  shows "case exit_items (bt_warehouse t) (bt_user t) (bt_desc t) items (bt_view t s) of
      (Inr ids, v) \<Rightarrow> \<exists>t' s'. (bstep lock)\<^sup>*\<^sup>* (s, [t]) (s', [t']) \<and> bt_state t' = BActive \<and> bt_todo t' = []
        \<and> bt_view t' s' = v \<and> map mov_id (bt_movs t') = map mov_id (bt_movs t) @ ids
    | (Inl e, v) \<Rightarrow> \<exists>t' s'. (bstep lock)\<^sup>*\<^sup>* (s, [t]) (s', [t']) \<and> bt_state t' = BRolledBack e
        \<and> s' = s\<lparr>next_movement_id := next_movement_id v\<rparr>"
  using assms
proof (induction items arbitrary: t s)
  case Nil
  then show ?case by auto
next
  case (Cons it rest)
  obtain p q where it: "it = (p, q)" by fastforce
  let ?w = "bt_warehouse t" and ?u = "bt_user t" and ?d = "bt_desc t"
  show ?case
  proof (cases "exit_item p ?w ?u q ?d (bt_view t s)")
    case (Inl e)
    with solo_item_fail [of t p q rest s e lock] Cons.prems it show ?thesis
      by (auto intro!: exI [of _ "t\<lparr>bt_state := BRolledBack e\<rparr>"])
  next
    case (Inr r)
    then obtain mid v where ok: "exit_item p ?w ?u q ?d (bt_view t s) = Inr (mid, v)" by (cases r) auto
    let ?s2 = "s\<lparr>next_movement_id := Suc (next_movement_id s)\<rparr>"
    from solo_item_ok [OF Cons.prems(1) _ ok, of rest lock] Cons.prems(2) it obtain t2 where
      run: "(bstep lock)\<^sup>*\<^sup>* (s, [t]) (?s2, [t2])" and t2: "bt_state t2 = BActive" "bt_todo t2 = rest"
        "bt_view t2 ?s2 = v" "map mov_id (bt_movs t2) = map mov_id (bt_movs t) @ [mid]"
        "bt_warehouse t2 = ?w" "bt_user t2 = ?u" "bt_desc t2 = ?d"
      by blast
    have ih: "case exit_items ?w ?u ?d rest v of
      (Inr ids, v') \<Rightarrow> \<exists>t' s'. (bstep lock)\<^sup>*\<^sup>* (?s2, [t2]) (s', [t']) \<and> bt_state t' = BActive \<and> bt_todo t' = []
        \<and> bt_view t' s' = v' \<and> map mov_id (bt_movs t') = map mov_id (bt_movs t2) @ ids
    | (Inl e, v') \<Rightarrow> \<exists>t' s'. (bstep lock)\<^sup>*\<^sup>* (?s2, [t2]) (s', [t']) \<and> bt_state t' = BRolledBack e
        \<and> s' = ?s2\<lparr>next_movement_id := next_movement_id v'\<rparr>"
      using Cons.IH [OF t2(1,2), of ?s2] t2(3,5,6,7) by simp
    show ?thesis
    proof (cases "exit_items ?w ?u ?d rest v")
      case (Pair res v')
      then show ?thesis using ih ok it run t2(4)
        by (cases res) (auto intro: rtranclp_trans)
    qed
  qed
qed

subsection \<open>A transaction run alone\<close>

lemma bstep_stuck:
  assumes "\<forall>i<length ts. blocked lock s ts i" "\<forall>i<length ts. bt_todo (ts ! i) \<noteq> []"
    "bstep lock (s, ts) c"
  shows "\<exists>i j. waits lock s ts i j \<and> c = (s, ts[i := (ts ! i)\<lparr>bt_state := BRolledBack LockDeadlock\<rparr>])"
  using assms(3)
proof cases
  case (bvictim i j) then show ?thesis by blast
qed (use assms(1,2) in auto)

subsection \<open>Deadlock\<close>

lemmas scenario_defs = batch_ab_def batch_ba_def ab_after1_def ba_after1_def exit_tx_start_def two_rows_db_def
  waits_def bt_locks_def bt_read_row_def bt_view_def getCurrentStock_def set_stock_quantity_def apply_writes_def

lemma opposite_batches_prefix:
  "(bstep lock)\<^sup>*\<^sup>* (two_rows_db, [batch_ab, batch_ba]) (two_rows_db\<lparr>next_movement_id := 5\<rparr>, [ab_after1, ba_after1])"
proof -
  let ?s0 = two_rows_db and ?s1 = "two_rows_db\<lparr>next_movement_id := 4\<rparr>" and ?s2 = "two_rows_db\<lparr>next_movement_id := 5\<rparr>"
  let ?a1 = "batch_ab\<lparr>bt_state := BReadRow 1 10\<rparr>" and ?b1 = "batch_ba\<lparr>bt_state := BReadRow 2 10\<rparr>"
  have st1: "bstep lock (?s0, [batch_ab, batch_ba]) (?s0, [?a1, batch_ba])"
    using bstep.bread [of 0 "[batch_ab, batch_ba]" lock ?s0] by (simp add: scenario_defs blocked_def bt_read_def)
  have st2: "bstep lock (?s0, [?a1, batch_ba]) (?s1, [ab_after1, batch_ba])"
    using bstep.bwrite [of 0 "[?a1, batch_ba]" 1 10 lock ?s0 ab_after1 ?s1] by (simp add: scenario_defs blocked_def bt_write_def)
  have st3: "bstep lock (?s1, [ab_after1, batch_ba]) (?s1, [ab_after1, ?b1])"
    using bstep.bread [of 1 "[ab_after1, batch_ba]" lock ?s1] by (simp add: scenario_defs blocked_def bt_read_def)
  have st4: "bstep lock (?s1, [ab_after1, ?b1]) (?s2, [ab_after1, ba_after1])"
    using bstep.bwrite [of 1 "[ab_after1, ?b1]" 2 10 lock ?s1 ba_after1 ?s2] by (simp add: scenario_defs blocked_def bt_write_def)
  from st1 st2 st3 st4 show ?thesis by (meson rtranclp.rtrancl_into_rtrancl rtranclp.rtrancl_refl)
qed

lemma deadlocked_steps:
  assumes "deadlocked lock s ts"
  shows "bstep lock (s, ts) (s, ts[0 := (ts ! 0)\<lparr>bt_state := BRolledBack LockDeadlock\<rparr>])"
    "bstep lock (s, ts) c \<Longrightarrow> \<exists>i<2. c = (s, ts[i := (ts ! i)\<lparr>bt_state := BRolledBack LockDeadlock\<rparr>])"
proof -
  from assms have w: "waits lock s ts 0 1" "waits lock s ts 1 0" and l: "length ts = 2"
    by (simp_all add: deadlocked_def)
  show "bstep lock (s, ts) (s, ts[0 := (ts ! 0)\<lparr>bt_state := BRolledBack LockDeadlock\<rparr>])"
    using bstep.bvictim [OF w(1) tranclp.r_into_trancl [of "waits lock s ts" 1 0, OF w(2)]] .
  have bl: "blocked lock s ts 0" "blocked lock s ts 1"
    using w l unfolding blocked_def list_ex_iff by force+
  have all: "\<forall>i<length ts. blocked lock s ts i" "\<forall>i<length ts. bt_todo (ts ! i) \<noteq> []"
    unfolding l using bl assms by (auto simp: deadlocked_def less_2_cases_iff)
  assume "bstep lock (s, ts) c"
  from bstep_stuck [OF all this] obtain i j where "waits lock s ts i j"
    and c: "c = (s, ts[i := (ts ! i)\<lparr>bt_state := BRolledBack LockDeadlock\<rparr>])" by blast
  then have "i < 2" using l by (simp add: waits_def)
  with c show "\<exists>i<2. c = (s, ts[i := (ts ! i)\<lparr>bt_state := BRolledBack LockDeadlock\<rparr>])" by blast
qed


lemma exit_items_next_stock_id: "next_stock_id (snd (exit_items w u d items s)) = next_stock_id s"
proof (induction items arbitrary: s)
  case (Cons it rest)
  obtain p q where it: "it = (p, q)" by fastforce
  show ?case
  proof (cases "exit_item p w u q d s")
    case (Inr r)
    then obtain mid v where ok: "exit_item p w u q d s = Inr (mid, v)" by (cases r) auto
    then have "next_stock_id v = next_stock_id s"
      by (auto simp: exit_item_def decreaseStock_def registerMovement_def set_stock_quantity_def Let_def
          split: option.splits if_splits)
    with Cons.IH [of v] ok it show ?thesis by (auto split: prod.splits sum.splits)
  qed (simp add: it)
qed simp

text \<open>Run alone, the transaction of an exit batch ends as the sequential \<open>exit_items\<close> and its rollback.\<close>

lemma exit_tx_alone:
  assumes "exit_items w u d items s = (r, s')"
  shows "\<exists>t s''. (bstep lock)\<^sup>*\<^sup>* (s, [exit_tx_start w u d items]) (s'', [t]) \<and> bt_outcome t = Some r
    \<and> s'' = (case r of Inr _ \<Rightarrow> s' | Inl _ \<Rightarrow> rollback s s')"
proof -
  let ?t = "exit_tx_start w u d items"
  have run: "case (r, s') of
      (Inr ids, v) \<Rightarrow> \<exists>t' s'. (bstep lock)\<^sup>*\<^sup>* (s, [?t]) (s', [t']) \<and> bt_state t' = BActive \<and> bt_todo t' = []
        \<and> bt_view t' s' = v \<and> map mov_id (bt_movs t') = map mov_id (bt_movs ?t) @ ids
    | (Inl e, v) \<Rightarrow> \<exists>t' s'. (bstep lock)\<^sup>*\<^sup>* (s, [?t]) (s', [t']) \<and> bt_state t' = BRolledBack e
        \<and> s' = s\<lparr>next_movement_id := next_movement_id v\<rparr>"
    using solo_run [where t = ?t and items = items and s = s and lock = lock] assms by simp
  show ?thesis
  proof (cases r)
    case (Inl e)
    with run assms obtain t' s1 where "(bstep lock)\<^sup>*\<^sup>* (s, [?t]) (s1, [t'])" "bt_state t' = BRolledBack e"
      "s1 = s\<lparr>next_movement_id := next_movement_id s'\<rparr>" by auto
    moreover have "next_stock_id s' = next_stock_id s"
      using exit_items_next_stock_id [of w u d items s] assms by simp
    ultimately show ?thesis using Inl
      by (intro exI [of _ t'] exI [of _ s1]) (simp add: bt_outcome_def rollback_def)
  next
    case (Inr ids)
    with run assms obtain t' s1 where r1: "(bstep lock)\<^sup>*\<^sup>* (s, [?t]) (s1, [t'])" and t': "bt_state t' = BActive"
      "bt_todo t' = []" "bt_view t' s1 = s'" "map mov_id (bt_movs t') = ids" by auto
    have "bstep lock (s1, [t']) (bt_view t' s1, [t'\<lparr>bt_state := BCommitted\<rparr>])"
      using bstep.bcommit [of 0 "[t']" lock s1] t' by simp
    with r1 have "(bstep lock)\<^sup>*\<^sup>* (s, [?t]) (s', [t'\<lparr>bt_state := BCommitted\<rparr>])"
      using t'(3) by (metis rtranclp.rtrancl_into_rtrancl)
    then show ?thesis using Inr t'(4)
      by (intro exI [of _ "t'\<lparr>bt_state := BCommitted\<rparr>"] exI [of _ s']) (simp add: bt_outcome_def)
  qed
qed

lemma batch_tx_refines_stockExit:
  assumes "xb_items b \<noteq> []" "ensureWarehouseWritePermission u (xb_warehouse b) s = Inr ()"
    "stockExit_movements u b s = (r, s')"
  shows "\<exists>t. (bstep lock)\<^sup>*\<^sup>* (s, [exit_tx_start (xb_warehouse b) (Some (p_id u)) (xb_description b) (xb_items b)])
      (s', [t]) \<and> bt_outcome t = Some r"
proof -
  obtain r0 s0 where ex: "exit_items (xb_warehouse b) (Some (p_id u)) (xb_description b) (xb_items b) s = (r0, s0)"
    by fastforce
  from exit_tx_alone [OF ex, of lock] obtain t s'' where
    "(bstep lock)\<^sup>*\<^sup>* (s, [exit_tx_start (xb_warehouse b) (Some (p_id u)) (xb_description b) (xb_items b)]) (s'', [t])"
    "bt_outcome t = Some r0" "s'' = (case r0 of Inr _ \<Rightarrow> s0 | Inl _ \<Rightarrow> rollback s s0)" by blast
  moreover have "r = r0 \<and> s' = (case r0 of Inr _ \<Rightarrow> s0 | Inl _ \<Rightarrow> rollback s s0)"
    using assms ex by (cases r0) (auto simp: stockExit_movements_def)
  ultimately show ?thesis by blast
qed

lemma after1_facts:
  "bt_state ab_after1 = BActive" "bt_state ba_after1 = BActive"
  "bt_todo ab_after1 = [(2, 1)]" "bt_todo ba_after1 = [(1, 1)]"
  "bt_locks lock ab_after1 = [1]" "bt_locks lock ba_after1 = [2]"
  "bt_writes ab_after1 = [(1, 9)]" "bt_writes ba_after1 = [(2, 9)]"
  by (simp_all add: ab_after1_def ba_after1_def batch_ab_def batch_ba_def exit_tx_start_def bt_locks_def)
lemma after1_rows:
  "bt_read_row ab_after1 (two_rows_db\<lparr>next_movement_id := 5\<rparr>) = Some \<lparr>stock_id = 2, st_product = 2, st_warehouse = 1, st_quantity = 10\<rparr>"
  "bt_read_row ba_after1 (two_rows_db\<lparr>next_movement_id := 5\<rparr>) = Some \<lparr>stock_id = 1, st_product = 1, st_warehouse = 1, st_quantity = 10\<rparr>"
  by (simp_all add: ab_after1_def ba_after1_def batch_ab_def batch_ba_def exit_tx_start_def bt_read_row_def bt_view_def apply_writes_def set_stock_quantity_def getCurrentStock_def two_rows_db_def)
lemma deadlock_state_locked: "deadlocked True (two_rows_db\<lparr>next_movement_id := 5\<rparr>) [ab_after1, ba_after1]"
  by (simp add: deadlocked_def waits_def after1_facts after1_rows)
lemma after1_reads:
  "bt_read ab_after1 (two_rows_db\<lparr>next_movement_id := 5\<rparr>) = ab_after1\<lparr>bt_state := BReadRow 2 10\<rparr>"
  "bt_read ba_after1 (two_rows_db\<lparr>next_movement_id := 5\<rparr>) = ba_after1\<lparr>bt_state := BReadRow 1 10\<rparr>"
  using after1_rows by (simp_all add: bt_read_def bt_read_row_def after1_facts split: list.splits)
lemma deadlock_state_code: "deadlocked False (two_rows_db\<lparr>next_movement_id := 5\<rparr>)
   [ab_after1\<lparr>bt_state := BReadRow 2 10\<rparr>, ba_after1\<lparr>bt_state := BReadRow 1 10\<rparr>]"
  by (simp add: deadlocked_def waits_def after1_facts bt_locks_def)
lemma reread_ab: "bstep False (two_rows_db\<lparr>next_movement_id := 5\<rparr>, [ab_after1, ba_after1])
   (two_rows_db\<lparr>next_movement_id := 5\<rparr>, [ab_after1\<lparr>bt_state := BReadRow 2 10\<rparr>, ba_after1])"
  using bstep.bread [of 0 "[ab_after1, ba_after1]" False "two_rows_db\<lparr>next_movement_id := 5\<rparr>"]
  by (simp add: blocked_def waits_def after1_facts after1_reads)
lemma reread_ba: "bstep False (two_rows_db\<lparr>next_movement_id := 5\<rparr>, [ab_after1\<lparr>bt_state := BReadRow 2 10\<rparr>, ba_after1])
   (two_rows_db\<lparr>next_movement_id := 5\<rparr>, [ab_after1\<lparr>bt_state := BReadRow 2 10\<rparr>, ba_after1\<lparr>bt_state := BReadRow 1 10\<rparr>])"
  using bstep.bread [of 1 "[ab_after1\<lparr>bt_state := BReadRow 2 10\<rparr>, ba_after1]" False "two_rows_db\<lparr>next_movement_id := 5\<rparr>"]
  by (simp add: blocked_def waits_def after1_facts after1_reads bt_locks_def)

lemma opposite_batches_reach_deadlock:
  "\<exists>s' ts'. (bstep lock)\<^sup>*\<^sup>* (two_rows_db, [batch_ab, batch_ba]) (s', ts') \<and> deadlocked lock s' ts'"
proof (cases lock)
  case True
  then show ?thesis using opposite_batches_prefix [of lock] deadlock_state_locked
    by (intro exI [of _ "two_rows_db\<lparr>next_movement_id := 5\<rparr>"] exI [of _ "[ab_after1, ba_after1]"]) simp
next
  case False
  have "(bstep False)\<^sup>*\<^sup>* (two_rows_db, [batch_ab, batch_ba])
     (two_rows_db\<lparr>next_movement_id := 5\<rparr>, [ab_after1\<lparr>bt_state := BReadRow 2 10\<rparr>, ba_after1\<lparr>bt_state := BReadRow 1 10\<rparr>])"
    using opposite_batches_prefix [of False] reread_ab reread_ba by (meson rtranclp.rtrancl_into_rtrancl)
  with False deadlock_state_code show ?thesis by (intro exI conjI) simp_all
qed
text \<open>
  C37 (spec 5 and 4.2). Two exit batches over the same two balances in opposite orders
  each succeed alone and one after the other, yet run together they can reach a state where
  each waits for a row the other has locked, with or without \<open>FOR UPDATE\<close>: every step
  from there rolls one of them back as a deadlock victim, answered 500. The spec's error
  kinds have none for this, and nothing retries.
\<close>

theorem opposite_batches_deadlock:
  "fst (exit_items 1 (Some 7) None [(1, 1), (2, 1)] two_rows_db) = Inr [3, 4]
   \<and> fst (exit_items 1 (Some 8) None [(2, 1), (1, 1)] (snd (exit_items 1 (Some 7) None [(1, 1), (2, 1)] two_rows_db)))
       = Inr [5, 6]
   \<and> (\<exists>s' ts'. (bstep lock)\<^sup>*\<^sup>* (two_rows_db, [batch_ab, batch_ba]) (s', ts')
       \<and> (\<exists>c. bstep lock (s', ts') c)
       \<and> (\<forall>c. bstep lock (s', ts') c \<longrightarrow> (\<exists>i<2. bt_outcome (snd c ! i) = Some (Inl LockDeadlock))))
   \<and> status_of LockDeadlock = 500"
proof -
  have e1: "fst (exit_items 1 (Some 7) None [(1, 1), (2, 1)] two_rows_db) = Inr [3, 4]"
    by (simp add: two_rows_db_def exit_item_def decreaseStock_def registerMovement_def getCurrentStock_def
        set_stock_quantity_def)
  have e2: "fst (exit_items 1 (Some 8) None [(2, 1), (1, 1)] (snd (exit_items 1 (Some 7) None [(1, 1), (2, 1)] two_rows_db)))
       = Inr [5, 6]"
    by (simp add: two_rows_db_def exit_item_def decreaseStock_def registerMovement_def getCurrentStock_def
        set_stock_quantity_def)
  obtain s' ts' where run: "(bstep lock)\<^sup>*\<^sup>* (two_rows_db, [batch_ab, batch_ba]) (s', ts')"
    and dl: "deadlocked lock s' ts'" using opposite_batches_reach_deadlock by blast
  have l: "length ts' = 2" using dl by (simp add: deadlocked_def)
  have "\<exists>i<2. bt_outcome (snd c ! i) = Some (Inl LockDeadlock)" if "bstep lock (s', ts') c" for c
  proof -
    from deadlocked_steps(2) [OF dl that] obtain i where "i < 2"
      "c = (s', ts'[i := (ts' ! i)\<lparr>bt_state := BRolledBack LockDeadlock\<rparr>])" by blast
    with l show ?thesis by (auto simp: bt_outcome_def)
  qed
  then have "\<exists>s' ts'. (bstep lock)\<^sup>*\<^sup>* (two_rows_db, [batch_ab, batch_ba]) (s', ts')
       \<and> (\<exists>c. bstep lock (s', ts') c)
       \<and> (\<forall>c. bstep lock (s', ts') c \<longrightarrow> (\<exists>i<2. bt_outcome (snd c ! i) = Some (Inl LockDeadlock)))"
    using deadlocked_steps(1) [OF dl] run by blast
  with e1 e2 show ?thesis by (simp only: status_of.simps simp_thms)
qed

theorem opposite_batches_deadlock_witness:
  "\<exists>s' ts' c. (bstep False)\<^sup>*\<^sup>* (two_rows_db, [batch_ab, batch_ba]) (s', ts') \<and> bstep False (s', ts') c
     \<and> (\<exists>i<2. bt_outcome (snd c ! i) = Some (Inl LockDeadlock))"
  using opposite_batches_deadlock [of False] by blast

subsection \<open>Views\<close>

lemma write_row_keys [simp]:
  "stock_id (write_row ws r) = stock_id r" "st_product (write_row ws r) = st_product r"
  "st_warehouse (write_row ws r) = st_warehouse r"
  by (simp_all add: write_row_def split: option.splits)

lemma write_row_other:
  assumes "stock_id r \<notin> fst ` set ws"
  shows "write_row ws r = r"
proof -
  from assms have "map_of (rev ws) (stock_id r) = None" by (simp add: map_of_eq_None_iff)
  then show ?thesis by (simp add: write_row_def)
qed

lemma find_map_option: "find P (map f xs) = map_option f (find (P \<circ> f) xs)"
  by (induction xs) auto

lemma stock_apply_writes: "stock (apply_writes ws s) = map (write_row ws) (stock s)"
proof (induction ws rule: rev_induct)
  case Nil
  then show ?case by (simp add: write_row_def)
next
  case (snoc x ws)
  obtain i v where x: "x = (i, v)" by fastforce
  have "(if stock_id (write_row ws r) = i then (write_row ws r)\<lparr>st_quantity := v\<rparr> else write_row ws r)
      = write_row (ws @ [(i, v)]) r" for r
    by (simp add: write_row_def split: option.splits)
  with snoc x show ?case by (simp add: set_stock_quantity_def)
qed

lemma stock_bt_view: "stock (bt_view t s) = map (write_row (bt_writes t)) (stock s)"
  by (simp add: bt_view_def stock_apply_writes)

lemma getCurrentStock_bt_view:
  "getCurrentStock p w (bt_view t s) = map_option (write_row (bt_writes t)) (getCurrentStock p w s)"
  by (simp add: getCurrentStock_def stock_bt_view find_map_option comp_def)

lemma stock_wf_bt_view: "stock_wf (bt_view t s) \<longleftrightarrow> stock_wf s"
proof -
  have "stock_id \<circ> write_row ws = stock_id"
    "(\<lambda>r. (st_product r, st_warehouse r)) \<circ> write_row ws = (\<lambda>r. (st_product r, st_warehouse r))" for ws
    by (simp_all add: fun_eq_iff)
  then show ?thesis by (simp add: stock_wf_def bt_view_def stock_apply_writes)
qed

lemma movements_bt_view [simp]: "movements (bt_view t s) = movements s @ bt_movs t"
  by (simp add: bt_view_def)

lemma writes_locked: "bt_live t \<Longrightarrow> fst ` set (bt_writes t) \<subseteq> set (bt_locks True t)"
  by (auto simp: bt_live_def bt_locks_def split: bstate.splits)

lemma pair_movs_append [simp]: "pair_movs p w (xs @ ys) = pair_movs p w xs @ pair_movs p w ys"
  by (simp add: pair_movs_def)

lemma pair_movs_unowned:
  assumes "\<forall>m\<in>set L. owns s t (mov_product m) (mov_warehouse m)" "getCurrentStock p w s = Some r0"
    "stock_id r0 \<notin> set (bt_locks True t)"
  shows "pair_movs p w L = []"
  using assms by (auto simp: pair_movs_def filter_empty_conv owns_def)

lemma view_merge:
  assumes wf: "stock_wf s"
    and li: "ledger_inv (bt_view ti s)" and lj: "ledger_inv (bt_view tj s)"
    and ni: "balances_nonneg (bt_view ti s)" and nj: "balances_nonneg (bt_view tj s)"
    and wi: "fst ` set (bt_writes ti) \<subseteq> set (bt_locks True ti)"
    and wj: "fst ` set (bt_writes tj) \<subseteq> set (bt_locks True tj)"
    and oi: "\<forall>m\<in>set (bt_movs ti). owns s ti (mov_product m) (mov_warehouse m)"
    and oj: "\<forall>m\<in>set (bt_movs tj). owns s tj (mov_product m) (mov_warehouse m)"
    and dis: "set (bt_locks True ti) \<inter> set (bt_locks True tj) = {}"
  shows "ledger_inv (bt_view tj (bt_view ti s)) \<and> balances_nonneg (bt_view tj (bt_view ti s))"
proof -
  let ?X = "bt_view tj (bt_view ti s)" and ?wi = "bt_writes ti" and ?wj = "bt_writes tj"
  have stX: "stock ?X = map (write_row ?wj \<circ> write_row ?wi) (stock s)" by (simp add: stock_bt_view)
  have mvX: "movements ?X = movements s @ bt_movs ti @ bt_movs tj" by simp
  have row: "chain 0 (pair_movs (st_product r) (st_warehouse r) (movements ?X))
      \<and> st_quantity r = sum_list (map signed_qty (pair_movs (st_product r) (st_warehouse r) (movements ?X)))
      \<and> 0 \<le> st_quantity r" if r: "r \<in> set (stock ?X)" for r
  proof -
    from r stX obtain r0 where r0: "r0 \<in> set (stock s)" "r = write_row ?wj (write_row ?wi r0)" by auto
    let ?p = "st_product r0" and ?w = "st_warehouse r0"
    have g: "getCurrentStock ?p ?w s = Some r0" by (rule getCurrentStock_row [OF wf r0(1)])
    show ?thesis
    proof (cases "stock_id r0 \<in> set (bt_locks True tj)")
      case True
      with dis wi have "stock_id r0 \<notin> fst ` set ?wi" by blast
      then have r': "r = write_row ?wj r0" using r0(2) by (simp add: write_row_other)
      have pi: "pair_movs ?p ?w (bt_movs ti) = []"
        using pair_movs_unowned [OF oi g] True dis by blast
      have "r \<in> set (stock (bt_view tj s))" using r0(1) r' by (simp add: stock_bt_view)
      with lj nj pi r' show ?thesis by (auto simp: ledger_inv_def balances_nonneg_def)
    next
      case False
      then have "stock_id r0 \<notin> fst ` set ?wj" using wj by blast
      then have r': "r = write_row ?wi r0" using r0(2) by (simp add: write_row_other)
      have pj: "pair_movs ?p ?w (bt_movs tj) = []"
        using pair_movs_unowned [OF oj g] False by blast
      have "r \<in> set (stock (bt_view ti s))" using r0(1) r' by (simp add: stock_bt_view)
      with li ni pj r' show ?thesis by (auto simp: ledger_inv_def balances_nonneg_def)
    qed
  qed
  have mv: "getCurrentStock (mov_product m) (mov_warehouse m) ?X \<noteq> None" if "m \<in> set (movements ?X)" for m
  proof -
    have "getCurrentStock (mov_product m) (mov_warehouse m) s \<noteq> None"
    proof (cases "m \<in> set (bt_movs tj)")
      case True
      with lj show ?thesis by (auto simp: ledger_inv_def getCurrentStock_bt_view)
    next
      case False
      with that have "m \<in> set (movements (bt_view ti s))" by auto
      with li show ?thesis by (auto simp: ledger_inv_def getCurrentStock_bt_view)
    qed
    then show ?thesis by (simp add: getCurrentStock_bt_view)
  qed
  have "ledger_inv ?X" unfolding ledger_inv_def using row mv by blast
  moreover have "balances_nonneg ?X" unfolding balances_nonneg_def using row by blast
  ultimately show ?thesis ..
qed

text \<open>\<open>exit_item_inv\<close> without the order of the log: the ledger and the signs of the balances.\<close>

lemma exit_item_ledger:
  assumes wf: "stock_wf X" and inv: "ledger_inv X" and nn: "balances_nonneg X"
    and ex: "exit_item p w u q d X = Inr (mid, X2)"
  shows "ledger_inv X2 \<and> balances_nonneg X2 \<and> stock_wf X2"
proof -
  obtain prev where prev: "balances X (p, w) = Some prev"
    and mv: "movements X2 = movements X @ [\<lparr>mov_id = next_movement_id X,
        mov_product = p, mov_warehouse = w, mov_user = js_or_null u, mov_type = SAIDA,
        mov_quantity = q, mov_previous = prev, mov_new = prev - q, mov_description = d,
        mov_created_at = clock X\<rparr>]"
    using exit_item_effect [OF wf ex] by blast
  have bal: "balances X2 = (balances X)((p, w) \<mapsto> prev - q)" and wf2: "stock_wf X2"
    using exit_item_shape [OF wf ex] prev by auto
  obtain r s1 where dec: "decreaseStock p w q X = Inr (r, s1)"
    using ex by (auto simp: exit_item_def split: sum.splits)
  have "q \<le> prev" using decreaseStock_guard [OF dec] decreaseStock_facts(10) [OF wf dec] prev by simp
  have "ledger_abs (balances X) (movements X)" using inv ledger_inv_abs [OF wf] by simp
  from ledger_abs_snoc [OF this, of "\<lparr>mov_id = next_movement_id X,
        mov_product = p, mov_warehouse = w, mov_user = js_or_null u, mov_type = SAIDA,
        mov_quantity = q, mov_previous = prev, mov_new = prev - q, mov_description = d,
        mov_created_at = clock X\<rparr>"] prev
  have "ledger_abs (balances X2) (movements X2)" by (simp add: bal mv)
  then have "ledger_inv X2" using ledger_inv_abs [OF wf2] by simp
  moreover have "balances_nonneg X2"
    using nn \<open>q \<le> prev\<close> balances_nonneg_abs [OF wf] balances_nonneg_abs [OF wf2] bal by auto
  ultimately show ?thesis using wf2 by blast
qed

subsection \<open>The steps keep the invariant\<close>

lemma batch_inv_upd:
  assumes inv: "batch_inv (s, ts)" and i: "i < length ts" and ok: "tx_ok s t'"
    and dis: "\<forall>j<length ts. j \<noteq> i \<longrightarrow> set (bt_locks True t') \<inter> set (bt_locks True (ts ! j)) = {}"
  shows "batch_inv (s, ts[i := t'])"
proof -
  have "tx_ok s (ts[i := t'] ! j)" if "j < length ts" for j
    using inv ok that by (cases "j = i") (auto simp: batch_inv_def)
  moreover have "set (bt_locks True (ts[i := t'] ! a)) \<inter> set (bt_locks True (ts[i := t'] ! b)) = {}"
    if "a < length ts" "b < length ts" "a \<noteq> b" for a b
    using inv dis that by (cases "a = i"; cases "b = i") (auto simp: batch_inv_def)
  ultimately show ?thesis using inv by (simp add: batch_inv_def)
qed

lemma not_live_ok: "\<not> bt_live t \<Longrightarrow> tx_ok s t"
  by (simp add: tx_ok_def)

lemma not_live_locks: "\<not> bt_live t \<Longrightarrow> bt_locks True t = []"
  by (auto simp: bt_live_def bt_locks_def split: bstate.splits)

lemma rolled_back [simp]: "\<not> bt_live (t\<lparr>bt_state := BRolledBack e\<rparr>)" "\<not> bt_live (t\<lparr>bt_state := BCommitted\<rparr>)"
  by (simp_all add: bt_live_def)

lemma batch_inv_end:
  "batch_inv (s, ts) \<Longrightarrow> i < length ts \<Longrightarrow> \<not> bt_live t' \<Longrightarrow> batch_inv (s, ts[i := t'])"
  by (rule batch_inv_upd) (simp_all add: not_live_ok not_live_locks)

lemma owns_mono:
  "set (bt_locks True t) \<subseteq> set (bt_locks True t') \<Longrightarrow> owns s t p w \<Longrightarrow> owns s t' p w"
  by (auto simp: owns_def split: option.splits)

lemma batch_inv_read:
  assumes inv: "batch_inv (s, ts)" and i: "i < length ts" and st: "bt_state (ts ! i) = BActive"
    and ne: "bt_todo (ts ! i) \<noteq> []" and free: "\<not> blocked True s ts i"
  shows "batch_inv (s, ts[i := bt_read (ts ! i) s])"
proof (cases "bt_live (bt_read (ts ! i) s)")
  case False
  then show ?thesis using batch_inv_end [OF inv i] by blast
next
  case True
  let ?t = "ts ! i" and ?t' = "bt_read (ts ! i) s"
  obtain p q rest cur where todo: "bt_todo ?t = (p, q) # rest"
    and cur: "getCurrentStock p (bt_warehouse ?t) (bt_view ?t s) = Some cur" "q \<le> st_quantity cur"
    and t': "?t' = ?t\<lparr>bt_state := BReadRow (stock_id cur) (st_quantity cur)\<rparr>"
    using True ne by (auto simp: bt_read_def bt_live_def split: list.splits option.splits if_splits)
  have old: "tx_ok s ?t" using inv i by (simp add: batch_inv_def)
  have lk: "set (bt_locks True ?t') = insert (stock_id cur) (set (bt_locks True ?t))"
    using st t' by (simp add: bt_locks_def)
  have ok: "tx_ok s ?t'"
    using old st t' todo cur lk owns_mono [of ?t ?t' s]
    by (auto simp: tx_ok_def bt_live_def read_ok_def)
  have "stock_id cur \<notin> set (bt_locks True (ts ! j))" if "j < length ts" "j \<noteq> i" for j
  proof
    assume "stock_id cur \<in> set (bt_locks True (ts ! j))"
    then have "waits True s ts i j" using i that st todo cur by (simp add: waits_def bt_read_row_def)
    with free that show False by (auto simp: blocked_def list_ex_iff)
  qed
  with inv i lk have "\<forall>j<length ts. j \<noteq> i \<longrightarrow> set (bt_locks True ?t') \<inter> set (bt_locks True (ts ! j)) = {}"
    by (auto simp: batch_inv_def)
  with batch_inv_upd [OF inv i ok] show ?thesis by simp
qed

lemma bt_view_counter_upd: "bt_view t (s\<lparr>next_movement_id := k\<rparr>) = (bt_view t s)\<lparr>next_movement_id := k\<rparr>"
  by (simp add: bt_view_def apply_writes_counter)

lemma counter_frame [simp]:
  "getCurrentStock p w (X\<lparr>next_movement_id := k\<rparr>) = getCurrentStock p w X"
  "ledger_inv (X\<lparr>next_movement_id := k\<rparr>) = ledger_inv X"
  "balances_nonneg (X\<lparr>next_movement_id := k\<rparr>) = balances_nonneg X"
  "stock_wf (X\<lparr>next_movement_id := k\<rparr>) = stock_wf X"
  by (simp_all add: getCurrentStock_def ledger_inv_def balances_nonneg_def stock_wf_def)

lemma tx_ok_counter [simp]: "tx_ok (s\<lparr>next_movement_id := k\<rparr>) t = tx_ok s t"
  by (simp add: tx_ok_def read_ok_def owns_def bt_view_counter_upd split: bstate.splits list.splits)

lemma batch_inv_counter: "batch_inv (s, ts) \<Longrightarrow> batch_inv (s\<lparr>next_movement_id := k\<rparr>, ts)"
  by (simp add: batch_inv_def)

lemma batch_inv_write:
  assumes inv: "batch_inv (s, ts)" and i: "i < length ts" and st: "bt_state (ts ! i) = BReadRow rid prev"
    and w: "bt_write (ts ! i) rid prev s = (t', s')"
  shows "batch_inv (s', ts[i := t'])"
proof -
  let ?t = "ts ! i" and ?W = "bt_warehouse (ts ! i)"
  have old: "tx_ok s ?t" and wf: "stock_wf s" using inv i by (simp_all add: batch_inv_def)
  then obtain p q rest cur where todo: "bt_todo ?t = (p, q) # rest"
    and cur: "getCurrentStock p ?W (bt_view ?t s) = Some cur" "stock_id cur = rid" "st_quantity cur = prev" "q \<le> prev"
    and lv: "ledger_inv (bt_view ?t s)" "balances_nonneg (bt_view ?t s)"
    and own: "\<forall>m\<in>set (bt_movs ?t). owns s ?t (mov_product m) (mov_warehouse m)"
    using st by (auto simp: tx_ok_def bt_live_def read_ok_def split: list.splits option.splits)
  have t': "t' = fst (bt_write ?t rid prev s)" and s': "s' = snd (bt_write ?t rid prev s)" using w by simp_all
  have s'_eq: "s' = s\<lparr>next_movement_id := Suc (next_movement_id s)\<rparr>"
    using s' todo by (simp add: bt_write_def Let_def)
  have ex: "exit_item p ?W (bt_user ?t) q (bt_desc ?t) (bt_view ?t s)
      = Inr (next_movement_id (bt_view ?t s), bt_view t' s')"
    using bt_write_view [OF todo, of rid prev s] cur t' s'
    by (simp add: exit_item_def decreaseStock_def Let_def registerMovement_def)
  have wfv: "stock_wf (bt_view ?t s)" using wf by (simp add: stock_wf_bt_view)
  from exit_item_ledger [OF wfv lv ex] have lv': "ledger_inv (bt_view t' s')" "balances_nonneg (bt_view t' s')"
    by simp_all
  have lk: "set (bt_locks True t') = set (bt_locks True ?t)"
    using st todo t' by (auto simp: bt_write_def Let_def bt_locks_def)
  obtain r0 where r0: "getCurrentStock p ?W s = Some r0" "stock_id r0 = rid"
    using cur by (auto simp: getCurrentStock_bt_view)
  have new_own: "owns s' t' p ?W"
    using r0 lk st by (simp add: owns_def s'_eq bt_locks_def)
  have movs: "bt_movs t' = bt_movs ?t @ [\<lparr>mov_id = next_movement_id s, mov_product = p, mov_warehouse = ?W,
      mov_user = js_or_null (bt_user ?t), mov_type = SAIDA, mov_quantity = q, mov_previous = prev,
      mov_new = prev - q, mov_description = bt_desc ?t, mov_created_at = clock s\<rparr>]"
    using t' todo by (simp add: bt_write_def Let_def)
  have "\<forall>m\<in>set (bt_movs t'). owns s' t' (mov_product m) (mov_warehouse m)"
    using own new_own lk owns_mono [of ?t t'] by (auto simp: movs s'_eq owns_def)
  moreover have "bt_live t'" "read_ok s' t'" using t' todo
    by (simp_all add: bt_write_def Let_def bt_live_def read_ok_def)
  ultimately have ok: "tx_ok s' t'" using lv' by (simp add: tx_ok_def)
  have inv': "batch_inv (s', ts)" using batch_inv_counter [OF inv] s'_eq by simp
  have "\<forall>j<length ts. j \<noteq> i \<longrightarrow> set (bt_locks True t') \<inter> set (bt_locks True (ts ! j)) = {}"
    using inv i lk by (auto simp: batch_inv_def)
  from batch_inv_upd [OF inv' i ok this] show ?thesis .
qed

lemma owns_view [simp]: "owns (bt_view t s) t' p w = owns s t' p w"
  by (simp add: owns_def getCurrentStock_bt_view split: option.splits)

lemma read_ok_commit:
  assumes "read_ok s tj" "set (bt_locks True ti) \<inter> set (bt_locks True tj) = {}"
    "fst ` set (bt_writes ti) \<subseteq> set (bt_locks True ti)"
  shows "read_ok (bt_view ti s) tj"
proof (cases "bt_state tj")
  case (BReadRow rid prev)
  with assms(1) obtain p q rest r0 where todo: "bt_todo tj = (p, q) # rest"
    and r0: "getCurrentStock p (bt_warehouse tj) s = Some r0" "stock_id r0 = rid"
      "st_quantity (write_row (bt_writes tj) r0) = prev" "q \<le> prev"
    by (auto simp: read_ok_def getCurrentStock_bt_view split: list.splits option.splits)
  have "rid \<in> set (bt_locks True tj)" using BReadRow by (simp add: bt_locks_def)
  with assms(2,3) r0(2) have "stock_id r0 \<notin> fst ` set (bt_writes ti)" by blast
  then have "write_row (bt_writes ti) r0 = r0" by (rule write_row_other)
  with BReadRow todo r0 show ?thesis by (simp add: read_ok_def getCurrentStock_bt_view)
qed (simp_all add: read_ok_def)

lemma batch_inv_commit:
  assumes inv: "batch_inv (s, ts)" and i: "i < length ts" and st: "bt_state (ts ! i) = BActive"
  shows "batch_inv (bt_view (ts ! i) s, ts[i := (ts ! i)\<lparr>bt_state := BCommitted\<rparr>])"
proof -
  let ?ti = "ts ! i" and ?s' = "bt_view (ts ! i) s" and ?ts' = "ts[i := (ts ! i)\<lparr>bt_state := BCommitted\<rparr>]"
  have wf: "stock_wf s" and oki: "tx_ok s ?ti" using inv i by (simp_all add: batch_inv_def)
  have li: "bt_live ?ti" using st by (simp add: bt_live_def)
  with oki have vi: "ledger_inv ?s'" "balances_nonneg ?s'"
    and oi: "\<forall>m\<in>set (bt_movs ?ti). owns s ?ti (mov_product m) (mov_warehouse m)"
    by (simp_all add: tx_ok_def)
  have okj: "tx_ok ?s' (ts ! j)" if j: "j < length ts" "j \<noteq> i" for j
  proof (cases "bt_live (ts ! j)")
    case False then show ?thesis by (rule not_live_ok)
  next
    case True
    have okj0: "tx_ok s (ts ! j)" and dis: "set (bt_locks True ?ti) \<inter> set (bt_locks True (ts ! j)) = {}"
      using inv i j by (auto simp: batch_inv_def)
    with True have vj: "ledger_inv (bt_view (ts ! j) s)" "balances_nonneg (bt_view (ts ! j) s)"
      and oj: "\<forall>m\<in>set (bt_movs (ts ! j)). owns s (ts ! j) (mov_product m) (mov_warehouse m)"
      and rj: "read_ok s (ts ! j)"
      by (simp_all add: tx_ok_def)
    have m: "ledger_inv (bt_view (ts ! j) ?s') \<and> balances_nonneg (bt_view (ts ! j) ?s')"
      using view_merge [OF wf _ vj(1) _ vj(2) writes_locked [OF li] writes_locked [OF True] oi oj dis] oki li
      by (simp add: tx_ok_def)
    have "read_ok ?s' (ts ! j)" by (rule read_ok_commit [OF rj dis writes_locked [OF li]])
    with m oj show ?thesis by (simp add: tx_ok_def)
  qed
  have "tx_ok ?s' (?ts' ! j)" if "j < length ts" for j
    using okj that by (cases "j = i") (auto simp: not_live_ok)
  moreover have "set (bt_locks True (?ts' ! a)) \<inter> set (bt_locks True (?ts' ! b)) = {}"
    if "a < length ts" "b < length ts" "a \<noteq> b" for a b
    using inv that by (cases "a = i"; cases "b = i") (auto simp: batch_inv_def not_live_locks)
  ultimately show ?thesis using wf vi by (simp add: batch_inv_def stock_wf_bt_view)
qed

lemma batch_inv_step: "bstep True c c' \<Longrightarrow> batch_inv c \<Longrightarrow> batch_inv c'"
proof (induction rule: bstep.induct)
  case (bread i ts s)
  show ?case by (rule batch_inv_read [OF bread.prems bread.hyps])
next
  case (bwrite i ts rid prev s t' s')
  then show ?case using batch_inv_write by blast
next
  case (bcommit i ts s)
  show ?case by (rule batch_inv_commit [OF bcommit.prems bcommit.hyps(1,2)])
next
  case (bvictim s ts i j)
  then have "i < length ts" by (simp add: waits_def)
  with bvictim show ?case by (simp add: batch_inv_end)
qed

lemma batch_inv_run: "(bstep True)\<^sup>*\<^sup>* c c' \<Longrightarrow> batch_inv c \<Longrightarrow> batch_inv c'"
  by (induction rule: rtranclp_induct) (auto intro: batch_inv_step)

lemma batch_inv_start:
  assumes "stock_wf s" "ledger_inv s" "balances_nonneg s"
    "\<forall>t\<in>set ts. \<exists>w u d items. t = exit_tx_start w u d items"
  shows "batch_inv (s, ts)"
proof -
  have "tx_ok s t \<and> bt_locks True t = []" if "t \<in> set ts" for t
  proof -
    from assms(4) that obtain w u d items where "t = exit_tx_start w u d items" by blast
    then show ?thesis using assms(1-3) by (simp add: tx_ok_def read_ok_def bt_locks_def)
  qed
  then show ?thesis using assms(1-3) by (auto simp: batch_inv_def)
qed

text \<open>
  C19 (spec 5). With the row lock spec 5 asks for, every interleaving of exit batches, item
  by item, from a database whose ledger holds keeps it: each balance row is the sum of its
  pair's signed movements, which chain from 0, and no balance is negative. (Movement ids are
  drawn at insert time, so between concurrent batches the log is not in id order.)
\<close>

theorem locked_batches_keep_ledger:
  assumes "stock_wf s" "ledger_inv s" "balances_nonneg s"
    "\<forall>t\<in>set ts. \<exists>w u d items. t = exit_tx_start w u d items"
    "(bstep True)\<^sup>*\<^sup>* (s, ts) (s', ts')"
  shows "stock_wf s' \<and> ledger_inv s' \<and> balances_nonneg s'"
  using batch_inv_run [OF assms(5) batch_inv_start [OF assms(1-4)]] by (simp add: batch_inv_def)

lemma two_rows_db_consistent:
  "stock_wf two_rows_db \<and> ledger_inv two_rows_db \<and> balances_nonneg two_rows_db"
  by (simp add: two_rows_db_def stock_wf_def ledger_inv_def balances_nonneg_def pair_movs_def
      getCurrentStock_def signed_qty_def)

theorem locked_batches_keep_ledger_witness:
  "stock_wf (two_rows_db\<lparr>next_movement_id := 5\<rparr>) \<and> ledger_inv (two_rows_db\<lparr>next_movement_id := 5\<rparr>)
   \<and> balances_nonneg (two_rows_db\<lparr>next_movement_id := 5\<rparr>)"
  using locked_batches_keep_ledger [of two_rows_db "[batch_ab, batch_ba]"] two_rows_db_consistent
    opposite_batches_prefix [of True]
  by (simp add: batch_ab_def batch_ba_def)

end
