(* ===== verification/Users.thy ===== *)
theory Users
  imports Catalog Reports
begin

text \<open>
  Accounts: src/Backend/src/models/userModel.js, the account handlers of
  controllers/authController.js (register, login, invite, set password) and
  controllers/userController.js (the users admin and the own profile), behind the guards
  of routes/authRoutes.js and routes/userRoutes.js.

  utils/password.js and utils/jwt.js are not in the repository. A password hash is the
  ideal one: \<open>Bcrypt p\<close> is the hash of \<open>p\<close> and \<open>comparePassword p h\<close> holds exactly when
  \<open>h = Bcrypt p\<close>; the random salt is not modelled. The invite digest is \<open>Sha256 t\<close>,
  collision free. The invite token, random in the code, is an input, and so is the
  uploaded file's name. The database clock is \<open>Date.now()\<close> in milliseconds. The token
  \<open>signToken\<close> makes is the principal it carries. A body field that may be missing is an
  option, \<open>None\<close> for \<open>undefined\<close>; where the code tells it from \<open>null\<close> it is an option of
  an option. \<open>WHERE email = ?\<close> is string equality (the collation's case folding is not
  modelled).
\<close>

section \<open>userModel.js\<close>

text \<open>\<open>findUserByEmail\<close> (lines 3--22) and \<open>findUserInviteByEmail\<close> (lines 165--173): the first row, \<open>undefined\<close> matches nothing.\<close>

definition findUserByEmail :: "string option \<Rightarrow> db \<Rightarrow> user_row option" where
  "findUserByEmail e s = (case e of None \<Rightarrow> None | Some x \<Rightarrow> find (\<lambda>u. u_email u = Some x) (users s))"

text \<open>\<open>createUser\<close> (lines 29--43): unit and warehouse through \<open>|| null\<close>.\<close>

definition createUser :: "string option \<Rightarrow> string option \<Rightarrow> pw_hash option \<Rightarrow> string \<Rightarrow> unit_id option \<Rightarrow> warehouse_id option \<Rightarrow>
    string option \<Rightarrow> db \<Rightarrow> user_id \<times> db" where
  "createUser name email h role k w mat s = (let i = next_user_id s in
     (i, s\<lparr>users := users s @ [\<lparr>u_id = i, u_name = name, u_email = email, u_password_hash = h, u_role = role,
        u_matricula = mat, u_unit = js_or_null k, u_warehouse = js_or_null w, u_avatar = None,
        u_invite_hash = None, u_invite_expires = None, u_created_at = clock s\<rparr>],
       next_user_id := Suc i\<rparr>))"

text \<open>\<open>countUsers\<close> (lines 45--48).\<close>

definition countUsers :: "db \<Rightarrow> nat" where
  "countUsers s = length (users s)"

text \<open>A row of \<open>listUsers\<close> (lines 52--65).\<close>

record user_list_row =
  ul_id :: user_id
  ul_name :: "string option"
  ul_email :: "string option"
  ul_role :: string
  ul_created_at :: nat
  ul_matricula :: "string option"
  ul_unit_id :: "unit_id option"
  ul_unit_name :: "string option"
  ul_warehouse_id :: "warehouse_id option"
  ul_warehouse_name :: "string option"

text \<open>\<open>listUsers\<close> (lines 50--78): a requester other than the top role sees its unit; newest first.\<close>

definition listUsers :: "principal \<Rightarrow> db \<Rightarrow> user_list_row list" where
  "listUsers u s = rev (sort_key ul_created_at (map (\<lambda>r.
       \<lparr>ul_id = u_id r, ul_name = u_name r, ul_email = u_email r, ul_role = u_role r,
        ul_created_at = u_created_at r, ul_matricula = u_matricula r, ul_unit_id = u_unit r,
        ul_unit_name = map_option un_name (Option.bind (u_unit r) (\<lambda>k. find_unit k s)),
        ul_warehouse_id = u_warehouse r,
        ul_warehouse_name = map_option wh_name (Option.bind (u_warehouse r) (\<lambda>w. find_warehouse w s))\<rparr>)
     (filter (\<lambda>r. p_role u = RoleSuperAdmin \<or> sql_eq (u_unit r) (p_unit u)) (users s))))"

text \<open>
  The fields of \<open>updateUser\<close> (lines 81--84); \<open>None\<close> is \<open>undefined\<close>. Unit, warehouse
  and avatar go through \<open>|| null\<close>.
\<close>

record user_update =
  uu_name :: "string option"
  uu_email :: "string option"
  uu_role :: "string option"
  uu_unit :: "unit_id option option"
  uu_warehouse :: "warehouse_id option option"
  uu_password_hash :: "pw_hash option"
  uu_avatar :: "string option option"
  uu_matricula :: "string option option"

definition no_update :: user_update where
  "no_update = \<lparr>uu_name = None, uu_email = None, uu_role = None, uu_unit = None, uu_warehouse = None,
     uu_password_hash = None, uu_avatar = None, uu_matricula = None\<rparr>"

text \<open>
  \<open>updateUser\<close> (lines 81--129): each field that is not \<open>undefined\<close> is set, the hash
  when truthy; with no field it returns, which leaves the table as it is.
\<close>

definition updateUser :: "user_id \<Rightarrow> user_update \<Rightarrow> db \<Rightarrow> db" where
  "updateUser i f s = s\<lparr>users := map (\<lambda>r. if u_id r = i then
     r\<lparr>u_name := (case uu_name f of None \<Rightarrow> u_name r | Some x \<Rightarrow> Some x),
       u_email := (case uu_email f of None \<Rightarrow> u_email r | Some x \<Rightarrow> Some x),
       u_role := (case uu_role f of None \<Rightarrow> u_role r | Some x \<Rightarrow> x),
       u_unit := (case uu_unit f of None \<Rightarrow> u_unit r | Some x \<Rightarrow> js_or_null x),
       u_warehouse := (case uu_warehouse f of None \<Rightarrow> u_warehouse r | Some x \<Rightarrow> js_or_null x),
       u_password_hash := (case uu_password_hash f of None \<Rightarrow> u_password_hash r | Some x \<Rightarrow> Some x),
       u_avatar := (case uu_avatar f of None \<Rightarrow> u_avatar r | Some x \<Rightarrow> js_truthy x),
       u_matricula := (case uu_matricula f of None \<Rightarrow> u_matricula r | Some x \<Rightarrow> x)\<rparr>
     else r) (users s)\<rparr>"

text \<open>\<open>deleteUser\<close> (lines 131--134).\<close>

definition deleteUser :: "user_id \<Rightarrow> db \<Rightarrow> db" where
  "deleteUser i s = s\<lparr>users := filter (\<lambda>r. u_id r \<noteq> i) (users s)\<rparr>"

text \<open>\<open>setInviteTokenByEmail\<close> (lines 156--163): every row with the e-mail.\<close>

definition setInviteTokenByEmail :: "string \<Rightarrow> token_digest \<Rightarrow> nat \<Rightarrow> db \<Rightarrow> db" where
  "setInviteTokenByEmail e h t s = s\<lparr>users := map (\<lambda>r. if u_email r = Some e then
     r\<lparr>u_invite_hash := Some h, u_invite_expires := Some t\<rparr> else r) (users s)\<rparr>"

text \<open>\<open>setPasswordAndClearInvite\<close> (lines 175--182).\<close>

definition setPasswordAndClearInvite :: "user_id \<Rightarrow> pw_hash \<Rightarrow> db \<Rightarrow> db" where
  "setPasswordAndClearInvite i h s = s\<lparr>users := map (\<lambda>r. if u_id r = i then
     r\<lparr>u_password_hash := Some h, u_invite_hash := None, u_invite_expires := None\<rparr> else r) (users s)\<rparr>"

section \<open>authController.js\<close>

text \<open>The body of \<open>POST /auth/register\<close> (line 21).\<close>

record register_body =
  rb_name :: "string option"
  rb_email :: "string option"
  rb_password :: "string option"
  rb_role :: "string option"

text \<open>
  \<open>register\<close> (lines 19--49): with users present only a requester whose role is exactly
  \<open>"admin"\<close> passes; a repeated e-mail is 400; the first user is an admin, any other
  gets the body's role or \<open>"comum"\<close>.
\<close>

definition register :: "principal option \<Rightarrow> register_body \<Rightarrow> db \<Rightarrow> (api_error + user_id) \<times> db" where
  "register u b s = (let total = countUsers s in
     if 0 < total \<and> (case u of None \<Rightarrow> True | Some p \<Rightarrow> p_role p \<noteq> RoleAdmin) then (Inl AdminOnlyRegister, s)
     else if findUserByEmail (rb_email b) s \<noteq> None then (Inl EmailTaken, s)
     else (let h = map_option Bcrypt (js_truthy (rb_password b));
               role = (if total = 0 then ''admin'' else js_or_default (rb_role b) ''comum'');
               (i, s') = createUser (rb_name b) (rb_email b) h role None None None s
           in (Inr i, s')))"

text \<open>The claims \<open>login\<close> signs (lines 74--80).\<close>

definition token_of :: "user_row \<Rightarrow> principal" where
  "token_of r = \<lparr>p_id = u_id r, p_name = u_name r, p_role = role_of_string (u_role r),
     p_unit = u_unit r, p_warehouse = u_warehouse r\<rparr>"

text \<open>
  \<open>login\<close> (lines 51--95): an unknown e-mail and a wrong password are 401, an account
  without a password hash 403. A request without a password reaches
  \<open>comparePassword(undefined, hash)\<close>, whose \<open>bcrypt.compare\<close> rejects a value that is not
  a string: 500.
\<close>

definition login :: "string option \<Rightarrow> string option \<Rightarrow> db \<Rightarrow> api_error + principal" where
  "login e pw s = (case findUserByEmail e s of
      None \<Rightarrow> Inl InvalidCredentials
    | Some r \<Rightarrow> (case u_password_hash r of
        None \<Rightarrow> Inl AccountNotActivated
      | Some h \<Rightarrow> (case pw of
          None \<Rightarrow> Inl BcryptIllegalArguments
        | Some p \<Rightarrow> if h \<noteq> Bcrypt p then Inl InvalidCredentials else Inr (token_of r))))"

text \<open>The lifetime of an invite: \<open>24 * 60 * 60 * 1000\<close> ms (line 112).\<close>

definition invite_ttl :: nat where
  "invite_ttl = 24 * 60 * 60 * 1000"

text \<open>
  The activation link of lines 115--116: \<open>FRONTEND_URL\<close> (or the development default), the
  page \<open>/ativar\<close>, the raw token and the URI-encoded e-mail.
\<close>

definition invite_link :: "string \<Rightarrow> string \<Rightarrow> string \<Rightarrow> string" where
  "invite_link base tok e = base @ ''/ativar?token='' @ tok @ ''&email='' @ encodeURIComponent e"

definition default_frontend_url :: string where
  "default_frontend_url = ''http://localhost:5173''"

text \<open>
  \<open>inviteUser\<close> (lines 98--122) with the environment's \<open>FRONTEND_URL\<close> and the random token
  \<open>tok\<close>: it answers the activation link, which carries the token itself.
\<close>

definition inviteUser :: "string option \<Rightarrow> string option \<Rightarrow> string \<Rightarrow> db \<Rightarrow> (api_error + string) \<times> db" where
  "inviteUser base e tok s = (case findUserByEmail e s of
      None \<Rightarrow> (Inl UserNotFound, s)
    | Some r \<Rightarrow> if u_password_hash r \<noteq> None then (Inl PasswordAlreadySet, s)
        else (Inr (invite_link (js_or_default base default_frontend_url) tok (the e)),
              setInviteTokenByEmail (the e) (Sha256 tok) (clock s + invite_ttl) s))"

text \<open>
  \<open>setPassword\<close> (lines 124--152): the row, its invite, the token's digest, then the
  expiry (\<open>expires < now\<close> is expired).
\<close>

definition setPassword :: "string option \<Rightarrow> string \<Rightarrow> string \<Rightarrow> db \<Rightarrow> (api_error + unit) \<times> db" where
  "setPassword e tok pw s = (case findUserByEmail e s of
      None \<Rightarrow> (Inl InvalidInvite, s)
    | Some r \<Rightarrow> (case (u_invite_hash r, u_invite_expires r) of
        (Some h, Some t) \<Rightarrow>
          if Sha256 tok \<noteq> h then (Inl InvalidToken, s)
          else if t < clock s then (Inl TokenExpired, s)
          else (Inr (), setPasswordAndClearInvite (u_id r) (Bcrypt pw) s)
      | _ \<Rightarrow> (Inl InvalidInvite, s)))"

text \<open>The account routes (authRoutes.js, lines 7--11).\<close>

definition route_register :: "principal option \<Rightarrow> register_body \<Rightarrow> db \<Rightarrow> (api_error + user_id) \<times> db" where
  "route_register u b s = (case requireRole [RoleAdmin, RoleSuperAdmin] u of
      Inl e \<Rightarrow> (Inl e, s) | Inr _ \<Rightarrow> register u b s)"

definition route_invite :: "principal option \<Rightarrow> string option \<Rightarrow> string option \<Rightarrow> string \<Rightarrow> db \<Rightarrow> (api_error + string) \<times> db" where
  "route_invite u base e tok s = (case requireRole [RoleAdmin, RoleSuperAdmin] u of
      Inl e' \<Rightarrow> (Inl e', s) | Inr _ \<Rightarrow> inviteUser base e tok s)"

section \<open>userController.js\<close>

text \<open>The body of \<open>POST /users\<close> and \<open>PUT /users/:id\<close> (lines 15 and 79).\<close>

record user_body =
  ub_name :: "string option"
  ub_email :: "string option"
  ub_role :: "string option"
  ub_password :: "string option"
  ub_unit :: "unit_id option option"
  ub_warehouse :: "warehouse_id option option"
  ub_matricula :: "string option option"

text \<open>\<open>password.trim().length > 0\<close>: a string that is not all white space.\<close>

definition has_password :: "string option \<Rightarrow> bool" where
  "has_password p = (case p of None \<Rightarrow> False | Some x \<Rightarrow> js_trim x \<noteq> [])"

text \<open>
  \<open>createUserController\<close> (lines 13--42). \<open>hashPassword\<close> is not imported by this file,
  so a request with a password throws a \<open>ReferenceError\<close> before the insert.
\<close>

definition createUserController :: "user_body \<Rightarrow> db \<Rightarrow> (api_error + user_id) \<times> db" where
  "createUserController b s =
     (if findUserByEmail (ub_email b) s \<noteq> None then (Inl EmailTaken, s)
      else if has_password (ub_password b) then (Inl HashPasswordUndefined, s)
      else (let (i, s') = createUser (ub_name b) (ub_email b) None (js_or_default (ub_role b) ''user'')
                  (Option.bind (ub_unit b) id) (Option.bind (ub_warehouse b) id)
                  (js_truthy (Option.bind (ub_matricula b) id)) s
            in (Inr i, s')))"

text \<open>
  \<open>updateUserController\<close> (lines 76--109): an admin's request moves the user to the
  admin's own unit; only promotion to the top role is refused; a truthy password is
  hashed and set. Nothing compares the target's role or unit with the requester's.
\<close>

definition updateUserController :: "principal \<Rightarrow> user_id \<Rightarrow> user_body \<Rightarrow> db \<Rightarrow> (api_error + unit) \<times> db" where
  "updateUserController u i b s =
     (let k = (if p_role u = RoleAdmin then Some (p_unit u) else ub_unit b) in
      if p_role u \<noteq> RoleSuperAdmin \<and> ub_role b = Some ''super_admin'' then (Inl CannotPromoteSuperAdmin, s)
      else (Inr (), updateUser i \<lparr>uu_name = ub_name b, uu_email = ub_email b, uu_role = ub_role b, uu_unit = k,
              uu_warehouse = ub_warehouse b, uu_password_hash = map_option Bcrypt (js_truthy (ub_password b)),
              uu_avatar = None, uu_matricula = ub_matricula b\<rparr> s))"

text \<open>\<open>deleteUserController\<close> (lines 110--120).\<close>

definition deleteUserController :: "user_id \<Rightarrow> db \<Rightarrow> (api_error + unit) \<times> db" where
  "deleteUserController i s = (Inr (), deleteUser i s)"

text \<open>\<open>updateOwnProfileController\<close> (lines 122--142): name, e-mail and password of the requester.\<close>

definition updateOwnProfileController :: "principal \<Rightarrow> string option \<Rightarrow> string option \<Rightarrow> string option \<Rightarrow> db \<Rightarrow> db" where
  "updateOwnProfileController u n e pw s = updateUser (p_id u)
     (no_update\<lparr>uu_name := n, uu_email := e, uu_password_hash := map_option Bcrypt (js_truthy pw)\<rparr>) s"

text \<open>\<open>uploadAvatarController\<close> (lines 144--158), given the name multer stored the file under.\<close>

definition uploadAvatarController :: "principal \<Rightarrow> string option \<Rightarrow> db \<Rightarrow> (api_error + string) \<times> db" where
  "uploadAvatarController u file s = (case file of
      None \<Rightarrow> (Inl NoFileSent, s)
    | Some fn \<Rightarrow> (let url = ''/uploads/avatars/'' @ fn in
        (Inr url, updateUser (p_id u) (no_update\<lparr>uu_avatar := Some (Some url)\<rparr>) s)))"

text \<open>
  \<open>path.extname\<close> of the original file name: from the last dot of the base name, empty
  when there is none or the base name starts with it (names made only of dots are not
  distinguished).
\<close>

definition path_extname :: "string \<Rightarrow> string" where
  "path_extname name = (let b = rev (takeWhile (\<lambda>c. c \<noteq> CHR ''/'') (rev name));
     tail = rev (takeWhile (\<lambda>c. c \<noteq> CHR ''.'') (rev b)) in
     if CHR ''.'' \<notin> set b \<or> length tail + 1 = length b then [] else CHR ''.'' # tail)"

text \<open>
  The multer middleware of src/Backend/src/middlewares/uploadAvatar.js: the stored name
  \<open>${req.user.id}-${unique}${ext}\<close> (lines 13--17), with \<open>unique\<close> the time and random
  part, and the filter that accepts \<open>image/*\<close> only (lines 20--25).
\<close>

definition avatar_filename :: "user_id \<Rightarrow> string \<Rightarrow> string \<Rightarrow> string" where
  "avatar_filename uid unique original = show_nat uid @ ''-'' @ unique @ path_extname original"

definition avatar_file_filter :: "string \<Rightarrow> api_error + unit" where
  "avatar_file_filter mimetype = (if take 6 mimetype = ''image/'' then Inr () else Inl AvatarNotImage)"

text \<open>
  \<open>POST /users/me/avatar\<close> (userRoutes.js, lines 21--26): the token, the upload of the
  field \<open>avatar\<close> (original name and MIME type, when a file was sent), the controller.
\<close>

definition route_upload_avatar :: "principal option \<Rightarrow> (string \<times> string) option \<Rightarrow> string \<Rightarrow> db \<Rightarrow>
    (api_error + string) \<times> db" where
  "route_upload_avatar u file unique s = (case u of
      None \<Rightarrow> (Inl Unauthenticated, s)
    | Some p \<Rightarrow> (case file of
        None \<Rightarrow> uploadAvatarController p None s
      | Some (original, mime) \<Rightarrow> (case avatar_file_filter mime of
          Inl e \<Rightarrow> (Inl e, s)
        | Inr _ \<Rightarrow> uploadAvatarController p (Some (avatar_filename (p_id p) unique original)) s)))"

text \<open>The profile \<open>findUserWithRelations\<close> reads (userModel.js, lines 136--154).\<close>

record profile =
  pf_id :: user_id
  pf_name :: "string option"
  pf_email :: "string option"
  pf_role :: string
  pf_unit :: "unit_id option"
  pf_warehouse :: "warehouse_id option"
  pf_avatar :: "string option"

definition findUserWithRelations :: "user_id \<Rightarrow> db \<Rightarrow> profile option" where
  "findUserWithRelations i s = map_option (\<lambda>r. \<lparr>pf_id = u_id r, pf_name = u_name r, pf_email = u_email r,
     pf_role = u_role r, pf_unit = u_unit r, pf_warehouse = u_warehouse r, pf_avatar = u_avatar r\<rparr>)
     (find (\<lambda>r. u_id r = i) (users s))"

text \<open>\<open>getOwnProfileController\<close> (lines 160--175).\<close>

definition getOwnProfileController :: "principal \<Rightarrow> db \<Rightarrow> api_error + profile" where
  "getOwnProfileController u s = (case findUserWithRelations (p_id u) s of
      None \<Rightarrow> Inl UserNotFound | Some p \<Rightarrow> Inr p)"

text \<open>The users admin routes (userRoutes.js, lines 29--31).\<close>

definition user_admins :: "role list" where
  "user_admins = [RoleAdmin, RoleSuperAdmin]"

definition route_create_user :: "principal option \<Rightarrow> user_body \<Rightarrow> db \<Rightarrow> (api_error + user_id) \<times> db" where
  "route_create_user u b s = (case requireRole user_admins u of
      Inl e \<Rightarrow> (Inl e, s) | Inr _ \<Rightarrow> createUserController b s)"

definition route_update_user :: "principal option \<Rightarrow> user_id \<Rightarrow> user_body \<Rightarrow> db \<Rightarrow> (api_error + unit) \<times> db" where
  "route_update_user u i b s = (case u of None \<Rightarrow> (Inl Unauthenticated, s)
     | Some p \<Rightarrow> (case requireRole user_admins u of
         Inl e \<Rightarrow> (Inl e, s) | Inr _ \<Rightarrow> updateUserController p i b s))"

definition route_delete_user :: "principal option \<Rightarrow> user_id \<Rightarrow> db \<Rightarrow> (api_error + unit) \<times> db" where
  "route_delete_user u i s = (case requireRole user_admins u of
      Inl e \<Rightarrow> (Inl e, s) | Inr _ \<Rightarrow> deleteUserController i s)"

text \<open>
  \<open>loginController\<close> (userController.js, lines 44--75), an older login that no route
  mounts: \<open>bcrypt.compare\<close> with a missing password or a missing hash rejects, and a
  matching password reaches \<open>jwt.sign\<close>, which the file never imports. Every request
  ends in an error, so the model's result is the error.
\<close>

definition loginController :: "string option \<Rightarrow> string option \<Rightarrow> db \<Rightarrow> api_error" where
  "loginController e pw s = (case findUserByEmail e s of
      None \<Rightarrow> InvalidCredentials
    | Some r \<Rightarrow> (case (pw, u_password_hash r) of
        (Some p, Some h) \<Rightarrow> if h \<noteq> Bcrypt p then InvalidCredentials else JwtUndefined
      | _ \<Rightarrow> BcryptIllegalArguments))"

text \<open>
  The requests that write the users table, each through its route (authRoutes.js,
  userRoutes.js) for a requester; set-password is public.
\<close>

datatype users_req =
    Register register_body
  | Invite "string option" "string option" string
  | SetPassword "string option" string string
  | CreateUserReq user_body
  | UpdateUserReq user_id user_body
  | DeleteUserReq user_id
  | UpdateOwnProfile "string option" "string option" "string option"
  | UploadAvatar "(string \<times> string) option" string

fun users_step :: "principal option \<Rightarrow> db \<Rightarrow> users_req \<Rightarrow> db" where
  "users_step u s (Register b) = snd (route_register u b s)"
| "users_step u s (Invite base e tok) = snd (route_invite u base e tok s)"
| "users_step u s (SetPassword e tok pw) = snd (setPassword e tok pw s)"
| "users_step u s (CreateUserReq b) = snd (route_create_user u b s)"
| "users_step u s (UpdateUserReq i b) = snd (route_update_user u i b s)"
| "users_step u s (DeleteUserReq i) = snd (route_delete_user u i s)"
| "users_step u s (UpdateOwnProfile n e pw) = (case u of None \<Rightarrow> s | Some p \<Rightarrow> updateOwnProfileController p n e pw s)"
| "users_step u s (UploadAvatar file unique) = snd (route_upload_avatar u file unique s)"

section \<open>Invariant and demo data\<close>

text \<open>No two accounts share an e-mail (accounts without one aside).\<close>

definition emails_unique :: "db \<Rightarrow> bool" where
  "emails_unique s \<longleftrightarrow> distinct (List.map_filter u_email (users s))"

text \<open>
  The shape of the users table: ids are distinct and below the \<open>AUTO_INCREMENT\<close>
  counter, and a row's invite digest and expiry are set and cleared together.
\<close>

definition invite_pair_ok :: "user_row \<Rightarrow> bool" where
  "invite_pair_ok r \<longleftrightarrow> (u_invite_hash r = None) = (u_invite_expires r = None)"

definition users_wf :: "db \<Rightarrow> bool" where
  "users_wf s \<longleftrightarrow> distinct (map u_id (users s)) \<and> (\<forall>r \<in> set (users s). u_id r < next_user_id s \<and> invite_pair_ok r)"

text \<open>Three accounts on the demo database: a super_admin, an admin of unit 1 and a user of unit 2 not yet activated.\<close>

definition root_user :: user_row where
  "root_user = \<lparr>u_id = 1, u_name = Some ''Root'', u_email = Some ''root@estoque'', u_password_hash = Some (Bcrypt ''r00t''),
     u_role = ''super_admin'', u_matricula = None, u_unit = None, u_warehouse = None, u_avatar = None,
     u_invite_hash = None, u_invite_expires = None, u_created_at = 0\<rparr>"

definition bia_user :: user_row where
  "bia_user = \<lparr>u_id = 2, u_name = Some ''Bia'', u_email = Some ''bia@estoque'', u_password_hash = Some (Bcrypt ''b1a''),
     u_role = ''admin'', u_matricula = None, u_unit = Some 1, u_warehouse = None, u_avatar = None,
     u_invite_hash = None, u_invite_expires = None, u_created_at = 1\<rparr>"

definition caio_user :: user_row where
  "caio_user = \<lparr>u_id = 3, u_name = Some ''Caio'', u_email = Some ''caio@estoque'', u_password_hash = None,
     u_role = ''user'', u_matricula = None, u_unit = Some 2, u_warehouse = None, u_avatar = None,
     u_invite_hash = None, u_invite_expires = None, u_created_at = 2\<rparr>"

definition users_db :: db where
  "users_db = demo_db\<lparr>users := [root_user, bia_user, caio_user], next_user_id := 4\<rparr>"

definition password_only :: "string \<Rightarrow> user_body" where
  "password_only pw = \<lparr>ub_name = None, ub_email = None, ub_role = None, ub_password = Some pw, ub_unit = None,
     ub_warehouse = None, ub_matricula = None\<rparr>"

section \<open>Lemmas\<close>

lemmas users_db_eval = users_db_def root_user_def bia_user_def caio_user_def findUserByEmail_def

lemma find_map_pres:
  "(\<And>x. P (f x) = P x) \<Longrightarrow> find P (map f xs) = map_option f (find P xs)"
  by (induction xs) auto

lemma findUserByEmail_map:
  assumes "\<And>r. u_email (f r) = u_email r"
  shows "findUserByEmail e (s\<lparr>users := map f (users s)\<rparr>) = map_option f (findUserByEmail e s)"
  using assms by (simp add: findUserByEmail_def find_map_pres split: option.splits)

lemma findUserByEmail_cong:
  "findUserByEmail e (s\<lparr>clock := t\<rparr>) = findUserByEmail e s"
  by (simp add: findUserByEmail_def split: option.splits)

lemma findUserByEmail_Some:
  "findUserByEmail (Some e) s = Some r \<Longrightarrow> r \<in> set (users s) \<and> u_email r = Some e"
  by (simp add: findUserByEmail_def) (drule find_Some_props, simp)

lemma setPassword_Inr:
  assumes "setPassword (Some e) tok pw s = (Inr (), s')"
  obtains r where "findUserByEmail (Some e) s = Some r" "u_invite_hash r = Some (Sha256 tok)"
    "s' = setPasswordAndClearInvite (u_id r) (Bcrypt pw) s"
  using assms by (auto simp: setPassword_def split: option.splits prod.splits if_splits)

lemma findUserByEmail_setPasswordAndClearInvite:
  "findUserByEmail e (setPasswordAndClearInvite i h s) = map_option (\<lambda>r. if u_id r = i then
     r\<lparr>u_password_hash := Some h, u_invite_hash := None, u_invite_expires := None\<rparr> else r) (findUserByEmail e s)"
  unfolding setPasswordAndClearInvite_def by (rule findUserByEmail_map) simp

lemma findUserByEmail_setInviteTokenByEmail:
  "findUserByEmail e (setInviteTokenByEmail x h t s) = map_option (\<lambda>r. if u_email r = Some x then
     r\<lparr>u_invite_hash := Some h, u_invite_expires := Some t\<rparr> else r) (findUserByEmail e s)"
  unfolding setInviteTokenByEmail_def by (rule findUserByEmail_map) simp

lemma findUserByEmail_None:
  "findUserByEmail (Some x) s = None \<longleftrightarrow> Some x \<notin> u_email ` set (users s)"
  by (auto simp: findUserByEmail_def find_None_iff image_iff)

lemma createUser_emails_unique:
  assumes "emails_unique s" "findUserByEmail e s = None"
  shows "emails_unique (snd (createUser n e h rl k w m s))"
proof (cases e)
  case None
  with assms(1) show ?thesis by (simp add: emails_unique_def createUser_def Let_def map_filter_simps)
next
  case (Some x)
  with assms(2) have "Some x \<notin> u_email ` set (users s)" by (simp add: findUserByEmail_None)
  then have "x \<notin> set (List.map_filter u_email (users s))" by (auto simp: map_filter_mem image_iff)
  with assms(1) Some show ?thesis by (simp add: emails_unique_def createUser_def Let_def map_filter_simps)
qed

text \<open>
  \<open>updateUser\<close> does not look for another account with the e-mail it sets: an update
  can give two accounts one e-mail, after which \<open>login\<close> reads the first.
\<close>

lemma update_can_duplicate_email:
  "\<not> emails_unique (snd (updateUserController (token_of root_user) 3
      ((password_only [])\<lparr>ub_email := Some ''bia@estoque''\<rparr>) users_db))"
  by (simp add: emails_unique_def updateUserController_def updateUser_def users_db_eval password_only_def
      token_of_def role_of_string_def js_truthy_def map_filter_simps Let_def)

text \<open>
  The unmounted \<open>loginController\<close> fails with a 500 exactly where the mounted \<open>login\<close>
  issues a token, and answers an invited account that has no password yet with a 500
  where \<open>login\<close> answers 403.
\<close>

lemma loginController_fails_on_success:
  "login e pw s = Inr t \<Longrightarrow> loginController e pw s = JwtUndefined"
  by (auto simp: login_def loginController_def split: option.splits if_splits)

lemma loginController_not_activated:
  assumes "findUserByEmail e s = Some r" "u_password_hash r = None"
  shows "login e pw s = Inl AccountNotActivated \<and> status_of (loginController e pw s) = 500"
  using assms by (simp add: login_def loginController_def split: option.splits)

lemma loginController_status:
  "status_of (loginController e pw s) \<in> {401, 500}"
  by (simp add: loginController_def split: option.splits prod.splits)

subsection \<open>The shape of the users table\<close>

lemma users_wf_map:
  assumes "users_wf s" "\<And>r. u_id (f r) = u_id r" "\<And>r. invite_pair_ok r \<Longrightarrow> invite_pair_ok (f r)"
  shows "users_wf (s\<lparr>users := map f (users s)\<rparr>)"
proof -
  have "u_id \<circ> f = u_id" using assms(2) by (simp add: fun_eq_iff)
  then show ?thesis using assms(1,3) assms(2) [symmetric] by (auto simp: users_wf_def)
qed

lemma updateUser_users_wf: "users_wf s \<Longrightarrow> users_wf (updateUser i f s)"
  unfolding updateUser_def by (rule users_wf_map) (simp_all add: invite_pair_ok_def)

lemma deleteUser_users_wf: "users_wf s \<Longrightarrow> users_wf (deleteUser i s)"
  by (auto simp: users_wf_def deleteUser_def distinct_map_filter)

lemma setInviteTokenByEmail_users_wf: "users_wf s \<Longrightarrow> users_wf (setInviteTokenByEmail e h t s)"
  unfolding setInviteTokenByEmail_def by (rule users_wf_map) (simp_all add: invite_pair_ok_def)

lemma setPasswordAndClearInvite_users_wf: "users_wf s \<Longrightarrow> users_wf (setPasswordAndClearInvite i h s)"
  unfolding setPasswordAndClearInvite_def by (rule users_wf_map) (simp_all add: invite_pair_ok_def)

lemma createUser_users_wf: "users_wf s \<Longrightarrow> users_wf (snd (createUser n e h rl k w m s))"
  unfolding users_wf_def createUser_def invite_pair_ok_def Let_def
  by (auto intro: less_SucI)

lemma snd_case_Inr [simp]: "snd (case p of (i, s') \<Rightarrow> (Inr i, s')) = snd p"
  by (cases p) simp

lemmas users_wf_ops = updateUser_users_wf deleteUser_users_wf setInviteTokenByEmail_users_wf
  setPasswordAndClearInvite_users_wf createUser_users_wf

lemma users_step_wf:
  assumes "users_wf s"
  shows "users_wf (users_step u s q)"
proof (cases q)
  case (Register b)
  then show ?thesis using assms
    by (auto simp: route_register_def register_def Let_def users_wf_ops split: sum.splits prod.splits)
next
  case (Invite base e tok)
  then show ?thesis using assms by (auto simp: route_invite_def inviteUser_def users_wf_ops split: sum.splits option.splits)
next
  case (SetPassword e tok pw)
  then show ?thesis using assms by (auto simp: setPassword_def users_wf_ops split: option.splits prod.splits)
next
  case (CreateUserReq b)
  then show ?thesis using assms by (auto simp: route_create_user_def createUserController_def users_wf_ops split: sum.splits prod.splits)
next
  case (UpdateUserReq i b)
  then show ?thesis using assms
    by (auto simp: route_update_user_def updateUserController_def users_wf_ops Let_def split: sum.splits option.splits)
next
  case (DeleteUserReq i)
  then show ?thesis using assms by (auto simp: route_delete_user_def deleteUserController_def users_wf_ops split: sum.splits)
next
  case (UpdateOwnProfile n e pw)
  then show ?thesis using assms by (auto simp: updateOwnProfileController_def users_wf_ops split: option.splits)
next
  case (UploadAvatar upload unique)
  then show ?thesis using assms
    by (auto simp: route_upload_avatar_def uploadAvatarController_def users_wf_ops Let_def split: option.splits sum.splits prod.splits)
qed

section \<open>Properties\<close>

text \<open>
  C30. Account activation works end to end: when an admin invites the e-mail of an
  account without a password and the invitee sets a password with the token before the
  invite expires, logging in with that password yields the account's token.
\<close>

lemma invite_activates_account:
  assumes "p_role a = RoleAdmin \<or> p_role a = RoleSuperAdmin" "findUserByEmail (Some e) s = Some r"
    "u_password_hash r = None" "t \<le> clock s + invite_ttl"
  shows "\<exists>s1 s2. route_invite (Some a) base (Some e) tok s = (Inr (invite_link (js_or_default base default_frontend_url) tok e), s1)
    \<and> setPassword (Some e) tok pw (s1\<lparr>clock := t\<rparr>) = (Inr (), s2)
    \<and> login (Some e) (Some pw) s2 = Inr (token_of r)"
proof -
  let ?s1 = "setInviteTokenByEmail e (Sha256 tok) (clock s + invite_ttl) s"
  have inv: "route_invite (Some a) base (Some e) tok s = (Inr (invite_link (js_or_default base default_frontend_url) tok e), ?s1)"
    using assms(1-3) by (auto simp: route_invite_def requireRole_def inviteUser_def)
  have em: "u_email r = Some e" using findUserByEmail_Some [OF assms(2)] by simp
  let ?r1 = "r\<lparr>u_invite_hash := Some (Sha256 tok), u_invite_expires := Some (clock s + invite_ttl)\<rparr>"
  have "findUserByEmail (Some e) ?s1 = Some ?r1"
    by (simp add: findUserByEmail_setInviteTokenByEmail assms(2) em)
  then have f1: "findUserByEmail (Some e) (?s1\<lparr>clock := t\<rparr>) = Some ?r1"
    by (simp add: findUserByEmail_cong)
  let ?s2 = "setPasswordAndClearInvite (u_id r) (Bcrypt pw) (?s1\<lparr>clock := t\<rparr>)"
  have sp: "setPassword (Some e) tok pw (?s1\<lparr>clock := t\<rparr>) = (Inr (), ?s2)"
    using f1 assms(4) by (simp add: setPassword_def)
  have "findUserByEmail (Some e) ?s2 = Some (?r1\<lparr>u_password_hash := Some (Bcrypt pw), u_invite_hash := None,
      u_invite_expires := None\<rparr>)"
    by (simp add: findUserByEmail_setPasswordAndClearInvite f1)
  then have "login (Some e) (Some pw) ?s2 = Inr (token_of r)"
    by (simp add: login_def token_of_def)
  with inv sp show ?thesis by blast
qed

lemma invite_activates_account_witness:
  "\<exists>s1 s2. route_invite (Some (token_of bia_user)) None (Some ''caio@estoque'') ''k9'' users_db
      = (Inr (invite_link default_frontend_url ''k9'' ''caio@estoque''), s1)
    \<and> setPassword (Some ''caio@estoque'') ''k9'' ''segredo'' (s1\<lparr>clock := 1000\<rparr>) = (Inr (), s2)
    \<and> login (Some ''caio@estoque'') (Some ''segredo'') s2 = Inr (token_of caio_user)"
  using invite_activates_account [where a = "token_of bia_user" and e = "''caio@estoque''" and s = users_db
      and r = caio_user and t = 1000 and base = None and tok = "''k9''" and pw = "''segredo''"]
  by (simp add: users_db_eval token_of_def role_of_string_def demo_db_def invite_ttl_def)

text \<open>
  C31. An invite token is single use: once a password has been set through it, any
  further \<open>set-password\<close> request for that e-mail, with any token, is an invalid invite.
\<close>

lemma invite_token_single_use:
  assumes "setPassword (Some e) tok pw s = (Inr (), s')"
  shows "setPassword (Some e) tok' pw' s' = (Inl InvalidInvite, s')"
proof -
  obtain r where r: "findUserByEmail (Some e) s = Some r" and s': "s' = setPasswordAndClearInvite (u_id r) (Bcrypt pw) s"
    using setPassword_Inr [OF assms] by blast
  have "findUserByEmail (Some e) s' = Some (r\<lparr>u_password_hash := Some (Bcrypt pw), u_invite_hash := None,
      u_invite_expires := None\<rparr>)"
    by (simp add: s' findUserByEmail_setPasswordAndClearInvite r)
  then show ?thesis by (simp add: setPassword_def)
qed

lemma invite_token_single_use_witness:
  "setPassword (Some ''caio@estoque'') ''k8'' ''outra'' (snd (setPassword (Some ''caio@estoque'') ''k9'' ''segredo''
      (snd (inviteUser None (Some ''caio@estoque'') ''k9'' users_db))))
   = (Inl InvalidInvite, snd (setPassword (Some ''caio@estoque'') ''k9'' ''segredo''
      (snd (inviteUser None (Some ''caio@estoque'') ''k9'' users_db))))"
proof -
  have "setPassword (Some ''caio@estoque'') ''k9'' ''segredo'' (snd (inviteUser None (Some ''caio@estoque'') ''k9'' users_db))
    = (Inr (), snd (setPassword (Some ''caio@estoque'') ''k9'' ''segredo'' (snd (inviteUser None (Some ''caio@estoque'') ''k9'' users_db))))"
    by (simp add: setPassword_def inviteUser_def setInviteTokenByEmail_def users_db_eval demo_db_def)
  from invite_token_single_use [OF this] show ?thesis .
qed

text \<open>
  C33. An admin can take over a super_admin account: \<open>PUT /users/:id\<close> with only a
  password succeeds for any target, and logging in with the new password yields a
  super_admin token.
\<close>

lemma admin_takes_over_super_admin:
  assumes "p_role a = RoleAdmin" "findUserByEmail (Some e) s = Some r" "u_role r = ''super_admin''" "pw \<noteq> []"
  shows "\<exists>s' p. route_update_user (Some a) (u_id r) (password_only pw) s = (Inr (), s')
    \<and> login (Some e) (Some pw) s' = Inr p \<and> p_role p = RoleSuperAdmin \<and> p_id p = u_id r"
proof -
  let ?f = "\<lambda>x. if u_id x = u_id r then x\<lparr>u_unit := js_or_null (p_unit a), u_password_hash := Some (Bcrypt pw)\<rparr> else x"
  let ?s' = "s\<lparr>users := map ?f (users s)\<rparr>"
  have upd: "route_update_user (Some a) (u_id r) (password_only pw) s = (Inr (), ?s')"
    using assms(1,4) by (simp add: route_update_user_def requireRole_def user_admins_def updateUserController_def
        password_only_def updateUser_def js_truthy_def Let_def)
  have "findUserByEmail (Some e) ?s' = Some (?f r)"
    using findUserByEmail_map [of ?f "Some e" s] assms(2) by simp
  then have "login (Some e) (Some pw) ?s' = Inr (token_of (?f r))" by (simp add: login_def)
  moreover have "p_role (token_of (?f r)) = RoleSuperAdmin" "p_id (token_of (?f r)) = u_id r"
    using assms(3) by (simp_all add: token_of_def role_of_string_def)
  ultimately show ?thesis using upd by blast
qed

lemma admin_takes_over_super_admin_witness:
  "\<exists>p. login (Some ''root@estoque'') (Some ''x'') (snd (route_update_user (Some (token_of bia_user)) 1 (password_only ''x'') users_db)) = Inr p
     \<and> p_role p = RoleSuperAdmin"
proof -
  have "\<exists>s' p. route_update_user (Some (token_of bia_user)) (u_id root_user) (password_only ''x'') users_db = (Inr (), s')
    \<and> login (Some ''root@estoque'') (Some ''x'') s' = Inr p \<and> p_role p = RoleSuperAdmin \<and> p_id p = u_id root_user"
    by (rule admin_takes_over_super_admin) (simp_all add: users_db_eval token_of_def role_of_string_def)
  then show ?thesis by (auto simp: root_user_def)
qed

text \<open>
  C34. \<open>POST /users\<close> with a password always fails with a 500 and creates nothing:
  \<open>hashPassword\<close> is not imported by userController.js. A password is present when
  \<open>password.trim()\<close> is not empty, trimmed of all JavaScript whitespace (\<open>js_trim\<close>):
  a password of VT, FF or NBSP alone is absent, and the user is created without one.
\<close>

lemma create_user_with_password_fails:
  assumes "findUserByEmail (ub_email b) s = None" "has_password (ub_password b)"
  shows "createUserController b s = (Inl HashPasswordUndefined, s) \<and> status_of HashPasswordUndefined = 500"
  using assms by (simp add: createUserController_def)

lemma create_user_with_password_fails_witness:
  "createUserController ((password_only ''abc'')\<lparr>ub_email := Some ''novo@estoque''\<rparr>) users_db = (Inl HashPasswordUndefined, users_db)"
proof -
  have "js_trim ''abc'' \<noteq> []"
    using js_trim_keeps_graphic [of "CHR ''a''" "''abc''"] by auto
  with create_user_with_password_fails [of "(password_only ''abc'')\<lparr>ub_email := Some ''novo@estoque''\<rparr>" users_db]
  show ?thesis by (simp add: users_db_eval password_only_def has_password_def)
qed

text \<open>
  C35. A super_admin passes the guard of \<open>POST /auth/register\<close> and is then refused by
  the handler (403), which admits only the exact role "admin" once users exist.
\<close>

lemma register_refuses_super_admin:
  assumes "p_role p = RoleSuperAdmin" "users s \<noteq> []"
  shows "route_register (Some p) b s = (Inl AdminOnlyRegister, s) \<and> requireRole [RoleAdmin, RoleSuperAdmin] (Some p) = Inr ()"
  using assms by (simp add: route_register_def requireRole_def register_def countUsers_def)

lemma register_refuses_super_admin_witness:
  "route_register (Some (token_of root_user)) \<lparr>rb_name = None, rb_email = Some ''x@y'', rb_password = None, rb_role = None\<rparr> users_db
     = (Inl AdminOnlyRegister, users_db)"
  using register_refuses_super_admin [of "token_of root_user" users_db]
  by (simp add: token_of_def root_user_def role_of_string_def users_db_def)

text \<open>
  C36. Registration and \<open>POST /users\<close> never create a second account with an e-mail
  that is already taken.
\<close>

lemma account_creation_keeps_emails_unique:
  assumes "emails_unique s"
  shows "emails_unique (snd (register u b s)) \<and> emails_unique (snd (createUserController c s))"
  using assms createUser_emails_unique
  by (auto simp: register_def createUserController_def Let_def split_def)

lemma account_creation_keeps_emails_unique_witness:
  "emails_unique (snd (createUserController ((password_only [])\<lparr>ub_email := Some ''davi@estoque''\<rparr>) users_db))"
  using account_creation_keeps_emails_unique [of users_db None
      "\<lparr>rb_name = None, rb_email = None, rb_password = None, rb_role = None\<rparr>"
      "(password_only [])\<lparr>ub_email := Some ''davi@estoque''\<rparr>"]
  by (simp add: emails_unique_def users_db_eval map_filter_simps)

text \<open>
  The users list of a requester other than the top role holds only users of the
  requester's own unit.
\<close>

lemma user_list_scope:
  assumes "p_role u \<noteq> RoleSuperAdmin" "r \<in> set (listUsers u s)"
  shows "\<exists>k. ul_unit_id r = Some k \<and> p_unit u = Some k"
  using assms by (auto simp: listUsers_def sql_eq_iff)

lemma user_list_scope_witness:
  "map ul_id (listUsers (token_of bia_user) users_db) = [2]"
proof -
  have "\<forall>r \<in> set (listUsers (token_of bia_user) users_db). ul_unit_id r = Some 1"
    using user_list_scope [of "token_of bia_user" _ users_db] by (fastforce simp: token_of_def bia_user_def role_of_string_def)
  then show ?thesis
    by (simp add: listUsers_def users_db_eval sql_eq_def token_of_def role_of_string_def)
qed

text \<open>An avatar upload stores the file under the uploader's id and records its URL on the uploader's row only.\<close>

lemma upload_avatar_own_row:
  assumes "route_upload_avatar (Some p) (Some (original, mime)) unique s = (Inr url, s')"
  shows "url = ''/uploads/avatars/'' @ show_nat (p_id p) @ ''-'' @ unique @ path_extname original
    \<and> take 6 mime = ''image/''
    \<and> users s' = map (\<lambda>r. if u_id r = p_id p then r\<lparr>u_avatar := Some url\<rparr> else r) (users s)"
  using assms
  by (auto simp: route_upload_avatar_def avatar_file_filter_def uploadAvatarController_def avatar_filename_def
      updateUser_def no_update_def js_truthy_def Let_def split: if_splits)

lemma path_extname_example:
  "path_extname ''fotos/perfil.final.PNG'' = ''.PNG'' \<and> path_extname ''.bashrc'' = [] \<and> path_extname ''avatar'' = []"
  by (simp add: path_extname_def)

text \<open>
  C7. The users table keeps its shape under every sequence of account requests, through
  their routes and by any requester: ids stay distinct and below the
  \<open>AUTO_INCREMENT\<close> counter, and no row has an invite digest without its expiry
  or the other way round.
\<close>

lemma users_requests_keep_shape:
  assumes "users_wf s"
  shows "users_wf (foldl (users_step u) s qs)"
  using assms by (induction qs arbitrary: s) (simp_all add: users_step_wf)

lemma users_requests_keep_shape_witness:
  "users_wf (foldl (users_step (Some (token_of bia_user))) users_db
     [Invite None (Some ''caio@estoque'') ''t0k'', SetPassword (Some ''caio@estoque'') ''t0k'' ''senha1'', DeleteUserReq 2])"
  using users_requests_keep_shape [of users_db "Some (token_of bia_user)"
      "[Invite None (Some ''caio@estoque'') ''t0k'', SetPassword (Some ''caio@estoque'') ''t0k'' ''senha1'', DeleteUserReq 2]"]
  by (simp add: users_wf_def users_db_def root_user_def bia_user_def caio_user_def invite_pair_ok_def)

end
