(* ===== verification/Dashboard.thy ===== *)
theory Dashboard
  imports Catalog
begin

text \<open>
  The dashboard summary: \<open>getDashboardSummary\<close> (src/Backend/src/models/dashboardModel.js)
  and \<open>dashboardSummaryController\<close> (controllers/dashboardController.js), behind
  \<open>authRequired\<close> only (routes/dashboardRoutes.js). \<open>DATE_FORMAT(created_at, '%Y-%m')\<close>
  is a parameter \<open>ym\<close> from the clock to the month key (the server's calendar and time
  zone); \<open>YEAR(m.created_at) = YEAR(CURDATE()) AND MONTH(...) = MONTH(...)\<close> is
  \<open>ym (mov_created_at m) = ym (clock s)\<close>. Grouped rows whose order SQL leaves open keep
  table order.
\<close>

record dashboard_cards =
  dc_total_stock_quantity :: qty
  dc_products_with_stock :: nat
  dc_total_products :: nat
  dc_total_warehouses :: nat
  dc_total_movements_month :: nat
  dc_entries_month :: nat
  dc_exits_month :: nat

record month_row =
  mr_month :: string
  mr_total :: nat
  mr_entries :: nat
  mr_exits :: nat

record warehouse_count_row =
  wc_id :: warehouse_id
  wc_name :: string
  wc_total :: nat

record dashboard_summary =
  ds_cards :: dashboard_cards
  ds_by_month :: "month_row list"
  ds_by_warehouse :: "warehouse_count_row list"

text \<open>\<open>SUM(CASE WHEN m.type = t THEN 1 ELSE 0 END)\<close>.\<close>

definition count_type :: "movement_type \<Rightarrow> movement list \<Rightarrow> nat" where
  "count_type t ms = length (filter (\<lambda>m. mov_type m = t) ms)"

text \<open>The month rows (lines 45--59): the six latest months, then \<open>.slice().reverse()\<close> (line 87).\<close>

definition movements_by_month :: "(nat \<Rightarrow> string) \<Rightarrow> movement list \<Rightarrow> month_row list" where
  "movements_by_month ym ms = rev (map (\<lambda>k. let g = filter (\<lambda>m. ym (mov_created_at m) = k) ms in
       \<lparr>mr_month = k, mr_total = length g, mr_entries = count_type ENTRADA g, mr_exits = count_type SAIDA g\<rparr>)
     (take 6 (rev (sort (remdups (map (\<lambda>m. ym (mov_created_at m)) ms))))))"

text \<open>The warehouse rows (lines 61--74): the inner join drops movements of a missing warehouse.\<close>

definition movements_by_warehouse :: "movement list \<Rightarrow> db \<Rightarrow> warehouse_count_row list" where
  "movements_by_warehouse ms s = sort_key (\<lambda>r. - int (wc_total r))
     (filter (\<lambda>r. 0 < wc_total r) (map (\<lambda>w. \<lparr>wc_id = wh_id w, wc_name = wh_name w,
        wc_total = length (filter (\<lambda>m. mov_warehouse m = wh_id w) ms)\<rparr>) (warehouses s)))"

text \<open>\<open>getDashboardSummary\<close> (lines 3--91): a truthy warehouse id filters stock and movements.\<close>

definition getDashboardSummary :: "(nat \<Rightarrow> string) \<Rightarrow> warehouse_id option \<Rightarrow> db \<Rightarrow> dashboard_summary" where
  "getDashboardSummary ym wid s = (let w = js_or_null wid;
     st = filter (\<lambda>r. case w of None \<Rightarrow> True | Some x \<Rightarrow> st_warehouse r = x) (stock s);
     ms = filter (\<lambda>m. case w of None \<Rightarrow> True | Some x \<Rightarrow> mov_warehouse m = x) (movements s);
     month = filter (\<lambda>m. ym (mov_created_at m) = ym (clock s)) ms
   in \<lparr>ds_cards = \<lparr>dc_total_stock_quantity = sum_list (map st_quantity st),
         dc_products_with_stock = length (remdups (map st_product st)),
         dc_total_products = length (products s),
         dc_total_warehouses = (if w \<noteq> None then 1 else length (warehouses s)),
         dc_total_movements_month = length month,
         dc_entries_month = count_type ENTRADA month, dc_exits_month = count_type SAIDA month\<rparr>,
       ds_by_month = movements_by_month ym ms,
       ds_by_warehouse = movements_by_warehouse ms s\<rparr>)"

text \<open>
  \<open>dashboardSummaryController\<close> (dashboardController.js, lines 3--13): an admin gets the
  whole database, anyone else the warehouse of its token, or the whole database when it
  has none.
\<close>

definition dashboardSummaryController :: "(nat \<Rightarrow> string) \<Rightarrow> principal \<Rightarrow> db \<Rightarrow> dashboard_summary" where
  "dashboardSummaryController ym u s =
     getDashboardSummary ym (if p_role u = RoleAdmin then None else js_or_null (p_warehouse u)) s"

section \<open>Lemmas\<close>

text \<open>The sum of all balances is the sum of all signed movements when the ledger invariant holds.\<close>

lemma sum_list_if_const:
  "sum_list (map (\<lambda>r. if P r then c else 0) xs) = of_nat (length (filter P xs)) * (c::int)"
  by (induction xs) (auto simp: algebra_simps)

lemma length_filter_key_one:
  assumes "distinct (map key rows)" "k \<in> set (map key rows)"
  shows "length (filter (\<lambda>r. key r = k) rows) = 1"
  using assms by (induction rows) (auto simp: filter_empty_conv image_iff)

lemma sum_rows_pairs:
  assumes "distinct (map key rows)" "\<forall>m \<in> set ms. key' m \<in> set (map key rows)"
  shows "sum_list (map (\<lambda>r. sum_list (map f (filter (\<lambda>m. key' m = key r) ms))) rows) = sum_list (map (f::'a \<Rightarrow> int) ms)"
  using assms(2)
proof (induction ms)
  case Nil
  then show ?case by (induction rows) simp_all
next
  case (Cons m ms)
  have split: "(\<Sum>r\<leftarrow>rows. sum_list (map f (filter (\<lambda>x. key' x = key r) (m # ms))))
      = (\<Sum>r\<leftarrow>rows. (if key' m = key r then f m else 0))
        + (\<Sum>r\<leftarrow>rows. sum_list (map f (filter (\<lambda>x. key' x = key r) ms)))"
    by (induction rows) auto
  have one: "length (filter (\<lambda>r. key' m = key r) rows) = 1"
    using length_filter_key_one [OF assms(1), of "key' m"] Cons.prems by (simp add: eq_commute)
  have "(\<Sum>r\<leftarrow>rows. sum_list (map f (filter (\<lambda>x. key' x = key r) ms))) = sum_list (map f ms)"
    using Cons.IH Cons.prems by simp
  then show ?case
    unfolding split sum_list_if_const one by simp
qed

lemma ledger_total:
  assumes "engine_inv s"
  shows "sum_list (map st_quantity (stock s)) = sum_list (map signed_qty (movements s))"
proof -
  from assms have wf: "stock_wf s" and inv: "ledger_inv s" by (simp_all add: engine_inv_def)
  have rows: "map st_quantity (stock s) = map (\<lambda>r. sum_list (map signed_qty
      (filter (\<lambda>m. (mov_product m, mov_warehouse m) = (st_product r, st_warehouse r)) (movements s)))) (stock s)"
    using inv by (auto simp: ledger_inv_def pair_movs_def)
  have d: "distinct (map (\<lambda>r. (st_product r, st_warehouse r)) (stock s))" using wf by (simp add: stock_wf_def)
  have k: "\<forall>m \<in> set (movements s). (mov_product m, mov_warehouse m) \<in> set (map (\<lambda>r. (st_product r, st_warehouse r)) (stock s))"
    using inv by (force simp: ledger_inv_def dest: getCurrentStock_Some)
  show ?thesis unfolding rows using sum_rows_pairs [OF d k] .
qed

section \<open>Properties\<close>

text \<open>
  C32. The dashboard of an admin, or of any requester whose token has no warehouse,
  whatever its role and unit, totals the stock of every unit, and that total is the sum
  of the signed quantities of the whole movement log.
\<close>

lemma dashboard_totals_every_unit:
  assumes "engine_inv s" "p_role u = RoleAdmin \<or> js_or_null (p_warehouse u) = None"
  shows "dc_total_stock_quantity (ds_cards (dashboardSummaryController ym u s)) = sum_list (map signed_qty (movements s))
    \<and> dc_total_warehouses (ds_cards (dashboardSummaryController ym u s)) = length (warehouses s)"
  using assms ledger_total [OF assms(1)]
  by (auto simp: dashboardSummaryController_def getDashboardSummary_def js_or_null_def Let_def)

lemma dashboard_totals_every_unit_witness:
  "dc_total_stock_quantity (ds_cards (dashboardSummaryController (\<lambda>_. ''2025-01'') clerk_unit2 demo_db)) = 10"
proof -
  have "engine_inv demo_db" using demo_db_catalog_inv by (simp add: catalog_inv_def)
  from dashboard_totals_every_unit [OF this, of clerk_unit2 "\<lambda>_. ''2025-01''"] show ?thesis
    by (simp add: clerk_unit2_def js_or_null_def demo_db_def signed_qty_def)
qed

end
