(* ===== verification/Routes.thy ===== *)
theory Routes
  imports Roles
begin

text \<open>
  The HTTP surface of the backend: the routers of src/Backend/src/routes/*.js mounted by
  app.js (lines 23--39), as one table of (method, path pattern, guard, handler), and the
  way Express picks the handler for a request: the first route in registration order
  whose method is the request's and whose pattern matches the path before \<open>?\<close>, a
  \<open>:param\<close> matching one non-empty segment. Express compares paths case-insensitively
  and tolerates one trailing slash; the model compares segments exactly and drops one
  trailing empty segment. Static mounts (\<open>/files\<close>, \<open>/uploads\<close>) serve files and are
  listed as prefixes.
\<close>

datatype http_method = GET | POST | PUT | DELETE

datatype seg = Lit string | Param

text \<open>The middleware chain in front of a handler.\<close>

datatype route_guard =
    Public
  | Auth
  | AuthRoles "role list"
  | AuthMinRole role
  | AuthUpload

record route =
  rt_method :: http_method
  rt_path :: "seg list"
  rt_guard :: route_guard
  rt_handler :: string

definition mk_route :: "http_method \<Rightarrow> seg list \<Rightarrow> route_guard \<Rightarrow> string \<Rightarrow> route" where
  "mk_route m p g h = \<lparr>rt_method = m, rt_path = p, rt_guard = g, rt_handler = h\<rparr>"

section \<open>The routers\<close>

text \<open>authRoutes.js, lines 7--11.\<close>

definition auth_router :: "route list" where
  "auth_router = [
     mk_route POST [Lit ''register''] (AuthRoles [RoleAdmin, RoleSuperAdmin]) ''register'',
     mk_route POST [Lit ''login''] Public ''login'',
     mk_route POST [Lit ''invite''] (AuthRoles [RoleAdmin, RoleSuperAdmin]) ''inviteUser'',
     mk_route POST [Lit ''set-password''] Public ''setPassword'']"

text \<open>productRoutes.js, lines 13--18.\<close>

definition product_router :: "route list" where
  "product_router = [
     mk_route GET [Lit ''barcode''] Auth ''getProductByBarcodeController'',
     mk_route GET [] (AuthRoles [RoleAdmin, RoleSuperAdmin, RoleSupervisor]) ''listProductsController'',
     mk_route POST [] (AuthRoles [RoleAdmin, RoleSuperAdmin, RoleSupervisor]) ''createProductController'',
     mk_route PUT [Param] (AuthRoles [RoleAdmin, RoleSuperAdmin, RoleSupervisor]) ''updateProductController'',
     mk_route DELETE [Param] (AuthRoles [RoleAdmin, RoleSuperAdmin, RoleSupervisor]) ''deleteProductController'']"

text \<open>warehouseRoutes.js, lines 12--15.\<close>

definition warehouse_router :: "route list" where
  "warehouse_router = [
     mk_route POST [] Auth ''createWarehouseController'',
     mk_route GET [] Auth ''listWarehousesController'',
     mk_route PUT [Param] Auth ''updateWarehouseController'',
     mk_route DELETE [Param] Auth ''deleteWarehouseController'']"

text \<open>stockRoutes.js, lines 11--13.\<close>

definition stock_router :: "route list" where
  "stock_router = [
     mk_route POST [Lit ''entrada''] (AuthRoles [RoleAdmin, RoleSuperAdmin, RoleSupervisor]) ''stockEntryController'',
     mk_route POST [Lit ''entrada'', Lit ''lote''] (AuthRoles [RoleAdmin, RoleSuperAdmin, RoleSupervisor]) ''stockEntryBatchController'',
     mk_route POST [Lit ''saida''] (AuthRoles [RoleAdmin, RoleSuperAdmin, RoleSupervisor]) ''stockExitController'']"

text \<open>reportRoutes.js, lines 10--11.\<close>

definition report_router :: "route list" where
  "report_router = [
     mk_route GET [Lit ''estoque''] Auth ''stockReportController'',
     mk_route GET [Lit ''movimentacoes''] Auth ''movementReportController'']"

text \<open>userRoutes.js, lines 18--31.\<close>

definition user_router :: "route list" where
  "user_router = [
     mk_route GET [Lit ''me''] Auth ''getOwnProfileController'',
     mk_route PUT [Lit ''me'', Lit ''profile''] Auth ''updateOwnProfileController'',
     mk_route POST [Lit ''me'', Lit ''avatar''] AuthUpload ''uploadAvatarController'',
     mk_route GET [] (AuthRoles [RoleAdmin, RoleSuperAdmin, RoleSupervisor]) ''listUsersController'',
     mk_route POST [] (AuthRoles [RoleAdmin, RoleSuperAdmin]) ''createUserController'',
     mk_route PUT [Param] (AuthRoles [RoleAdmin, RoleSuperAdmin]) ''updateUserController'',
     mk_route DELETE [Param] (AuthRoles [RoleAdmin, RoleSuperAdmin]) ''deleteUserController'']"

text \<open>exitOrderRoutes.js, lines 10--11.\<close>

definition exit_order_router :: "route list" where
  "exit_order_router = [
     mk_route GET [] Auth ''listExitOrdersController'',
     mk_route POST [Param, Lit ''assinar''] Auth ''signExitOrderController'']"

text \<open>dashboardRoutes.js, line 7.\<close>

definition dashboard_router :: "route list" where
  "dashboard_router = [mk_route GET [Lit ''resumo''] Auth ''dashboardSummaryController'']"

text \<open>unitRoutes.js, lines 13--17: \<open>requireMinRole\<close> reads its first argument only.\<close>

definition unit_router :: "route list" where
  "unit_router = [
     mk_route GET [] Auth ''listUnitsController'',
     mk_route POST [] (AuthMinRole RoleAdmin) ''createUnitController'',
     mk_route PUT [Param] (AuthMinRole RoleAdmin) ''updateUnitController'',
     mk_route DELETE [Param] (AuthMinRole RoleAdmin) ''deleteUnitController'']"

section \<open>app.js\<close>

text \<open>\<open>app.use(prefix, router)\<close> in the order of lines 27--37, after \<open>GET /\<close> (line 23).\<close>

definition app_mounts :: "(seg list \<times> route list) list" where
  "app_mounts = [
     ([], [mk_route GET [] Public ''health'']),
     ([Lit ''api'', Lit ''auth''], auth_router),
     ([Lit ''api'', Lit ''produtos''], product_router),
     ([Lit ''api'', Lit ''estoques''], warehouse_router),
     ([Lit ''api'', Lit ''estoque''], stock_router),
     ([Lit ''api'', Lit ''relatorios''], report_router),
     ([Lit ''api'', Lit ''users''], user_router),
     ([Lit ''api'', Lit ''assinaturas''], exit_order_router),
     ([Lit ''api'', Lit ''os-saida''], exit_order_router),
     ([Lit ''api'', Lit ''dashboard''], dashboard_router),
     ([Lit ''api'', Lit ''unidades''], unit_router)]"

definition server_routes :: "route list" where
  "server_routes = concat (map (\<lambda>(pre, rs). map (\<lambda>r. r\<lparr>rt_path := pre @ rt_path r\<rparr>) rs) app_mounts)"

text \<open>The static mounts of lines 33 and 39.\<close>

definition static_prefixes :: "string list list" where
  "static_prefixes = [[''files''], [''uploads'']]"

section \<open>Matching a request\<close>

text \<open>The segments of the path part of a URL (before \<open>?\<close>), without the leading slash and one trailing slash.\<close>

definition path_segments :: "string \<Rightarrow> string list" where
  "path_segments url = (let p = takeWhile (\<lambda>c. c \<noteq> CHR ''?'') url;
     xs = split_on CHR ''/'' (drop 1 p) in
     if xs \<noteq> [] \<and> last xs = [] then butlast xs else xs)"

fun seg_match :: "seg \<Rightarrow> string \<Rightarrow> bool" where
  "seg_match (Lit a) x = (a = x)"
| "seg_match Param x = (x \<noteq> [])"

definition route_matches :: "http_method \<Rightarrow> string list \<Rightarrow> route \<Rightarrow> bool" where
  "route_matches m xs r \<longleftrightarrow> rt_method r = m \<and> list_all2 seg_match (rt_path r) xs"

text \<open>The route Express runs for a request, \<open>None\<close> a 404.\<close>

definition dispatch :: "http_method \<Rightarrow> string \<Rightarrow> route option" where
  "dispatch m url = find (route_matches m (path_segments url)) server_routes"

section \<open>Serving a request\<close>

text \<open>
  The middleware chain of a route, as the routers list it: \<open>authRequired\<close>, then
  \<open>requireRole\<close> or \<open>requireMinRole\<close> on \<open>req.user\<close>; the first that answers
  ends the request, and the handler gets \<open>req.user\<close> (none on a public route). The
  upload route runs multer after \<open>authRequired\<close> (Users.route_upload_avatar).
\<close>

definition then_role :: "(principal option \<Rightarrow> api_error + unit) \<Rightarrow> api_error + principal \<Rightarrow> api_error + principal option" where
  "then_role chk a = (case a of Inl e \<Rightarrow> Inl e
     | Inr p \<Rightarrow> (case chk (Some p) of Inl e \<Rightarrow> Inl e | Inr _ \<Rightarrow> Inr (Some p)))"

definition run_guard :: "(string \<Rightarrow> principal option) \<Rightarrow> string option \<Rightarrow> route_guard \<Rightarrow> api_error + principal option" where
  "run_guard verify h g = (case g of
      Public \<Rightarrow> Inr None
    | Auth \<Rightarrow> then_role (\<lambda>_. Inr ()) (authRequired verify h)
    | AuthRoles rs \<Rightarrow> then_role (requireRole rs) (authRequired verify h)
    | AuthMinRole m \<Rightarrow> then_role (requireMinRole m) (authRequired verify h)
    | AuthUpload \<Rightarrow> then_role (\<lambda>_. Inr ()) (authRequired verify h))"

datatype served = NotFound | Rejected api_error | Handler string "principal option"

text \<open>A request to the API: the route \<open>dispatch\<close> picks, then its chain; \<open>NotFound\<close> is Express's 404 (or a static file).\<close>

definition serve :: "(string \<Rightarrow> principal option) \<Rightarrow> http_method \<Rightarrow> string \<Rightarrow> string option \<Rightarrow> served" where
  "serve verify m url h = (case dispatch m url of
      None \<Rightarrow> NotFound
    | Some r \<Rightarrow> (case run_guard verify h (rt_guard r) of
        Inl e \<Rightarrow> Rejected e
      | Inr u \<Rightarrow> Handler (rt_handler r) u))"

section \<open>Lemmas\<close>

lemmas route_table = dispatch_def server_routes_def app_mounts_def auth_router_def product_router_def
  warehouse_router_def stock_router_def report_router_def user_router_def exit_order_router_def
  dashboard_router_def unit_router_def mk_route_def route_matches_def

text \<open>Only the health check, login and set-password are served without a token.\<close>

lemma public_routes:
  "filter (\<lambda>r. rt_guard r = Public) server_routes = [
     mk_route GET [] Public ''health'', mk_route POST [Lit ''api'', Lit ''auth'', Lit ''login''] Public ''login'',
     mk_route POST [Lit ''api'', Lit ''auth'', Lit ''set-password''] Public ''setPassword'']"
  by (simp add: route_table)

text \<open>No route runs \<open>loginController\<close> of userController.js: the login route runs authController's \<open>login\<close>.\<close>

lemma loginController_unmounted:
  "list_all (\<lambda>r. rt_handler r \<noteq> ''loginController'') server_routes"
  by (simp add: route_table)

text \<open>
  A handler runs only behind its whole chain: a route with a role list gets a requester
  whose token carries one of those roles, and every route but the public ones gets a
  requester at all.
\<close>

lemma run_guard_ok:
  "run_guard verify h g = Inr u \<Longrightarrow>
     (g = Public \<longrightarrow> u = None) \<and>
     (g \<noteq> Public \<longrightarrow> (\<exists>p. u = Some p \<and> authRequired verify h = Inr p
        \<and> (\<forall>rs. g = AuthRoles rs \<longrightarrow> p_role p \<in> set rs)
        \<and> (\<forall>m. g = AuthMinRole m \<longrightarrow> \<not> js_rank_less (ROLE_RANK (p_role p)) (ROLE_RANK m))))"
  by (cases g) (auto simp: run_guard_def then_role_def requireRole_def requireMinRole_def
      split: sum.splits if_splits)

lemma serve_handler:
  assumes "serve verify m url h = Handler n u"
  obtains r where "dispatch m url = Some r" "rt_handler r = n" "run_guard verify h (rt_guard r) = Inr u"
  using assms by (auto simp: serve_def split: option.splits sum.splits)

text \<open>Without an \<open>Authorization\<close> header only the health check, login and set-password get past their chain.\<close>

lemma serve_without_token:
  "serve verify m url None = Handler n u \<Longrightarrow> n \<in> {''health'', ''login'', ''setPassword''}"
proof -
  assume "serve verify m url None = Handler n u"
  then obtain r where r: "dispatch m url = Some r" "rt_handler r = n" "run_guard verify None (rt_guard r) = Inr u"
    by (rule serve_handler)
  have "rt_guard r = Public"
    using r(3) by (cases "rt_guard r") (simp_all add: run_guard_def then_role_def authRequired_def)
  moreover have "r \<in> set server_routes" using r(1) by (auto simp: dispatch_def dest: find_Some_iff [THEN iffD1])
  ultimately have "r \<in> set (filter (\<lambda>r. rt_guard r = Public) server_routes)" by simp
  then show ?thesis using r(2) by (simp only: public_routes) (auto simp: mk_route_def)
qed

text \<open>The guards of the table: a super_admin token passes every one of them.\<close>

lemma server_route_guards:
  "set (map rt_guard server_routes) = {Public, Auth, AuthUpload, AuthRoles [RoleAdmin, RoleSuperAdmin],
     AuthRoles [RoleAdmin, RoleSuperAdmin, RoleSupervisor], AuthMinRole RoleAdmin}"
  by (simp add: route_table insert_commute)

lemma super_admin_passes_guards:
  assumes "authRequired verify h = Inr p" "p_role p = RoleSuperAdmin" "r \<in> set server_routes"
  shows "run_guard verify h (rt_guard r) = Inr (if rt_guard r = Public then None else Some p)"
proof -
  have "rt_guard r \<in> set (map rt_guard server_routes)" using assms(3) by simp
  then show ?thesis unfolding server_route_guards
    using assms(1,2) by (auto simp: run_guard_def then_role_def requireRole_def requireMinRole_def)
qed

end
