(* ===== verification/Frontend.thy ===== *)
theory Frontend
  imports Routes "HOL-Library.AList"
begin

text \<open>
  The React client (src/Frontend/src): the HTTP client of api/api.js and the page routing
  of App.jsx, and how they meet the server: every call reaches a route, a stored token
  reaches \<open>verifyToken\<close> intact, and without one only login and set-password pass.
  The activation page and the pagination widget have their own theories.
\<close>

section \<open>api/api.js\<close>

text \<open>
  The calls of the \<open>api\<close> object (lines 45--193), with the path each one requests
  (after \<open>API_URL\<close>); ids are numbers, printed in decimal by the template strings.
\<close>

datatype api_call =
    ApiLogin | ApiUpdateMyProfile | ApiSetPassword | ApiGetMyProfile | ApiGetProducts
  | ApiGetProductsByWarehouse nat | ApiInviteUser | ApiSearchProducts string | ApiCreateProduct
  | ApiUpdateProduct nat | ApiDeleteProduct nat | ApiUploadAvatar | ApiGetUsers | ApiStockEntryBatch
  | ApiFindProductByBarcode string | ApiGetWarehouses | ApiCreateWarehouse | ApiUpdateWarehouse nat
  | ApiDeleteWarehouse nat | ApiGetUnits | ApiCreateUnit | ApiUpdateUnit nat | ApiDeleteUnit nat
  | ApiListUsers | ApiCreateUser | ApiUpdateUser nat | ApiDeleteUser nat | ApiStockEntry | ApiStockExit
  | ApiStockReport | ApiMovementReport | ApiDashboardSummary | ApiListExitOrders | ApiSignExitOrder nat

fun api_endpoint :: "api_call \<Rightarrow> http_method \<times> string" where
  "api_endpoint ApiLogin = (POST, ''/api/auth/login'')"
| "api_endpoint ApiUpdateMyProfile = (PUT, ''/api/users/me/profile'')"
| "api_endpoint ApiSetPassword = (POST, ''/api/auth/set-password'')"
| "api_endpoint ApiGetMyProfile = (GET, ''/api/users/me'')"
| "api_endpoint ApiGetProducts = (GET, ''/api/produtos'')"
| "api_endpoint (ApiGetProductsByWarehouse w) = (GET, ''/api/produtos?warehouse_id='' @ show_nat w)"
| "api_endpoint ApiInviteUser = (POST, ''/api/auth/invite'')"
| "api_endpoint (ApiSearchProducts q) = (GET, ''/api/produtos?q='' @ encodeURIComponent q)"
| "api_endpoint ApiCreateProduct = (POST, ''/api/produtos'')"
| "api_endpoint (ApiUpdateProduct i) = (PUT, ''/api/produtos/'' @ show_nat i)"
| "api_endpoint (ApiDeleteProduct i) = (DELETE, ''/api/produtos/'' @ show_nat i)"
| "api_endpoint ApiUploadAvatar = (POST, ''/api/users/me/avatar'')"
| "api_endpoint ApiGetUsers = (GET, ''/api/users'')"
| "api_endpoint ApiStockEntryBatch = (POST, ''/api/estoque/entrada/lote'')"
| "api_endpoint (ApiFindProductByBarcode c) = (GET, ''/api/produtos/barcode?barcode='' @ encodeURIComponent c)"
| "api_endpoint ApiGetWarehouses = (GET, ''/api/estoques'')"
| "api_endpoint ApiCreateWarehouse = (POST, ''/api/estoques'')"
| "api_endpoint (ApiUpdateWarehouse i) = (PUT, ''/api/estoques/'' @ show_nat i)"
| "api_endpoint (ApiDeleteWarehouse i) = (DELETE, ''/api/estoques/'' @ show_nat i)"
| "api_endpoint ApiGetUnits = (GET, ''/api/unidades'')"
| "api_endpoint ApiCreateUnit = (POST, ''/api/unidades'')"
| "api_endpoint (ApiUpdateUnit i) = (PUT, ''/api/unidades/'' @ show_nat i)"
| "api_endpoint (ApiDeleteUnit i) = (DELETE, ''/api/unidades/'' @ show_nat i)"
| "api_endpoint ApiListUsers = (GET, ''/api/users'')"
| "api_endpoint ApiCreateUser = (POST, ''/api/users'')"
| "api_endpoint (ApiUpdateUser i) = (PUT, ''/api/users/'' @ show_nat i)"
| "api_endpoint (ApiDeleteUser i) = (DELETE, ''/api/users/'' @ show_nat i)"
| "api_endpoint ApiStockEntry = (POST, ''/api/estoque/entrada'')"
| "api_endpoint ApiStockExit = (POST, ''/api/estoque/saida'')"
| "api_endpoint ApiStockReport = (GET, ''/api/relatorios/estoque'')"
| "api_endpoint ApiMovementReport = (GET, ''/api/relatorios/movimentacoes'')"
| "api_endpoint ApiDashboardSummary = (GET, ''/api/dashboard/resumo'')"
| "api_endpoint ApiListExitOrders = (GET, ''/api/os-saida'')"
| "api_endpoint (ApiSignExitOrder i) = (POST, ''/api/os-saida/'' @ show_nat i @ ''/assinar'')"

text \<open>
  The headers \<open>request\<close> sends (lines 15--27): the caller's, the bearer token when one is
  stored (a non-empty string), and JSON as the content type for a body that is not form
  data when the caller set none. A header object is an association list.
\<close>

datatype req_body = NoBody | JsonBody string | FormBody

definition request_headers :: "string option \<Rightarrow> req_body \<Rightarrow> (string \<times> string) list \<Rightarrow> (string \<times> string) list" where
  "request_headers tok body custom = (let
     h1 = (case js_truthy tok of None \<Rightarrow> custom | Some t \<Rightarrow> AList.update ''Authorization'' (''Bearer '' @ t) custom);
     has_body = (case body of NoBody \<Rightarrow> False | JsonBody x \<Rightarrow> x \<noteq> [] | FormBody \<Rightarrow> True);
     is_form = (body = FormBody)
   in if has_body \<and> \<not> is_form \<and> js_truthy (map_of h1 ''Content-Type'') = None
      then AList.update ''Content-Type'' ''application/json'' h1 else h1)"

text \<open>The fallback message of line 39, "Erro na requisicao" with its two accented letters in UTF-8.\<close>

definition request_default_error :: string where
  "request_default_error = ''Erro na requisi'' @ [CHR 0xC3, CHR 0xA7, CHR 0xC3, CHR 0xA3] @ ''o''"

text \<open>
  The outcome of \<open>request\<close> (lines 36--42) from \<open>res.ok\<close> and the \<open>error\<close> field of the
  parsed body (a body that does not parse is \<open>{}\<close>): the data, or the message thrown.
\<close>

definition request_outcome :: "bool \<Rightarrow> string option \<Rightarrow> 'a \<Rightarrow> string + 'a" where
  "request_outcome ok err data = (if ok then Inr data else Inl (js_or_default err request_default_error))"

text \<open>
  The \<open>fetch\<close> that \<open>request(path, options)\<close> makes (lines 7--35): \<open>API_URL\<close>
  followed by the path, the call's method (\<open>GET\<close> by default), the headers above and
  the body. \<open>getToken()\<close> reads \<open>localStorage\<close>, so the stored token is a parameter.
\<close>

record fetch_call =
  fc_url :: string
  fc_method :: http_method
  fc_headers :: "(string \<times> string) list"
  fc_body :: req_body

definition request_fetch :: "string \<Rightarrow> string option \<Rightarrow> api_call \<Rightarrow> req_body \<Rightarrow> (string \<times> string) list \<Rightarrow> fetch_call" where
  "request_fetch api_url tok c b custom = \<lparr>fc_url = api_url @ snd (api_endpoint c), fc_method = fst (api_endpoint c),
     fc_headers = request_headers tok b custom, fc_body = b\<rparr>"

section \<open>App.jsx\<close>

text \<open>
  The props a page route gives \<open>PrivateRoute\<close>: three routes pass \<open>role=\<close>, which
  \<open>PrivateRoute\<close> does not read (it reads \<open>roles\<close>).
\<close>

record route_props =
  rp_roles :: "string list option"
  rp_role :: "string list option"

datatype view = Page string | Redirect string

text \<open>\<open>PrivateRoute\<close> (lines 24--33) for the logged-in user's role.\<close>

definition PrivateRoute :: "string option \<Rightarrow> route_props \<Rightarrow> string \<Rightarrow> view" where
  "PrivateRoute user props page = (case user of
      None \<Rightarrow> Redirect ''/login''
    | Some r \<Rightarrow> (case rp_roles props of
        Some rs \<Rightarrow> if r \<notin> set rs then Redirect ''/dashboard'' else Page page
      | None \<Rightarrow> Page page))"

definition any_user :: route_props where
  "any_user = \<lparr>rp_roles = None, rp_role = None\<rparr>"

text \<open>The page routes of lines 75--164.\<close>

definition app_pages :: "(string \<times> route_props \<times> string) list" where
  "app_pages = [
     (''/'', any_user, ''Dashboard''),
     (''/produtos'', any_user, ''Produtos''),
     (''/perfil'', any_user, ''Profile''),
     (''/users'', any_user\<lparr>rp_roles := Some [''super_admin'', ''admin'']\<rparr>, ''Users''),
     (''/assinatura'', any_user\<lparr>rp_role := Some [''super_admin'', ''admin'', ''supervisor'']\<rparr>, ''Assinatura''),
     (''/estoques'', any_user\<lparr>rp_role := Some [''super_admin'', ''admin'']\<rparr>, ''Warehouses''),
     (''/unidades'', any_user\<lparr>rp_role := Some [''super_admin'', ''admin'']\<rparr>, ''Unidades''),
     (''/entrada'', any_user, ''StockEntry''),
     (''/saida'', any_user, ''BoxFlash''),
     (''/relatorio-movimentacao'', any_user, ''Reports''),
     (''/relatorio-estoque'', any_user, ''ReportsEtoque'')]"

text \<open>
  \<open>App\<close> (lines 35--171): logged out, only the login and activation pages, anything else
  goes to \<open>/login\<close>; logged in, the page routes, anything else goes to \<open>/\<close>.
\<close>

definition App :: "string option \<Rightarrow> string \<Rightarrow> view" where
  "App user path = (case user of
      None \<Rightarrow> if path = ''/login'' then Page ''Login'' else if path = ''/ativar'' then Page ''ActivateAccount''
              else Redirect ''/login''
    | Some _ \<Rightarrow> (case map_of app_pages path of
        Some (props, page) \<Rightarrow> PrivateRoute user props page
      | None \<Rightarrow> Redirect ''/''))"

section \<open>Lemmas\<close>

subsection \<open>The client against the server\<close>

text \<open>Every call of api.js reaches a route of the server: none gets a 404.\<close>

lemma api_calls_dispatch:
  "\<exists>r. dispatch (fst (api_endpoint c)) (snd (api_endpoint c)) = Some r"
  by (cases c) (simp_all add: route_table path_segments_def split_on_append split_on_no split_on.simps Let_def)

text \<open>
  \<open>getProductsByWarehouse\<close> reaches the same route as \<open>getProducts\<close>: the
  \<open>warehouse_id\<close> it sends is a query parameter that \<open>listProductsController\<close> never reads.
\<close>

lemma products_by_warehouse_unfiltered:
  "dispatch GET (snd (api_endpoint (ApiGetProductsByWarehouse w))) = dispatch GET (snd (api_endpoint ApiGetProducts))"
  by (simp add: dispatch_def path_segments_def)

text \<open>
  The three page routes that pass \<open>role=\<close> admit every logged-in user, while the one
  that passes \<open>roles=\<close> sends a base user to the dashboard.
\<close>

lemma role_prop_ignored:
  "App (Some ''user'') ''/unidades'' = Page ''Unidades'' \<and> App (Some ''user'') ''/estoques'' = Page ''Warehouses''
   \<and> App (Some ''user'') ''/assinatura'' = Page ''Assinatura'' \<and> App (Some ''user'') ''/users'' = Redirect ''/dashboard''"
  by (simp add: App_def app_pages_def PrivateRoute_def any_user_def)

subsection \<open>The bearer token, from the client to the guards\<close>

text \<open>
  \<open>request\<close> sends a stored token as \<open>Authorization: Bearer t\<close>, whatever headers the
  caller passed; header names are case-insensitive, so this is the
  \<open>req.headers.authorization\<close> that \<open>authRequired\<close> reads.
\<close>

lemma request_authorization:
  "t \<noteq> [] \<Longrightarrow> map_of (request_headers (Some t) b custom) ''Authorization'' = Some (''Bearer '' @ t)"
  by (simp add: request_headers_def js_truthy_def Let_def update_conv')

text \<open>
  Every call of api.js made with the token of a super_admin runs its handler: the route
  exists, the token reaches \<open>verifyToken\<close> intact, and every guard admits the role.
\<close>

lemma super_admin_client_reaches_handlers:
  assumes "CHR '' '' \<notin> set t" "t \<noteq> []" "verify t = Some p" "p_role p = RoleSuperAdmin"
  shows "\<exists>n u. serve verify (fst (api_endpoint c)) (snd (api_endpoint c))
           (map_of (request_headers (Some t) b custom) ''Authorization'') = Handler n u"
proof -
  obtain r where r: "dispatch (fst (api_endpoint c)) (snd (api_endpoint c)) = Some r"
    using api_calls_dispatch by blast
  then have "r \<in> set server_routes" by (auto simp: dispatch_def dest: find_Some_iff [THEN iffD1])
  moreover have "authRequired verify (Some (''Bearer '' @ t)) = Inr p"
    using authRequired_bearer [OF assms(1), of verify] assms(3) by simp
  ultimately show ?thesis
    using super_admin_passes_guards assms(4) r by (simp add: request_authorization assms(2) serve_def)
qed

text \<open>
  Without a stored token (and no \<open>Authorization\<close> of the caller's) every call but
  login and set-password is refused by \<open>authRequired\<close> with 401.
\<close>

lemma request_no_authorization:
  "js_truthy tok = None \<Longrightarrow> map_of custom ''Authorization'' = None \<Longrightarrow>
     map_of (request_headers tok b custom) ''Authorization'' = None"
  by (simp add: request_headers_def Let_def update_conv')

lemma client_without_token_refused:
  assumes "js_truthy tok = None" "map_of custom ''Authorization'' = None" "c \<notin> {ApiLogin, ApiSetPassword}"
  shows "serve verify (fst (api_endpoint c)) (snd (api_endpoint c))
           (map_of (request_headers tok b custom) ''Authorization'') = Rejected TokenMissing"
  using assms(3) unfolding request_no_authorization [OF assms(1,2)]
  by (cases c) (simp_all add: serve_def run_guard_def then_role_def authRequired_def route_table
      path_segments_def split_on_append split_on_no split_on.simps Let_def)

end
