(* ===== verification/ActivateAccount.thy ===== *)
theory ActivateAccount
  imports Prelude
begin

text \<open>
  The account activation page (src/Frontend/src/components/ActivateAccount.jsx): the
  query parameters it reads, the checks of its submit handler, and the page as a state
  machine whose await of \<open>api.setPassword\<close> is a separate event; \<open>activate_run\<close>
  is the set of its sessions, and the lemmas show by rule induction that a second call
  never starts while one is in flight.
\<close>

text \<open>
  \<open>new URLSearchParams(location.search).get(name)\<close> (line 12--14): the query without its
  \<open>?\<close>, split at \<open>&\<close>, each pair at its first \<open>=\<close>, names and values form-decoded
  (\<open>+\<close> is a space); the first pair with the name, \<open>null\<close> when there is none.
\<close>

definition form_decode :: "string \<Rightarrow> string" where
  "form_decode s = uri_decode (map (\<lambda>c. if c = CHR ''+'' then CHR '' '' else c) s)"

definition url_search_get :: "string \<Rightarrow> string \<Rightarrow> string option" where
  "url_search_get search name = (let q = (if search \<noteq> [] \<and> hd search = CHR ''?'' then tl search else search);
     pairs = map (\<lambda>p. (form_decode (takeWhile (\<lambda>c. c \<noteq> CHR ''='') p),
                       form_decode (drop 1 (dropWhile (\<lambda>c. c \<noteq> CHR ''='') p)))) (split_on CHR ''&'' q)
   in map_option snd (find (\<lambda>(k, v). k = name) pairs))"

text \<open>\<open>location.search\<close> of a URL: from its first \<open>?\<close> on.\<close>

definition location_search :: "string \<Rightarrow> string" where
  "location_search url = dropWhile (\<lambda>c. c \<noteq> CHR ''?'') url"

datatype activate_result = LinkInvalid | PasswordTooShort | PasswordsDiffer | CallSetPassword string string string

text \<open>
  \<open>handleSubmit\<close> (lines 25--54): the link's token and e-mail (query parameters,
  \<open>null\<close> when absent), then the length and the confirmation of the password; a form that
  passes calls \<open>api.setPassword({ email, token, password })\<close>.
\<close>

definition activate_submit :: "string option \<Rightarrow> string option \<Rightarrow> string \<Rightarrow> string \<Rightarrow> activate_result" where
  "activate_submit token email password confirm =
     (case (js_truthy token, js_truthy email) of
        (Some t, Some e) \<Rightarrow> if length password < 6 then PasswordTooShort
          else if password \<noteq> confirm then PasswordsDiffer
          else CallSetPassword e t password
      | _ \<Rightarrow> LinkInvalid)"

text \<open>
  The page as a component: its state hooks (lines 16--23), the events its handlers answer
  and the effect each one has. \<open>handleSubmit\<close> awaits \<open>api.setPassword\<close>, so it is
  two events: the submission, which sets \<open>loading\<close> and starts the call, and the call's
  outcome, which navigates to \<open>/login\<close> or shows \<open>err.message\<close>, then clears
  \<open>loading\<close> (lines 46--53). While \<open>loading\<close> the submit button and the back button
  are disabled (lines 110 and 118), and a form whose default button is disabled is not
  submitted by the browser, so both events are ignored then.
\<close>

record activate_page =
  ap_password :: string
  ap_confirm :: string
  ap_error :: string
  ap_loading :: bool
  ap_show_password :: bool
  ap_show_confirm :: bool

definition activate_init :: activate_page where
  "activate_init = \<lparr>ap_password = [], ap_confirm = [], ap_error = [], ap_loading = False,
     ap_show_password = False, ap_show_confirm = False\<rparr>"

datatype activate_event =
    TypePassword string | TypeConfirm string | TogglePassword | ToggleConfirm
  | SubmitForm | SetPasswordDone "string + unit" | ClickBack

datatype page_effect = NoEffect | CallSetPasswordApi string string string | Navigate string

text \<open>The messages of lines 30, 35, 40 and 50, accented letters in UTF-8.\<close>

definition msg_link_invalid :: string where
  "msg_link_invalid = ''Link inv'' @ [CHR 0xC3, CHR 0xA1] @ ''lido. Solicite um novo convite.''"

definition msg_password_short :: string where
  "msg_password_short = ''A senha deve ter pelo menos 6 caracteres.''"

definition msg_passwords_differ :: string where
  "msg_passwords_differ = ''As senhas n'' @ [CHR 0xC3, CHR 0xA3] @ ''o conferem.''"

definition msg_activate_failed :: string where
  "msg_activate_failed = ''Erro ao ativar conta. Tente novamente.''"

definition activate_step :: "string option \<Rightarrow> string option \<Rightarrow> activate_page \<Rightarrow> activate_event \<Rightarrow> activate_page \<times> page_effect" where
  "activate_step token email st ev = (case ev of
      TypePassword p \<Rightarrow> (st\<lparr>ap_password := p\<rparr>, NoEffect)
    | TypeConfirm p \<Rightarrow> (st\<lparr>ap_confirm := p\<rparr>, NoEffect)
    | TogglePassword \<Rightarrow> (st\<lparr>ap_show_password := \<not> ap_show_password st\<rparr>, NoEffect)
    | ToggleConfirm \<Rightarrow> (st\<lparr>ap_show_confirm := \<not> ap_show_confirm st\<rparr>, NoEffect)
    | SubmitForm \<Rightarrow> if ap_loading st then (st, NoEffect) else
        (case activate_submit token email (ap_password st) (ap_confirm st) of
           LinkInvalid \<Rightarrow> (st\<lparr>ap_error := msg_link_invalid\<rparr>, NoEffect)
         | PasswordTooShort \<Rightarrow> (st\<lparr>ap_error := msg_password_short\<rparr>, NoEffect)
         | PasswordsDiffer \<Rightarrow> (st\<lparr>ap_error := msg_passwords_differ\<rparr>, NoEffect)
         | CallSetPassword e t p \<Rightarrow> (st\<lparr>ap_error := [], ap_loading := True\<rparr>, CallSetPasswordApi e t p))
    | SetPasswordDone r \<Rightarrow> (case r of
           Inr _ \<Rightarrow> (st\<lparr>ap_loading := False\<rparr>, Navigate ''/login'')
         | Inl m \<Rightarrow> (st\<lparr>ap_error := js_or_default (Some m) msg_activate_failed, ap_loading := False\<rparr>, NoEffect))
    | ClickBack \<Rightarrow> if ap_loading st then (st, NoEffect) else (st, Navigate ''/login''))"

text \<open>What the page renders from its state (lines 56--124).\<close>

record activate_view =
  av_email :: string
  av_password_type :: string
  av_confirm_type :: string
  av_error :: "string option"
  av_submit_label :: string
  av_buttons_disabled :: bool

definition activate_render :: "string option \<Rightarrow> activate_page \<Rightarrow> activate_view" where
  "activate_render email st = \<lparr>av_email = js_or_default email ''-'',
     av_password_type = (if ap_show_password st then ''text'' else ''password''),
     av_confirm_type = (if ap_show_confirm st then ''text'' else ''password''),
     av_error = (if ap_error st = [] then None else Some (ap_error st)),
     av_submit_label = (if ap_loading st then ''Ativando...'' else ''Ativar conta''),
     av_buttons_disabled = ap_loading st\<rparr>"

text \<open>
  A session of the page: its state, the call in flight and the page it navigated to
  (the component is gone then). The user's events come while the page is shown, the
  outcome of a call while one is in flight.
\<close>

record activate_session =
  as_page :: activate_page
  as_pending :: "(string \<times> string \<times> string) option"
  as_location :: "string option"

definition session_apply :: "activate_session \<Rightarrow> activate_page \<times> page_effect \<Rightarrow> activate_session" where
  "session_apply s r = (case snd r of
      NoEffect \<Rightarrow> s\<lparr>as_page := fst r\<rparr>
    | CallSetPasswordApi e t p \<Rightarrow> s\<lparr>as_page := fst r, as_pending := Some (e, t, p)\<rparr>
    | Navigate l \<Rightarrow> s\<lparr>as_page := fst r, as_location := Some l\<rparr>)"

fun user_event :: "activate_event \<Rightarrow> bool" where
  "user_event (SetPasswordDone _) = False"
| "user_event _ = True"

inductive activate_run :: "string option \<Rightarrow> string option \<Rightarrow> activate_session \<Rightarrow> bool" for token email where
  start: "activate_run token email \<lparr>as_page = activate_init, as_pending = None, as_location = None\<rparr>"
| user: "activate_run token email s \<Longrightarrow> as_location s = None \<Longrightarrow> user_event ev \<Longrightarrow>
    activate_run token email (session_apply s (activate_step token email (as_page s) ev))"
| reply: "activate_run token email s \<Longrightarrow> as_pending s = Some c \<Longrightarrow>
    activate_run token email (session_apply (s\<lparr>as_pending := None\<rparr>) (activate_step token email (as_page s) (SetPasswordDone r)))"

definition fill_and_submit :: "string option \<Rightarrow> string option \<Rightarrow> string \<Rightarrow> activate_session" where
  "fill_and_submit token email pw = fold (\<lambda>ev s. session_apply s (activate_step token email (as_page s) ev))
     [TypePassword pw, TypeConfirm pw, SubmitForm] \<lparr>as_page = activate_init, as_pending = None, as_location = None\<rparr>"

section \<open>Lemmas\<close>

subsection \<open>The activation link\<close>

lemma form_decode_plain:
  "CHR ''%'' \<notin> set s \<Longrightarrow> CHR ''+'' \<notin> set s \<Longrightarrow> form_decode s = s"
proof -
  assume "CHR ''%'' \<notin> set s" "CHR ''+'' \<notin> set s"
  moreover from this(2) have "map (\<lambda>c. if c = CHR ''+'' then CHR '' '' else c) s = s"
    by (induction s) auto
  ultimately show ?thesis by (simp add: form_decode_def uri_decode_no_percent)
qed

lemma form_decode_encode: "form_decode (encodeURIComponent s) = s"
proof -
  have "map (\<lambda>c. if c = CHR ''+'' then CHR '' '' else c) (encodeURIComponent s) = encodeURIComponent s"
    using encode_no_delims [of "CHR ''+''" s] by (intro map_idI) auto
  then show ?thesis by (simp add: form_decode_def uri_decode_encode)
qed

subsection \<open>The activation page\<close>

text \<open>
  A call starts only from a submission that passed the checks of lines 29--42, with the
  link's token and e-mail and the password typed twice.
\<close>

lemma activate_call_from_checks:
  assumes "snd (activate_step token email st ev) = CallSetPasswordApi e t p"
  shows "ev = SubmitForm \<and> \<not> ap_loading st \<and> js_truthy token = Some t \<and> js_truthy email = Some e
    \<and> 6 \<le> length p \<and> p = ap_password st \<and> p = ap_confirm st"
  using assms
  by (auto simp: activate_step_def activate_submit_def split: activate_event.splits if_splits
      activate_result.splits option.splits sum.splits prod.splits)

text \<open>
  In every session \<open>loading\<close> is set exactly while a call is in flight, so the page
  never starts a second \<open>setPassword\<close> before the first has answered, and its buttons are
  disabled exactly then.
\<close>

lemma activate_loading_iff_pending:
  "activate_run token email s \<Longrightarrow> ap_loading (as_page s) \<longleftrightarrow> as_pending s \<noteq> None"
proof (induction rule: activate_run.induct)
  case start
  then show ?case by (simp add: activate_init_def)
next
  case (user s ev)
  then show ?case
    by (cases ev) (auto simp: activate_step_def session_apply_def
        split: activate_result.splits sum.splits if_splits)
next
  case (reply s c r)
  then show ?case by (cases r) (auto simp: activate_step_def session_apply_def)
qed

lemma activate_single_flight:
  assumes "activate_run token email s" "snd (activate_step token email (as_page s) ev) = CallSetPasswordApi e t p"
  shows "as_pending s = None"
  using activate_call_from_checks [OF assms(2)] activate_loading_iff_pending [OF assms(1)] by (cases "as_pending s") auto

lemma activate_buttons_disabled:
  "activate_run token email s \<Longrightarrow> av_buttons_disabled (activate_render email (as_page s)) \<longleftrightarrow> as_pending s \<noteq> None"
  by (simp add: activate_render_def activate_loading_iff_pending)

text \<open>
  Typing a password of six characters or more twice and submitting starts the call with
  the link's e-mail and token; a successful answer leaves for \<open>/login\<close>, a failed
  one shows the server's message and enables the form again.
\<close>

lemma fill_and_submit_run: "activate_run token email (fill_and_submit token email pw)"
proof -
  let ?s0 = "\<lparr>as_page = activate_init, as_pending = None, as_location = None\<rparr>"
  let ?f = "\<lambda>ev s. session_apply s (activate_step token email (as_page s) ev)"
  have r0: "activate_run token email ?s0" by (rule activate_run.start)
  have r1: "activate_run token email (?f (TypePassword pw) ?s0)"
    by (rule activate_run.user [OF r0]) simp_all
  have r2: "activate_run token email (?f (TypeConfirm pw) (?f (TypePassword pw) ?s0))"
    by (rule activate_run.user [OF r1])
       (simp_all add: session_apply_def activate_step_def)
  have "activate_run token email (?f SubmitForm (?f (TypeConfirm pw) (?f (TypePassword pw) ?s0)))"
    by (rule activate_run.user [OF r2])
       (simp_all add: session_apply_def activate_step_def)
  then show ?thesis by (simp add: fill_and_submit_def)
qed

lemma fill_and_submit_calls:
  assumes "js_truthy token = Some t" "js_truthy email = Some e" "6 \<le> length pw"
  shows "as_pending (fill_and_submit token email pw) = Some (e, t, pw)
    \<and> as_location (fill_and_submit token email pw) = None"
  using assms by (simp add: fill_and_submit_def session_apply_def activate_step_def activate_init_def activate_submit_def)

text \<open>
  The answer to that call: success leaves for \<open>/login\<close>; a failure shows the server's
  message (the fallback when it is empty) and enables the form again. Both are sessions.
\<close>

lemma fill_and_submit_reply:
  assumes "js_truthy token = Some t" "js_truthy email = Some e" "6 \<le> length pw"
  defines "S \<equiv> fill_and_submit token email pw"
  shows "activate_run token email (session_apply (S\<lparr>as_pending := None\<rparr>) (activate_step token email (as_page S) (SetPasswordDone r)))
    \<and> as_location (session_apply (S\<lparr>as_pending := None\<rparr>) (activate_step token email (as_page S) (SetPasswordDone r)))
        = (case r of Inr _ \<Rightarrow> Some ''/login'' | Inl _ \<Rightarrow> None)
    \<and> ap_error (as_page (session_apply (S\<lparr>as_pending := None\<rparr>) (activate_step token email (as_page S) (SetPasswordDone r))))
        = (case r of Inr _ \<Rightarrow> [] | Inl m \<Rightarrow> js_or_default (Some m) msg_activate_failed)
    \<and> \<not> ap_loading (as_page (session_apply (S\<lparr>as_pending := None\<rparr>) (activate_step token email (as_page S) (SetPasswordDone r))))"
proof -
  have pend: "as_pending S = Some (e, t, pw)" and loc: "as_location S = None"
    using fill_and_submit_calls [OF assms(1-3)] by (simp_all add: S_def)
  have err: "ap_error (as_page S) = []"
    using assms(1-3) by (simp add: S_def fill_and_submit_def session_apply_def activate_step_def
        activate_init_def activate_submit_def)
  have run: "activate_run token email (session_apply (S\<lparr>as_pending := None\<rparr>) (activate_step token email (as_page S) (SetPasswordDone r)))"
    using activate_run.reply [OF fill_and_submit_run pend [unfolded S_def]] by (simp add: S_def)
  show ?thesis using run loc err
    by (cases r) (simp_all add: activate_step_def session_apply_def)
qed

end
