(* ===== verification/Pagination.thy ===== *)
theory Pagination
  imports Prelude
begin

text \<open>
  The page list of the pagination widget (src/Frontend/src/components/common/Pagination.jsx):
  the loop of lines 17--27 builds the buttons, the first and last page and the
  neighbours of the current one, with one ellipsis for each gap; \<open>goTo\<close> (lines 11--14)
  decides which clicks change the page. Pages are JavaScript numbers that the callers pass
  as positive integers; the model takes naturals. The loop is a \<open>function\<close> with its
  termination measure, and is shown equal to a fold over the counter values.
\<close>

datatype page_item = PageNum nat | Ellipsis

text \<open>One iteration of the loop: \<open>pages[pages.length - 1] !== "..."\<close> on the list built so far.\<close>

definition page_step :: "nat \<Rightarrow> nat \<Rightarrow> page_item list \<Rightarrow> nat \<Rightarrow> page_item list" where
  "page_step currentPage totalPages acc i =
     (if i = 1 \<or> i = totalPages \<or> (if i \<le> currentPage then currentPage - i else i - currentPage) \<le> 1 then acc @ [PageNum i]
      else if acc \<noteq> [] \<and> last acc = Ellipsis then acc
      else acc @ [Ellipsis])"

text \<open>
  \<open>for (let i = 1; i <= totalPages; i++)\<close> (lines 17--27): the loop counter runs up
  to \<open>totalPages\<close>, which bounds it; \<open>Suc totalPages - i\<close> decreases at every turn.
\<close>

function pagination_loop :: "nat \<Rightarrow> nat \<Rightarrow> nat \<Rightarrow> page_item list \<Rightarrow> page_item list" where
  "pagination_loop currentPage totalPages i pages =
     (if i \<le> totalPages then pagination_loop currentPage totalPages (Suc i) (page_step currentPage totalPages pages i)
      else pages)"
  by pat_completeness auto
termination by (relation "measure (\<lambda>(c, t, i, _). Suc t - i)") auto

declare pagination_loop.simps [simp del]

text \<open>The widget (lines 6--30): with one page or none it renders nothing.\<close>

definition pagination_pages :: "nat \<Rightarrow> nat \<Rightarrow> page_item list option" where
  "pagination_pages currentPage totalPages =
     (if totalPages \<le> 1 then None else Some (pagination_loop currentPage totalPages 1 []))"

text \<open>\<open>goTo(page)\<close>: \<open>Some p\<close> when the click calls \<open>onPageChange(p)\<close>.\<close>

definition goTo :: "nat \<Rightarrow> nat \<Rightarrow> int \<Rightarrow> nat option" where
  "goTo currentPage totalPages p = (if p < 1 \<or> p > int totalPages \<or> p = int currentPage then None else Some (nat p))"

text \<open>The condition of line 19--21, and the numbers and the ellipses of the list.\<close>

definition page_shown :: "nat \<Rightarrow> nat \<Rightarrow> nat \<Rightarrow> bool" where
  "page_shown c t i \<longleftrightarrow> i = 1 \<or> i = t \<or> (if i \<le> c then c - i else i - c) \<le> 1"

fun page_num :: "page_item \<Rightarrow> nat option" where
  "page_num (PageNum i) = Some i"
| "page_num Ellipsis = None"

fun no_double_ellipsis :: "page_item list \<Rightarrow> bool" where
  "no_double_ellipsis (a # b # xs) = (\<not> (a = Ellipsis \<and> b = Ellipsis) \<and> no_double_ellipsis (b # xs))"
| "no_double_ellipsis _ = True"

text \<open>
  The controls of lines 29--69, in order: the previous arrow, a button for each number
  (with the active class on the current page) or an ellipsis, the next arrow. An arrow is
  disabled on the first or the last page.
\<close>

datatype pg_control = PrevArrow | PageButton nat | EllipsisSpan | NextArrow

definition pagination_controls :: "nat \<Rightarrow> nat \<Rightarrow> pg_control list option" where
  "pagination_controls currentPage totalPages = map_option (\<lambda>ps. PrevArrow
     # map (\<lambda>p. case p of PageNum n \<Rightarrow> PageButton n | Ellipsis \<Rightarrow> EllipsisSpan) ps @ [NextArrow])
     (pagination_pages currentPage totalPages)"

definition control_disabled :: "nat \<Rightarrow> nat \<Rightarrow> pg_control \<Rightarrow> bool" where
  "control_disabled currentPage totalPages x = (case x of PrevArrow \<Rightarrow> currentPage = 1
     | NextArrow \<Rightarrow> currentPage = totalPages | _ \<Rightarrow> False)"

text \<open>The page a click hands to \<open>onPageChange\<close>, through \<open>goTo\<close> (lines 34, 53, 63).\<close>

definition control_click :: "nat \<Rightarrow> nat \<Rightarrow> pg_control \<Rightarrow> nat option" where
  "control_click currentPage totalPages x = (if control_disabled currentPage totalPages x then None
     else (case x of PrevArrow \<Rightarrow> goTo currentPage totalPages (int currentPage - 1)
       | NextArrow \<Rightarrow> goTo currentPage totalPages (int currentPage + 1)
       | PageButton n \<Rightarrow> goTo currentPage totalPages (int n)
       | EllipsisSpan \<Rightarrow> None))"

section \<open>Lemmas\<close>

text \<open>
  The numbered buttons are exactly the pages the condition of lines 19--21 selects, in
  increasing order, and no two ellipses are adjacent.
\<close>

lemma no_double_ellipsis_snoc:
  "no_double_ellipsis (xs @ [x]) \<longleftrightarrow> no_double_ellipsis xs \<and> \<not> (xs \<noteq> [] \<and> last xs = Ellipsis \<and> x = Ellipsis)"
  by (induction xs rule: no_double_ellipsis.induct) (auto split: if_splits)

lemma page_step_nums:
  "List.map_filter page_num (foldl (page_step c t) acc xs)
     = List.map_filter page_num acc @ filter (page_shown c t) xs"
  by (induction xs arbitrary: acc)
     (simp_all add: page_step_def page_shown_def map_filter_simps)

lemma page_step_no_double:
  "no_double_ellipsis acc \<Longrightarrow> no_double_ellipsis (foldl (page_step c t) acc xs)"
  by (induction xs arbitrary: acc) (auto simp: page_step_def no_double_ellipsis_snoc)

text \<open>The loop is a left fold of one iteration over the counter values \<open>i..totalPages\<close>.\<close>

lemma pagination_loop_fold:
  "pagination_loop c t i acc = foldl (page_step c t) acc [i..<Suc t]"
proof (induction c t i acc rule: pagination_loop.induct)
  case (1 c t i acc)
  show ?case
  proof (cases "i \<le> t")
    case True
    then have "[i..<Suc t] = i # [Suc i..<Suc t]" by (simp add: upt_conv_Cons)
    with True 1 show ?thesis by (simp add: pagination_loop.simps)
  next
    case False
    then show ?thesis by (simp add: pagination_loop.simps)
  qed
qed

lemma page_step_length: "length (page_step c t acc i) \<le> Suc (length acc)"
  by (simp add: page_step_def)

lemma fold_page_step_length: "length (foldl (page_step c t) acc xs) \<le> length acc + length xs"
proof (induction xs arbitrary: acc)
  case (Cons x xs)
  have "length (foldl (page_step c t) (page_step c t acc x) xs) \<le> length (page_step c t acc x) + length xs"
    by (rule Cons.IH)
  then show ?case using page_step_length [of c t acc x] by simp
qed simp

lemma pagination_pages_nums:
  assumes "pagination_pages c t = Some ps"
  shows "List.map_filter page_num ps = filter (page_shown c t) [1..<Suc t] \<and> no_double_ellipsis ps"
  using assms page_step_nums [of c t "[]" "[1..<Suc t]"] page_step_no_double [of "[]" c t "[1..<Suc t]"]
  by (auto simp: pagination_pages_def pagination_loop_fold map_filter_simps split: if_splits)

lemma pagination_example:
  "pagination_pages 5 10 = Some [PageNum 1, Ellipsis, PageNum 4, PageNum 5, PageNum 6, Ellipsis, PageNum 10]"
  by (simp add: pagination_pages_def pagination_loop_fold page_step_def upt_conv_Cons del: upt_Suc)


subsection \<open>The rendered controls\<close>

lemma count_page_buttons:
  "length (filter (\<lambda>x. x = PageButton n) (map (\<lambda>p. case p of PageNum n \<Rightarrow> PageButton n | Ellipsis \<Rightarrow> EllipsisSpan) ps))
     = length (filter (\<lambda>m. m = n) (List.map_filter page_num ps))"
proof (induction ps)
  case (Cons p ps)
  then show ?case by (cases p) (simp_all add: map_filter_simps)
qed (simp add: map_filter_simps)

text \<open>
  On a current page within the range, the widget shows exactly one button for it, the
  one with the active class.
\<close>

lemma pagination_one_active:
  assumes "pagination_controls c t = Some xs" "1 \<le> c" "c \<le> t"
  shows "length (filter (\<lambda>x. x = PageButton c) xs) = 1"
proof -
  obtain ps where ps: "pagination_pages c t = Some ps" "xs = PrevArrow # map (\<lambda>p. case p of PageNum n \<Rightarrow> PageButton n
      | Ellipsis \<Rightarrow> EllipsisSpan) ps @ [NextArrow]"
    using assms(1) by (auto simp: pagination_controls_def)
  have nums: "List.map_filter page_num ps = filter (page_shown c t) [1..<Suc t]"
    using pagination_pages_nums [OF ps(1)] by blast
  have "filter (\<lambda>m. m = c) (filter (page_shown c t) [1..<Suc t]) = [c]"
  proof -
    have "[1..<Suc t] = [1..<c] @ [c..<Suc t]"
      using upt_add_eq_append [of 1 c "Suc t - c"] assms(2,3) by simp
    also have "[c..<Suc t] = c # [Suc c..<Suc t]"
      using assms(3) by (simp add: upt_conv_Cons)
    finally have "filter (\<lambda>m. m = c) [1..<Suc t] = [c]" by (auto simp: filter_empty_conv)
    moreover have "page_shown c t c" by (simp add: page_shown_def)
    moreover have "filter (\<lambda>m. m = c) (filter (page_shown c t) [1..<Suc t])
        = filter (page_shown c t) (filter (\<lambda>m. m = c) [1..<Suc t])"
      by (simp add: filter_filter conj_commute del: upt_Suc)
    ultimately show ?thesis by (simp del: upt_Suc)
  qed
  then show ?thesis using ps(2) nums count_page_buttons [of c ps] by simp
qed

text \<open>A click that changes the page asks for a page in \<open>1..totalPages\<close> other than the current one.\<close>

lemma control_click_in_range:
  "control_click c t x = Some p \<Longrightarrow> 1 \<le> p \<and> p \<le> t \<and> p \<noteq> c"
  by (auto simp: control_click_def goTo_def split: pg_control.splits if_splits)

end
