(* ===== verification/PdfLayout.thy ===== *)
theory PdfLayout
  imports ExitOrders Complex_Main
begin

text \<open>
  What the exit-order PDF draws (src/Backend/src/services/osService.js): the text of each
  section in order and the vertical layout of the item table with its page breaks.
  Fonts, colours, widths and horizontal positions are not modelled. pdfkit's default page
  is LETTER, 792 points high, and both functions pass \<open>margin: 50\<close>; a new page puts
  \<open>doc.y\<close> back at the top margin. Where a text block ends depends on font metrics: the
  table's top is a parameter, and so is whether the block before the signature ends near
  the bottom of the page. \<open>toLocaleString("pt-BR")\<close> of a date is a parameter too.
\<close>

definition page_height :: real where "page_height = 792"
definition page_margin :: real where "page_margin = 50"
definition row_height :: real where "row_height = 20"

text \<open>\<open>doc.page.height - doc.page.margins.bottom\<close>.\<close>

definition page_bottom :: real where "page_bottom = page_height - page_margin"

datatype pdf_op =
    Txt string
  | Rule
  | NewPage
  | HeaderRow real
  | ItemRow real order_item
  | SignatureImage string

text \<open>
  \<open>Number(q).toLocaleString("pt-BR", {minimumFractionDigits: 2, maximumFractionDigits: 2})\<close>
  of a whole quantity: the digits grouped by three with dots, a comma and two zeros.
\<close>

fun insert_dots :: "string \<Rightarrow> string" where
  "insert_dots (a # b # c # d # rest) = a # b # c # CHR ''.'' # insert_dots (d # rest)"
| "insert_dots xs = xs"

definition format_qty_ptbr :: "qty \<Rightarrow> string" where
  "format_qty_ptbr q = (if q < 0 then ''-'' else []) @ rev (insert_dots (rev (show_nat (nat \<bar>q\<bar>)))) @ '',00''"

text \<open>\<open>forEach\<close> over the items with \<open>checkNewPage\<close> (lines 119--166 and 336--387).\<close>

fun table_loop :: "real \<Rightarrow> order_item list \<Rightarrow> pdf_op list" where
  "table_loop y [] = []"
| "table_loop y (it # its) = (if y + row_height * 2 > page_bottom
     then NewPage # HeaderRow page_margin # ItemRow (page_margin + row_height) it
            # table_loop (page_margin + 2 * row_height) its
     else ItemRow y it # table_loop (y + row_height) its)"

definition os_table :: "real \<Rightarrow> order_item list \<Rightarrow> pdf_op list" where
  "os_table tableTop items = HeaderRow tableTop # table_loop (tableTop + row_height) items"

text \<open>The texts a row draws: product, formatted quantity, warehouse.\<close>

fun op_texts :: "pdf_op \<Rightarrow> string list" where
  "op_texts (Txt s) = [s]"
| "op_texts (HeaderRow _) = [''Produto'', ''Qtd'', ''Estoque'']"
| "op_texts (ItemRow _ it) = [oi_product it, format_qty_ptbr (oi_quantity it), oi_warehouse it]"
| "op_texts _ = []"

text \<open>The fixed texts, accented letters in UTF-8.\<close>

definition os_title :: string where
  "os_title = ''ORDEM DE SA'' @ [CHR 0xC3, CHR 0x8D] @ ''DA DE MATERIAL''"

definition items_title :: string where
  "items_title = ''Itens da sa'' @ [CHR 0xC3, CHR 0xAD] @ ''da''"

definition declaration_title :: string where
  "declaration_title = ''Declara'' @ [CHR 0xC3, CHR 0xA7, CHR 0xC3, CHR 0xA3] @ ''o de responsabilidade:''"

definition signature_label :: string where
  "signature_label = ''Assinatura do respons'' @ [CHR 0xC3, CHR 0xA1] @ ''vel''"

definition signature_line :: string where
  "signature_line = replicate 40 CHR ''_''"

text \<open>
  The header and the order data (lines 34--69, and 256--290 for the signed copy): the
  operator and the client's document only when present.
\<close>

definition os_head :: "(nat \<Rightarrow> string) \<Rightarrow> os_document \<Rightarrow> pdf_op list" where
  "os_head fmt d = [Txt os_title, Txt ''Sistema de Controle de Estoque'', Rule, Txt ''Dados da OS'',
       Txt (''OS: '' @ show_nat (doc_number d))]
     @ (case doc_operator d of None \<Rightarrow> [] | Some op \<Rightarrow> [Txt (''Entregador: '' @ op)])
     @ [Txt (replicate 39 CHR ''-''), Txt (''Data: '' @ fmt (doc_date d)), Txt (''Cliente: '' @ doc_client d)]
     @ (case doc_client_document d of None \<Rightarrow> [] | Some c \<Rightarrow> [Txt (''Documento: '' @ c)])
     @ [Txt items_title]"

text \<open>
  The end of the unsigned document (lines 170--203): the declaration, a page break when
  it ends within 80 points of the bottom (120 for the signed copy), the signature line, the client and the label.
\<close>

definition os_foot :: "bool \<Rightarrow> os_document \<Rightarrow> pdf_op list" where
  "os_foot near d = [Txt declaration_title, Txt (doc_declaration d)] @ (if near then [NewPage] else [])
     @ [Txt signature_line, Txt (doc_client d), Txt signature_label]"

text \<open>
  The end of the signed copy (lines 392--443): the same, with the drawn signature, written
  to \<open>signature-<movement id>.png\<close>, between the declaration and the line.
\<close>

definition signature_png :: "nat \<Rightarrow> string" where
  "signature_png n = output_dir @ ''/signature-'' @ show_nat n @ ''.png''"

definition signed_foot :: "bool \<Rightarrow> os_document \<Rightarrow> pdf_op list" where
  "signed_foot near d = [Txt declaration_title, Txt (doc_declaration d)] @ (if near then [NewPage] else [])
     @ [SignatureImage (signature_png (doc_number d)), Txt signature_line, Txt (doc_client d), Txt signature_label]"

text \<open>The two documents, from the data \<open>generateExitOS\<close> and \<open>addSignatureToPdf\<close> assemble.\<close>

definition os_pdf :: "(nat \<Rightarrow> string) \<Rightarrow> real \<Rightarrow> bool \<Rightarrow> os_document \<Rightarrow> pdf_op list" where
  "os_pdf fmt tableTop near d = os_head fmt d @ os_table tableTop (doc_items d) @ os_foot near d"

definition signed_pdf :: "(nat \<Rightarrow> string) \<Rightarrow> real \<Rightarrow> bool \<Rightarrow> os_document \<Rightarrow> pdf_op list" where
  "signed_pdf fmt tableTop near d = os_head fmt d @ os_table tableTop (doc_items d) @ signed_foot near d"

text \<open>Reading a formatted quantity back: the sign, the digits without the dots, the two decimals.\<close>

definition parse_qty_ptbr :: "string \<Rightarrow> qty option" where
  "parse_qty_ptbr s = (let neg = (take 1 s = ''-''); body = (if neg then drop 1 s else s) in
     if length body < 3 \<or> drop (length body - 3) body \<noteq> '',00'' then None
     else map_option (\<lambda>n. if neg then - int n else int n)
       (parse_nat (filter (\<lambda>c. c \<noteq> CHR ''.'') (take (length body - 3) body))))"

text \<open>Every page break of a list of operations is followed by the table header.\<close>

fun pages_headed :: "pdf_op list \<Rightarrow> bool" where
  "pages_headed [] = True"
| "pages_headed (NewPage # xs) = (case xs of HeaderRow _ # ys \<Rightarrow> pages_headed ys | _ \<Rightarrow> False)"
| "pages_headed (_ # xs) = pages_headed xs"

fun is_image :: "pdf_op \<Rightarrow> bool" where
  "is_image (SignatureImage _) = True"
| "is_image _ = False"

section \<open>Lemmas\<close>

lemma table_loop_rows:
  "List.map_filter (\<lambda>op. case op of ItemRow _ it \<Rightarrow> Some it | _ \<Rightarrow> None) (table_loop y items) = items"
  by (induction y items rule: table_loop.induct) (simp_all add: map_filter_simps)

lemma table_loop_in_page:
  "ItemRow r it \<in> set (table_loop y items) \<Longrightarrow> r + row_height \<le> page_bottom - row_height"
  by (induction y items rule: table_loop.induct)
     (auto simp: page_bottom_def page_height_def page_margin_def row_height_def split: if_splits)

lemma filter_insert_dots: "filter (\<lambda>c. c \<noteq> CHR ''.'') (insert_dots xs) = filter (\<lambda>c. c \<noteq> CHR ''.'') xs"
  by (induction xs rule: insert_dots.induct) simp_all

lemma show_nat_no_dot: "CHR ''.'' \<notin> set (show_nat n)"
  using show_nat_digits [of "CHR ''.''" n] by auto

lemma set_insert_dots: "set (insert_dots xs) \<subseteq> insert (CHR ''.'') (set xs)"
  by (induction xs rule: insert_dots.induct) auto

lemma insert_dots_nonempty: "xs \<noteq> [] \<Longrightarrow> insert_dots xs \<noteq> []"
  by (induction xs rule: insert_dots.induct) auto

lemma show_nat_no_minus: "CHR ''-'' \<notin> set (show_nat n)"
  using show_nat_digits [of "CHR ''-''" n] by auto

lemma parse_qty_digits:
  assumes "D \<noteq> []" "CHR ''-'' \<notin> set D"
  shows "parse_qty_ptbr (D @ '',00'') = map_option int (parse_nat (filter (\<lambda>c. c \<noteq> CHR ''.'') D))"
    and "parse_qty_ptbr (''-'' @ D @ '',00'') = map_option (\<lambda>n. - int n) (parse_nat (filter (\<lambda>c. c \<noteq> CHR ''.'') D))"
proof -
  have "take 1 (D @ '',00'') \<noteq> ''-''"
    using assms by (cases D) auto
  then show "parse_qty_ptbr (D @ '',00'') = map_option int (parse_nat (filter (\<lambda>c. c \<noteq> CHR ''.'') D))"
    by (simp add: parse_qty_ptbr_def Let_def)
  show "parse_qty_ptbr (''-'' @ D @ '',00'') = map_option (\<lambda>n. - int n) (parse_nat (filter (\<lambda>c. c \<noteq> CHR ''.'') D))"
    by (simp add: parse_qty_ptbr_def Let_def)
qed

lemma format_qty_roundtrip: "parse_qty_ptbr (format_qty_ptbr q) = Some q"
proof -
  define S where "S = show_nat (nat \<bar>q\<bar>)"
  define D where "D = rev (insert_dots (rev S))"
  have clean: "filter (\<lambda>c. c \<noteq> CHR ''.'') D = S"
  proof -
    have "filter (\<lambda>c. c \<noteq> CHR ''.'') (insert_dots (rev S)) = rev S"
      using filter_insert_dots [of "rev S"] show_nat_no_dot [of "nat \<bar>q\<bar>"]
      by (simp add: S_def filter_id_conv) blast
    then show ?thesis by (simp add: D_def rev_filter [symmetric])
  qed
  have ne: "D \<noteq> []" using insert_dots_nonempty [of "rev S"] by (simp add: D_def S_def)
  have nm: "CHR ''-'' \<notin> set D"
    using set_insert_dots [of "rev S"] show_nat_no_minus [of "nat \<bar>q\<bar>"] by (auto simp: D_def S_def)
  have fmt: "format_qty_ptbr q = (if q < 0 then ''-'' else []) @ D @ '',00''"
    by (simp add: format_qty_ptbr_def D_def S_def)
  show ?thesis
  proof (cases "q < 0")
    case True
    then show ?thesis using parse_qty_digits(2) [OF ne nm] by (simp add: fmt clean S_def)
  next
    case False
    then show ?thesis using parse_qty_digits(1) [OF ne nm] by (simp add: fmt clean S_def)
  qed
qed

lemma table_loop_headed: "pages_headed (table_loop y items)"
  by (induction y items rule: table_loop.induct) simp_all

text \<open>The signed copy draws what the unsigned document of the same data draws, and the signature.\<close>

lemma signed_pdf_is_os_pdf_and_image:
  "filter (\<lambda>op. \<not> is_image op) (signed_pdf fmt y0 near d) = filter (\<lambda>op. \<not> is_image op) (os_pdf fmt y0 near d)
   \<and> filter is_image (signed_pdf fmt y0 near d) = [SignatureImage (signature_png (doc_number d))]
   \<and> filter is_image (os_pdf fmt y0 near d) = []"
proof -
  have h: "filter is_image (os_head fmt d) = []"
    by (simp add: os_head_def split: option.splits)
  have tl: "filter is_image (table_loop y xs) = []" for y xs
    by (induction y xs rule: table_loop.induct) simp_all
  have h': "filter (\<lambda>op. \<not> is_image op) (os_head fmt d) = os_head fmt d"
    using h by (simp add: filter_id_conv filter_empty_conv)
  show ?thesis
    by (simp add: signed_pdf_def os_pdf_def os_table_def signed_foot_def os_foot_def h tl)
qed

text \<open>
  The exit-order PDF lists the movements of the batch as its rows, in the order of the
  reload, each on the page it is drawn on; the table starts every page with its header.
\<close>

lemma exit_os_rows:
  assumes "generateExitOS io rows client cdoc decl operator = Inr (path, d)"
  shows "List.map_filter (\<lambda>op. case op of ItemRow _ it \<Rightarrow> Some it | _ \<Rightarrow> None) (os_table y0 (doc_items d)) = map row_item rows
    \<and> pages_headed (os_table y0 (doc_items d))"
  using assms table_loop_rows [of "y0 + row_height" "doc_items d"] table_loop_headed [of "y0 + row_height" "doc_items d"]
  by (auto simp: generateExitOS_def os_table_def map_filter_simps split: list.splits if_splits)

end
