(* ===== verification/StaticFiles.thy ===== *)
theory StaticFiles
  imports Users ExitOrders Routes
begin

text \<open>
  The files the backend writes and the URLs it hands out for them. multer stores an
  avatar under \<open>uploads/avatars\<close> (src/Backend/src/middlewares/uploadAvatar.js, lines
  5--12) and the profile gets \<open>/uploads/avatars/<name>\<close>; osService.js writes the PDFs
  under \<open>storage/os-saida\<close> and the listing of exit orders answers \<open>/files/<path
  relative to storage>\<close>. app.js serves both folders with \<open>express.static\<close> (lines 33
  and 39). \<open>serve_static\<close> models serve-static over send for a GET: the path after the
  mount, without the query, URI-decoded; a \<open>..\<close> segment is refused (403); otherwise
  the file under the folder (a missing file falls through to the 404). Paths are
  relative to the server's working directory.
\<close>

datatype static_result = StaticSkip | StaticForbidden | StaticFile string

text \<open>The two static mounts: URL prefix and folder.\<close>

definition static_mounts :: "(string \<times> string) list" where
  "static_mounts = [(''files'', storage_root), (''uploads'', ''uploads'')]"

definition serve_static :: "string \<Rightarrow> string \<Rightarrow> http_method \<Rightarrow> string \<Rightarrow> static_result" where
  "serve_static mount root m url = (let segs = path_segments url in
     if m \<noteq> GET \<or> segs = [] \<or> hd segs \<noteq> mount \<or> tl segs = [] then StaticSkip
     else (let rel = uri_decode (join_path (tl segs)) in
       if ''..'' \<in> set (split_on CHR ''/'' rel) then StaticForbidden
       else StaticFile (root @ ''/'' @ rel)))"

text \<open>\<open>uploadDir\<close> (line 5) and the destination multer writes a file to (lines 9--12).\<close>

definition avatar_dir :: string where
  "avatar_dir = ''uploads/avatars''"

definition avatar_stored_path :: "string \<Rightarrow> string" where
  "avatar_stored_path fn = avatar_dir @ ''/'' @ fn"

text \<open>What the browser sends for a URL: the part before a \<open>#\<close>.\<close>

definition browser_request :: "string \<Rightarrow> string" where
  "browser_request url = takeWhile (\<lambda>c. c \<noteq> CHR ''#'') url"

text \<open>Characters a URL path carries unchanged through the browser and send.\<close>

definition url_safe :: "string \<Rightarrow> bool" where
  "url_safe f \<longleftrightarrow> CHR ''/'' \<notin> set f \<and> CHR ''?'' \<notin> set f \<and> CHR ''%'' \<notin> set f
     \<and> CHR ''#'' \<notin> set f \<and> CHR 0x5C \<notin> set f"

definition plain_name :: "string \<Rightarrow> bool" where
  "plain_name f \<longleftrightarrow> f \<noteq> [] \<and> f \<noteq> ''..'' \<and> url_safe f"

text \<open>The files on disk under the working directory: path to contents.\<close>

type_synonym file_store = "string \<rightharpoonup> string"

text \<open>
  multer's disk storage (uploadAvatar.js, lines 9--27) on \<open>POST /users/me/avatar\<close>: after
  \<open>authRequired\<close>, a file the filter accepts is written under \<open>uploadDir\<close> with the name
  of \<open>filename\<close>, before the controller runs; a refused one is not written.
\<close>

definition multer_store :: "principal option \<Rightarrow> (string \<times> string) option \<Rightarrow> string \<Rightarrow> string \<Rightarrow>
    file_store \<Rightarrow> file_store" where
  "multer_store u file unique content fs = (case (u, file) of
      (Some p, Some (original, mime)) \<Rightarrow> (case avatar_file_filter mime of
          Inl _ \<Rightarrow> fs
        | Inr _ \<Rightarrow> fs(avatar_stored_path (avatar_filename (p_id p) unique original) \<mapsto> content))
    | _ \<Rightarrow> fs)"

section \<open>Lemmas\<close>

lemma split_on_join_path:
  "xs \<noteq> [] \<Longrightarrow> \<forall>x \<in> set xs. CHR ''/'' \<notin> set x \<Longrightarrow> split_on CHR ''/'' (join_path xs) = xs"
proof (induction xs rule: join_path.induct)
  case (2 x)
  then show ?case by (simp add: split_on_no)
next
  case (3 x y ys)
  then show ?case using split_on_append [of "CHR ''/''" x "join_path (y # ys)"] by simp
qed simp

lemma set_join_path: "set (join_path xs) \<subseteq> insert (CHR ''/'') (\<Union>x \<in> set xs. set x)"
  by (induction xs rule: join_path.induct) auto

lemma path_segments_join:
  assumes "xs \<noteq> []" "\<forall>x \<in> set xs. CHR ''/'' \<notin> set x \<and> CHR ''?'' \<notin> set x" "last xs \<noteq> []"
  shows "path_segments (CHR ''/'' # join_path xs) = xs"
proof -
  have q: "CHR ''?'' \<notin> set (join_path xs)" using set_join_path [of xs] assms(2) by blast
  have tw: "takeWhile (\<lambda>c. c \<noteq> CHR ''?'') (CHR ''/'' # join_path xs) = CHR ''/'' # join_path xs"
    using q by (simp add: takeWhile_eq_all_conv) blast
  have sp: "split_on CHR ''/'' (join_path xs) = xs"
    using assms(1,2) by (simp add: split_on_join_path)
  have "path_segments (CHR ''/'' # join_path xs) = (if xs \<noteq> [] \<and> last xs = [] then butlast xs else xs)"
    unfolding path_segments_def Let_def tw by (simp only: drop_Suc_Cons drop_0 One_nat_def sp)
  then show ?thesis using assms(1,3) by simp
qed

lemma serve_static_plain:
  assumes "plain_name a" "plain_name f" "plain_name m"
  shows "serve_static m root GET (CHR ''/'' # join_path [m, a, f]) = StaticFile (root @ ''/'' @ join_path [a, f])"
proof -
  have segs: "path_segments (CHR ''/'' # join_path [m, a, f]) = [m, a, f]"
    using assms by (intro path_segments_join) (simp_all add: plain_name_def url_safe_def)
  have dec: "uri_decode (join_path [a, f]) = join_path [a, f]"
    using assms by (intro uri_decode_no_percent) (simp add: plain_name_def url_safe_def)
  have sp: "split_on CHR ''/'' (join_path [a, f]) = [a, f]"
    using assms by (intro split_on_join_path) (simp_all add: plain_name_def url_safe_def)
  have dots: "''..'' \<notin> set [a, f]" using assms unfolding plain_name_def url_safe_def by auto
  have "serve_static m root GET (CHR ''/'' # join_path [m, a, f])
      = (if ''..'' \<in> set (split_on CHR ''/'' (uri_decode (join_path [a, f]))) then StaticForbidden
         else StaticFile (root @ ''/'' @ uri_decode (join_path [a, f])))"
    unfolding serve_static_def Let_def segs by simp
  then show ?thesis by (simp only: dec sp dots if_False)
qed

subsection \<open>The URLs the server hands out\<close>

lemma url_safe_append [simp]: "url_safe (a @ b) \<longleftrightarrow> url_safe a \<and> url_safe b"
  by (auto simp: url_safe_def)

lemma url_safe_Nil [simp]: "url_safe []"
  by (simp add: url_safe_def)

lemma url_safe_Cons [simp]:
  "url_safe (c # s) \<longleftrightarrow> c \<noteq> CHR ''/'' \<and> c \<noteq> CHR ''?'' \<and> c \<noteq> CHR ''%'' \<and> c \<noteq> CHR ''#'' \<and> c \<noteq> CHR 0x5C \<and> url_safe s"
  by (auto simp: url_safe_def)

lemma url_safe_show_nat [simp]: "url_safe (show_nat n)"
  using show_nat_nondigit [of "CHR ''/''" n] show_nat_nondigit [of "CHR ''?''" n] show_nat_nondigit [of "CHR ''%''" n]
    show_nat_nondigit [of "CHR ''#''" n] show_nat_nondigit [of "CHR 0x5C" n]
  unfolding url_safe_def by simp

lemma show_nat_not_dots: "show_nat n @ xs \<noteq> ''..''"
proof
  assume eq: "show_nat n @ xs = ''..''"
  obtain d ds where "show_nat n = d # ds" using show_nat_nonempty [of n] by (cases "show_nat n") auto
  with eq have "CHR ''.'' \<in> set (show_nat n)" by auto
  then show False by (simp add: show_nat_nondigit)
qed

lemma exit_file_names_plain: "plain_name (os_file_name n)" "plain_name (signed_file_name n)"
  by (simp_all add: plain_name_def os_file_name_def signed_file_name_def)

text \<open>A PDF under \<open>storage/os-saida\<close> is listed at \<open>/files/os-saida/<name>\<close>, and that URL serves it.\<close>

lemma pdf_url_plain:
  assumes "plain_name f"
  shows "pdf_url (output_dir @ ''/'' @ f) = Some (CHR ''/'' # join_path [''files'', ''os-saida'', f])"
proof -
  have s1: "split_on CHR ''/'' storage_root = [''storage'']"
    by (simp add: storage_root_def split_on.simps)
  have j: "output_dir @ ''/'' @ f = join_path [''storage'', ''os-saida'', f]" by (simp add: output_dir_def)
  have "split_on CHR ''/'' (join_path [''storage'', ''os-saida'', f]) = [''storage'', ''os-saida'', f]"
  proof (rule split_on_join_path)
    show "\<forall>x\<in>set [''storage'', ''os-saida'', f]. CHR ''/'' \<notin> set x"
      using assms by (simp add: plain_name_def url_safe_def)
  qed simp
  then have s2: "split_on CHR ''/'' (output_dir @ ''/'' @ f) = [''storage'', ''os-saida'', f]"
    unfolding j .
  have rel: "path_relative storage_root (output_dir @ ''/'' @ f) = ''os-saida/'' @ f"
    unfolding path_relative_def Let_def s1 s2 by simp
  have "map (\<lambda>c. if c = CHR 0x5C then CHR ''/'' else c) (''os-saida/'' @ f) = ''os-saida/'' @ f"
    using assms by (intro map_idI) (auto simp: plain_name_def url_safe_def)
  then show ?thesis unfolding pdf_url_def rel by (simp add: output_dir_def)
qed

lemma exit_pdf_served:
  assumes "plain_name f"
  shows "\<exists>u. pdf_url (output_dir @ ''/'' @ f) = Some u
    \<and> serve_static ''files'' storage_root GET (browser_request u) = StaticFile (output_dir @ ''/'' @ f)"
proof -
  let ?u = "CHR ''/'' # join_path [''files'', ''os-saida'', f]"
  have "CHR ''#'' \<notin> set ?u" using assms by (simp add: plain_name_def url_safe_def)
  then have b: "browser_request ?u = ?u" by (simp add: browser_request_def takeWhile_eq_all_conv) blast
  have "serve_static ''files'' storage_root GET ?u = StaticFile (storage_root @ ''/'' @ join_path [''os-saida'', f])"
    using assms by (intro serve_static_plain) (simp_all add: plain_name_def url_safe_def)
  then show ?thesis using pdf_url_plain [OF assms] b
    by (simp add: storage_root_def output_dir_def)
qed

text \<open>So does every \<open>pdf_url\<close> of the listing whose order stores such a path.\<close>

lemma listed_pdf_served:
  assumes "(od, sg, Some u) \<in> set (listExitOrdersController req s)"
    "eo_pdf_path (od_order od) = output_dir @ ''/'' @ f" "plain_name f"
  shows "serve_static ''files'' storage_root GET (browser_request u) = StaticFile (eo_pdf_path (od_order od))"
proof -
  from assms(1) have "pdf_url (eo_pdf_path (od_order od)) = Some u"
    by (auto simp: listExitOrdersController_def)
  with exit_pdf_served [OF assms(3)] assms(2) show ?thesis by auto
qed

text \<open>The avatar URL the profile stores serves the file multer wrote, when its name is plain.\<close>

lemma avatar_url_served:
  assumes "plain_name fn"
  shows "serve_static ''uploads'' ''uploads'' GET (browser_request (''/uploads/avatars/'' @ fn)) = StaticFile (avatar_stored_path fn)"
proof -
  have u: "''/uploads/avatars/'' @ fn = CHR ''/'' # join_path [''uploads'', ''avatars'', fn]" by simp
  have "CHR ''#'' \<notin> set (''/uploads/avatars/'' @ fn)" using assms by (simp add: plain_name_def url_safe_def)
  then have b: "browser_request (''/uploads/avatars/'' @ fn) = ''/uploads/avatars/'' @ fn"
    by (simp add: browser_request_def takeWhile_eq_all_conv) blast
  have "serve_static ''uploads'' ''uploads'' GET (CHR ''/'' # join_path [''uploads'', ''avatars'', fn])
      = StaticFile (''uploads'' @ ''/'' @ join_path [''avatars'', fn])"
    using assms by (intro serve_static_plain) (simp_all add: plain_name_def url_safe_def)
  then show ?thesis unfolding b unfolding u by (simp add: avatar_stored_path_def avatar_dir_def)
qed

lemma avatar_upload_served:
  assumes "route_upload_avatar (Some p) (Some (original, mime)) unique s = (Inr url, s')"
    "url_safe unique" "url_safe (path_extname original)"
  shows "serve_static ''uploads'' ''uploads'' GET (browser_request url)
           = StaticFile (avatar_stored_path (avatar_filename (p_id p) unique original))"
proof -
  have url: "url = ''/uploads/avatars/'' @ avatar_filename (p_id p) unique original"
    using upload_avatar_own_row [OF assms(1)] by (simp add: avatar_filename_def)
  have "plain_name (avatar_filename (p_id p) unique original)"
    using assms(2,3) show_nat_not_dots [of "p_id p"]
    by (simp add: plain_name_def avatar_filename_def)
  then show ?thesis unfolding url by (rule avatar_url_served)
qed

text \<open>
  The extension is the client's: an original name \<open>foto.p%41g\<close> is stored as
  \<open>...-42.p%41g\<close>, but send decodes the URL and looks for \<open>...-42.pAg\<close>.
\<close>

lemma avatar_percent_extension_breaks:
  "avatar_filename 7 ''1700000000000-42'' ''foto.p%41g'' = ''7-1700000000000-42.p%41g''
   \<and> serve_static ''uploads'' ''uploads'' GET (browser_request (''/uploads/avatars/7-1700000000000-42.p%41g''))
       = StaticFile ''uploads/avatars/7-1700000000000-42.pAg''"
  by code_simp

end
