(* ===== verification/Server.thy ===== *)
theory Server
  imports StaticFiles
begin

text \<open>
  The whole Express application and its start (src/Backend/src/app.js and server.js).
  app.js mounts the API routers and the two static folders in one chain; a request
  goes to the first layer that answers it, and falls through to Express's 404 when
  none does. server.js probes the database and only then listens, on
  \<open>process.env.PORT || 4000\<close>, or exits with status 1. Since no API route starts
  with \<open>files\<close> or \<open>uploads\<close>, where app.js places the static mounts among the
  routers does not matter (\<open>dispatch_static\<close>), and \<open>app_handle\<close> asks the routers
  first. Middleware without effect on the answer (cors, express.json, morgan) is not
  modelled; errorHandler is the status mapping of Prelude.
\<close>

datatype app_response = Routed served | StaticServed string | StaticRefused

text \<open>The static mounts in the order of app.js, each passing a request it does not serve to the next.\<close>

fun static_chain :: "(string \<times> string) list \<Rightarrow> http_method \<Rightarrow> string \<Rightarrow> static_result" where
  "static_chain [] m url = StaticSkip"
| "static_chain ((mt, root) # ms) m url =
     (case serve_static mt root m url of StaticSkip \<Rightarrow> static_chain ms m url | r \<Rightarrow> r)"

definition app_handle :: "(string \<Rightarrow> principal option) \<Rightarrow> http_method \<Rightarrow> string \<Rightarrow> string option \<Rightarrow> app_response" where
  "app_handle verify m url h = (case serve verify m url h of
      NotFound \<Rightarrow> (case static_chain static_mounts m url of
          StaticFile p \<Rightarrow> StaticServed p
        | StaticForbidden \<Rightarrow> StaticRefused
        | StaticSkip \<Rightarrow> Routed NotFound)
    | r \<Rightarrow> Routed r)"

text \<open>server.js: \<open>PORT\<close> (line 7), a string from the environment or the number 4000.\<close>

definition PORT :: "(string \<Rightarrow> string option) \<Rightarrow> string + nat" where
  "PORT env = (case js_truthy (env ''PORT'') of Some p \<Rightarrow> Inl p | None \<Rightarrow> Inr 4000)"

definition port_text :: "string + nat \<Rightarrow> string" where
  "port_text p = (case p of Inl s \<Rightarrow> s | Inr n \<Rightarrow> show_nat n)"

datatype start_outcome = Listening "string + nat" | ProcessExit int

text \<open>
  \<open>start\<close> (lines 9--20): the console lines it prints and how it ends, given whether
  \<open>SELECT 1\<close> succeeds; \<open>env\<close> is the environment after \<open>dotenv.config()\<close>.
\<close>

definition start :: "(string \<Rightarrow> string option) \<Rightarrow> bool \<Rightarrow> string list \<times> start_outcome" where
  "start env db_up = (if db_up
     then ([''Conectado ao MySQL.'', ''Servidor rodando na porta '' @ port_text (PORT env)], Listening (PORT env))
     else ([''Erro ao conectar no banco:''], ProcessExit 1))"

text \<open>The answer a running server gives a request; none when start exited.\<close>

definition server_answer :: "(string \<Rightarrow> string option) \<Rightarrow> bool \<Rightarrow> (string \<Rightarrow> principal option)
    \<Rightarrow> http_method \<Rightarrow> string \<Rightarrow> string option \<Rightarrow> app_response option" where
  "server_answer env db_up verify m url h = (case snd (start env db_up) of
      Listening _ \<Rightarrow> Some (app_handle verify m url h)
    | ProcessExit _ \<Rightarrow> None)"

text \<open>The body of a GET the static mounts answer: the file sent; a missing file falls through to the 404.\<close>

definition static_body :: "file_store \<Rightarrow> (string \<Rightarrow> principal option) \<Rightarrow> string \<Rightarrow> string option \<Rightarrow> string option" where
  "static_body fs verify url h = (case app_handle verify GET url h of StaticServed p \<Rightarrow> fs p | _ \<Rightarrow> None)"

section \<open>Lemmas\<close>

lemma server_routes_api: "r \<in> set server_routes \<Longrightarrow> rt_path r = [] \<or> hd (rt_path r) = Lit ''api''"
  by (auto simp: server_routes_def app_mounts_def auth_router_def product_router_def
      warehouse_router_def stock_router_def report_router_def user_router_def exit_order_router_def
      dashboard_router_def unit_router_def mk_route_def)

lemma serve_static_segments:
  "serve_static mt root m url \<noteq> StaticSkip \<Longrightarrow> path_segments url \<noteq> [] \<and> hd (path_segments url) = mt"
  by (auto simp: serve_static_def Let_def split: if_splits)

text \<open>A URL a static mount answers reaches no API route.\<close>

lemma dispatch_static:
  assumes "serve_static mt root m url \<noteq> StaticSkip" "mt \<noteq> ''api''"
  shows "dispatch m url = None"
proof -
  have "\<not> route_matches m (path_segments url) r" if r: "r \<in> set server_routes" for r
  proof
    assume "route_matches m (path_segments url) r"
    then have la: "list_all2 seg_match (rt_path r) (path_segments url)" by (simp add: route_matches_def)
    from serve_static_segments [OF assms(1)] obtain x xs where xs: "path_segments url = x # xs" "x = mt"
      by (cases "path_segments url") auto
    with la obtain y ys where "rt_path r = y # ys" "seg_match y x" by (cases "rt_path r") auto
    with server_routes_api [OF r] xs assms(2) show False by auto
  qed
  then show ?thesis by (simp add: dispatch_def find_None_iff)
qed

lemma serve_static_not_found:
  "serve_static mt root m url \<noteq> StaticSkip \<Longrightarrow> mt \<noteq> ''api'' \<Longrightarrow> serve verify m url h = NotFound"
  by (simp add: serve_def dispatch_static)

text \<open>A \<open>/files\<close> URL with plain segments reaches no route, whatever the token, and the mount answers it.\<close>

lemma files_url_static:
  assumes "plain_name a" "plain_name f"
  shows "serve verify GET (CHR ''/'' # join_path [''files'', a, f]) h = NotFound
    \<and> serve_static ''files'' storage_root GET (CHR ''/'' # join_path [''files'', a, f])
      = StaticFile (storage_root @ ''/'' @ join_path [a, f])"
proof -
  have st: "serve_static ''files'' storage_root GET (CHR ''/'' # join_path [''files'', a, f])
      = StaticFile (storage_root @ ''/'' @ join_path [a, f])"
    using assms by (intro serve_static_plain) (simp_all add: plain_name_def)
  then have "serve verify GET (CHR ''/'' # join_path [''files'', a, f]) h = NotFound"
    by (intro serve_static_not_found [where mt = "''files''" and root = storage_root]) simp_all
  with st show ?thesis by blast
qed

lemma files_url_served:
  assumes "plain_name a" "plain_name f"
  shows "app_handle verify GET (CHR ''/'' # join_path [''files'', a, f]) h
           = StaticServed (storage_root @ ''/'' @ join_path [a, f])"
  using files_url_static [OF assms] by (simp add: app_handle_def static_mounts_def)

text \<open>
  The URL the listing of exit orders hands the front end opens the order's PDF; so does
  the same URL without a token, and the PDF of order \<open>n\<close>, signed or not, has a
  name known in advance.
\<close>

lemma listed_pdf_opens:
  assumes "(od, sg, Some u) \<in> set (listExitOrdersController req s)"
    "eo_pdf_path (od_order od) = output_dir @ ''/'' @ f" "plain_name f"
  shows "app_handle verify GET (browser_request u) h = StaticServed (eo_pdf_path (od_order od))"
proof -
  from assms(1) have u: "pdf_url (eo_pdf_path (od_order od)) = Some u"
    by (auto simp: listExitOrdersController_def)
  have "CHR ''/'' # join_path [''files'', ''os-saida'', f] = u"
    using pdf_url_plain [OF assms(3)] u assms(2) by simp
  moreover have "CHR ''#'' \<notin> set (CHR ''/'' # join_path [''files'', ''os-saida'', f])"
    using assms(3) by (simp add: plain_name_def url_safe_def)
  ultimately have b: "browser_request u = CHR ''/'' # join_path [''files'', ''os-saida'', f]"
    by (simp add: browser_request_def takeWhile_eq_all_conv) blast
  have "app_handle verify GET (CHR ''/'' # join_path [''files'', ''os-saida'', f]) h
      = StaticServed (storage_root @ ''/'' @ join_path [''os-saida'', f])"
    using assms(3) by (intro files_url_served) (simp_all add: plain_name_def)
  then show ?thesis unfolding b assms(2) by (simp add: storage_root_def output_dir_def)
qed

text \<open>
  C29. The application serves the PDF of every exit order, unsigned and signed, to a GET
  with no token at all: \<open>/files\<close> is a static mount without \<open>authRequired\<close>, and the
  names \<open>OS-SAIDA-<id>.pdf\<close> follow the sequential movement ids, so the read scope of
  the exit-order listing (C15) does not protect the documents.
\<close>

theorem exit_pdfs_public:
  "app_handle verify GET (''/files/os-saida/'' @ os_file_name n) None = StaticServed (output_dir @ ''/'' @ os_file_name n)
   \<and> app_handle verify GET (''/files/os-saida/'' @ signed_file_name n) None
       = StaticServed (output_dir @ ''/'' @ signed_file_name n)"
proof -
  have d: "plain_name ''os-saida''" by (simp add: plain_name_def)
  from files_url_static [OF d exit_file_names_plain(1)] files_url_static [OF d exit_file_names_plain(2)]
  show ?thesis by (simp add: app_handle_def static_mounts_def storage_root_def output_dir_def)
qed

lemma PORT_default: "PORT env = Inr 4000 \<longleftrightarrow> env ''PORT'' = None \<or> env ''PORT'' = Some []"
  by (simp add: PORT_def js_truthy_def split: option.splits)

lemma serve_static_other_mount:
  "path_segments url \<noteq> [] \<Longrightarrow> hd (path_segments url) \<noteq> mt \<Longrightarrow> serve_static mt root m url = StaticSkip"
  by (simp add: serve_static_def Let_def)

text \<open>An avatar URL is answered by the \<open>/uploads\<close> mount, behind the \<open>/files\<close> one, whatever the token.\<close>

lemma uploads_url_served:
  assumes "serve_static ''uploads'' ''uploads'' GET url = StaticFile path"
  shows "app_handle verify GET url h = StaticServed path"
proof -
  have ns: "serve verify GET url h = NotFound"
    using assms by (intro serve_static_not_found [where mt = "''uploads''" and root = "''uploads''"]) simp_all
  have "path_segments url \<noteq> [] \<and> hd (path_segments url) = ''uploads''"
    using serve_static_segments [of "''uploads''" "''uploads''" GET url] assms by simp
  then have "serve_static ''files'' storage_root GET url = StaticSkip"
    by (intro serve_static_other_mount) auto
  with ns assms show ?thesis by (simp add: app_handle_def static_mounts_def)
qed

text \<open>
  The avatar round trip: after an upload the route accepts, the browser's GET of the URL
  stored in the profile answers the uploaded bytes, when the random part and the original
  extension are plain.
\<close>

lemma avatar_roundtrip:
  assumes "route_upload_avatar (Some p) (Some (original, mime)) unique s = (Inr url, s')"
    "url_safe unique" "url_safe (path_extname original)"
  shows "static_body (multer_store (Some p) (Some (original, mime)) unique content fs) verify (browser_request url) h
    = Some content"
proof -
  have "take 6 mime = ''image/''" using upload_avatar_own_row [OF assms(1)] by blast
  then have st: "multer_store (Some p) (Some (original, mime)) unique content fs
      = fs(avatar_stored_path (avatar_filename (p_id p) unique original) \<mapsto> content)"
    by (simp add: multer_store_def avatar_file_filter_def)
  have "app_handle verify GET (browser_request url) h
      = StaticServed (avatar_stored_path (avatar_filename (p_id p) unique original))"
    by (rule uploads_url_served [OF avatar_upload_served [OF assms]])
  with st show ?thesis by (simp add: static_body_def)
qed

text \<open>With a \<open>%\<close> in the extension the same round trip answers nothing: the file sent is another one.\<close>

lemma avatar_percent_extension_lost:
  "multer_store (Some \<lparr>p_id = 7, p_name = None, p_role = RoleUser, p_unit = None, p_warehouse = None\<rparr>)
      (Some (''foto.p%41g'', ''image/png'')) ''1700000000000-42'' content Map.empty
    = [''uploads/avatars/7-1700000000000-42.p%41g'' \<mapsto> content]
   \<and> static_body [''uploads/avatars/7-1700000000000-42.p%41g'' \<mapsto> content] verify
       (browser_request ''/uploads/avatars/7-1700000000000-42.p%41g'') h = None"
proof -
  have "serve_static ''uploads'' ''uploads'' GET (browser_request ''/uploads/avatars/7-1700000000000-42.p%41g'')
      = StaticFile ''uploads/avatars/7-1700000000000-42.pAg''"
    using avatar_percent_extension_breaks by blast
  then have "static_body [''uploads/avatars/7-1700000000000-42.p%41g'' \<mapsto> content] verify
       (browser_request ''/uploads/avatars/7-1700000000000-42.p%41g'') h = None"
    by (simp add: static_body_def uploads_url_served)
  moreover have "avatar_filename 7 ''1700000000000-42'' ''foto.p%41g'' = ''7-1700000000000-42.p%41g''"
    using avatar_percent_extension_breaks by blast
  ultimately show ?thesis
    by (simp add: multer_store_def avatar_file_filter_def avatar_stored_path_def avatar_dir_def)
qed

end
