(* ===== verification/Spec2Isabelle.thy ===== *)
theory Spec2Isabelle
  imports ExitOrders Reports Concurrency ConcurrentEntries ConcurrentBatches Catalog Users Dashboard Frontend ActivateAccount Pagination PdfLayout Server
begin

text \<open>
  \<^bold>\<open>Estoque: a verification development of the inventory backend.\<close>

  The repository is an Express/MySQL backend (src/Backend/src) and a React front end
  (src/Frontend/src) for inventory across warehouses grouped into organisational units.
  The backend keeps a balance per (product, warehouse) pair and an append-only log of
  movements with before/after snapshots, gates every stock write on the warehouse's
  unit, builds and signs exit orders from a batch of exits, reports on stock and
  movements, and administers the catalog (products, warehouses, units) and the user
  accounts. Every table is a field of one record \<open>db\<close>; every handler is a function
  from the principal (the decoded token), the request and the database to the answer
  (\<open>api_error + 'a\<close>, \<open>Inl\<close> an error with its status) and the next database.

  \<^bold>\<open>Theories and what they model.\<close>
  \<^item> Prelude: identifier and quantity types, the closed error type \<open>api_error\<close> with
    the HTTP status each error gets (\<open>status_of\<close>), the JavaScript coercions the code
    applies (\<open>Number(null) = 0\<close>, \<open>x || null\<close>, \<open>x || default\<close>, truthiness of strings),
    SQL equality on nullable columns, decimal printing of ids and its parser.
  \<^item> Roles: authMiddleware.js: role strings, \<open>ROLE_RANK\<close> (an unknown role has rank
    \<open>undefined\<close> and every comparison with it is false), \<open>requireRole\<close>,
    \<open>requireMinRole\<close>, \<open>authRequired\<close> (the \<open>Bearer\<close> header; \<open>verifyToken\<close> is a
    parameter), the record \<open>principal\<close>.
  \<^item> Store: the tables as row lists with their \<open>AUTO_INCREMENT\<close> counters;
    stockModel.js (\<open>getCurrentStock\<close>, \<open>upsertStock\<close>, \<open>decreaseStock\<close>) and
    \<open>registerMovement\<close> of movementModel.js, refined to updates of the abstract map
    \<open>balances\<close>; \<open>stock_wf\<close> (at most one row per pair) is proved, not assumed, since
    the repository has no schema.
  \<^item> Permission: the warehouse gates of stockController.js and their contract.
  \<^item> Engine: the entry, entry batch and exit handlers of stockController.js, the exit
    transaction with its rollback, \<open>engine_step\<close>/\<open>engine_run\<close> over request sequences,
    and \<open>engine_inv\<close>: each balance is the sum of its pair's signed movements, which
    form a chain of snapshots from 0.
  \<^item> ExitOrders: exitOrderModel.js, exitOrderController.js and osService.js (file
    names, the order snapshot, signing; the PDF is a value). The signing handler answers
    a \<open>served\<close> outcome (an answer, or the end of the Node process after or without an
    answer), because the permission check it does not await can reject with no handler;
    when the check's warehouse query returns, relative to the save, is the parameter
    \<open>gate_timing\<close>. The listing answers each
    order's \<open>pdf_url\<close>, built with \<open>path_relative\<close> (Node's \<open>path.relative\<close> on
    normalised POSIX paths).
  \<^item> PdfLayout: what the two PDFs of osService.js draw, in order, the vertical layout
    of the item table with its page breaks (every row inside the page, every page headed),
    and the pt-BR quantity format with its round trip.
  \<^item> Reports: the stock and movement reports of movementModel.js with their scopes; the
    stock report's \<open>GROUP BY\<close> merges joined rows that agree on warehouse, product and
    quantity and adds their sums (\<open>group_stock_rows\<close>).
  \<^item> Concurrency: an inductive step relation interleaving the read and the commit of
    one-item exits, with and without the row lock; its invariant by rule induction.
  \<^item> ConcurrentBatches: whole exit batches interleaved item by item, each in its
    transaction (its view is the committed rows with its own writes; an \<open>UPDATE\<close> locks
    its row until commit; an insert draws its movement id at once; a cycle of lock waits
    rolls back a victim with \<open>LockDeadlock\<close>). Run alone, a transaction ends exactly as
    \<open>stockExit_movements\<close>; with the lock of spec 5 every interleaving keeps the ledger
    (a rule induction whose invariant gives each live transaction a consistent view and
    disjoint locks); in opposite orders two batches can deadlock, with or without it.
  \<^item> ConcurrentEntries: the same for single entries (\<open>upsertStock\<close>): without the lock
    two first entries of a pair both insert a row (the repository has no unique key), with
    it every interleaving keeps the ledger invariant.
  \<^item> Catalog: productModel.js, warehouseModel.js, unitModel.js, their controllers and
    routes; \<open>catalog_step\<close> composes the writes; \<open>catalog_inv\<close> (ledger invariant,
    distinct product ids carrying the SKU of their id, no stock row or movement of a
    missing product) is kept by every write. SQL \<open>LIKE\<close> is a substring test;
    \<open>js_trim\<close> removes the UTF-8 encodings of JavaScript's whitespace code points.
  \<^item> Users: userModel.js, authController.js, userController.js and their routes; the
    account life cycle (invite, set password, login), the users admin and the avatar
    upload (uploadAvatar.js), the unmounted \<open>loginController\<close>; \<open>users_step\<close>
    composes the account writes and \<open>users_wf\<close> is the shape of the users table. Hashes
    are ideal constructors, the random token and the time-and-random part of an uploaded
    file's name are inputs.
  \<^item> Dashboard: dashboardModel.js and dashboardController.js; the calendar month of a
    timestamp is a parameter.
  \<^item> Routes: every route of src/Backend/src/routes with its middleware chain, the
    mounts of app.js, Express's choice of the first matching route (\<open>dispatch\<close>), the
    middleware chain of a route (\<open>run_guard\<close>) and a whole request (\<open>serve\<close>).
  \<^item> StaticFiles: the two \<open>express.static\<close> mounts of app.js (\<open>serve_static\<close>:
    the path after the mount, URI-decoded, \<open>..\<close> refused), the disk as a map from paths
    to contents and multer's write of an accepted avatar (\<open>multer_store\<close>); the lemmas
    show the \<open>pdf_url\<close> of a listed order and the avatar URL of an upload serve the file
    written, when its name is plain, and that a \<open>%\<close> in the extension of an uploaded
    file's name breaks its URL.
  \<^item> Server: app.js as one chain (\<open>app_handle\<close>: routers, then the static mounts,
    which no API route shadows; \<open>static_body\<close>, the file a GET answers, with the avatar
    round trip: the URL stored after an upload answers the uploaded bytes) and server.js (\<open>PORT\<close>, \<open>start\<close>: the database probe,
    then listen or exit 1; \<open>server_answer\<close>).
  \<^item> Frontend: api/api.js (each call's method and path, headers, outcome) and App.jsx
    (page routes and \<open>PrivateRoute\<close>); the lemmas show every client call reaches a
    server route, a stored token reaches \<open>verifyToken\<close> intact (a super_admin's
    calls all run their handlers), without one only login and set-password pass, and
    which pages a role can open.
  \<^item> ActivateAccount: ActivateAccount.jsx as a state machine: its state hooks, the
    handlers (the awaited \<open>api.setPassword\<close> is a separate event), what it renders,
    and its sessions as an inductive set; by rule induction \<open>loading\<close> holds exactly
    while a call is in flight, so no second call starts.
  \<^item> Pagination: Pagination.jsx: the \<open>for\<close> loop as a \<open>function\<close> with its
    termination measure, equal to a fold; the controls it renders and the clicks that
    change the page.
  \<^item> Spec2Isabelle (this theory): the claims on the ledger, the gate, exit orders,
    reports and concurrency, and the composition of the catalog with the engine.

  \<^bold>\<open>What the theorems show\<close> (the claims, in the order of the manifest): a failed
  exit batch changes nothing; every stock handler keeps \<open>engine_inv\<close>, so a balance
  is entries minus exits and no exit goes below zero; the spec's error scenarios
  evaluate as the spec says (its success scenarios are lemmas of this theory); the gate meets its contract; an exit order snapshots names at creation,
  is created after the commit (a failure leaves the movements); a requester the
  un-awaited check refuses never gets its 403 but ends the Node process (before anything
  is stored when its role is below supervisor), while a supervisor of another unit, refused
  only when the check's query returns, can still have the signature stored and even be
  answered with success; allowed signers keep the latest signature; an order is listed in
  the requester's scope; the reports match the ledger (one stock row per pair) and their
  scopes; account requests
  keep the users table's shape; without the row lock two exits lose an update, with
  it every interleaving of exit batches keeps the ledger; the SKU round-trips and has the stated length; catalog
  writes keep \<open>catalog_inv\<close> and unique SKUs; products open at balance 0 and are
  not deleted while in use; warehouse writes are unguarded, unit updates always fail,
  unranked roles pass \<open>requireMinRole\<close>; every exit order's PDF is served to a
  request without a token; an invited account activates and logs in, the
  invite is single use, login succeeds exactly on the right password, an admin can take
  over a super_admin, \<open>POST /users\<close> with a password always fails, a super_admin cannot
  register users, account creation keeps e-mails unique; two exit batches over the same
  rows in opposite orders can deadlock, one answered 500; the
  dashboard of an admin or of a user without a warehouse totals every unit, and the
  total is the ledger's; and an entry for a product not yet created splits its balance
  in two rows once the catalog issues the id. Beyond the claims, the root shows that the
  activation link of an invite brings the page back to \<open>set-password\<close> with the same
  e-mail and token.

  \<^bold>\<open>Modelling choices.\<close> Quantities are integers. Database calls do not fail
  (connection errors are not modelled; the one failure modelled is the deadlock victim of
  ConcurrentBatches); statements the code runs one after another
  without a transaction are one step, except where Concurrency interleaves them.
  \<open>created_at\<close> and \<open>Date.now()\<close> are the database clock. Node is 15 or later,
  whose default ends the process on an unhandled promise rejection. Strings are UTF-8
  bytes. Loops are structural
  recursion on their lists, so every handler terminates and no fuel is needed; the one
  counting loop (Pagination.jsx) is a \<open>function\<close> whose measure is
  \<open>totalPages + 1 - i\<close>. The
  witnesses run the handlers on \<open>demo_db\<close> (Catalog.thy) and \<open>users_db\<close> (Users.thy).

  \<^bold>\<open>Not modelled.\<close> Token signing and verification, password hashing and the
  random token generator (utils/jwt.js and utils/password.js are not in the
  repository); the PDF bytes osService.js writes (PdfLayout gives what they draw, the file store
  holds only uploads); the redirects and
  headers of serve-static; cors, express.json and morgan; the asynchronous errors of
  \<open>app.listen\<close>; the fonts, colours and horizontal positions of the PDFs and the height of
  their text blocks (font metrics: the table's top is a parameter); the React pages other than
  App.jsx, ActivateAccount.jsx and Pagination.jsx, which render data and call api.js;
  foreign keys and unique keys, since the repository has no schema; Express's
  case-insensitive path matching.
\<close>

definition supervisor1 :: principal where
  "supervisor1 = \<lparr>p_id = 7, p_name = Some ''Ana'', p_role = RoleSupervisor, p_unit = Some 1, p_warehouse = Some 1\<rparr>"

definition supervisor2 :: principal where
  "supervisor2 = \<lparr>p_id = 8, p_name = Some ''Rui'', p_role = RoleUser, p_unit = Some 1, p_warehouse = None\<rparr>"

definition supervisor_unit2 :: principal where
  "supervisor_unit2 = \<lparr>p_id = 9, p_name = Some ''Lia'', p_role = RoleSupervisor, p_unit = Some 2, p_warehouse = None\<rparr>"

definition exit_body1 :: exit_body where
  "exit_body1 = \<lparr>xb_warehouse = 1, xb_items = [(1, 4)], xb_description = None,
     xb_client_name = ''Joao'', xb_client_document = None\<rparr>"

text \<open>The demo database with one unsigned exit order, number 1, anchored at movement 1.\<close>

definition demo_order :: exit_order where
  "demo_order = \<lparr>eo_id = 1, eo_movement_id = 1, eo_client_name = ''Joao'', eo_client_document = None,
     eo_declaration = exit_declaration, eo_pdf_path = ''storage/os-saida/OS-SAIDA-1.pdf'',
     eo_items = [\<lparr>oi_product = ''Parafuso'', oi_quantity = 10, oi_warehouse = ''Central''\<rparr>],
     eo_signature = None, eo_created_at = 0\<rparr>"

definition demo_orders_db :: db where
  "demo_orders_db = demo_db\<lparr>exit_orders := [demo_order], next_order_id := 2\<rparr>"

definition clerk7 :: principal where
  "clerk7 = \<lparr>p_id = 7, p_name = Some ''Ana'', p_role = RoleUser, p_unit = Some 1, p_warehouse = Some 1\<rparr>"

text \<open>A one-item exit of 8 units of product 1 from warehouse 1, not yet started.\<close>

definition exit_tx8 :: exit_tx where
  "exit_tx8 = \<lparr>tx_product = 1, tx_warehouse = 1, tx_user = Some 7, tx_qty = 8, tx_desc = None,
     tx_phase = Pending\<rparr>"

text \<open>An entry of 5 units of product 3, which the demo catalog has not issued yet, into warehouse 1.\<close>

definition entry_p3 :: entry_body where
  "entry_p3 = \<lparr>eb_product = 3, eb_warehouse = 1, eb_quantity = 5, eb_description = None\<rparr>"

lemmas demo_eval = demo_db_def supervisor1_def ensureWarehouseWritePermission_def find_warehouse_def
  exit_item_def entry_item_def decreaseStock_def upsertStock_def getCurrentStock_def set_stock_quantity_def
  insert_stock_def registerMovement_def balances_def

lemma demo_db_inv: "engine_inv demo_db"
  by (simp add: demo_db_def engine_inv_def stock_wf_def movements_wf_def ledger_inv_def pair_movs_def
                getCurrentStock_def signed_qty_def)

subsection \<open>Exits never take a balance below zero\<close>

lemma exit_item_guard:
  assumes "stock_wf s" "exit_item p w u q d s = Inr (mid, s2)"
  shows "\<exists>prev. balances s (p, w) = Some prev \<and> q \<le> prev"
proof -
  obtain r s1 where dec: "decreaseStock p w q s = Inr (r, s1)"
    using assms(2) by (auto simp: exit_item_def split: sum.splits prod.splits)
  from decreaseStock_facts [OF assms(1) dec] decreaseStock_guard [OF dec] show ?thesis by blast
qed

lemma exit_item_nonneg:
  assumes "stock_wf s" "balances_nonneg s" "exit_item p w u q d s = Inr (mid, s2)"
  shows "balances_nonneg s2"
proof -
  obtain prev where prev: "balances s (p, w) = Some prev" "q \<le> prev"
    using exit_item_guard [OF assms(1,3)] by blast
  have bal: "balances s2 = (balances s)((p, w) \<mapsto> prev - q)" and wf2: "stock_wf s2"
    using exit_item_shape [OF assms(1,3)] prev(1) by auto
  from assms(2) have old: "\<forall>pw b. balances s pw = Some b \<longrightarrow> 0 \<le> b"
    using balances_nonneg_abs [OF assms(1)] by simp
  with prev have "0 \<le> prev" by blast
  with prev(2) old bal have "\<forall>pw b. balances s2 pw = Some b \<longrightarrow> 0 \<le> b" by auto
  with balances_nonneg_abs [OF wf2] show ?thesis by simp
qed

lemma exit_items_nonneg:
  "stock_wf s \<Longrightarrow> balances_nonneg s \<Longrightarrow> exit_items w u d items s = (r, s') \<Longrightarrow> balances_nonneg s'"
proof (induction items arbitrary: s r)
  case Nil
  then show ?case by simp
next
  case (Cons it items)
  obtain p q where it: "it = (p, q)" by fastforce
  show ?case
  proof (cases "exit_item p w u q d s")
    case (Inl e)
    with Cons.prems it show ?thesis by simp
  next
    case (Inr ms)
    then obtain mid s1 where ex: "exit_item p w u q d s = Inr (mid, s1)" by (cases ms) auto
    have wf1: "stock_wf s1" using exit_item_shape [OF Cons.prems(1) ex] by blast
    have nn1: "balances_nonneg s1" using exit_item_nonneg [OF Cons.prems(1,2) ex] .
    obtain r1 where rec: "exit_items w u d items s1 = (r1, s')"
      using Cons.prems(3) it ex by (auto split: prod.splits sum.splits)
    from Cons.IH [OF wf1 nn1 rec] show ?thesis .
  qed
qed

text \<open>C1 (stockExitController, lines 98--149): a batch exit that fails, at validation, at the gate or at any item, leaves the stock rows, the movement log, the exit orders, the warehouses and the products exactly as they were: no partial balance change and no partial movement survives.\<close>
theorem exit_batch_all_or_nothing:
  assumes "stockExit_movements u b s = (Inl e, s')"
  shows "stock s' = stock s \<and> movements s' = movements s \<and> exit_orders s' = exit_orders s
     \<and> warehouses s' = warehouses s \<and> products s' = products s"
  using assms by (auto simp: stockExit_movements_def split: if_splits sum.splits prod.splits)

theorem exit_batch_all_or_nothing_witness:
  "stockExit_movements supervisor1 \<lparr>xb_warehouse = 1, xb_items = [(1, 4), (2, 1)], xb_description = None,
     xb_client_name = ''Joao'', xb_client_document = None\<rparr> demo_db
     = (Inl NoStockRecord, demo_db\<lparr>next_movement_id := 3\<rparr>)
   \<and> stock (demo_db\<lparr>next_movement_id := 3\<rparr>) = stock demo_db
   \<and> movements (demo_db\<lparr>next_movement_id := 3\<rparr>) = movements demo_db"
proof -
  have run: "stockExit_movements supervisor1 \<lparr>xb_warehouse = 1, xb_items = [(1, 4), (2, 1)], xb_description = None,
     xb_client_name = ''Joao'', xb_client_document = None\<rparr> demo_db
     = (Inl NoStockRecord, demo_db\<lparr>next_movement_id := 3\<rparr>)"
    by (simp add: stockExit_movements_def demo_eval rollback_def)
  from exit_batch_all_or_nothing [OF run] run show ?thesis by simp
qed

text \<open>C2: each of the three ledger-writing handlers (single entry, entry batch, exit batch) keeps the engine invariant: distinct stock rows with at most one per pair, increasing movement ids, and every balance the running total of its pair's chain of movements.\<close>
theorem engine_preserves_invariant:
  assumes "engine_inv s"
  shows "engine_inv (snd (stockEntryController u b s)) \<and> engine_inv (snd (stockEntryBatchController u bb s))
     \<and> engine_inv (snd (stockExit_movements u xb s))"
  using stockEntryController_inv [OF assms] stockEntryBatchController_inv [OF assms]
    stockExit_movements_inv [OF assms] by blast

theorem engine_preserves_invariant_witness:
  "engine_inv demo_db \<and> engine_inv (snd (stockEntryController supervisor1
       \<lparr>eb_product = 2, eb_warehouse = 1, eb_quantity = 3, eb_description = None\<rparr> demo_db))"
proof -
  have inv: "engine_inv demo_db"
    by (simp add: demo_db_def engine_inv_def stock_wf_def movements_wf_def ledger_inv_def pair_movs_def
                  getCurrentStock_def signed_qty_def)
  from engine_preserves_invariant [OF inv] inv show ?thesis by blast
qed

text \<open>C3 (spec 8, first property): after any sequence of entry, entry-batch and exit requests
  served one after another from a database with an empty ledger, the balance of every
  stocked pair equals the sum of its entry quantities minus the sum of its exit
  quantities, and equals the new quantity of the pair's last movement.\<close>
theorem ledger_balance_equation:
  assumes "stock s0 = []" "movements s0 = []" "balances (engine_run s0 reqs) (p, w) = Some b"
  shows "b = sum_list (map mov_quantity (filter (\<lambda>m. mov_type m = ENTRADA)
                 (pair_movs p w (movements (engine_run s0 reqs)))))
           - sum_list (map mov_quantity (filter (\<lambda>m. mov_type m = SAIDA)
                 (pair_movs p w (movements (engine_run s0 reqs)))))
     \<and> (pair_movs p w (movements (engine_run s0 reqs)) \<noteq> [] \<longrightarrow>
          mov_new (last (pair_movs p w (movements (engine_run s0 reqs)))) = b)"
proof -
  let ?s = "engine_run s0 reqs"
  have "engine_inv ?s" using engine_run_inv engine_inv_empty_ledger [OF assms(1,2)] by blast
  then have wf: "stock_wf ?s" and inv: "ledger_inv ?s" by (simp_all add: engine_inv_def)
  with ledger_inv_abs have "ledger_abs (balances ?s) (movements ?s)" by blast
  from ledger_abs_at [OF this assms(3)] have ch: "chain 0 (pair_movs p w (movements ?s))"
    and sum: "b = sum_list (map signed_qty (pair_movs p w (movements ?s)))" by simp_all
  show ?thesis using sum chain_last [OF ch] by (simp add: sum_signed_split)
qed

theorem ledger_balance_equation_witness:
  "balances (engine_run (demo_db\<lparr>stock := [], movements := []\<rparr>)
     [ReqEntry supervisor1 \<lparr>eb_product = 1, eb_warehouse = 1, eb_quantity = 10, eb_description = None\<rparr>,
      ReqExit supervisor1 \<lparr>xb_warehouse = 1, xb_items = [(1, 4)], xb_description = None,
        xb_client_name = ''Joao'', xb_client_document = None\<rparr>]) (1, 1) = Some 6
   \<and> mov_new (last (pair_movs 1 1 (movements (engine_run (demo_db\<lparr>stock := [], movements := []\<rparr>)
     [ReqEntry supervisor1 \<lparr>eb_product = 1, eb_warehouse = 1, eb_quantity = 10, eb_description = None\<rparr>,
      ReqExit supervisor1 \<lparr>xb_warehouse = 1, xb_items = [(1, 4)], xb_description = None,
        xb_client_name = ''Joao'', xb_client_document = None\<rparr>])))) = 6"
proof -
  let ?reqs = "[ReqEntry supervisor1 \<lparr>eb_product = 1, eb_warehouse = 1, eb_quantity = 10, eb_description = None\<rparr>,
      ReqExit supervisor1 \<lparr>xb_warehouse = 1, xb_items = [(1, 4)], xb_description = None,
        xb_client_name = ''Joao'', xb_client_document = None\<rparr>]"
  let ?s0 = "demo_db\<lparr>stock := [], movements := []\<rparr>"
  have bal: "balances (engine_run ?s0 ?reqs) (1, 1) = Some 6"
    by (simp add: demo_eval stockEntryController_def stockExit_movements_def)
  have ne: "pair_movs 1 1 (movements (engine_run ?s0 ?reqs)) \<noteq> []"
    by (simp add: demo_eval stockEntryController_def stockExit_movements_def pair_movs_def)
  from ledger_balance_equation [of ?s0 ?reqs 1 1 6] bal ne show ?thesis by simp
qed

text \<open>C4 (spec 3, Balance): an exit request never leaves a negative balance behind, whatever quantities it carries: decreaseStock refuses a quantity above the balance, and a negative quantity only raises it.\<close>
theorem exit_keeps_balances_nonneg:
  assumes "engine_inv s" "balances_nonneg s"
  shows "balances_nonneg (snd (stockExit_movements u b s))"
  using assms(2) exit_items_nonneg [OF conjunct1 [OF assms(1) [unfolded engine_inv_def]] assms(2)]
  unfolding stockExit_movements_def by (auto simp: balances_nonneg_def split: sum.splits prod.splits)

theorem exit_keeps_balances_nonneg_witness:
  "balances_nonneg (snd (stockExit_movements supervisor1 \<lparr>xb_warehouse = 1, xb_items = [(1, -4)],
     xb_description = None, xb_client_name = ''Joao'', xb_client_document = None\<rparr> demo_db))"
proof -
  have inv: "engine_inv demo_db"
    by (simp add: demo_db_def engine_inv_def stock_wf_def movements_wf_def ledger_inv_def pair_movs_def
                  getCurrentStock_def signed_qty_def)
  have nn: "balances_nonneg demo_db" by (simp add: demo_db_def balances_nonneg_def)
  from exit_keeps_balances_nonneg [OF inv nn] show ?thesis .
qed

text \<open>Spec 8 scenario: with balance 10 for (product 1, warehouse 1), an exit of 4 succeeds with one movement id, leaves balance 6 and appends one SAIDA movement with previous quantity 10 and new quantity 6.\<close>
theorem exit_scenario_10_minus_4:
  "fst (stockExit_movements supervisor1 \<lparr>xb_warehouse = 1, xb_items = [(1, 4)], xb_description = None,
     xb_client_name = ''Joao'', xb_client_document = None\<rparr> demo_db) = Inr [2]
   \<and> balances (snd (stockExit_movements supervisor1 \<lparr>xb_warehouse = 1, xb_items = [(1, 4)],
       xb_description = None, xb_client_name = ''Joao'', xb_client_document = None\<rparr> demo_db)) (1, 1) = Some 6
   \<and> movements (snd (stockExit_movements supervisor1 \<lparr>xb_warehouse = 1, xb_items = [(1, 4)],
       xb_description = None, xb_client_name = ''Joao'', xb_client_document = None\<rparr> demo_db))
     = movements demo_db @ [\<lparr>mov_id = 2, mov_product = 1, mov_warehouse = 1, mov_user = Some 7,
         mov_type = SAIDA, mov_quantity = 4, mov_previous = 10, mov_new = 6, mov_description = None,
         mov_created_at = 5\<rparr>]"
  by (simp add: stockExit_movements_def demo_eval)

text \<open>C5 (spec 8 scenario): an exit whose first item has no stock row fails with NoStockRecord and returns the database unchanged, so no movement is written.\<close>
theorem exit_without_row_fails:
  assumes "getCurrentStock p w s = None" "ensureWarehouseWritePermission u w s = Inr ()"
  shows "stockExit_movements u \<lparr>xb_warehouse = w, xb_items = (p, q) # rest, xb_description = d,
           xb_client_name = c, xb_client_document = cd\<rparr> s = (Inl NoStockRecord, s)"
  using assms by (simp add: stockExit_movements_def exit_item_def decreaseStock_def rollback_def)

theorem exit_without_row_fails_witness:
  "stockExit_movements supervisor1 \<lparr>xb_warehouse = 1, xb_items = [(2, 1)], xb_description = None,
     xb_client_name = ''Joao'', xb_client_document = None\<rparr> demo_db = (Inl NoStockRecord, demo_db)"
proof -
  have a: "getCurrentStock 2 1 demo_db = None" by (simp add: demo_eval)
  have b: "ensureWarehouseWritePermission supervisor1 1 demo_db = Inr ()" by (simp add: demo_eval)
  from exit_without_row_fails [OF a b] show ?thesis .
qed

text \<open>C6 (spec 8, second property): an exit whose first item asks for more than the balance fails with InsufficientStock and returns the database unchanged.\<close>
theorem exit_above_balance_fails:
  assumes "balances s (p, w) = Some b" "b < q" "ensureWarehouseWritePermission u w s = Inr ()"
  shows "stockExit_movements u \<lparr>xb_warehouse = w, xb_items = (p, q) # rest, xb_description = d,
           xb_client_name = c, xb_client_document = cd\<rparr> s = (Inl InsufficientStock, s)"
  using assms by (auto simp: stockExit_movements_def exit_item_def decreaseStock_def rollback_def
                             balances_def split: option.splits)

theorem exit_above_balance_fails_witness:
  "stockExit_movements supervisor1 \<lparr>xb_warehouse = 1, xb_items = [(1, 11)], xb_description = None,
     xb_client_name = ''Joao'', xb_client_document = None\<rparr> demo_db = (Inl InsufficientStock, demo_db)"
proof -
  have a: "balances demo_db (1, 1) = Some 10" by (simp add: demo_eval)
  have b: "ensureWarehouseWritePermission supervisor1 1 demo_db = Inr ()" by (simp add: demo_eval)
  from exit_above_balance_fails [OF a _ b] show ?thesis by simp
qed

text \<open>Spec 8 scenario: an entry batch [(A, 5), (B, 3)] where A has balance 10 and B has no row commits both: A becomes 15, B gets a row with 3, and two movements are appended in input order with the right snapshots.\<close>
theorem entry_batch_scenario:
  "fst (stockEntryBatchController supervisor1 \<lparr>bb_warehouse = 1, bb_items = [(1, 5), (2, 3)],
     bb_description = None\<rparr> demo_db) = Inr ()
   \<and> balances (snd (stockEntryBatchController supervisor1 \<lparr>bb_warehouse = 1, bb_items = [(1, 5), (2, 3)],
       bb_description = None\<rparr> demo_db)) (1, 1) = Some 15
   \<and> balances (snd (stockEntryBatchController supervisor1 \<lparr>bb_warehouse = 1, bb_items = [(1, 5), (2, 3)],
       bb_description = None\<rparr> demo_db)) (2, 1) = Some 3
   \<and> map (\<lambda>m. (mov_id m, mov_product m, mov_previous m, mov_new m))
       (movements (snd (stockEntryBatchController supervisor1 \<lparr>bb_warehouse = 1,
          bb_items = [(1, 5), (2, 3)], bb_description = None\<rparr> demo_db)))
     = [(1, 1, 0, 10), (2, 1, 10, 15), (3, 2, 0, 3)]"
  by (simp add: stockEntryBatchController_def demo_eval)

text \<open>C8 (spec 8 scenario): a requester with the base role user cannot write stock: the route answers 403 PermissionDenied and the controller's own gate answers 403 ForbiddenStock, whatever the body, and the database is unchanged.\<close>
theorem base_role_cannot_write:
  assumes "p_role u = RoleUser"
  shows "route_stock_entry (Some u) b s = (Inl PermissionDenied, s)
    \<and> stockEntryController u b s = (Inl ForbiddenStock, s)
    \<and> status_of PermissionDenied = 403 \<and> status_of ForbiddenStock = 403"
  using assms by (simp add: route_stock_entry_def requireRole_def stock_writers_def
                            stockEntryController_def ensureWarehouseWritePermission_def)

theorem base_role_cannot_write_witness:
  "route_stock_entry (Some supervisor2) \<lparr>eb_product = 1, eb_warehouse = 2, eb_quantity = 5,
     eb_description = None\<rparr> demo_db = (Inl PermissionDenied, demo_db)"
proof -
  have "p_role supervisor2 = RoleUser" by (simp add: supervisor2_def)
  from base_role_cannot_write [OF this] show ?thesis by blast
qed

text \<open>C9 (spec 4.1): for the four ranked roles, and when no unit id is 0, ensureWarehouseWritePermission computes exactly the gate of the spec: top role bypasses, rank below supervisor is Forbidden, unknown warehouse is NotFound, another unit is Forbidden.\<close>
theorem gate_implements_spec:
  assumes "p_role u \<in> {RoleUser, RoleSupervisor, RoleAdmin, RoleSuperAdmin}" "units_positive u s"
  shows "ensureWarehouseWritePermission u w s = gate_write_spec u w s"
proof (cases "find_warehouse w s")
  case None
  with assms(1) show ?thesis
    by (auto simp: ensureWarehouseWritePermission_def gate_write_spec_def rank_at_least_def)
next
  case (Some wh)
  then have "wh \<in> set (warehouses s)" by (rule find_warehouse_in)
  with assms(2) have "js_number (wh_unit wh) = js_number (p_unit u) \<longleftrightarrow> wh_unit wh = p_unit u"
    by (simp add: units_positive_def js_number_eq_positive)
  with Some assms(1) show ?thesis
    by (auto simp: ensureWarehouseWritePermission_def gate_write_spec_def rank_at_least_def)
qed

theorem gate_implements_spec_witness:
  "ensureWarehouseWritePermission supervisor1 2 demo_db = Inl ForbiddenUnit
   \<and> gate_write_spec supervisor1 2 demo_db = Inl ForbiddenUnit"
proof -
  have a: "p_role supervisor1 \<in> {RoleUser, RoleSupervisor, RoleAdmin, RoleSuperAdmin}"
    by (simp add: supervisor1_def)
  have b: "units_positive supervisor1 demo_db" by (simp add: units_positive_def supervisor1_def demo_db_def)
  have c: "gate_write_spec supervisor1 2 demo_db = Inl ForbiddenUnit"
    by (simp add: gate_write_spec_def supervisor1_def demo_db_def find_warehouse_def rank_at_least_def)
  from gate_implements_spec [OF a b] c show ?thesis by simp
qed


text \<open>C10 (stockController.js, lines 151--201; spec 3, ExitOrder): when an exit batch commits and its PDF is written, the handler answers the batch's first movement id and appends exactly one exit order: anchored at that movement, with the client data of the request, the fixed declaration, the unsigned file OS-SAIDA-<anchor>.pdf, and a snapshot of every item in input order (product name, quantity, warehouse name), unsigned, stamped with the current time.\<close>
theorem exit_order_snapshot:
  assumes "engine_inv s" "find_warehouse (xb_warehouse b) s = Some wh"
    "\<forall>(p, q)\<in>set (xb_items b). find_product p s \<noteq> None"
    "stockExitController True u b s = (Inr n, s')"
  shows "n = next_movement_id s \<and> exit_orders s' = exit_orders s @ [\<lparr>eo_id = next_order_id s,
      eo_movement_id = next_movement_id s, eo_client_name = xb_client_name b,
      eo_client_document = xb_client_document b, eo_declaration = exit_declaration,
      eo_pdf_path = output_dir @ ''/'' @ os_file_name (next_movement_id s),
      eo_items = map (\<lambda>(p, q). \<lparr>oi_product = pr_name (the (find_product p s)), oi_quantity = q,
                               oi_warehouse = wh_name wh\<rparr>) (xb_items b),
      eo_signature = None, eo_created_at = clock s\<rparr>]"
proof -
  obtain ids s1 where mv: "stockExit_movements u b s = (Inr ids, s1)"
    using stockExitController_Inr [OF assms(4)] by blast
  note r = exit_rows_of_batch [OF assms(1-3) mv]
  show ?thesis
    using assms(4) r unfolding stockExitController_after_commit [OF assms(1-3) mv]
    by (auto simp: createExitOrder_def Let_def)
qed

theorem exit_order_snapshot_witness:
  "fst (stockExitController True supervisor1 exit_body1 demo_db) = Inr 2
   \<and> exit_orders (snd (stockExitController True supervisor1 exit_body1 demo_db)) =
     [\<lparr>eo_id = 1, eo_movement_id = 2, eo_client_name = ''Joao'', eo_client_document = None,
       eo_declaration = exit_declaration, eo_pdf_path = ''storage/os-saida/OS-SAIDA-2.pdf'',
       eo_items = [\<lparr>oi_product = ''Parafuso'', oi_quantity = 4, oi_warehouse = ''Central''\<rparr>],
       eo_signature = None, eo_created_at = 5\<rparr>]"
proof -
  have wh: "find_warehouse (xb_warehouse exit_body1) demo_db = Some \<lparr>wh_id = 1, wh_name = ''Central'',
      wh_description = None, wh_unit = Some 1\<rparr>"
    by (simp add: exit_body1_def demo_db_def find_warehouse_def)
  have pr: "\<forall>(p, q)\<in>set (xb_items exit_body1). find_product p demo_db \<noteq> None"
    by (simp add: exit_body1_def demo_db_def find_product_def)
  have ok: "fst (stockExitController True supervisor1 exit_body1 demo_db) = Inr 2"
    by (simp add: stockExitController_def stockExit_movements_def exit_body1_def demo_eval
                  load_exit_rows_def find_product_def generateExitOS_def createExitOrder_def Let_def)
  obtain s' where run: "stockExitController True supervisor1 exit_body1 demo_db = (Inr 2, s')"
    using ok by (metis prod.collapse)
  from exit_order_snapshot [OF demo_db_inv wh pr run]
  have "exit_orders s' = exit_orders demo_db @ [\<lparr>eo_id = next_order_id demo_db,
      eo_movement_id = next_movement_id demo_db, eo_client_name = xb_client_name exit_body1,
      eo_client_document = xb_client_document exit_body1, eo_declaration = exit_declaration,
      eo_pdf_path = output_dir @ ''/'' @ os_file_name (next_movement_id demo_db),
      eo_items = map (\<lambda>(p, q). \<lparr>oi_product = pr_name (the (find_product p demo_db)), oi_quantity = q,
                               oi_warehouse = ''Central''\<rparr>) (xb_items exit_body1),
      eo_signature = None, eo_created_at = clock demo_db\<rparr>]" by simp
  also have "\<dots> = [\<lparr>eo_id = 1, eo_movement_id = 2, eo_client_name = ''Joao'', eo_client_document = None,
       eo_declaration = exit_declaration, eo_pdf_path = ''storage/os-saida/OS-SAIDA-2.pdf'',
       eo_items = [\<lparr>oi_product = ''Parafuso'', oi_quantity = 4, oi_warehouse = ''Central''\<rparr>],
       eo_signature = None, eo_created_at = 5\<rparr>]"
    by (simp add: demo_db_def exit_body1_def find_product_def output_dir_def os_file_name_def show_nat_eval)
  finally show ?thesis using run by simp
qed


text \<open>C11 (stockController.js, lines 149--208; spec 4, ExitOrder lifecycle): the exit order is not created atomically with its batch. The movements are committed at line 149, before the PDF is rendered; when the renderer fails the handler answers the error, and the committed state stays: every movement of the batch is kept and no exit order is written.\<close>
theorem exit_render_failure_keeps_movements:
  assumes "engine_inv s" "find_warehouse (xb_warehouse b) s = Some wh"
    "\<forall>(p, q)\<in>set (xb_items b). find_product p s \<noteq> None"
    "stockExit_movements u b s = (Inr ids, s1)"
  shows "stockExitController False u b s = (Inl RenderFailed, s1)
    \<and> length (movements s1) = length (movements s) + length (xb_items b)
    \<and> exit_orders s1 = exit_orders s"
  using stockExitController_after_commit [OF assms, of False] exit_rows_of_batch [OF assms] by simp

theorem exit_render_failure_keeps_movements_witness:
  "fst (stockExitController False supervisor1 exit_body1 demo_db) = Inl RenderFailed
   \<and> length (movements (snd (stockExitController False supervisor1 exit_body1 demo_db))) = 2
   \<and> exit_orders (snd (stockExitController False supervisor1 exit_body1 demo_db)) = []"
proof -
  have wh: "find_warehouse (xb_warehouse exit_body1) demo_db = Some \<lparr>wh_id = 1, wh_name = ''Central'',
      wh_description = None, wh_unit = Some 1\<rparr>"
    by (simp add: exit_body1_def demo_db_def find_warehouse_def)
  have pr: "\<forall>(p, q)\<in>set (xb_items exit_body1). find_product p demo_db \<noteq> None"
    by (simp add: exit_body1_def demo_db_def find_product_def)
  have ok: "fst (stockExit_movements supervisor1 exit_body1 demo_db) = Inr [2]"
    by (simp add: stockExit_movements_def exit_body1_def demo_eval)
  obtain s1 where mv: "stockExit_movements supervisor1 exit_body1 demo_db = (Inr [2], s1)"
    using ok by (metis prod.collapse)
  from exit_render_failure_keeps_movements [OF demo_db_inv wh pr mv] show ?thesis
    by (simp add: demo_db_def exit_body1_def)
qed



text \<open>C13 (exitOrderController.js, lines 57--70; osService.js, lines 217--453): a refusal that comes from the warehouse query races the save. A supervisor of another unit is refused only when the reply to the check's query is handled; if that happens after the save's UPDATE was sent, the refused signature and signed document are stored on the order, and if it happens after the UPDATE's reply, the success answer is sent before the process ends.\<close>
theorem sign_refused_race_stores:
  assumes "ensureWarehouseWritePermission u (od_warehouse_id od) s = Inl e" "\<not> gate_refuses_at_call u"
    "findExitOrderById i s = Some od" "sig \<noteq> []" "t \<noteq> GateBeforeSave"
  shows "snd (signExitOrderController True t u i (Some sig) s) = saveExitOrderSignature i (Some sig)
      (Some (output_dir @ ''/'' @ signed_file_name (eo_movement_id (od_order od)))) s
    \<and> (t = GateAfterReply \<longrightarrow> fst (signExitOrderController True t u i (Some sig) s) = Crashed (Some (Inr ())))"
  using signExitOrderController_refused [OF assms(4,3,1), of True t] assms(2,5)
  by (cases t) (simp_all add: addSignatureToPdf_def Let_def)

theorem sign_refused_race_stores_witness:
  "ensureWarehouseWritePermission supervisor_unit2 1 demo_orders_db = Inl ForbiddenUnit
   \<and> fst (signExitOrderController True GateAfterReply supervisor_unit2 1 (Some ''AA'') demo_orders_db)
     = Crashed (Some (Inr ()))
   \<and> map eo_signature (exit_orders (snd (signExitOrderController True GateAfterReply supervisor_unit2 1
       (Some ''AA'') demo_orders_db))) = [Some ''AA'']"
proof -
  have f: "findExitOrderById 1 demo_orders_db = Some (the (findExitOrderById 1 demo_orders_db))"
    and w: "od_warehouse_id (the (findExitOrderById 1 demo_orders_db)) = 1"
    by (simp_all add: findExitOrderById_def order_details_of_def demo_orders_db_def demo_order_def
                      demo_db_def find_product_def find_warehouse_def)
  have g0: "ensureWarehouseWritePermission supervisor_unit2 1 demo_orders_db = Inl ForbiddenUnit"
    by (simp add: ensureWarehouseWritePermission_def supervisor_unit2_def ROLE_RANK_def js_rank_less_def
                  demo_orders_db_def demo_db_def find_warehouse_def js_number_def)
  have g: "ensureWarehouseWritePermission supervisor_unit2
      (od_warehouse_id (the (findExitOrderById 1 demo_orders_db))) demo_orders_db = Inl ForbiddenUnit"
    unfolding w by (rule g0)
  have c: "\<not> gate_refuses_at_call supervisor_unit2"
    by (simp add: gate_refuses_at_call_def supervisor_unit2_def ROLE_RANK_def js_rank_less_def)
  have sig: "map eo_signature (exit_orders (saveExitOrderSignature 1 (Some ''AA'') p demo_orders_db))
      = [Some ''AA'']" for p
    by (simp add: saveExitOrderSignature_def demo_orders_db_def demo_order_def)
  from sign_refused_race_stores [OF g c f, of "''AA''" GateAfterReply] g0 sig
  show ?thesis by simp
qed

text \<open>C14 (spec 4 and 8, signing is idempotent): for requesters the permission check allows, signing an order twice leaves the state the second signature alone would give: one signature, the latest, and one signed-document path, never two; a first attempt with an empty signature changes nothing.\<close>
theorem sign_twice_keeps_latest:
  assumes "b \<noteq> []" "findExitOrderById i s = Some od"
    "ensureWarehouseWritePermission u (od_warehouse_id od) s = Inr ()"
    "ensureWarehouseWritePermission u' (od_warehouse_id od) s = Inr ()"
  shows "snd (signExitOrderController True t' u' i (Some b) (snd (signExitOrderController True t u i (Some a) s)))
       = snd (signExitOrderController True t' u' i (Some b) s)"
proof (cases "a = []")
  case True
  then have "snd (signExitOrderController True t u i (Some a) s) = s"
    by (simp add: signExitOrderController_def)
  then show ?thesis by simp
next
  case False
  let ?p = "output_dir @ ''/'' @ signed_file_name (eo_movement_id (od_order od))"
  have one: "snd (signExitOrderController True t u i (Some a) s) = saveExitOrderSignature i (Some a) (Some ?p) s"
    using signExitOrderController_eq [OF False assms(2,3)] by simp
  note f' = findExitOrderById_save [OF assms(2), of a ?p]
  have g': "ensureWarehouseWritePermission u' (od_warehouse_id (od\<lparr>od_order := (od_order od)\<lparr>eo_signature := Some a,
      eo_pdf_path := ?p\<rparr>\<rparr>)) (saveExitOrderSignature i (Some a) (Some ?p) s) = Inr ()"
    using assms(4) by simp
  show ?thesis
    unfolding one signExitOrderController_eq [OF assms(1) f' g'] signExitOrderController_eq [OF assms(1,2,4)]
    by (simp add: saveExitOrderSignature_twice)
qed

theorem sign_twice_keeps_latest_witness:
  "snd (signExitOrderController True GateAfterReply supervisor1 1 (Some ''B'')
      (snd (signExitOrderController True GateBeforeSave supervisor1 1 (Some ''A'') demo_orders_db)))
   = snd (signExitOrderController True GateAfterReply supervisor1 1 (Some ''B'') demo_orders_db)"
proof -
  have f: "findExitOrderById 1 demo_orders_db = Some (the (findExitOrderById 1 demo_orders_db))"
    and w: "od_warehouse_id (the (findExitOrderById 1 demo_orders_db)) = 1"
    by (simp_all add: findExitOrderById_def order_details_of_def demo_orders_db_def demo_order_def
                      demo_db_def find_product_def find_warehouse_def)
  have g: "ensureWarehouseWritePermission supervisor1 (od_warehouse_id (the (findExitOrderById 1 demo_orders_db)))
      demo_orders_db = Inr ()"
    unfolding w by (simp add: ensureWarehouseWritePermission_def supervisor1_def ROLE_RANK_def js_rank_less_def
                  demo_orders_db_def demo_db_def find_warehouse_def js_number_def)
  show ?thesis by (rule sign_twice_keeps_latest [OF _ f g g]) simp
qed

text \<open>C15 (exitOrderModel.js, lines 23--57; spec 4, listing contract): the exit-order listing shows exactly the orders whose anchor movement, product and warehouse exist and that the requester may see: all of them for the top role, those whose warehouse is in the requester's unit for any other role (none for a requester without a unit, or for no requester); and it lists them newest first.\<close>
theorem exit_order_listing_scope:
  "(r \<in> set (listExitOrdersWithDetails u s) \<longleftrightarrow>
     r \<in> set (List.map_filter (order_details_of s) (exit_orders s))
     \<and> (case u of None \<Rightarrow> False
        | Some p \<Rightarrow> p_role p = RoleSuperAdmin \<or> (\<exists>k. p_unit p = Some k \<and> od_warehouse_unit r = Some k)))
   \<and> sorted (rev (map (\<lambda>r. eo_created_at (od_order r)) (listExitOrdersWithDetails u s)))"
  using listExitOrdersWithDetails_set listExitOrdersWithDetails_sorted by blast

text \<open>C16 (movementModel.js, lines 33--85; spec 4.4 and 8): the stock report agrees with the ledger. On a database with one stock row per (product, warehouse) pair (the table's unique key) whose balances are the totals of their movements, every row of the stock report, after the query's GROUP BY, has current quantity equal to its cumulative entries minus the exits of its pair.\<close>
theorem stock_report_matches_ledger:
  assumes "stock_wf s" "ledger_inv s" "r \<in> set (stockReportController u s)"
  shows "rp_current_quantity r = rp_total_entries r
    - sum_list (map mov_quantity (filter (\<lambda>m. mov_type m = SAIDA)
        (pair_movs (rp_product_id r) (rp_warehouse_id r) (movements s))))"
proof -
  obtain st w where st: "st \<in> set (stock s)"
    and e: "rp_product_id r = st_product st" "rp_warehouse_id r = st_warehouse st"
      "rp_current_quantity r = st_quantity st"
      "rp_total_entries r = total_entries (st_product st) (st_warehouse st) s"
    using listStockReport_row [OF assms(1) assms(3) [unfolded stockReportController_def]] by blast
  from assms(2) st have "st_quantity st =
      sum_list (map signed_qty (pair_movs (st_product st) (st_warehouse st) (movements s)))"
    by (simp add: ledger_inv_def)
  then show ?thesis using e by (simp add: sum_signed_split total_entries_pair)
qed

theorem stock_report_matches_ledger_witness:
  "map (\<lambda>r. (rp_current_quantity r, rp_total_entries r))
     (stockReportController supervisor1 (snd (stockExit_movements supervisor1 exit_body1 demo_db))) = [(6, 10)]
   \<and> rp_current_quantity (hd (stockReportController supervisor1 (snd (stockExit_movements supervisor1 exit_body1 demo_db))))
     = rp_total_entries (hd (stockReportController supervisor1 (snd (stockExit_movements supervisor1 exit_body1 demo_db))))
       - sum_list (map mov_quantity (filter (\<lambda>m. mov_type m = SAIDA) (pair_movs 1 1
           (movements (snd (stockExit_movements supervisor1 exit_body1 demo_db))))))"
proof -
  let ?s = "snd (stockExit_movements supervisor1 exit_body1 demo_db)"
  have wf: "stock_wf ?s" and inv: "ledger_inv ?s"
    using stockExit_movements_inv [OF demo_db_inv] by (simp_all add: engine_inv_def)
  have rows: "map (\<lambda>r. (rp_current_quantity r, rp_total_entries r)) (stockReportController supervisor1 ?s) = [(6, 10)]"
    and ids: "rp_product_id (hd (stockReportController supervisor1 ?s)) = 1"
      "rp_warehouse_id (hd (stockReportController supervisor1 ?s)) = 1"
    and mem: "hd (stockReportController supervisor1 ?s) \<in> set (stockReportController supervisor1 ?s)"
    by (simp_all add: stockExit_movements_def exit_body1_def demo_eval stockReportController_def
                      listStockReport_def stock_report_rows_def stock_group_key_def total_entries_def
                      find_product_def)
  from stock_report_matches_ledger [OF wf inv mem] rows ids show ?thesis by simp
qed

text \<open>C17 (movementModel.js, lines 87--140; spec 4.4): the movement report is scoped by role. Every row shown comes from a movement in a known warehouse, and the top role sees any movement, admin and supervisor only movements of warehouses in their own unit (none without a unit), and every other role only the movements it made itself; the rows are listed newest first.\<close>
theorem movement_report_scope:
  assumes "r \<in> set (movementReportController u s)"
  shows "(\<exists>m\<in>set (movements s). rm_id r = mov_id m \<and> rm_user_id r = mov_user m
      \<and> (\<exists>w. find_warehouse (mov_warehouse m) s = Some w
        \<and> (if p_role u = RoleSuperAdmin then True
           else if p_role u = RoleAdmin \<or> p_role u = RoleSupervisor
             then (\<exists>k. p_unit u = Some k \<and> wh_unit w = Some k)
           else mov_user m = Some (p_id u))))
    \<and> sorted (rev (map rm_created_at (movementReportController u s)))"
proof -
  obtain m w where m: "m \<in> set (movements s)" "find_warehouse (mov_warehouse m) s = Some w"
    "movement_visible (Some u) None w m" "rm_id r = mov_id m" "rm_user_id r = mov_user m"
    using listMovementReport_row [OF assms [unfolded movementReportController_def]] by blast
  from m(3) have "if p_role u = RoleSuperAdmin then True
           else if p_role u = RoleAdmin \<or> p_role u = RoleSupervisor
             then (\<exists>k. p_unit u = Some k \<and> wh_unit w = Some k)
           else mov_user m = Some (p_id u)"
    by (auto simp: movement_visible_def sql_eq_iff)
  with m show ?thesis
    using listMovementReport_sorted [of "Some u" None s] unfolding movementReportController_def by blast
qed

theorem movement_report_scope_witness:
  "map rm_id (movementReportController clerk7 demo_db) = [1]
   \<and> (\<exists>m\<in>set (movements demo_db). rm_id (hd (movementReportController clerk7 demo_db)) = mov_id m
      \<and> mov_user m = Some 7)"
proof -
  have ids: "map rm_id (movementReportController clerk7 demo_db) = [1]"
    and mem: "hd (movementReportController clerk7 demo_db) \<in> set (movementReportController clerk7 demo_db)"
    by (simp_all add: movementReportController_def listMovementReport_def movement_visible_def
                      clerk7_def demo_db_def find_product_def find_warehouse_def find_user_def sql_eq_def)
  have role: "p_role clerk7 = RoleUser" "p_id clerk7 = 7" by (simp_all add: clerk7_def)
  from movement_report_scope [OF mem] ids role show ?thesis by auto
qed


text \<open>C18 (stockModel.js, lines 42--62; spec 5): concurrent exits lose updates. decreaseStock reads the balance with a plain SELECT and writes back an absolute value, so two exits of 8 against the balance 10 can both read 10, both pass the check, and both commit: the row ends at 2 although 16 units left, the two movements both record 10 to 2, and the engine invariant is broken.\<close>
theorem concurrent_exits_lose_update:
  "\<exists>s' ts'. (conc_step False)\<^sup>*\<^sup>* (demo_db, [exit_tx8, exit_tx8]) (s', ts')
     \<and> map tx_phase ts' = [Committed 2, Committed 3] \<and> balances s' (1, 1) = Some 2
     \<and> map (\<lambda>m. (mov_type m, mov_quantity m, mov_previous m, mov_new m)) (tl (movements s'))
         = [(SAIDA, 8, 10, 2), (SAIDA, 8, 10, 2)]
     \<and> \<not> engine_inv s'"
proof -
  let ?t = exit_tx8
  let ?h = "exit_tx8\<lparr>tx_phase := HasRead 1 10\<rparr>"
  have r: "tx_read ?t demo_db = ?h"
    by (simp add: tx_read_def exit_tx8_def demo_db_def getCurrentStock_def)
  have st1: "conc_step False (demo_db, [?t, ?t]) (demo_db, [?h, ?t])"
    using conc_step.read [where i=0 and ts="[?t, ?t]" and lock=False and s=demo_db] r by (simp add: read_allowed_def exit_tx8_def)
  have st2: "conc_step False (demo_db, [?h, ?t]) (demo_db, [?h, ?h])"
    using conc_step.read [where i=1 and ts="[?h, ?t]" and lock=False and s=demo_db] r by (simp add: read_allowed_def exit_tx8_def)
  define s1 where "s1 = snd (tx_commit ?h 1 10 demo_db)"
  define s2 where "s2 = snd (tx_commit ?h 1 10 s1)"
  have st3: "conc_step False (demo_db, [?h, ?h]) (s1, [fst (tx_commit ?h 1 10 demo_db), ?h])"
    using conc_step.commit [where i=0 and ts="[?h, ?h]" and rid=1 and prev=10 and lock=False and s=demo_db] by (simp add: s1_def)
  have st4: "conc_step False (s1, [fst (tx_commit ?h 1 10 demo_db), ?h])
      (s2, [fst (tx_commit ?h 1 10 demo_db), fst (tx_commit ?h 1 10 s1)])"
    using conc_step.commit [where i=1 and ts="[fst (tx_commit ?h 1 10 demo_db), ?h]" and rid=1 and prev=10 and lock=False and s=s1] by (simp add: s2_def)
  have run: "(conc_step False)\<^sup>*\<^sup>* (demo_db, [?t, ?t])
      (s2, [fst (tx_commit ?h 1 10 demo_db), fst (tx_commit ?h 1 10 s1)])"
    using st1 st2 st3 st4 by (meson rtranclp.rtrancl_into_rtrancl rtranclp.rtrancl_refl)
  have s2: "s2 = snd (registerMovement 1 1 (Some 7) SAIDA 8 10 2 None (set_stock_quantity 1 2
      (snd (registerMovement 1 1 (Some 7) SAIDA 8 10 2 None (set_stock_quantity 1 2 demo_db)))))"
    by (simp add: s2_def s1_def tx_commit_eq exit_tx8_def)
  have ph: "map tx_phase [fst (tx_commit ?h 1 10 demo_db), fst (tx_commit ?h 1 10 s1)] = [Committed 2, Committed 3]"
    by (simp add: s1_def tx_commit_eq exit_tx8_def demo_db_def)
  have bal: "balances s2 (1, 1) = Some 2"
    by (simp add: s2 demo_eval)
  have log: "map (\<lambda>m. (mov_type m, mov_quantity m, mov_previous m, mov_new m)) (tl (movements s2))
      = [(SAIDA, 8, 10, 2), (SAIDA, 8, 10, 2)]"
    by (simp add: s2 demo_eval)
  have broken: "\<not> engine_inv s2"
    by (simp add: s2 demo_eval engine_inv_def ledger_inv_def pair_movs_def signed_qty_def)
  show ?thesis
    apply (rule exI [where x = s2])
    apply (rule exI [where x = "[fst (tx_commit ?h 1 10 demo_db), fst (tx_commit ?h 1 10 s1)]"])
    using run ph bal log broken by (intro conjI)
qed

text \<open>Spec 5: under the locking the spec asks for (a read of a pair waits while another transaction has read it and not committed), every interleaving of one-item exits from a consistent database keeps the engine invariant and non-negative balances.\<close>
theorem locked_exits_keep_ledger:
  assumes "(conc_step True)\<^sup>*\<^sup>* (s, ts) (s', ts')" "engine_inv s" "balances_nonneg s"
    "\<forall>t\<in>set ts. tx_phase t = Pending"
  shows "engine_inv s' \<and> balances_nonneg s'"
  using conc_steps_locked_inv [OF assms(1) conc_inv_start [OF assms(2-4)]] by (simp add: conc_inv_def)

theorem locked_exits_keep_ledger_witness:
  "(conc_step True)\<^sup>*\<^sup>* (demo_db, [exit_tx8, exit_tx8])
     (snd (tx_commit (exit_tx8\<lparr>tx_phase := HasRead 1 10\<rparr>) 1 10 demo_db),
      [fst (tx_commit (exit_tx8\<lparr>tx_phase := HasRead 1 10\<rparr>) 1 10 demo_db),
       exit_tx8\<lparr>tx_phase := Aborted InsufficientStock\<rparr>])
   \<and> engine_inv (snd (tx_commit (exit_tx8\<lparr>tx_phase := HasRead 1 10\<rparr>) 1 10 demo_db))
   \<and> balances_nonneg (snd (tx_commit (exit_tx8\<lparr>tx_phase := HasRead 1 10\<rparr>) 1 10 demo_db))"
proof -
  let ?t = exit_tx8
  let ?h = "exit_tx8\<lparr>tx_phase := HasRead 1 10\<rparr>"
  define s1 where "s1 = snd (tx_commit ?h 1 10 demo_db)"
  have r: "tx_read ?t demo_db = ?h"
    by (simp add: tx_read_def exit_tx8_def demo_db_def getCurrentStock_def)
  have r1: "tx_read ?t s1 = ?t\<lparr>tx_phase := Aborted InsufficientStock\<rparr>"
    by (simp add: s1_def tx_commit_eq tx_read_def exit_tx8_def demo_eval)
  have st1: "conc_step True (demo_db, [?t, ?t]) (demo_db, [?h, ?t])"
    using conc_step.read [where i=0 and ts="[?t, ?t]" and lock=True and s=demo_db] r
    by (simp add: read_allowed_def pair_held_def is_reading_def exit_tx8_def)
  have st2: "conc_step True (demo_db, [?h, ?t]) (s1, [fst (tx_commit ?h 1 10 demo_db), ?t])"
    using conc_step.commit [where i=0 and ts="[?h, ?t]" and rid=1 and prev=10 and lock=True and s=demo_db] by (simp add: s1_def)
  have st3: "conc_step True (s1, [fst (tx_commit ?h 1 10 demo_db), ?t])
      (s1, [fst (tx_commit ?h 1 10 demo_db), ?t\<lparr>tx_phase := Aborted InsufficientStock\<rparr>])"
    using conc_step.read [where i=1 and ts="[fst (tx_commit ?h 1 10 demo_db), ?t]" and lock=True and s=s1] r1
    by (simp add: read_allowed_def pair_held_def is_reading_def exit_tx8_def tx_commit_eq)
  have run: "(conc_step True)\<^sup>*\<^sup>* (demo_db, [?t, ?t])
      (s1, [fst (tx_commit ?h 1 10 demo_db), ?t\<lparr>tx_phase := Aborted InsufficientStock\<rparr>])"
    using st1 st2 st3 by (meson rtranclp.rtrancl_into_rtrancl rtranclp.rtrancl_refl)
  have start: "\<forall>t\<in>set [?t, ?t]. tx_phase t = Pending" by (simp add: exit_tx8_def)
  have nn: "balances_nonneg demo_db" by (simp add: demo_db_def balances_nonneg_def)
  from locked_exits_keep_ledger [OF run demo_db_inv nn start] run show ?thesis
    by (simp add: s1_def)
qed

text \<open>
  C38 (stockController.js, lines 17--34, and productModel.js, lines 3--29): the stock
  engine and the catalog do not agree on which products exist. An entry for a product id
  the catalog has not issued yet is accepted and opens a balance row; when
  \<open>createProduct\<close> later issues that id with the same warehouse, the pair has two balance
  rows, and the store is no longer well formed, although each step on its own keeps the
  ledger invariant.
\<close>
theorem entry_before_product_splits_balance:
  "catalog_inv demo_db \<and> find_product 3 demo_db = None
   \<and> engine_inv (engine_step demo_db (ReqEntry supervisor1 entry_p3))
   \<and> fst (createProductController arruela (engine_step demo_db (ReqEntry supervisor1 entry_p3))) = Inr 3
   \<and> \<not> stock_wf (snd (createProductController arruela (engine_step demo_db (ReqEntry supervisor1 entry_p3))))"
proof -
  let ?s1 = "engine_step demo_db (ReqEntry supervisor1 entry_p3)"
  have e1: "engine_inv ?s1" using engine_step_inv [OF demo_db_inv] .
  have st: "stock ?s1 = stock demo_db @ [\<lparr>stock_id = 2, st_product = 3, st_warehouse = 1, st_quantity = 5\<rparr>]"
    and np: "next_product_id ?s1 = 3" and ns: "next_stock_id ?s1 = 3"
    by (simp_all add: stockEntryController_def entry_p3_def demo_eval js_number_def)
  have c: "createProductController arruela ?s1 = (Inr 3, snd (insert_stock 3 1 0
      (?s1\<lparr>products := products ?s1 @ [\<lparr>pr_id = 3, pr_name = ''Arruela'', pr_sku = Some (sku_of 3),
        pr_unit = Some ''UN'', pr_barcode = None, pr_description = None\<rparr>], next_product_id := 4\<rparr>)))"
    using np by (simp add: createProductController_def createProduct_def arruela_def js_truthy_def js_or_null_def Let_def)
  have "\<not> stock_wf (snd (createProductController arruela ?s1))"
  proof -
    have sd: "stock demo_db = [\<lparr>stock_id = 1, st_product = 1, st_warehouse = 1, st_quantity = 10\<rparr>]"
      by (simp add: demo_db_def)
    show ?thesis unfolding c stock_wf_def by (simp del: engine_step.simps add: stock_insert_stock st sd)
  qed
  moreover have "find_product 3 demo_db = None" by (simp add: find_product_def demo_db_def)
  ultimately show ?thesis using demo_db_catalog_inv e1 c by simp
qed

subsection \<open>The activation link, from the server to the page\<close>

text \<open>
  The link \<open>inviteUser\<close> answers (authController.js, lines 115--116) opens the page
  \<open>/ativar\<close>, whose form (ActivateAccount.jsx, lines 12--47) reads the token and the
  e-mail back from the query string and sends them to \<open>set-password\<close> unchanged: the
  e-mail survives \<open>encodeURIComponent\<close> and \<open>URLSearchParams\<close>, the token (lower-case hex
  from \<open>crypto.randomBytes\<close>) needs no encoding.
\<close>

lemma activation_page_reads_invite:
  assumes "CHR ''?'' \<notin> set base" "tok \<noteq> []" "e \<noteq> []" "6 \<le> length pw"
    "\<forall>c \<in> set tok. c \<notin> {CHR ''&'', CHR ''='', CHR ''%'', CHR ''+'', CHR ''?''}"
  shows "activate_submit (url_search_get (location_search (invite_link base tok e)) ''token'')
           (url_search_get (location_search (invite_link base tok e)) ''email'') pw pw = CallSetPassword e tok pw"
proof -
  have ls: "location_search (invite_link base tok e) = ''?token='' @ tok @ ''&email='' @ encodeURIComponent e"
    using assms(1) by (simp add: location_search_def invite_link_def dropWhile_append)
  have amp: "CHR ''&'' \<notin> set tok" "CHR ''&'' \<notin> set (encodeURIComponent e)"
    using assms(5) encode_no_delims [of "CHR ''&''" e] by auto
  have split: "split_on CHR ''&'' (''token='' @ tok @ ''&email='' @ encodeURIComponent e)
      = [''token='' @ tok, ''email='' @ encodeURIComponent e]"
    using amp split_on_append [of "CHR ''&''" "''token='' @ tok" "''email='' @ encodeURIComponent e"]
      split_on_no [of "CHR ''&''" "''email='' @ encodeURIComponent e"] by simp
  have eq: "CHR ''='' \<notin> set (encodeURIComponent e)" using encode_no_delims by blast
  have tokd: "form_decode tok = tok" using assms(5) by (intro form_decode_plain) auto
  have "form_decode (''token'') = ''token''" "form_decode (''email'') = ''email''"
    by (simp_all add: form_decode_plain)
  then have get: "url_search_get (location_search (invite_link base tok e)) ''token'' = Some tok"
      "url_search_get (location_search (invite_link base tok e)) ''email'' = Some e"
    using eq tokd by (simp_all add: ls url_search_get_def split [simplified] form_decode_encode takeWhile_append dropWhile_append)
  show ?thesis using assms(2-4) by (simp add: get activate_submit_def js_truthy_def)
qed

end
